(* ===== verification/Prelude.thy ===== *)
theory Prelude
  imports Complex_Main "HOL-Library.Multiset"
begin

text \<open>
  Shared vocabulary of the development: the named theorem collections, the parts of Go's
  packages strings and sort that the agent uses, and the generic facts on lists and options
  the component theories rest on.

  Strings are Go strings, that is byte strings. Case mapping and white space are those of
  ASCII; a byte outside ASCII is left alone by \<open>ToLower\<close> and kept by \<open>TrimSpace\<close>.
\<close>

named_theorems guard_simps "facts about the guards of the agent's branches"
named_theorems wf_intros "introduction rules of the well-formedness invariants"

section \<open>Package strings\<close>

definition is_upper :: "char \<Rightarrow> bool" where
  "is_upper c \<longleftrightarrow> 65 \<le> (of_char c :: nat) \<and> (of_char c :: nat) \<le> 90"

definition lower_char :: "char \<Rightarrow> char" where
  "lower_char c = (if is_upper c then char_of ((of_char c :: nat) + 32) else c)"

definition ToLower :: "string \<Rightarrow> string" where
  "ToLower s = map lower_char s"

definition EqualFold :: "string \<Rightarrow> string \<Rightarrow> bool" where
  "EqualFold s t \<longleftrightarrow> ToLower s = ToLower t"

definition is_space :: "char \<Rightarrow> bool" where
  "is_space c \<longleftrightarrow> (of_char c :: nat) \<in> {9, 10, 11, 12, 13, 32}"

definition TrimSpace :: "string \<Rightarrow> string" where
  "TrimSpace s = rev (dropWhile is_space (rev (dropWhile is_space s)))"

text \<open>\<open>strings.Split\<close> with a one-byte separator.\<close>

fun Split :: "char \<Rightarrow> string \<Rightarrow> string list" where
  "Split c [] = [[]]"
| "Split c (x # xs) =
     (if x = c then [] # Split c xs
      else case Split c xs of [] \<Rightarrow> [[x]] | w # ws \<Rightarrow> (x # w) # ws)"

text \<open>\<open>strings.Contains\<close>, \<open>HasPrefix\<close>, \<open>HasSuffix\<close>, \<open>TrimPrefix\<close>, \<open>TrimSuffix\<close>; \<open>Cut\<close> at a one-byte separator, first part.\<close>

fun str_Contains :: "string \<Rightarrow> string \<Rightarrow> bool" where
  "str_Contains [] sub = (sub = [])"
| "str_Contains (c # s) sub = (take (length sub) (c # s) = sub \<or> str_Contains s sub)"

definition HasPrefix :: "string \<Rightarrow> string \<Rightarrow> bool" where
  "HasPrefix s p \<longleftrightarrow> take (length p) s = p"

definition HasSuffix :: "string \<Rightarrow> string \<Rightarrow> bool" where
  "HasSuffix s p \<longleftrightarrow> length p \<le> length s \<and> drop (length s - length p) s = p"

definition TrimPrefix :: "string \<Rightarrow> string \<Rightarrow> string" where
  "TrimPrefix s p = (if HasPrefix s p then drop (length p) s else s)"

definition TrimSuffix :: "string \<Rightarrow> string \<Rightarrow> string" where
  "TrimSuffix s p = (if HasSuffix s p then take (length s - length p) s else s)"

definition Cut_before :: "char \<Rightarrow> string \<Rightarrow> string" where
  "Cut_before c s = takeWhile (\<lambda>x. x \<noteq> c) s"

lemma of_char_lower: "(of_char (lower_char c) :: nat) = (if is_upper c then of_char c + 32 else of_char c)"
proof -
  have "(of_char c + 32 :: nat) < 256" if "is_upper c"
    using that by (simp add: is_upper_def)
  then show ?thesis by (simp add: lower_char_def)
qed

lemma lower_char_idem [simp]: "lower_char (lower_char c) = lower_char c"
proof -
  have "\<not> is_upper (lower_char c)"
    by (cases "is_upper c") (simp_all add: of_char_lower is_upper_def [of "lower_char c"] is_upper_def [of c])
  then show ?thesis by (simp add: lower_char_def [of "lower_char c"])
qed

lemma is_space_lower [simp]: "is_space (lower_char c) = is_space c"
  by (auto simp: is_space_def of_char_lower is_upper_def)

lemma ToLower_idem [simp]: "ToLower (ToLower s) = ToLower s"
  by (simp add: ToLower_def)

lemma ToLower_Nil [simp]: "ToLower [] = []"
  by (simp add: ToLower_def)

lemma ToLower_Nil_iff [simp]: "ToLower s = [] \<longleftrightarrow> s = []"
  by (simp add: ToLower_def)

lemma TrimSpace_ToLower: "TrimSpace (ToLower s) = ToLower (TrimSpace s)"
  by (simp add: TrimSpace_def ToLower_def dropWhile_map o_def rev_map)

lemma dropWhile_idem [simp]: "dropWhile P (dropWhile P xs) = dropWhile P xs"
  by (induction xs) auto

lemma hd_dropWhile_rev:
  "xs \<noteq> [] \<Longrightarrow> \<not> P (hd xs) \<Longrightarrow> dropWhile P (rev (dropWhile P (rev xs))) = rev (dropWhile P (rev xs))"
proof (induction xs rule: rev_induct)
  case (snoc y ys)
  then show ?case by (cases ys) auto
qed simp

lemma TrimSpace_idem [simp]: "TrimSpace (TrimSpace s) = TrimSpace s"
proof -
  let ?t = "dropWhile is_space s"
  have "dropWhile is_space (TrimSpace s) = TrimSpace s"
  proof (cases "?t = []")
    case True
    then show ?thesis by (simp only: TrimSpace_def rev.simps dropWhile.simps)
  next
    case False
    then show ?thesis
      unfolding TrimSpace_def by (intro hd_dropWhile_rev) (simp_all add: hd_dropWhile)
  qed
  then show ?thesis unfolding TrimSpace_def [of "TrimSpace s"] by (simp add: TrimSpace_def)
qed

lemma Split_not_Nil [simp]: "Split c s \<noteq> []"
  by (induction s) (auto split: list.splits)

lemma Split_plain: "c \<notin> set s \<Longrightarrow> Split c s = [s]"
  by (induction s) auto

lemma Split_append: "c \<notin> set s \<Longrightarrow> Split c (s @ c # t) = s # Split c t"
  by (induction s) auto

section \<open>Package sort\<close>

text \<open>
  Stable insertion: the element moves left past every element it is less than. The sorted
  prefix is kept reversed. This is Go's \<open>insertionSort\<close>; \<open>sort.SliceStable\<close> runs it as it
  is on up to 20 elements, and beyond that every stable sort of a strict weak order agrees.
\<close>

fun sift :: "('a \<Rightarrow> 'a \<Rightarrow> bool) \<Rightarrow> 'a \<Rightarrow> 'a list \<Rightarrow> 'a list" where
  "sift lt x [] = [x]"
| "sift lt x (y # ys) = (if lt x y then y # sift lt x ys else x # y # ys)"

definition SliceStable :: "('a \<Rightarrow> 'a \<Rightarrow> bool) \<Rightarrow> 'a list \<Rightarrow> 'a list" where
  "SliceStable lt xs = rev (fold (sift lt) xs [])"

lemma mset_sift [simp]: "mset (sift lt x ys) = add_mset x (mset ys)"
  by (induction ys) auto

lemma mset_fold_sift: "mset (fold (sift lt) xs ys) = mset xs + mset ys"
  by (induction xs arbitrary: ys) auto

lemma mset_SliceStable [simp]: "mset (SliceStable lt xs) = mset xs"
  by (simp add: SliceStable_def mset_fold_sift)

lemma set_SliceStable [simp]: "set (SliceStable lt xs) = set xs"
  by (metis mset_SliceStable set_mset_mset)

lemma length_SliceStable [simp]: "length (SliceStable lt xs) = length xs"
  by (metis mset_SliceStable size_mset)

lemma SliceStable_Nil_iff [simp]: "SliceStable lt xs = [] \<longleftrightarrow> xs = []"
  by (metis length_0_conv length_SliceStable)

text \<open>The contract of a comparator on the elements it is called with.\<close>

locale strict_weak =
  fixes lt :: "'a \<Rightarrow> 'a \<Rightarrow> bool" and S :: "'a set"
  assumes asym: "x \<in> S \<Longrightarrow> y \<in> S \<Longrightarrow> lt x y \<Longrightarrow> \<not> lt y x"
    and negtrans: "x \<in> S \<Longrightarrow> y \<in> S \<Longrightarrow> z \<in> S \<Longrightarrow> \<not> lt x y \<Longrightarrow> \<not> lt y z \<Longrightarrow> \<not> lt x z"
begin

lemma set_sift: "set (sift lt x ys) = insert x (set ys)"
  by (metis mset_sift set_mset_add_mset_insert set_mset_mset)

lemma sorted_sift:
  assumes "x \<in> S" "set ys \<subseteq> S" "sorted_wrt (\<lambda>a b. \<not> lt a b) ys"
  shows "sorted_wrt (\<lambda>a b. \<not> lt a b) (sift lt x ys)"
  using assms
proof (induction ys)
  case (Cons y ys)
  show ?case
  proof (cases "lt x y")
    case True
    with Cons have "\<not> lt y x" using asym by auto
    with Cons True show ?thesis by (auto simp: set_sift)
  next
    case False
    with Cons.prems negtrans [of x y] have "\<forall>z \<in> set ys. \<not> lt x z" by auto
    with Cons.prems False show ?thesis by simp
  qed
qed simp

lemma sorted_fold_sift:
  assumes "set xs \<subseteq> S" "set ys \<subseteq> S" "sorted_wrt (\<lambda>a b. \<not> lt a b) ys"
  shows "sorted_wrt (\<lambda>a b. \<not> lt a b) (fold (sift lt) xs ys)"
  using assms by (induction xs arbitrary: ys) (auto simp: sorted_sift set_sift)

lemma sorted_SliceStable:
  "set xs \<subseteq> S \<Longrightarrow> sorted_wrt (\<lambda>a b. \<not> lt b a) (SliceStable lt xs)"
  by (simp add: SliceStable_def sorted_wrt_rev sorted_fold_sift)

lemma fold_sift_sorted:
  assumes "sorted_wrt (\<lambda>a b. \<not> lt b a) (rev ys @ xs)"
  shows "fold (sift lt) xs ys = rev xs @ ys"
  using assms
proof (induction xs arbitrary: ys)
  case (Cons x xs)
  then have "sift lt x ys = x # ys"
    by (cases ys) (auto simp: sorted_wrt_append)
  with Cons show ?case by simp
qed simp

lemma SliceStable_sorted: "sorted_wrt (\<lambda>a b. \<not> lt b a) xs \<Longrightarrow> SliceStable lt xs = xs"
  by (simp add: SliceStable_def fold_sift_sorted)

end

text \<open>Removing adjacent duplicates, the \<open>uniq\<close> loop over a sorted slice.\<close>

fun uniq_adj :: "('a \<Rightarrow> 'a \<Rightarrow> bool) \<Rightarrow> 'a list \<Rightarrow> 'a list" where
  "uniq_adj same [] = []"
| "uniq_adj same [x] = [x]"
| "uniq_adj same (x # y # ys) =
     (if same y x then uniq_adj same (x # ys) else x # uniq_adj same (y # ys))"

lemma uniq_adj_Nil_iff [simp]: "uniq_adj same xs = [] \<longleftrightarrow> xs = []"
  by (induction same xs rule: uniq_adj.induct) auto

lemma set_uniq_adj_subset: "set (uniq_adj same xs) \<subseteq> set xs"
  by (induction same xs rule: uniq_adj.induct) auto

section \<open>Association lists as insertion-ordered maps\<close>

lemma map_of_filter_neq: "k \<noteq> j \<Longrightarrow> map_of (filter (\<lambda>p. fst p \<noteq> j) xs) k = map_of xs k"
  by (induction xs) auto

text \<open>Updating the value of a key in place, a new key goes to the end.\<close>

fun alist_upd :: "'a \<Rightarrow> ('b \<Rightarrow> 'b) \<Rightarrow> 'b \<Rightarrow> ('a \<times> 'b) list \<Rightarrow> ('a \<times> 'b) list" where
  "alist_upd k f d [] = [(k, f d)]"
| "alist_upd k f d ((j, v) # xs) = (if j = k then (j, f v) # xs else (j, v) # alist_upd k f d xs)"

lemma map_of_alist_upd:
  "map_of (alist_upd k f d xs) = (map_of xs)(k \<mapsto> f (case map_of xs k of None \<Rightarrow> d | Some v \<Rightarrow> v))"
  by (induction xs) (auto simp: fun_eq_iff split: option.splits)

lemma set_fst_alist_upd [simp]: "fst ` set (alist_upd k f d xs) = insert k (fst ` set xs)"
proof (induction xs)
  case (Cons p xs)
  then show ?case by (cases p) (simp add: insert_commute)
qed simp

lemma distinct_alist_upd: "distinct (map fst xs) \<Longrightarrow> distinct (map fst (alist_upd k f d xs))"
proof (induction xs)
  case (Cons p xs)
  have "fst ` set (alist_upd k f d xs) = insert k (fst ` set xs)" by simp
  with Cons show ?case by (cases p) auto
qed simp

section \<open>Folds that may fail\<close>

fun fold_opt :: "('h \<Rightarrow> 'a \<Rightarrow> 'h option) \<Rightarrow> 'h \<Rightarrow> 'a list \<Rightarrow> 'h option" where
  "fold_opt f h [] = Some h"
| "fold_opt f h (x # xs) = (case f h x of None \<Rightarrow> None | Some h' \<Rightarrow> fold_opt f h' xs)"

section \<open>Fixed-width integers\<close>

text \<open>Two's complement wrap-around at a width, and Go's division, which truncates.\<close>

definition wrap :: "nat \<Rightarrow> int \<Rightarrow> int" where
  "wrap w x = (x + 2 ^ (w - 1)) mod 2 ^ w - 2 ^ (w - 1)"

definition go_div :: "int \<Rightarrow> int \<Rightarrow> int" where
  "go_div a b = sgn a * sgn b * (\<bar>a\<bar> div \<bar>b\<bar>)"

definition go_rem :: "int \<Rightarrow> int \<Rightarrow> int" where
  "go_rem a b = a - b * go_div a b"

lemma wrap_id: "0 < w \<Longrightarrow> - (2 ^ (w - 1)) \<le> x \<Longrightarrow> x < 2 ^ (w - 1) \<Longrightarrow> wrap w x = x"
proof -
  assume "0 < w" "- (2 ^ (w - 1)) \<le> x" "x < 2 ^ (w - 1)"
  moreover from \<open>0 < w\<close> have "(2::int) ^ w = 2 * 2 ^ (w - 1)" by (cases w) simp_all
  ultimately have "(x + 2 ^ (w - 1)) mod 2 ^ w = x + 2 ^ (w - 1)"
    by (intro mod_pos_pos_trivial) linarith+
  then show ?thesis by (simp add: wrap_def)
qed

lemma go_div_nonneg: "0 \<le> a \<Longrightarrow> 0 < b \<Longrightarrow> go_div a b = a div b"
  by (cases "a = 0") (simp_all add: go_div_def)

text \<open>\<open>fmt.Sscanf\<close> with the verb d: blanks, a sign, digits; what follows is ignored.\<close>

definition is_digit :: "char \<Rightarrow> bool" where
  "is_digit c \<longleftrightarrow> 48 \<le> (of_char c :: nat) \<and> (of_char c :: nat) \<le> 57"

definition digits_value :: "string \<Rightarrow> int" where
  "digits_value s = foldl (\<lambda>n c. 10 * n + (int (of_char c) - 48)) 0 s"

definition Sscanf_d :: "string \<Rightarrow> int option" where
  "Sscanf_d s =
     (let t = dropWhile (\<lambda>c. c = CHR '' '') s;
          neg = (t \<noteq> [] \<and> hd t = CHR ''-'');
          u = (if t \<noteq> [] \<and> (hd t = CHR ''-'' \<or> hd t = CHR ''+'') then tl t else t);
          ds = takeWhile is_digit u;
          n = (if neg then - digits_value ds else digits_value ds)
      in if ds = [] then None
         else if - (2 ^ 63) \<le> n \<and> n < 2 ^ 63 then Some n else None)"

lemma Sscanf_d_range: "Sscanf_d s = Some n \<Longrightarrow> - (2 ^ 63) \<le> n \<and> n < 2 ^ 63"
  by (auto simp: Sscanf_d_def Let_def split: if_splits)

end
