(* ===== verification/Float64.thy ===== *)
theory Float64
  imports Prelude "HOL-Library.Log_Nat"
begin

text \<open>
  Go's float64 and float32 as IEEE 754 values: NaN, the two infinities, or a rational, with
  every operation rounded to nearest, ties to even, in binary64 (53 bits, least exponent
  \<open>-1074\<close>) or binary32 (24 bits, least exponent \<open>-149\<close>). Comparisons with NaN are
  false, \<open>math.Max\<close> and \<open>math.Min\<close> treat infinities and NaN in the order the Go library
  does. A decimal literal of the source is \<open>to_f64\<close> of its exact value.

  The two zeros are one value: the agent never divides by a zero, takes no sign bit and
  prints none, and the comparisons it makes do not tell them apart. A product and a sum are
  two operations (no fused multiply-add), as the compiler emits them on amd64. A conversion
  to int out of the range of int64 is the amd64 value \<open>- (2 ^ 63)\<close>.
\<close>

section \<open>Powers of two and the binary exponent\<close>

definition pow2 :: "int \<Rightarrow> rat" where
  "pow2 k = (if 0 \<le> k then 2 ^ nat k else 1 / 2 ^ nat (- k))"

lemma pow2_powi: "pow2 k = 2 powi k"
  unfolding pow2_def power_int_def inverse_eq_divide power_one_over by (rule refl)

lemma pow2_pos [simp]: "0 < pow2 k"
  by (simp add: pow2_def)

lemma pow2_nonneg [simp]: "0 \<le> pow2 k"
  by (simp add: less_imp_le)

lemma pow2_neq_0 [simp]: "pow2 k \<noteq> 0"
  using pow2_pos [of k] by linarith

lemma pow2_abs [simp]: "\<bar>pow2 k\<bar> = pow2 k"
  by (simp add: abs_of_pos)

lemma pow2_add: "pow2 (a + b) = pow2 a * pow2 b"
  by (simp add: pow2_powi power_int_add)

lemma pow2_minus: "pow2 (- a) = 1 / pow2 a"
  by (simp add: pow2_powi power_int_minus divide_inverse)

lemma pow2_diff: "pow2 (a - b) = pow2 a / pow2 b"
  using pow2_add [of a "- b"] by (simp add: pow2_minus)

lemma pow2_mono: "a \<le> b \<Longrightarrow> pow2 a \<le> pow2 b"
  by (simp add: pow2_powi power_int_increasing)

lemma pow2_strict_mono: "a < b \<Longrightarrow> pow2 a < pow2 b"
  by (simp add: pow2_powi power_int_strict_increasing)

lemma pow2_le_iff: "pow2 a \<le> pow2 b \<longleftrightarrow> a \<le> b"
  using pow2_mono [of a b] pow2_strict_mono [of b a] by linarith

lemma pow2_less_iff: "pow2 a < pow2 b \<longleftrightarrow> a < b"
  using pow2_le_iff [of b a] by linarith

lemma pow2_0 [simp]: "pow2 0 = 1" and pow2_1 [simp]: "pow2 1 = 2"
  by (simp_all add: pow2_def)

lemma pow2_nat: "0 \<le> k \<Longrightarrow> pow2 k = of_int (2 ^ nat k)"
  by (simp add: pow2_def)

lemma pow2_code [code]:
  "pow2 k = (if k = 0 then 1 else if k < 0 then 1 / pow2 (- k)
     else let h = pow2 (k div 2) in if even k then h * h else 2 * (h * h))"
proof -
  have h: "pow2 (k div 2) * pow2 (k div 2) = pow2 (2 * (k div 2))"
    by (simp flip: pow2_add)
  have "pow2 k = 2 * pow2 (k - 1)"
    using pow2_add [of 1 "k - 1"] by simp
  then have "odd k \<Longrightarrow> pow2 k = 2 * pow2 (2 * (k div 2))"
    by (metis odd_two_times_div_two_succ add_diff_cancel_right')
  then show ?thesis
    by (auto simp: Let_def h pow2_minus)
qed

definition ilog2 :: "rat \<Rightarrow> int" where
  "ilog2 x = (let (n, d) = quotient_of x; e = bitlen n - bitlen d in if pow2 e \<le> x then e else e - 1)"

lemma bitlen_pow2_bounds:
  assumes "0 < (n::int)"
  shows "pow2 (bitlen n - 1) \<le> of_int n" and "of_int n < pow2 (bitlen n)"
proof -
  have b: "2 ^ nat (bitlen n - 1) \<le> n" "n < 2 ^ nat (bitlen n)"
    using bitlen_bounds [OF assms] by simp_all
  have "0 \<le> bitlen n - 1" "0 \<le> bitlen n"
    using assms bitlen_ge_iff_power [of 1 n] by (simp_all add: bitlen_nonneg)
  with b show "pow2 (bitlen n - 1) \<le> of_int n" and "of_int n < pow2 (bitlen n)"
    by (simp_all add: pow2_nat del: of_int_power)
qed

lemma ilog2_bounds:
  assumes "0 < x"
  shows "pow2 (ilog2 x) \<le> x" and "x < pow2 (ilog2 x + 1)"
proof -
  obtain n d where q: "quotient_of x = (n, d)" by fastforce
  have d: "0 < d" and x: "x = of_int n / of_int d"
    using q quotient_of_denom_pos quotient_of_div by auto
  have n: "0 < n"
    using assms d x by (simp add: zero_less_divide_iff)
  let ?e = "bitlen n - bitlen d"
  note bn = bitlen_pow2_bounds [OF n] and bd = bitlen_pow2_bounds [OF d]
  have "x \<ge> pow2 (bitlen n - 1) / pow2 (bitlen d)"
    unfolding x using bn bd d n by (intro frac_le) auto
  then have lo: "pow2 (?e - 1) \<le> x"
    by (simp flip: pow2_diff add: algebra_simps)
  have "x < pow2 (bitlen n) / pow2 (bitlen d - 1)"
    unfolding x using bn bd d n by (intro frac_less) auto
  then have hi: "x < pow2 (?e + 1)"
    by (simp flip: pow2_diff add: algebra_simps)
  show "pow2 (ilog2 x) \<le> x" and "x < pow2 (ilog2 x + 1)"
    using lo hi by (auto simp: ilog2_def q Let_def)
qed

lemma ilog2_unique:
  assumes "0 < x" "pow2 e \<le> x" "x < pow2 (e + 1)"
  shows "ilog2 x = e"
proof -
  have "pow2 e < pow2 (ilog2 x + 1)" "pow2 (ilog2 x) < pow2 (e + 1)"
    using ilog2_bounds [OF assms(1)] assms by linarith+
  then show ?thesis by (simp add: pow2_less_iff)
qed

lemma ilog2_ge_iff: "0 < x \<Longrightarrow> e \<le> ilog2 x \<longleftrightarrow> pow2 e \<le> x"
  using ilog2_bounds [of x] pow2_mono [of e "ilog2 x"] pow2_mono [of "ilog2 x + 1" e]
  by linarith

lemma ilog2_mono: "0 < x \<Longrightarrow> x \<le> y \<Longrightarrow> ilog2 x \<le> ilog2 y"
  using ilog2_bounds(1) [of x] by (simp add: ilog2_ge_iff)

section \<open>Rounding to nearest, ties to even\<close>

definition round_half_even :: "rat \<Rightarrow> int" where
  "round_half_even x = (let f = \<lfloor>x\<rfloor>; d = x - of_int f in
     if d < 1 / 2 then f else if 1 / 2 < d then f + 1 else if even f then f else f + 1)"

lemma round_half_even_of_int [simp]: "round_half_even (of_int n) = n"
  by (simp add: round_half_even_def)

lemma round_half_even_dist: "\<bar>of_int (round_half_even x) - x\<bar> \<le> 1 / 2"
proof -
  have "of_int \<lfloor>x\<rfloor> \<le> x" "x < of_int \<lfloor>x\<rfloor> + 1" by linarith+
  then show ?thesis by (auto simp: round_half_even_def Let_def abs_le_iff)
qed

lemma round_half_even_mono: "x \<le> y \<Longrightarrow> round_half_even x \<le> round_half_even y"
proof -
  assume le: "x \<le> y"
  show ?thesis
  proof (cases "\<lfloor>x\<rfloor> = \<lfloor>y\<rfloor>")
    case True
    with le show ?thesis by (auto simp: round_half_even_def Let_def)
  next
    case False
    with le have "\<lfloor>x\<rfloor> + 1 \<le> \<lfloor>y\<rfloor>" using floor_mono [OF le] by linarith
    then show ?thesis by (auto simp: round_half_even_def Let_def)
  qed
qed

lemma round_half_even_minus: "round_half_even (- x) = - round_half_even x"
proof (cases "x = of_int \<lfloor>x\<rfloor>")
  case True
  then show ?thesis using round_half_even_of_int by (metis of_int_minus)
next
  case False
  then have "\<lfloor>- x\<rfloor> = - \<lfloor>x\<rfloor> - 1" by linarith
  then show ?thesis
    by (auto simp: round_half_even_def Let_def)
qed

definition rnd :: "int \<Rightarrow> int \<Rightarrow> rat \<Rightarrow> rat" where
  "rnd p emin x = (if x = 0 then 0 else
     let e = max (ilog2 \<bar>x\<bar> - (p - 1)) emin in of_int (round_half_even (x / pow2 e)) * pow2 e)"

lemma rnd_0 [simp]: "rnd p emin 0 = 0"
  by (simp add: rnd_def)

lemma rnd_minus: "rnd p emin (- x) = - rnd p emin x"
  by (auto simp: rnd_def Let_def round_half_even_minus simp flip: minus_divide_left)

lemma rnd_exact:
  assumes p: "0 < p" and m: "\<bar>m\<bar> \<le> 2 ^ nat p" and e: "emin \<le> e"
  shows "rnd p emin (of_int m * pow2 e) = of_int m * pow2 e"
proof (cases "m = 0")
  case True
  then show ?thesis by simp
next
  case False
  let ?x = "of_int m * pow2 e :: rat"
  let ?E = "max (ilog2 \<bar>?x\<bar> - (p - 1)) emin"
  have ax: "\<bar>?x\<bar> = of_int \<bar>m\<bar> * pow2 e" "0 < \<bar>?x\<bar>"
    using False pow2_pos [of e] by (simp_all add: abs_mult)
  have repr: "\<exists>k. ?x / pow2 ?E = of_int k"
  proof (cases "?E \<le> e")
    case True
    have "?x / pow2 ?E = of_int m * pow2 (e - ?E)"
      by (simp add: pow2_diff)
    also have "\<dots> = of_int (m * 2 ^ nat (e - ?E))"
      using True by (simp add: pow2_nat)
    finally show ?thesis by blast
  next
    case False
    then have l: "e < ilog2 \<bar>?x\<bar> - (p - 1)" and E: "?E = ilog2 \<bar>?x\<bar> - (p - 1)"
      using e by linarith+
    have "of_int \<bar>m\<bar> \<le> pow2 p"
      using m p by (simp add: pow2_nat del: of_int_power of_int_abs)
    then have le: "\<bar>?x\<bar> \<le> pow2 (p + e)"
      unfolding ax(1) pow2_add by (intro mult_right_mono) (auto intro: less_imp_le)
    have "pow2 (p + e) \<le> pow2 (ilog2 \<bar>?x\<bar>)"
      using l by (intro pow2_mono) linarith
    then have "\<bar>?x\<bar> = pow2 (p + e)" and "ilog2 \<bar>?x\<bar> = p + e"
      using le ilog2_bounds(1) [OF ax(2)] pow2_le_iff [of "ilog2 \<bar>?x\<bar>" "p + e"] l by linarith+
    moreover have "pow2 (p + e) / pow2 ?E = of_int (2 ^ nat (p - 1))"
      unfolding E using \<open>ilog2 \<bar>?x\<bar> = p + e\<close> p by (simp flip: pow2_diff add: pow2_nat)
    ultimately have "\<bar>?x\<bar> / pow2 ?E = of_int (2 ^ nat (p - 1))" by simp
    then have "?x / pow2 ?E = of_int (2 ^ nat (p - 1)) \<or> ?x / pow2 ?E = of_int (- (2 ^ nat (p - 1)))"
      by (auto simp: abs_if split: if_splits)
    then show ?thesis by blast
  qed
  then obtain k where k: "?x / pow2 ?E = of_int k" by blast
  have "rnd p emin ?x = of_int (round_half_even (?x / pow2 ?E)) * pow2 ?E"
    using False by (simp add: rnd_def Let_def)
  also have "\<dots> = ?x / pow2 ?E * pow2 ?E"
    unfolding k by simp
  finally show ?thesis by simp
qed


lemma rnd_nonneg: "0 \<le> x \<Longrightarrow> 0 \<le> rnd p emin x"
  using round_half_even_mono [of 0 "x / pow2 (max (ilog2 \<bar>x\<bar> - (p - 1)) emin)"] round_half_even_of_int [of 0]
  by (auto simp: rnd_def Let_def)

lemma rnd_pos_eq:
  "0 < x \<Longrightarrow> rnd p emin x =
     of_int (round_half_even (x / pow2 (max (ilog2 x - (p - 1)) emin))) * pow2 (max (ilog2 x - (p - 1)) emin)"
  by (simp add: rnd_def Let_def)

text \<open>A power of two that is a multiple of the spacing bounds the rounded value.\<close>

lemma round_scaled_le:
  assumes "x \<le> pow2 b" "e \<le> b"
  shows "of_int (round_half_even (x / pow2 e)) * pow2 e \<le> pow2 b"
proof -
  have "x / pow2 e \<le> of_int (2 ^ nat (b - e))"
    using assms by (simp add: pow2_nat [symmetric] pow2_diff divide_right_mono del: of_int_power)
  then have "round_half_even (x / pow2 e) \<le> 2 ^ nat (b - e)"
    using round_half_even_mono round_half_even_of_int by metis
  then have "of_int (round_half_even (x / pow2 e)) \<le> pow2 (b - e)"
    using assms by (simp add: pow2_nat del: of_int_power)
  then show ?thesis by (simp add: pow2_diff field_simps)
qed

lemma round_scaled_ge:
  assumes "pow2 b \<le> x" "e \<le> b"
  shows "pow2 b \<le> of_int (round_half_even (x / pow2 e)) * pow2 e"
proof -
  have "of_int (2 ^ nat (b - e)) \<le> x / pow2 e"
    using assms by (simp add: pow2_nat [symmetric] pow2_diff divide_right_mono del: of_int_power)
  then have "2 ^ nat (b - e) \<le> round_half_even (x / pow2 e)"
    using round_half_even_mono round_half_even_of_int by metis
  then have "pow2 (b - e) \<le> of_int (round_half_even (x / pow2 e))"
    using assms by (simp add: pow2_nat del: of_int_power)
  then show ?thesis by (simp add: pow2_diff field_simps)
qed

lemma rnd_mono_pos:
  assumes p: "0 < p" and x: "0 < x" and le: "x \<le> y"
  shows "rnd p emin x \<le> rnd p emin y"
proof -
  have y: "0 < y" using x le by linarith
  let ?ex = "max (ilog2 x - (p - 1)) emin" and ?ey = "max (ilog2 y - (p - 1)) emin"
  show ?thesis
  proof (cases "?ex = ?ey")
    case True
    have "x / pow2 ?ey \<le> y / pow2 ?ey"
      using le by (simp add: divide_right_mono)
    then have "round_half_even (x / pow2 ?ey) \<le> round_half_even (y / pow2 ?ey)"
      by (rule round_half_even_mono)
    then show ?thesis
      using x y True by (simp add: rnd_pos_eq mult_right_mono)
  next
    case False
    then have l: "ilog2 x + 1 \<le> ilog2 y" and g: "emin < ilog2 y - (p - 1)"
      using ilog2_mono [OF x le] by linarith+
    have "rnd p emin x \<le> pow2 (ilog2 y)"
      unfolding rnd_pos_eq [OF x]
      by (rule round_scaled_le)
        (use p l g ilog2_bounds [OF x] pow2_mono [OF l] in linarith)+
    also have "\<dots> \<le> rnd p emin y"
      unfolding rnd_pos_eq [OF y]
      by (rule round_scaled_ge) (use p g ilog2_bounds [OF y] in linarith)+
    finally show ?thesis .
  qed
qed

lemma rnd_mono:
  assumes p: "0 < p" and le: "x \<le> y"
  shows "rnd p emin x \<le> rnd p emin y"
proof (cases "0 < x \<or> y < 0")
  case True
  then show ?thesis
    using rnd_mono_pos [OF p, of x y] rnd_mono_pos [OF p, of "- y" "- x"] le
    by (auto simp: rnd_minus)
next
  case False
  then show ?thesis
    using rnd_nonneg [of y p emin] rnd_nonneg [of "- x" p emin] by (simp add: rnd_minus)
qed

lemma rnd_idem:
  assumes "0 < p"
  shows "rnd p emin (rnd p emin x) = rnd p emin x"
proof -
  have pos: "rnd p emin (rnd p emin x) = rnd p emin x" if "0 < x" for x
  proof -
    let ?e = "max (ilog2 x - (p - 1)) emin" and ?b = "max (ilog2 x + 1) (p + emin)"
    let ?m = "round_half_even (x / pow2 ?e)"
    have "x \<le> pow2 ?b"
      using ilog2_bounds(2) [OF that] pow2_mono [of "ilog2 x + 1" ?b] by linarith
    moreover have b: "?b = ?e + p" by linarith
    ultimately have "of_int ?m * pow2 ?e \<le> pow2 ?e * pow2 p"
      using round_scaled_le [of x ?b ?e] assms by (simp add: pow2_add)
    then have "of_int ?m \<le> pow2 p" by (simp add: mult.commute)
    then have "?m \<le> 2 ^ nat p" using assms by (simp add: pow2_nat del: of_int_power)
    moreover have "0 \<le> ?m"
      using round_half_even_mono [of 0 "x / pow2 ?e"] round_half_even_of_int [of 0] that by simp
    ultimately show ?thesis
      using rnd_exact [OF assms, of ?m emin ?e] by (simp add: rnd_pos_eq [OF that])
  qed
  show ?thesis
    using pos [of x] pos [of "- x"] by (cases x "0::rat" rule: linorder_cases) (simp_all add: rnd_minus)
qed

lemma rnd_int: "0 < p \<Longrightarrow> emin \<le> 0 \<Longrightarrow> \<bar>m\<bar> \<le> 2 ^ nat p \<Longrightarrow> rnd p emin (of_int m) = of_int m"
  using rnd_exact [of p m emin 0] by simp

named_theorems f64_lit "decimal literals as binary64 values"

section \<open>Values\<close>

datatype f64 = NaN | PosInf | NegInf | Fin rat

definition to_fmt :: "int \<Rightarrow> int \<Rightarrow> int \<Rightarrow> rat \<Rightarrow> f64" where
  "to_fmt p emin emax x = (let r = rnd p emin x in
     if r \<noteq> 0 \<and> emax \<le> ilog2 \<bar>r\<bar> then (if 0 < r then PosInf else NegInf) else Fin r)"

abbreviation to_f64 :: "rat \<Rightarrow> f64" where "to_f64 \<equiv> to_fmt 53 (- 1074) 1024"
abbreviation to_f32 :: "rat \<Rightarrow> f64" where "to_f32 \<equiv> to_fmt 24 (- 149) 128"

instantiation f64 :: "{ord, uminus, plus, minus, times, inverse, abs}"
begin

fun less_eq_f64 :: "f64 \<Rightarrow> f64 \<Rightarrow> bool" where
  "NaN \<le> _ = False"
| "_ \<le> NaN = False"
| "NegInf \<le> _ = True"
| "_ \<le> PosInf = True"
| "Fin x \<le> Fin y = (x \<le> y)"
| "(_::f64) \<le> _ = False"

fun less_f64 :: "f64 \<Rightarrow> f64 \<Rightarrow> bool" where
  "NaN < _ = False"
| "_ < NaN = False"
| "PosInf < _ = False"
| "_ < NegInf = False"
| "Fin x < Fin y = (x < y)"
| "(_::f64) < _ = True"

fun uminus_f64 :: "f64 \<Rightarrow> f64" where
  "- NaN = NaN"
| "- PosInf = NegInf"
| "- NegInf = PosInf"
| "- Fin x = Fin (- x)"

fun plus_f64 :: "f64 \<Rightarrow> f64 \<Rightarrow> f64" where
  "NaN + _ = NaN"
| "_ + NaN = NaN"
| "PosInf + NegInf = NaN"
| "NegInf + PosInf = NaN"
| "PosInf + _ = PosInf"
| "_ + PosInf = PosInf"
| "NegInf + _ = NegInf"
| "_ + NegInf = NegInf"
| "Fin x + Fin y = to_f64 (x + y)"

definition minus_f64 :: "f64 \<Rightarrow> f64 \<Rightarrow> f64" where
  "minus_f64 x y = x + (- y)"

fun times_f64 :: "f64 \<Rightarrow> f64 \<Rightarrow> f64" where
  "NaN * _ = NaN"
| "_ * NaN = NaN"
| "Fin x * Fin y = to_f64 (x * y)"
| "x * y = (if x = Fin 0 \<or> y = Fin 0 then NaN
            else if (x < Fin 0) = (y < Fin 0) then PosInf else NegInf)"

fun divide_f64 :: "f64 \<Rightarrow> f64 \<Rightarrow> f64" where
  "divide_f64 NaN _ = NaN"
| "divide_f64 _ NaN = NaN"
| "divide_f64 (Fin x) (Fin y) =
     (if y = 0 then (if x = 0 then NaN else if 0 < x then PosInf else NegInf) else to_f64 (x / y))"
| "divide_f64 (Fin _) _ = Fin 0"
| "divide_f64 x (Fin y) = (if 0 \<le> y then x else - x)"
| "divide_f64 _ _ = NaN"

definition inverse_f64 :: "f64 \<Rightarrow> f64" where
  "inverse_f64 x = divide (Fin 1) x"

definition abs_f64 :: "f64 \<Rightarrow> f64" where
  "abs_f64 x = (if x < Fin 0 then - x else x)"

instance ..

end


lemmas f64_arith_defs = minus_f64_def inverse_f64_def abs_f64_def

section \<open>Order\<close>

lemma f64_nan_cmp [simp]:
  "\<not> x \<le> NaN" "\<not> NaN \<le> x" "\<not> x < NaN" "\<not> NaN < x" for x :: f64
  by (cases x; simp)+

lemma f_refl: "x \<le> x \<longleftrightarrow> x \<noteq> NaN" for x :: f64
  by (cases x) auto

lemma f_le_refl [simp]: "x \<noteq> NaN \<Longrightarrow> x \<le> x" for x :: f64
  by (simp add: f_refl)

lemma f_irrefl [simp]: "\<not> x < x" for x :: f64
  by (cases x) auto

lemma f_leD: "x \<le> y \<Longrightarrow> x \<noteq> NaN \<and> y \<noteq> NaN" for x y :: f64
  by auto

lemma f_lessD: "x < y \<Longrightarrow> x \<noteq> NaN \<and> y \<noteq> NaN" for x y :: f64
  by auto

lemma f_less_imp_le: "x < y \<Longrightarrow> x \<le> y" for x y :: f64
  by (cases x; cases y) auto

lemma f_le_trans: "x \<le> y \<Longrightarrow> y \<le> z \<Longrightarrow> x \<le> z" for x y z :: f64
  by (cases x; cases y; cases z) auto

lemma f_less_le_trans: "x < y \<Longrightarrow> y \<le> z \<Longrightarrow> x < z" for x y z :: f64
  by (cases x; cases y; cases z) auto

lemma f_le_less_trans: "x \<le> y \<Longrightarrow> y < z \<Longrightarrow> x < z" for x y z :: f64
  by (cases x; cases y; cases z) auto

lemma f_antisym: "x \<le> y \<Longrightarrow> y \<le> x \<Longrightarrow> x = y" for x y :: f64
  by (cases x; cases y) auto

lemma f_not_less: "x \<noteq> NaN \<Longrightarrow> y \<noteq> NaN \<Longrightarrow> \<not> x < y \<longleftrightarrow> y \<le> x" for x y :: f64
  by (cases x; cases y) auto

lemma f_not_le: "x \<noteq> NaN \<Longrightarrow> y \<noteq> NaN \<Longrightarrow> \<not> x \<le> y \<longleftrightarrow> y < x" for x y :: f64
  by (cases x; cases y) auto

lemma f_less_not_le: "x < y \<Longrightarrow> \<not> y \<le> x" for x y :: f64
  by (cases x; cases y) auto

lemma f_le_PosInf: "x \<noteq> NaN \<Longrightarrow> x \<le> PosInf" and f_NegInf_le: "x \<noteq> NaN \<Longrightarrow> NegInf \<le> x" for x :: f64
  by (cases x; simp)+

lemma f_between_finite: "Fin a \<le> x \<Longrightarrow> x \<le> Fin b \<Longrightarrow> \<exists>r. x = Fin r \<and> a \<le> r \<and> r \<le> b"
  by (cases x) auto

fun feq :: "f64 \<Rightarrow> f64 \<Rightarrow> bool" where
  "feq NaN _ = False"
| "feq _ NaN = False"
| "feq x y = (x = y)"

lemma feq_iff: "feq x y \<longleftrightarrow> x = y \<and> x \<noteq> NaN"
  by (cases x; cases y) auto

section \<open>The rounding contract\<close>

text \<open>
  What the components use of a rounding: it is monotone and keeps the small integers. The
  bounds on ratios and sums are proved from these laws and hold in both formats.
\<close>

locale rounding_mode =
  fixes rd :: "rat \<Rightarrow> f64"
  assumes rd_mono: "x \<le> y \<Longrightarrow> rd x \<le> rd y"
    and rd_int: "\<bar>m\<bar> \<le> 2 ^ 24 \<Longrightarrow> rd (of_int m) = Fin (of_int m)"
begin

lemma rd_not_NaN [simp]: "rd x \<noteq> NaN" "NaN \<noteq> rd x"
  using rd_mono [of x x] by auto

lemma rd_0 [simp]: "rd 0 = Fin 0" and rd_1 [simp]: "rd 1 = Fin 1"
  using rd_int [of 0] rd_int [of 1] by simp_all

lemma rd_ge_int: "of_int m \<le> x \<Longrightarrow> \<bar>m\<bar> \<le> 2 ^ 24 \<Longrightarrow> Fin (of_int m) \<le> rd x"
  using rd_mono [of "of_int m" x] by (simp add: rd_int)

lemma rd_le_int: "x \<le> of_int m \<Longrightarrow> \<bar>m\<bar> \<le> 2 ^ 24 \<Longrightarrow> rd x \<le> Fin (of_int m)"
  using rd_mono [of x "of_int m"] by (simp add: rd_int)

lemma rd_nonneg: "0 \<le> x \<Longrightarrow> Fin 0 \<le> rd x"
  using rd_ge_int [of 0 x] by simp

lemma rd_nonpos: "x \<le> 0 \<Longrightarrow> rd x \<le> Fin 0"
  using rd_le_int [of x 0] by simp

lemma rd_unit: "0 \<le> x \<Longrightarrow> x \<le> 1 \<Longrightarrow> \<exists>r. rd x = Fin r \<and> 0 \<le> r \<and> r \<le> 1"
  using rd_ge_int [of 0 x] rd_le_int [of x 1] by (intro f_between_finite) simp_all

end

lemma to_fmt_mono:
  assumes "0 < p" "x \<le> y"
  shows "to_fmt p emin emax x \<le> to_fmt p emin emax y"
proof -
  let ?r = "rnd p emin x" and ?s = "rnd p emin y"
  have "?r \<le> ?s" using assms by (rule rnd_mono)
  moreover have "ilog2 \<bar>?r\<bar> \<le> ilog2 \<bar>?s\<bar>" if "0 < ?r"
    using that calculation by (intro ilog2_mono) auto
  moreover have "ilog2 \<bar>?s\<bar> \<le> ilog2 \<bar>?r\<bar>" if "?s < 0"
    using that calculation(1) by (intro ilog2_mono) auto
  ultimately show ?thesis
    unfolding to_fmt_def Let_def
    by (cases "0 < ?r"; cases "?s < 0") (auto simp: not_less)
qed

lemma to_fmt_int:
  assumes p: "24 \<le> p" and emin: "emin \<le> 0" and emax: "25 \<le> emax" and m: "\<bar>m\<bar> \<le> 2 ^ 24"
  shows "to_fmt p emin emax (of_int m) = Fin (of_int m)"
proof -
  have "2 ^ 24 \<le> (2::int) ^ nat p"
    using p by (intro power_increasing) linarith+
  with m p emin have r: "rnd p emin (of_int m) = of_int m"
    by (intro rnd_int) linarith+
  have "\<not> emax \<le> ilog2 \<bar>of_int m :: rat\<bar>" if "m \<noteq> 0"
  proof
    assume "emax \<le> ilog2 \<bar>of_int m :: rat\<bar>"
    with that emax have "pow2 25 \<le> \<bar>of_int m :: rat\<bar>"
      using ilog2_ge_iff [of "\<bar>of_int m :: rat\<bar>" 25] by simp
    then have "2 ^ 25 \<le> \<bar>m\<bar>" by (simp add: pow2_def)
    with m show False by simp
  qed
  then show ?thesis by (auto simp: to_fmt_def r Let_def)
qed

lemma to_fmt_exact:
  assumes "0 < p" "emin \<le> 0" "p < emax" "\<bar>m\<bar> \<le> 2 ^ nat p"
  shows "to_fmt p emin emax (of_int m) = Fin (of_int m)"
proof -
  have r: "rnd p emin (of_int m) = of_int m"
    using assms by (intro rnd_int) linarith+
  have "\<not> emax \<le> ilog2 \<bar>of_int m :: rat\<bar>" if "m \<noteq> 0"
  proof
    assume "emax \<le> ilog2 \<bar>of_int m :: rat\<bar>"
    with that assms(3) have "pow2 (p + 1) \<le> \<bar>of_int m :: rat\<bar>"
      using ilog2_ge_iff [of "\<bar>of_int m :: rat\<bar>" "p + 1"] by simp
    moreover have "pow2 (p + 1) = of_int (2 ^ nat (p + 1))"
      using assms(1) by (simp add: pow2_def)
    ultimately have "2 ^ nat (p + 1) \<le> \<bar>m\<bar>"
      by (metis of_int_abs of_int_le_iff)
    moreover have "(2::int) ^ nat (p + 1) = 2 * 2 ^ nat p"
      using assms(1) by (simp add: nat_add_distrib)
    ultimately show False using assms(4) by (smt (verit) zero_less_power)
  qed
  then show ?thesis by (auto simp: to_fmt_def r Let_def)
qed

lemma to_fmt_idem:
  assumes "0 < p" "to_fmt p emin emax x = Fin y"
  shows "to_fmt p emin emax y = Fin y"
proof -
  have "y = rnd p emin x" using assms(2) by (auto simp: to_fmt_def Let_def split: if_splits)
  then show ?thesis using assms by (auto simp: to_fmt_def Let_def rnd_idem split: if_splits)
qed

interpretation rnd64: rounding_mode to_f64
  by unfold_locales (simp_all add: to_fmt_mono to_fmt_int)

interpretation rnd32: rounding_mode to_f32
  by unfold_locales (simp_all add: to_fmt_mono to_fmt_int)

section \<open>The package math and the conversions\<close>

definition math_Max :: "f64 \<Rightarrow> f64 \<Rightarrow> f64" where
  "math_Max x y = (if x = PosInf \<or> y = PosInf then PosInf
     else if x = NaN \<or> y = NaN then NaN else if y < x then x else y)"

definition math_Min :: "f64 \<Rightarrow> f64 \<Rightarrow> f64" where
  "math_Min x y = (if x = NegInf \<or> y = NegInf then NegInf
     else if x = NaN \<or> y = NaN then NaN else if x < y then x else y)"

fun math_Ceil :: "f64 \<Rightarrow> f64" where
  "math_Ceil (Fin x) = Fin (of_int \<lceil>x\<rceil>)"
| "math_Ceil x = x"

definition math_Abs :: "f64 \<Rightarrow> f64" where
  "math_Abs x = \<bar>x\<bar>"

definition f64_of_int :: "int \<Rightarrow> f64" where
  "f64_of_int n = to_f64 (of_int n)"

fun f32_of_f64 :: "f64 \<Rightarrow> f64" where
  "f32_of_f64 (Fin x) = to_f32 x"
| "f32_of_f64 x = x"

fun int_of_f64 :: "f64 \<Rightarrow> int" where
  "int_of_f64 (Fin x) = (let t = (if 0 \<le> x then \<lfloor>x\<rfloor> else \<lceil>x\<rceil>) in
     if - (2 ^ 63) \<le> t \<and> t < 2 ^ 63 then t else - (2 ^ 63))"
| "int_of_f64 _ = - (2 ^ 63)"

lemma math_Max_ge: "x \<noteq> NaN \<Longrightarrow> y \<noteq> NaN \<Longrightarrow> x \<le> math_Max x y \<and> y \<le> math_Max x y"
  by (cases x; cases y) (auto simp: math_Max_def)

lemma math_Max_NaN_iff: "math_Max x y = NaN \<longleftrightarrow> (x = NaN \<or> y = NaN) \<and> x \<noteq> PosInf \<and> y \<noteq> PosInf"
  by (cases x; cases y) (auto simp: math_Max_def)

lemma math_Max_cases: "x \<noteq> NaN \<Longrightarrow> y \<noteq> NaN \<Longrightarrow> math_Max x y = x \<or> math_Max x y = y"
  by (auto simp: math_Max_def)

lemma math_Min_le: "x \<noteq> NaN \<Longrightarrow> y \<noteq> NaN \<Longrightarrow> math_Min x y \<le> x \<and> math_Min x y \<le> y"
  by (cases x; cases y) (auto simp: math_Min_def)

lemma math_Min_greatest: "z \<le> x \<Longrightarrow> z \<le> y \<Longrightarrow> z \<le> math_Min x y"
  by (cases x; cases y; cases z) (auto simp: math_Min_def)

lemma math_Min_NaN_iff: "math_Min x y = NaN \<longleftrightarrow> (x = NaN \<or> y = NaN) \<and> x \<noteq> NegInf \<and> y \<noteq> NegInf"
  by (cases x; cases y) (auto simp: math_Min_def)

lemma fdiv_unit:
  assumes "0 \<le> a" "a \<le> b" "0 < b"
  shows "\<exists>r. Fin a / Fin b = Fin r \<and> 0 \<le> r \<and> r \<le> 1"
  using rnd64.rd_unit [of "a / b"] assms by simp

lemma f64_of_int_small: "\<bar>n\<bar> \<le> 2 ^ 24 \<Longrightarrow> f64_of_int n = Fin (of_int n)"
  by (simp add: f64_of_int_def rnd64.rd_int)

lemma f64_of_int_mono: "m \<le> n \<Longrightarrow> f64_of_int m \<le> f64_of_int n"
  by (simp add: f64_of_int_def rnd64.rd_mono)

lemma f64_of_int_exact: "\<bar>n\<bar> \<le> 2 ^ 53 \<Longrightarrow> f64_of_int n = Fin (of_int n)"
  unfolding f64_of_int_def by (rule to_fmt_exact) simp_all

lemma f_minus_int: "\<bar>a\<bar> \<le> 2 ^ 52 \<Longrightarrow> \<bar>b\<bar> \<le> 2 ^ 52 \<Longrightarrow> f64_of_int a - f64_of_int b = Fin (of_int (a - b))"
  using to_fmt_exact [of 53 "-1074" 1024 "a - b"] by (simp add: f64_of_int_exact minus_f64_def)

section \<open>Monotonicity\<close>

lemma math_Max_mono: "a \<le> a' \<Longrightarrow> b \<le> b' \<Longrightarrow> math_Max a b \<le> math_Max a' b'"
  using math_Max_cases [of a b] math_Max_ge [of a' b'] by (metis f_le_trans f_leD)

lemma math_Min_cases: "x \<noteq> NaN \<Longrightarrow> y \<noteq> NaN \<Longrightarrow> math_Min x y = x \<or> math_Min x y = y"
  by (auto simp: math_Min_def)

lemma math_Min_mono: "a \<le> a' \<Longrightarrow> b \<le> b' \<Longrightarrow> math_Min a b \<le> math_Min a' b'"
  using math_Min_cases [of a' b'] math_Min_le [of a b] by (metis f_le_trans f_leD)

lemma math_Min_PosInf: "x \<noteq> NaN \<Longrightarrow> math_Min x PosInf = x"
  by (cases x) (auto simp: math_Min_def)

lemma math_Max_NegInf: "x \<noteq> NaN \<Longrightarrow> math_Max x NegInf = x"
  by (cases x) (auto simp: math_Max_def)

lemma f_plus_mono: "x \<le> y \<Longrightarrow> c + x \<noteq> NaN \<Longrightarrow> c + y \<noteq> NaN \<Longrightarrow> c + x \<le> c + y" for x y c :: f64
  by (cases c; cases x; cases y)
    (auto simp: rnd64.rd_mono intro: f_le_PosInf f_NegInf_le)

lemma f_minus_antimono: "x \<le> y \<Longrightarrow> c - x \<noteq> NaN \<Longrightarrow> c - y \<noteq> NaN \<Longrightarrow> c - y \<le> c - x" for x y c :: f64
  unfolding minus_f64_def by (rule f_plus_mono) (cases x; cases y; simp)

lemma plus_nonneg: "Fin 0 \<le> x \<Longrightarrow> Fin 0 \<le> y \<Longrightarrow> Fin 0 \<le> x + y" for x y :: f64
  by (cases x; cases y) (simp_all add: rnd64.rd_nonneg)

lemma times_nonneg: "Fin 0 \<le> x \<Longrightarrow> 0 < c \<Longrightarrow> Fin 0 \<le> x * Fin c" for x :: f64
  by (cases x) (simp_all add: rnd64.rd_nonneg)

lemma f_div_nonneg: "Fin 0 \<le> x \<Longrightarrow> 0 < c \<Longrightarrow> Fin 0 \<le> x / Fin c" for x :: f64
  by (cases x) (simp_all add: rnd64.rd_nonneg)

lemma f64_of_int_nonneg: "0 \<le> n \<Longrightarrow> Fin 0 \<le> f64_of_int n"
  using f64_of_int_mono [of 0 n] f64_of_int_small [of 0] by simp

lemma times_le_self: "v = to_f64 r \<Longrightarrow> Fin 0 \<le> v \<Longrightarrow> 0 < c \<Longrightarrow> c \<le> 1 \<Longrightarrow> v * Fin c \<le> v" for v :: f64
proof (cases v)
  case (Fin y)
  assume a: "v = to_f64 r" "Fin 0 \<le> v" "0 < c" "c \<le> 1"
  have "0 \<le> y" using a(2) unfolding Fin by simp
  then have "y * c \<le> y" using a(4) by (simp add: mult_left_le)
  moreover have "to_f64 y = Fin y" using to_fmt_idem [of 53 "- 1074" 1024 r y] a(1) Fin by simp
  ultimately have "to_f64 (y * c) \<le> Fin y" using to_fmt_mono [of 53 "y * c" y "- 1074" 1024] by simp
  then show ?thesis unfolding Fin by simp
qed simp_all

lemma f_times_mono: "x \<le> y \<Longrightarrow> 0 \<le> c \<Longrightarrow> x = Fin a \<Longrightarrow> y = Fin b \<Longrightarrow> Fin c * x \<le> Fin c * y" for x y :: f64
  by (simp add: rnd64.rd_mono mult_left_mono)

section \<open>Decimal literals\<close>

lemma lit_0_55 [f64_lit]: "to_f64 (11 / 20) = Fin (2476979795053773 / 4503599627370496)"
  by code_simp

lemma lit_0_65 [f64_lit]: "to_f64 (13 / 20) = Fin (5854679515581645 / 9007199254740992)"
  by code_simp


lemma lit_0_01 [f64_lit]: "to_f64 (1 / 100) = Fin (5764607523034235 / 576460752303423488)"
  by code_simp

lemma lit_0_02 [f64_lit]: "to_f64 (1 / 50) = Fin (5764607523034235 / 288230376151711744)"
  by code_simp

lemma lit_0_05 [f64_lit]: "to_f64 (1 / 20) = Fin (3602879701896397 / 72057594037927936)"
  by code_simp

lemma lit_0_1 [f64_lit]: "to_f64 (1 / 10) = Fin (3602879701896397 / 36028797018963968)"
  by code_simp

lemma lit_0_12 [f64_lit]: "to_f64 (3 / 25) = Fin (1080863910568919 / 9007199254740992)"
  by code_simp

lemma lit_0_15 [f64_lit]: "to_f64 (3 / 20) = Fin (5404319552844595 / 36028797018963968)"
  by code_simp

lemma lit_0_18 [f64_lit]: "to_f64 (9 / 50) = Fin (3242591731706757 / 18014398509481984)"
  by code_simp

lemma lit_0_2 [f64_lit]: "to_f64 (1 / 5) = Fin (3602879701896397 / 18014398509481984)"
  by code_simp

lemma lit_0_3 [f64_lit]: "to_f64 (3 / 10) = Fin (5404319552844595 / 18014398509481984)"
  by code_simp

lemma lit_0_35 [f64_lit]: "to_f64 (7 / 20) = Fin (3152519739159347 / 9007199254740992)"
  by code_simp

lemma lit_0_4 [f64_lit]: "to_f64 (2 / 5) = Fin (3602879701896397 / 9007199254740992)"
  by code_simp

lemma lit_0_45 [f64_lit]: "to_f64 (9 / 20) = Fin (8106479329266893 / 18014398509481984)"
  by code_simp

lemma lit_0_6 [f64_lit]: "to_f64 (3 / 5) = Fin (5404319552844595 / 9007199254740992)"
  by code_simp

lemma lit_0_7 [f64_lit]: "to_f64 (7 / 10) = Fin (3152519739159347 / 4503599627370496)"
  by code_simp

lemma lit_0_8 [f64_lit]: "to_f64 (4 / 5) = Fin (3602879701896397 / 4503599627370496)"
  by code_simp

lemma lit_0_85 [f64_lit]: "to_f64 (17 / 20) = Fin (7656119366529843 / 9007199254740992)"
  by code_simp

lemma lit_0_9 [f64_lit]: "to_f64 (9 / 10) = Fin (8106479329266893 / 9007199254740992)"
  by code_simp

lemma lit_0_95 [f64_lit]: "to_f64 (19 / 20) = Fin (4278419646001971 / 4503599627370496)"
  by code_simp

lemma lit_0_000001 [f64_lit]: "to_f64 (1 / 1000000) = Fin (4722366482869645 / 4722366482869645213696)"
  by code_simp

end
