(* ===== verification/Runtime_Config.thy ===== *)
theory Runtime_Config
  imports Float64
begin

text \<open>
  The runtime configuration of internal/config/runtime.go: the records as the file declares
  them, the defaults, the clamps and the validation \<open>LoadRuntimeConfig\<close> runs, and the
  resolution of the cap rules. Reading and decoding a file is a parameter: the decoded value
  or the failure. The theorems show that whatever is loaded satisfies \<open>wf_runtime_config\<close>
  and that loading is stable under a second pass of the clamps.
\<close>

section \<open>The records\<close>

record PoolSafetyVector =
  CriticalServiceSpotConcentration :: f64
  MinPDBSlackIfOneNodeLost :: f64
  MinPDBSlackIfTwoNodesLost :: f64
  StatefulPodFraction :: f64
  RestartP95Seconds :: f64
  RecoveryBudgetViolationRisk :: f64
  SpareODHeadroomNodes :: f64
  ZoneDiversificationScore :: f64
  EvictablePodFraction :: f64
  SafeMaxSpotRatio :: f64

record SpotRatioCapRule =
  Threshold :: f64
  RuleMaxSpotRatio :: f64

record FeatureBuckets =
  Source :: string
  PodStartupTimeSeconds :: "f64 list"
  OutagePenaltyHoursBuckets :: "f64 list"
  PriorityScoreBuckets :: "f64 list"
  ClusterUtilizationBuckets :: "f64 list"

record DeterministicPolicyConfig =
  EmergencyRiskThreshold :: f64
  RuntimeEmergencyThreshold :: f64
  HighRiskThreshold :: f64
  MediumRiskThreshold :: f64
  MinSavingsRatioForIncrease :: f64
  MaxPaybackHoursForIncrease :: f64
  OODMode :: string
  OODMaxRiskForIncrease :: f64
  OODMinSavingsRatioForIncrease :: f64
  OODMaxPaybackHoursForIncrease :: f64
  TargetSpotRatioDriftAlpha :: "f64 option"
  PriorityCapRules :: "SpotRatioCapRule list"
  OutagePenaltyCapRules :: "SpotRatioCapRule list"
  StartupTimeCapRules :: "SpotRatioCapRule list"
  MigrationCostCapRules :: "SpotRatioCapRule list"
  UtilizationCapRules :: "SpotRatioCapRule list"
  FeatureBuckets :: FeatureBuckets

record RuntimeConfig =
  RiskMultiplier :: f64
  MinSpotRatio :: f64
  MaxSpotRatio :: f64
  TargetSpotRatio :: f64
  StepMinutes :: int
  PolicyMode :: string
  RLShadowEnabled :: "bool option"
  DeterministicPolicy :: DeterministicPolicyConfig

definition PolicyModeRL :: string where "PolicyModeRL = ''rl''"
definition PolicyModeDeterministic :: string where "PolicyModeDeterministic = ''deterministic''"
definition defaultTargetSpotRatioDriftAlpha :: f64 where
  "defaultTargetSpotRatioDriftAlpha = to_f64 (1 / 10)"

section \<open>Clamping and the pool-safety vector\<close>

definition clampFloat :: "f64 \<Rightarrow> f64 \<Rightarrow> f64 \<Rightarrow> f64" where
  "clampFloat v lo hi = (if v < lo then lo else if hi < v then hi else v)"

definition DefaultPoolSafetyVector :: PoolSafetyVector where
  "DefaultPoolSafetyVector = \<lparr>
     CriticalServiceSpotConcentration = Fin 0,
     MinPDBSlackIfOneNodeLost = Fin 0,
     MinPDBSlackIfTwoNodesLost = Fin 0,
     StatefulPodFraction = Fin 0,
     RestartP95Seconds = Fin 300,
     RecoveryBudgetViolationRisk = Fin 0,
     SpareODHeadroomNodes = Fin 0,
     ZoneDiversificationScore = Fin 1,
     EvictablePodFraction = Fin 1,
     SafeMaxSpotRatio = Fin 1\<rparr>"

definition NormalizePoolSafetyVector :: "PoolSafetyVector \<Rightarrow> PoolSafetyVector" where
  "NormalizePoolSafetyVector v = v\<lparr>
     CriticalServiceSpotConcentration := clampFloat (CriticalServiceSpotConcentration v) (Fin 0) (Fin 1),
     StatefulPodFraction := clampFloat (StatefulPodFraction v) (Fin 0) (Fin 1),
     RestartP95Seconds := (if RestartP95Seconds v < Fin 0 then Fin 0 else RestartP95Seconds v),
     RecoveryBudgetViolationRisk := clampFloat (RecoveryBudgetViolationRisk v) (Fin 0) (Fin 1),
     SpareODHeadroomNodes := (if SpareODHeadroomNodes v < Fin 0 then Fin 0 else SpareODHeadroomNodes v),
     ZoneDiversificationScore := clampFloat (ZoneDiversificationScore v) (Fin 0) (Fin 1),
     EvictablePodFraction := clampFloat (EvictablePodFraction v) (Fin 0) (Fin 1),
     SafeMaxSpotRatio := clampFloat (SafeMaxSpotRatio v) (Fin 0) (Fin 1)\<rparr>"

definition IsZero :: "PoolSafetyVector \<Rightarrow> bool" where
  "IsZero v \<longleftrightarrow>
     feq (CriticalServiceSpotConcentration v) (Fin 0) \<and>
     feq (MinPDBSlackIfOneNodeLost v) (Fin 0) \<and>
     feq (MinPDBSlackIfTwoNodesLost v) (Fin 0) \<and>
     feq (StatefulPodFraction v) (Fin 0) \<and>
     feq (RestartP95Seconds v) (Fin 0) \<and>
     feq (RecoveryBudgetViolationRisk v) (Fin 0) \<and>
     feq (SpareODHeadroomNodes v) (Fin 0) \<and>
     feq (ZoneDiversificationScore v) (Fin 0) \<and>
     feq (EvictablePodFraction v) (Fin 0) \<and>
     feq (SafeMaxSpotRatio v) (Fin 0)"

section \<open>Cap rules\<close>

definition capRule :: "f64 \<Rightarrow> f64 \<Rightarrow> SpotRatioCapRule" where
  "capRule t m = \<lparr>Threshold = t, RuleMaxSpotRatio = m\<rparr>"

definition defaultPriorityCapRules :: "SpotRatioCapRule list" where
  "defaultPriorityCapRules =
     [capRule (to_f64 (9 / 10)) (to_f64 (1 / 5)),
      capRule (to_f64 (7 / 10)) (Fin (1 / 2)),
      capRule (to_f64 (9 / 20)) (to_f64 (4 / 5))]"

definition defaultOutagePenaltyCapRules :: "SpotRatioCapRule list" where
  "defaultOutagePenaltyCapRules =
     [capRule (Fin 96) (to_f64 (1 / 10)),
      capRule (Fin 48) (to_f64 (1 / 5)),
      capRule (Fin 24) (to_f64 (3 / 10)),
      capRule (Fin 10) (Fin (1 / 2))]"

definition defaultStartupTimeCapRules :: "SpotRatioCapRule list" where
  "defaultStartupTimeCapRules =
     [capRule (Fin 600) (to_f64 (1 / 5)),
      capRule (Fin 300) (to_f64 (3 / 10)),
      capRule (Fin 120) (Fin (1 / 2))]"

definition defaultMigrationCostCapRules :: "SpotRatioCapRule list" where
  "defaultMigrationCostCapRules =
     [capRule (Fin 8) (to_f64 (1 / 5)),
      capRule (Fin 5) (to_f64 (3 / 10)),
      capRule (Fin 2) (to_f64 (3 / 5))]"

definition defaultUtilizationCapRules :: "SpotRatioCapRule list" where
  "defaultUtilizationCapRules = [capRule (to_f64 (19 / 20)) (to_f64 (7 / 10))]"

definition capRuleLess :: "SpotRatioCapRule \<Rightarrow> SpotRatioCapRule \<Rightarrow> bool" where
  "capRuleLess a b =
     (if feq (Threshold a) (Threshold b) then RuleMaxSpotRatio a < RuleMaxSpotRatio b
      else Threshold b < Threshold a)"

definition normalizeCapRule :: "bool \<Rightarrow> SpotRatioCapRule \<Rightarrow> SpotRatioCapRule" where
  "normalizeCapRule clampThresholdToUnit rule =
     (let threshold = Threshold rule;
          threshold = (if threshold < Fin 0 then Fin 0 else threshold);
          threshold = (if clampThresholdToUnit then clampFloat threshold (Fin 0) (Fin 1) else threshold)
      in capRule threshold (clampFloat (RuleMaxSpotRatio rule) (Fin 0) (Fin 1)))"

definition normalizeCapRules :: "SpotRatioCapRule list \<Rightarrow> bool \<Rightarrow> SpotRatioCapRule list" where
  "normalizeCapRules rules clampThresholdToUnit =
     (if rules = [] then []
      else SliceStable capRuleLess (map (normalizeCapRule clampThresholdToUnit) rules))"

definition cloneCapRules :: "SpotRatioCapRule list \<Rightarrow> SpotRatioCapRule list" where
  "cloneCapRules rules = rules"

definition resolvedCapRules ::
  "SpotRatioCapRule list \<Rightarrow> SpotRatioCapRule list \<Rightarrow> bool \<Rightarrow> SpotRatioCapRule list" where
  "resolvedCapRules configured fallback clampThresholdToUnit =
     (if configured = [] then cloneCapRules fallback
      else normalizeCapRules configured clampThresholdToUnit)"

definition ResolvedPriorityCapRules :: "DeterministicPolicyConfig \<Rightarrow> SpotRatioCapRule list" where
  "ResolvedPriorityCapRules p = resolvedCapRules (PriorityCapRules p) defaultPriorityCapRules True"

definition ResolvedOutagePenaltyCapRules :: "DeterministicPolicyConfig \<Rightarrow> SpotRatioCapRule list" where
  "ResolvedOutagePenaltyCapRules p =
     resolvedCapRules (OutagePenaltyCapRules p) defaultOutagePenaltyCapRules False"

definition ResolvedStartupTimeCapRules :: "DeterministicPolicyConfig \<Rightarrow> SpotRatioCapRule list" where
  "ResolvedStartupTimeCapRules p =
     resolvedCapRules (StartupTimeCapRules p) defaultStartupTimeCapRules False"

definition ResolvedMigrationCostCapRules :: "DeterministicPolicyConfig \<Rightarrow> SpotRatioCapRule list" where
  "ResolvedMigrationCostCapRules p =
     resolvedCapRules (MigrationCostCapRules p) defaultMigrationCostCapRules False"

definition ResolvedUtilizationCapRules :: "DeterministicPolicyConfig \<Rightarrow> SpotRatioCapRule list" where
  "ResolvedUtilizationCapRules p =
     resolvedCapRules (UtilizationCapRules p) defaultUtilizationCapRules True"

definition ResolvedTargetSpotRatioDriftAlpha :: "DeterministicPolicyConfig \<Rightarrow> f64" where
  "ResolvedTargetSpotRatioDriftAlpha p =
     (case TargetSpotRatioDriftAlpha p of
        None \<Rightarrow> defaultTargetSpotRatioDriftAlpha
      | Some a \<Rightarrow> clampFloat a (Fin 0) (Fin 1))"

section \<open>Feature buckets\<close>

text \<open>\<open>sort.Float64s\<close> puts NaN first and is otherwise the numerical order.\<close>

definition float64Less :: "f64 \<Rightarrow> f64 \<Rightarrow> bool" where
  "float64Less x y \<longleftrightarrow> x < y \<or> (x = NaN \<and> y \<noteq> NaN)"

definition normalizeBoundaries :: "f64 list \<Rightarrow> f64 list" where
  "normalizeBoundaries values =
     uniq_adj feq (SliceStable float64Less (map (\<lambda>v. if v < Fin 0 then Fin 0 else v) values))"

definition buckets_empty :: "FeatureBuckets \<Rightarrow> bool" where
  "buckets_empty b \<longleftrightarrow>
     PodStartupTimeSeconds b = [] \<and> OutagePenaltyHoursBuckets b = [] \<and>
     PriorityScoreBuckets b = [] \<and> ClusterUtilizationBuckets b = []"

definition defaultFeatureBuckets :: FeatureBuckets where
  "defaultFeatureBuckets = \<lparr>
     Source = ''default'',
     PodStartupTimeSeconds = [Fin 0, Fin 60, Fin 120, Fin 300, Fin 600, Fin 1200],
     OutagePenaltyHoursBuckets = [Fin 0, Fin 1, Fin 4, Fin 10, Fin 24, Fin 48, Fin 96],
     PriorityScoreBuckets = [Fin 0, Fin (1 / 4), Fin (1 / 2), Fin (3 / 4), Fin 1],
     ClusterUtilizationBuckets =
       [Fin 0, Fin (1 / 2), to_f64 (7 / 10), to_f64 (17 / 20), to_f64 (19 / 20), Fin 1]\<rparr>"

record bounds5 =
  b_min :: f64
  b_p05 :: f64
  b_p50 :: f64
  b_p95 :: f64
  b_max :: f64

record workloadDistributionConfig =
  wd_PodStartupTime :: bounds5
  wd_OutagePenaltyHours :: bounds5
  wd_ClusterUtilizationTypical :: bounds5

definition bounds_list :: "bounds5 \<Rightarrow> f64 list" where
  "bounds_list b = [b_min b, b_p05 b, b_p50 b, b_p95 b, b_max b]"

text \<open>
  The file system and the YAML decoder are the parameter \<open>files\<close>: the decoded file at a
  path, or \<open>None\<close> when it cannot be read or decoded.
\<close>

type_synonym yaml_files = "string \<Rightarrow> workloadDistributionConfig option"

datatype bucket_error = Unreadable | MissingBounds

definition loadFeatureBucketsFromWorkloadDistribution ::
  "yaml_files \<Rightarrow> string \<Rightarrow> bucket_error + FeatureBuckets" where
  "loadFeatureBucketsFromWorkloadDistribution files path =
     (case files path of
        None \<Rightarrow> Inl Unreadable
      | Some cfg \<Rightarrow>
          let b = \<lparr>Source = path,
                   PodStartupTimeSeconds = normalizeBoundaries (bounds_list (wd_PodStartupTime cfg)),
                   OutagePenaltyHoursBuckets = normalizeBoundaries (bounds_list (wd_OutagePenaltyHours cfg)),
                   PriorityScoreBuckets =
                     normalizeBoundaries [Fin 0, Fin (1 / 4), Fin (1 / 2), Fin (3 / 4), Fin 1],
                   ClusterUtilizationBuckets =
                     normalizeBoundaries (bounds_list (wd_ClusterUtilizationTypical cfg))\<rparr>
          in if buckets_empty b then Inl MissingBounds else Inr b)"

section \<open>Defaults, clamps, validation\<close>

definition if_zero :: "f64 \<Rightarrow> f64 \<Rightarrow> f64" where
  "if_zero v d = (if feq v (Fin 0) then d else v)"

definition defaultBuckets :: "yaml_files \<Rightarrow> FeatureBuckets \<Rightarrow> FeatureBuckets" where
  "defaultBuckets files fb =
     (let fb = (if Source fb = [] then fb\<lparr>Source := ''config/workload_distributions.yaml''\<rparr> else fb);
          fb = (if buckets_empty fb
                then (case loadFeatureBucketsFromWorkloadDistribution files (Source fb) of
                        Inr fromFile \<Rightarrow>
                          if \<not> buckets_empty fromFile
                          then fromFile\<lparr>Source := ''config/workload_distributions.yaml''\<rparr> else fb
                      | Inl _ \<Rightarrow> fb)
                else fb)
      in if buckets_empty fb then defaultFeatureBuckets else fb)"

definition applyPolicyDefaults ::
  "yaml_files \<Rightarrow> DeterministicPolicyConfig \<Rightarrow> DeterministicPolicyConfig" where
  "applyPolicyDefaults files dp = dp\<lparr>
     EmergencyRiskThreshold := if_zero (EmergencyRiskThreshold dp) (to_f64 (9 / 10)),
     RuntimeEmergencyThreshold := if_zero (RuntimeEmergencyThreshold dp) (to_f64 (4 / 5)),
     HighRiskThreshold := if_zero (HighRiskThreshold dp) (to_f64 (3 / 5)),
     MediumRiskThreshold := if_zero (MediumRiskThreshold dp) (to_f64 (7 / 20)),
     MinSavingsRatioForIncrease := if_zero (MinSavingsRatioForIncrease dp) (to_f64 (3 / 20)),
     MaxPaybackHoursForIncrease := if_zero (MaxPaybackHoursForIncrease dp) (Fin 6),
     OODMode := (if TrimSpace (OODMode dp) = [] then ''conservative'' else OODMode dp),
     OODMaxRiskForIncrease := if_zero (OODMaxRiskForIncrease dp) (Fin (1 / 4)),
     OODMinSavingsRatioForIncrease := if_zero (OODMinSavingsRatioForIncrease dp) (Fin (1 / 4)),
     OODMaxPaybackHoursForIncrease := if_zero (OODMaxPaybackHoursForIncrease dp) (Fin 3),
     TargetSpotRatioDriftAlpha :=
       (case TargetSpotRatioDriftAlpha dp of None \<Rightarrow> Some defaultTargetSpotRatioDriftAlpha | Some a \<Rightarrow> Some a),
     PriorityCapRules := (if PriorityCapRules dp = [] then defaultPriorityCapRules else PriorityCapRules dp),
     OutagePenaltyCapRules :=
       (if OutagePenaltyCapRules dp = [] then defaultOutagePenaltyCapRules else OutagePenaltyCapRules dp),
     StartupTimeCapRules :=
       (if StartupTimeCapRules dp = [] then defaultStartupTimeCapRules else StartupTimeCapRules dp),
     MigrationCostCapRules :=
       (if MigrationCostCapRules dp = [] then defaultMigrationCostCapRules else MigrationCostCapRules dp),
     UtilizationCapRules :=
       (if UtilizationCapRules dp = [] then defaultUtilizationCapRules else UtilizationCapRules dp),
     FeatureBuckets := defaultBuckets files (FeatureBuckets dp)\<rparr>"

definition applyRuntimeDefaults :: "yaml_files \<Rightarrow> RuntimeConfig \<Rightarrow> RuntimeConfig" where
  "applyRuntimeDefaults files cfg =
     (let mode = TrimSpace (ToLower (PolicyMode cfg))
      in cfg\<lparr>
        RiskMultiplier := if_zero (RiskMultiplier cfg) (Fin 1),
        MaxSpotRatio := if_zero (MaxSpotRatio cfg) (Fin 1),
        StepMinutes := (if StepMinutes cfg \<le> 0 then 10 else StepMinutes cfg),
        PolicyMode := (if mode = [] then PolicyModeDeterministic else mode),
        DeterministicPolicy := applyPolicyDefaults files (DeterministicPolicy cfg)\<rparr>)"

definition clampBuckets :: "FeatureBuckets \<Rightarrow> FeatureBuckets" where
  "clampBuckets fb =
     (let fb = fb\<lparr>
        PodStartupTimeSeconds := normalizeBoundaries (PodStartupTimeSeconds fb),
        OutagePenaltyHoursBuckets := normalizeBoundaries (OutagePenaltyHoursBuckets fb),
        PriorityScoreBuckets := normalizeBoundaries (PriorityScoreBuckets fb),
        ClusterUtilizationBuckets := normalizeBoundaries (ClusterUtilizationBuckets fb)\<rparr>
      in if length (PodStartupTimeSeconds fb) < 2 \<or> length (OutagePenaltyHoursBuckets fb) < 2 \<or>
            length (PriorityScoreBuckets fb) < 2 \<or> length (ClusterUtilizationBuckets fb) < 2
         then defaultFeatureBuckets else fb)"

definition applyPolicyClamps :: "DeterministicPolicyConfig \<Rightarrow> DeterministicPolicyConfig" where
  "applyPolicyClamps dp =
     (let emergency = clampFloat (EmergencyRiskThreshold dp) (Fin 0) (Fin 1);
          high = clampFloat (HighRiskThreshold dp) (Fin 0) (Fin 1);
          medium = clampFloat (MediumRiskThreshold dp) (Fin 0) (Fin 1);
          high = (if emergency < high then emergency else high);
          medium = (if high < medium then high else medium);
          mode = ToLower (TrimSpace (OODMode dp))
      in dp\<lparr>
        EmergencyRiskThreshold := emergency,
        RuntimeEmergencyThreshold := clampFloat (RuntimeEmergencyThreshold dp) (Fin 0) (Fin 1),
        HighRiskThreshold := high,
        MediumRiskThreshold := medium,
        MinSavingsRatioForIncrease := clampFloat (MinSavingsRatioForIncrease dp) (Fin 0) (Fin 1),
        MaxPaybackHoursForIncrease :=
          clampFloat (MaxPaybackHoursForIncrease dp) (to_f64 (1 / 10)) (Fin 168),
        OODMode := (if mode = [] then ''conservative'' else mode),
        OODMaxRiskForIncrease := clampFloat (OODMaxRiskForIncrease dp) (Fin 0) (Fin 1),
        OODMinSavingsRatioForIncrease := clampFloat (OODMinSavingsRatioForIncrease dp) (Fin 0) (Fin 1),
        OODMaxPaybackHoursForIncrease :=
          clampFloat (OODMaxPaybackHoursForIncrease dp) (to_f64 (1 / 10)) (Fin 168),
        TargetSpotRatioDriftAlpha := Some (ResolvedTargetSpotRatioDriftAlpha dp),
        PriorityCapRules := ResolvedPriorityCapRules dp,
        OutagePenaltyCapRules := ResolvedOutagePenaltyCapRules dp,
        StartupTimeCapRules := ResolvedStartupTimeCapRules dp,
        MigrationCostCapRules := ResolvedMigrationCostCapRules dp,
        UtilizationCapRules := ResolvedUtilizationCapRules dp,
        FeatureBuckets := clampBuckets (FeatureBuckets dp)\<rparr>)"

definition clampMode :: "string \<Rightarrow> string" where
  "clampMode mode =
     (let m = ToLower (TrimSpace mode) in
      if m = PolicyModeDeterministic then PolicyModeDeterministic
      else if m = PolicyModeRL then PolicyModeRL else PolicyModeDeterministic)"

definition applyRuntimeClamps :: "RuntimeConfig \<Rightarrow> RuntimeConfig" where
  "applyRuntimeClamps cfg =
     (let risk = (if RiskMultiplier cfg < to_f64 (1 / 10) then to_f64 (1 / 10) else RiskMultiplier cfg);
          risk = (if Fin 10 < risk then Fin 10 else risk);
          max0 = if_zero (MaxSpotRatio cfg) (Fin 1);
          min1 = clampFloat (MinSpotRatio cfg) (Fin 0) (Fin 1);
          max1 = clampFloat max0 (Fin 0) (Fin 1);
          target = clampFloat (TargetSpotRatio cfg) (Fin 0) (Fin 1);
          min2 = (if max1 < min1 then max1 else min1);
          target = (if target < min2 then min2 else target);
          target = (if max1 < target then max1 else target);
          step = (if StepMinutes cfg < 1 then 1 else StepMinutes cfg);
          step = (if 120 < step then 120 else step)
      in cfg\<lparr>
        RiskMultiplier := risk,
        MinSpotRatio := min2,
        MaxSpotRatio := max1,
        TargetSpotRatio := target,
        StepMinutes := step,
        PolicyMode := clampMode (PolicyMode cfg),
        DeterministicPolicy := applyPolicyClamps (DeterministicPolicy cfg)\<rparr>)"

definition ClampSpotRatio :: "RuntimeConfig \<Rightarrow> f64 \<Rightarrow> f64" where
  "ClampSpotRatio c ratio = clampFloat ratio (MinSpotRatio c) (MaxSpotRatio c)"

text \<open>A nil pointer is \<open>None\<close>.\<close>

definition UseDeterministicPolicy :: "RuntimeConfig option \<Rightarrow> bool" where
  "UseDeterministicPolicy c =
     (case c of None \<Rightarrow> False | Some c \<Rightarrow> EqualFold (PolicyMode c) PolicyModeDeterministic)"

definition UseRLShadow :: "RuntimeConfig option \<Rightarrow> bool" where
  "UseRLShadow c =
     (case c of None \<Rightarrow> False
      | Some cfg \<Rightarrow>
          if \<not> UseDeterministicPolicy c then False
          else case RLShadowEnabled cfg of None \<Rightarrow> True | Some b \<Rightarrow> b)"

datatype config_error = ReadFailed | ParseFailed | ShadowNeedsDeterministic

definition validateRuntimeConfig :: "RuntimeConfig option \<Rightarrow> config_error option" where
  "validateRuntimeConfig c =
     (case c of None \<Rightarrow> None
      | Some cfg \<Rightarrow>
          if EqualFold (PolicyMode cfg) PolicyModeRL \<and> RLShadowEnabled cfg = Some True
          then Some ShadowNeedsDeterministic else None)"

definition zero_config :: RuntimeConfig where
  "zero_config = \<lparr>RiskMultiplier = Fin 0, MinSpotRatio = Fin 0, MaxSpotRatio = Fin 0,
     TargetSpotRatio = Fin 0, StepMinutes = 0, PolicyMode = [], RLShadowEnabled = None,
     DeterministicPolicy = \<lparr>
       EmergencyRiskThreshold = Fin 0, RuntimeEmergencyThreshold = Fin 0,
       HighRiskThreshold = Fin 0, MediumRiskThreshold = Fin 0,
       MinSavingsRatioForIncrease = Fin 0, MaxPaybackHoursForIncrease = Fin 0,
       OODMode = [], OODMaxRiskForIncrease = Fin 0, OODMinSavingsRatioForIncrease = Fin 0,
       OODMaxPaybackHoursForIncrease = Fin 0, TargetSpotRatioDriftAlpha = None,
       PriorityCapRules = [], OutagePenaltyCapRules = [], StartupTimeCapRules = [],
       MigrationCostCapRules = [], UtilizationCapRules = [],
       FeatureBuckets = \<lparr>Source = [], PodStartupTimeSeconds = [], OutagePenaltyHoursBuckets = [],
         PriorityScoreBuckets = [], ClusterUtilizationBuckets = []\<rparr>\<rparr>\<rparr>"

definition DefaultRuntimeConfig :: "yaml_files \<Rightarrow> RuntimeConfig" where
  "DefaultRuntimeConfig files = applyRuntimeClamps (applyRuntimeDefaults files zero_config)"

text \<open>The parameter \<open>decoded\<close> is what reading and decoding the file at the path gives.\<close>

definition LoadRuntimeConfig ::
  "yaml_files \<Rightarrow> config_error + RuntimeConfig \<Rightarrow> config_error + RuntimeConfig" where
  "LoadRuntimeConfig files decoded =
     (case decoded of
        Inl e \<Rightarrow> Inl e
      | Inr raw \<Rightarrow>
          let cfg = applyRuntimeClamps (applyRuntimeDefaults files raw)
          in case validateRuntimeConfig (Some cfg) of Some e \<Rightarrow> Inl e | None \<Rightarrow> Inr cfg)"

section \<open>Well-formedness\<close>

definition unit01 :: "f64 \<Rightarrow> bool" where
  "unit01 x \<longleftrightarrow> Fin 0 \<le> x \<and> x \<le> Fin 1"

definition wf_cap_rules :: "SpotRatioCapRule list \<Rightarrow> bool" where
  "wf_cap_rules rules \<longleftrightarrow> rules \<noteq> [] \<and>
     (\<forall>r \<in> set rules. Fin 0 \<le> Threshold r \<and> unit01 (RuleMaxSpotRatio r)) \<and>
     sorted_wrt (\<lambda>a b. \<not> capRuleLess b a) rules"

definition wf_boundaries :: "f64 list \<Rightarrow> bool" where
  "wf_boundaries xs \<longleftrightarrow> 2 \<le> length xs \<and> sorted_wrt (<) xs \<and> (\<forall>x \<in> set xs. Fin 0 \<le> x)"

definition wf_buckets :: "FeatureBuckets \<Rightarrow> bool" where
  "wf_buckets fb \<longleftrightarrow>
     wf_boundaries (PodStartupTimeSeconds fb) \<and> wf_boundaries (OutagePenaltyHoursBuckets fb) \<and>
     wf_boundaries (PriorityScoreBuckets fb) \<and> wf_boundaries (ClusterUtilizationBuckets fb)"

definition wf_risk_bands :: "DeterministicPolicyConfig \<Rightarrow> bool" where
  "wf_risk_bands dp \<longleftrightarrow>
     Fin 0 \<le> MediumRiskThreshold dp \<and> MediumRiskThreshold dp \<le> HighRiskThreshold dp \<and>
     HighRiskThreshold dp \<le> EmergencyRiskThreshold dp \<and> EmergencyRiskThreshold dp \<le> Fin 1 \<and>
     unit01 (RuntimeEmergencyThreshold dp)"

definition wf_policy :: "DeterministicPolicyConfig \<Rightarrow> bool" where
  "wf_policy dp \<longleftrightarrow> wf_risk_bands dp \<and>
     unit01 (MinSavingsRatioForIncrease dp) \<and> unit01 (OODMaxRiskForIncrease dp) \<and>
     unit01 (OODMinSavingsRatioForIncrease dp) \<and>
     to_f64 (1 / 10) \<le> MaxPaybackHoursForIncrease dp \<and> MaxPaybackHoursForIncrease dp \<le> Fin 168 \<and>
     to_f64 (1 / 10) \<le> OODMaxPaybackHoursForIncrease dp \<and> OODMaxPaybackHoursForIncrease dp \<le> Fin 168 \<and>
     OODMode dp \<noteq> [] \<and> unit01 (ResolvedTargetSpotRatioDriftAlpha dp) \<and>
     wf_cap_rules (PriorityCapRules dp) \<and> wf_cap_rules (OutagePenaltyCapRules dp) \<and>
     wf_cap_rules (StartupTimeCapRules dp) \<and> wf_cap_rules (MigrationCostCapRules dp) \<and>
     wf_cap_rules (UtilizationCapRules dp) \<and> wf_buckets (FeatureBuckets dp)"

definition wf_ratios :: "RuntimeConfig \<Rightarrow> bool" where
  "wf_ratios c \<longleftrightarrow> Fin 0 \<le> MinSpotRatio c \<and> MinSpotRatio c \<le> TargetSpotRatio c \<and>
     TargetSpotRatio c \<le> MaxSpotRatio c \<and> MaxSpotRatio c \<le> Fin 1"

definition wf_runtime_config :: "RuntimeConfig \<Rightarrow> bool" where
  "wf_runtime_config c \<longleftrightarrow> wf_ratios c \<and>
     to_f64 (1 / 10) \<le> RiskMultiplier c \<and> RiskMultiplier c \<le> Fin 10 \<and>
     1 \<le> StepMinutes c \<and> StepMinutes c \<le> 120 \<and>
     PolicyMode c \<in> {PolicyModeDeterministic, PolicyModeRL} \<and> wf_policy (DeterministicPolicy c)"

text \<open>A decoded JSON or YAML number is never NaN; these predicates say so of a record.\<close>

definition nan_free_rules :: "SpotRatioCapRule list \<Rightarrow> bool" where
  "nan_free_rules rules \<longleftrightarrow> (\<forall>r \<in> set rules. Threshold r \<noteq> NaN \<and> RuleMaxSpotRatio r \<noteq> NaN)"

definition nan_free_buckets :: "FeatureBuckets \<Rightarrow> bool" where
  "nan_free_buckets fb \<longleftrightarrow>
     NaN \<notin> set (PodStartupTimeSeconds fb) \<union> set (OutagePenaltyHoursBuckets fb) \<union>
       set (PriorityScoreBuckets fb) \<union> set (ClusterUtilizationBuckets fb)"

definition nan_free_policy :: "DeterministicPolicyConfig \<Rightarrow> bool" where
  "nan_free_policy dp \<longleftrightarrow>
     EmergencyRiskThreshold dp \<noteq> NaN \<and> RuntimeEmergencyThreshold dp \<noteq> NaN \<and>
     HighRiskThreshold dp \<noteq> NaN \<and> MediumRiskThreshold dp \<noteq> NaN \<and>
     MinSavingsRatioForIncrease dp \<noteq> NaN \<and> MaxPaybackHoursForIncrease dp \<noteq> NaN \<and>
     OODMaxRiskForIncrease dp \<noteq> NaN \<and> OODMinSavingsRatioForIncrease dp \<noteq> NaN \<and>
     OODMaxPaybackHoursForIncrease dp \<noteq> NaN \<and> TargetSpotRatioDriftAlpha dp \<noteq> Some NaN \<and>
     nan_free_rules (PriorityCapRules dp) \<and> nan_free_rules (OutagePenaltyCapRules dp) \<and>
     nan_free_rules (StartupTimeCapRules dp) \<and> nan_free_rules (MigrationCostCapRules dp) \<and>
     nan_free_rules (UtilizationCapRules dp) \<and> nan_free_buckets (FeatureBuckets dp)"

definition nan_free_config :: "RuntimeConfig \<Rightarrow> bool" where
  "nan_free_config c \<longleftrightarrow>
     RiskMultiplier c \<noteq> NaN \<and> MinSpotRatio c \<noteq> NaN \<and> MaxSpotRatio c \<noteq> NaN \<and>
     TargetSpotRatio c \<noteq> NaN \<and> nan_free_policy (DeterministicPolicy c)"

definition nan_free_files :: "yaml_files \<Rightarrow> bool" where
  "nan_free_files files \<longleftrightarrow> (\<forall>path cfg. files path = Some cfg \<longrightarrow>
     NaN \<notin> set (bounds_list (wd_PodStartupTime cfg)) \<union> set (bounds_list (wd_OutagePenaltyHours cfg)) \<union>
       set (bounds_list (wd_ClusterUtilizationTypical cfg)))"

section \<open>Clamping\<close>

lemma clampFloat_ge: "v \<noteq> NaN \<Longrightarrow> lo \<le> hi \<Longrightarrow> lo \<le> clampFloat v lo hi"
  by (cases v; cases lo; cases hi) (auto simp: clampFloat_def)

lemma clampFloat_le: "v \<noteq> NaN \<Longrightarrow> lo \<le> hi \<Longrightarrow> clampFloat v lo hi \<le> hi"
  by (cases v; cases lo; cases hi) (auto simp: clampFloat_def)

lemma clampFloat_id: "lo \<le> v \<Longrightarrow> v \<le> hi \<Longrightarrow> clampFloat v lo hi = v"
  by (cases v; cases lo; cases hi) (auto simp: clampFloat_def)

lemma clampFloat_NaN [simp]: "clampFloat NaN lo hi = NaN"
  by (simp add: clampFloat_def)

lemma clampFloat_not_NaN: "v \<noteq> NaN \<Longrightarrow> lo \<noteq> NaN \<Longrightarrow> hi \<noteq> NaN \<Longrightarrow> clampFloat v lo hi \<noteq> NaN"
  by (simp add: clampFloat_def)

lemma clampFloat_mono:
  "lo \<le> hi \<Longrightarrow> v \<le> w \<Longrightarrow> clampFloat v lo hi \<le> clampFloat w lo hi"
  by (cases v; cases w; cases lo; cases hi) (auto simp: clampFloat_def)

lemma unit01_clamp [simp]: "v \<noteq> NaN \<Longrightarrow> unit01 (clampFloat v (Fin 0) (Fin 1))"
  by (simp add: unit01_def clampFloat_ge clampFloat_le)

lemma unit01_clamp_id: "unit01 v \<Longrightarrow> clampFloat v (Fin 0) (Fin 1) = v"
  by (simp add: unit01_def clampFloat_id)

lemma unit01_not_NaN: "unit01 x \<Longrightarrow> x \<noteq> NaN"
  by (auto simp: unit01_def)

lemma if_zero_not_NaN: "v \<noteq> NaN \<Longrightarrow> d \<noteq> NaN \<Longrightarrow> if_zero v d \<noteq> NaN"
  by (simp add: if_zero_def)

section \<open>Cap rules are sorted and bounded\<close>

interpretation capRules: strict_weak capRuleLess "{r. Threshold r \<noteq> NaN \<and> RuleMaxSpotRatio r \<noteq> NaN}"
proof
  fix x y
  assume "x \<in> {r. Threshold r \<noteq> NaN \<and> RuleMaxSpotRatio r \<noteq> NaN}"
    "y \<in> {r. Threshold r \<noteq> NaN \<and> RuleMaxSpotRatio r \<noteq> NaN}" "capRuleLess x y"
  then show "\<not> capRuleLess y x"
    by (auto simp: capRuleLess_def feq_iff f_not_less dest: f_less_imp_le f_antisym split: if_splits)
next
  fix x y z
  assume S: "x \<in> {r. Threshold r \<noteq> NaN \<and> RuleMaxSpotRatio r \<noteq> NaN}"
    "y \<in> {r. Threshold r \<noteq> NaN \<and> RuleMaxSpotRatio r \<noteq> NaN}"
    "z \<in> {r. Threshold r \<noteq> NaN \<and> RuleMaxSpotRatio r \<noteq> NaN}"
    and "\<not> capRuleLess x y" "\<not> capRuleLess y z"
  then show "\<not> capRuleLess x z"
    by (auto simp: capRuleLess_def feq_iff f_not_less dest: f_le_trans f_antisym split: if_splits)
qed

interpretation float64s: strict_weak float64Less UNIV
proof
  fix x y z :: f64
  show "float64Less x y \<Longrightarrow> \<not> float64Less y x"
    by (cases x; cases y) (auto simp: float64Less_def)
  show "\<not> float64Less x y \<Longrightarrow> \<not> float64Less y z \<Longrightarrow> \<not> float64Less x z"
    by (cases x; cases y; cases z) (auto simp: float64Less_def)
qed

lemma normalizeCapRule_bounds:
  assumes "Threshold r \<noteq> NaN" "RuleMaxSpotRatio r \<noteq> NaN"
  shows "Fin 0 \<le> Threshold (normalizeCapRule u r)" "unit01 (RuleMaxSpotRatio (normalizeCapRule u r))"
  using assms
  by (auto simp: normalizeCapRule_def capRule_def Let_def f_not_less intro: clampFloat_ge)

lemma wf_normalizeCapRules:
  assumes "rules \<noteq> []" "nan_free_rules rules"
  shows "wf_cap_rules (normalizeCapRules rules u)"
proof -
  let ?rs = "map (normalizeCapRule u) rules"
  have b: "\<forall>r \<in> set ?rs. Fin 0 \<le> Threshold r \<and> unit01 (RuleMaxSpotRatio r)"
    using assms(2) normalizeCapRule_bounds by (auto simp: nan_free_rules_def)
  then have "set ?rs \<subseteq> {r. Threshold r \<noteq> NaN \<and> RuleMaxSpotRatio r \<noteq> NaN}"
    using f_leD unit01_not_NaN by blast
  then have "sorted_wrt (\<lambda>a b. \<not> capRuleLess b a) (SliceStable capRuleLess ?rs)"
    by (rule capRules.sorted_SliceStable)
  with assms b show ?thesis
    by (simp add: wf_cap_rules_def normalizeCapRules_def)
qed

lemma normalizeCapRule_id:
  assumes "Fin 0 \<le> Threshold r" "u \<longrightarrow> Threshold r \<le> Fin 1" "unit01 (RuleMaxSpotRatio r)"
  shows "normalizeCapRule u r = r"
  using assms f_less_not_le [of "Threshold r" "Fin 0"]
  by (auto simp: normalizeCapRule_def capRule_def Let_def unit01_clamp_id clampFloat_id)

lemma normalizeCapRules_id:
  assumes "wf_cap_rules rules" "u \<longrightarrow> (\<forall>r \<in> set rules. Threshold r \<le> Fin 1)"
  shows "normalizeCapRules rules u = rules"
proof -
  have "map (normalizeCapRule u) rules = rules"
    using assms by (intro map_idI) (auto simp: wf_cap_rules_def intro: normalizeCapRule_id)
  with assms show ?thesis
    by (simp add: normalizeCapRules_def wf_cap_rules_def capRules.SliceStable_sorted)
qed

lemma normalizeCapRules_unit_thresholds:
  assumes "nan_free_rules rules"
  shows "\<forall>r \<in> set (normalizeCapRules rules True). Threshold r \<le> Fin 1"
  using assms
  by (auto simp: normalizeCapRules_def nan_free_rules_def normalizeCapRule_def capRule_def Let_def
      intro: clampFloat_le)

lemmas default_rules_defs = defaultPriorityCapRules_def defaultOutagePenaltyCapRules_def
  defaultStartupTimeCapRules_def defaultMigrationCostCapRules_def defaultUtilizationCapRules_def

lemma wf_default_rules [wf_intros]:
  "wf_cap_rules defaultPriorityCapRules" "wf_cap_rules defaultOutagePenaltyCapRules"
  "wf_cap_rules defaultStartupTimeCapRules" "wf_cap_rules defaultMigrationCostCapRules"
  "wf_cap_rules defaultUtilizationCapRules"
  by (simp_all add: wf_cap_rules_def default_rules_defs capRule_def capRuleLess_def unit01_def f64_lit)

lemma wf_resolvedCapRules:
  "nan_free_rules rules \<Longrightarrow> wf_cap_rules fallback \<Longrightarrow> wf_cap_rules (resolvedCapRules rules fallback u)"
  by (simp add: resolvedCapRules_def cloneCapRules_def wf_normalizeCapRules)

lemmas resolved_rules_defs = ResolvedPriorityCapRules_def ResolvedOutagePenaltyCapRules_def
  ResolvedStartupTimeCapRules_def ResolvedMigrationCostCapRules_def ResolvedUtilizationCapRules_def

section \<open>Boundaries are strictly increasing\<close>

lemma uniq_adj_strict:
  assumes "sorted_wrt (\<le>) xs" "NaN \<notin> set xs"
  shows "sorted_wrt (<) (uniq_adj feq xs)"
  using assms
proof (induction feq xs rule: uniq_adj.induct)
  case (3 x y ys)
  show ?case
  proof (cases "feq y x")
    case True
    with 3 show ?thesis by simp
  next
    case False
    with 3 have "x < y"
      using f_not_less [of x y] f_antisym [of x y] by (auto simp: feq_iff)
    with 3 False have "\<forall>z \<in> set (uniq_adj feq (y # ys)). x < z"
      using set_uniq_adj_subset [of feq "y # ys"] f_less_le_trans [of x y] by auto
    with 3 False show ?thesis by simp
  qed
qed simp_all

lemma normalizeBoundaries_props:
  assumes "NaN \<notin> set xs"
  shows "sorted_wrt (<) (normalizeBoundaries xs)" "\<forall>x \<in> set (normalizeBoundaries xs). Fin 0 \<le> x"
    "NaN \<notin> set (normalizeBoundaries xs)"
proof -
  let ?ys = "map (\<lambda>v. if v < Fin 0 then Fin 0 else v) xs"
  let ?zs = "SliceStable float64Less ?ys"
  have nn: "\<forall>x \<in> set ?ys. Fin 0 \<le> x"
    using assms f_not_less [of _ "Fin 0"] by fastforce
  then have nan: "NaN \<notin> set ?zs"
    by (auto dest: f_leD)
  have "sorted_wrt (\<lambda>a b. \<not> float64Less b a) ?zs"
    by (rule float64s.sorted_SliceStable) simp
  moreover have "x \<le> y" if "x \<in> set ?zs" "y \<in> set ?zs" "\<not> float64Less y x" for x y
    using that nan by (metis float64Less_def f_not_less)
  ultimately have "sorted_wrt (\<le>) ?zs"
    by (rule sorted_wrt_mono_rel [rotated])
  then show "sorted_wrt (<) (normalizeBoundaries xs)"
    unfolding normalizeBoundaries_def using nan by (rule uniq_adj_strict)
  show "\<forall>x \<in> set (normalizeBoundaries xs). Fin 0 \<le> x"
    using nn set_uniq_adj_subset [of feq ?zs] unfolding normalizeBoundaries_def by auto
  then show "NaN \<notin> set (normalizeBoundaries xs)"
    by (auto dest: f_leD)
qed

lemma uniq_adj_id: "sorted_wrt (<) xs \<Longrightarrow> uniq_adj feq xs = (xs :: f64 list)"
  by (induction feq xs rule: uniq_adj.induct) (auto simp: feq_iff)

lemma normalizeBoundaries_id:
  assumes "wf_boundaries xs"
  shows "normalizeBoundaries xs = xs"
proof -
  have "map (\<lambda>v. if v < Fin 0 then Fin 0 else v) xs = xs"
    using assms by (intro map_idI) (auto simp: wf_boundaries_def dest: f_less_not_le)
  moreover have "sorted_wrt (\<lambda>a b. \<not> float64Less b a) xs"
    using assms unfolding wf_boundaries_def
    by (auto elim!: sorted_wrt_mono_rel [rotated] simp: float64Less_def dest: f_less_imp_le f_less_not_le)
  ultimately show ?thesis
    using assms by (simp add: normalizeBoundaries_def float64s.SliceStable_sorted uniq_adj_id wf_boundaries_def)
qed

lemma wf_defaultFeatureBuckets [wf_intros]: "wf_buckets defaultFeatureBuckets"
  by (simp add: wf_buckets_def wf_boundaries_def defaultFeatureBuckets_def f64_lit)

lemma nan_free_defaultFeatureBuckets: "nan_free_buckets defaultFeatureBuckets"
  by (simp add: nan_free_buckets_def defaultFeatureBuckets_def)

lemma wf_clampBuckets: "nan_free_buckets fb \<Longrightarrow> wf_buckets (clampBuckets fb)"
  using wf_defaultFeatureBuckets
  by (auto simp: clampBuckets_def Let_def nan_free_buckets_def wf_buckets_def wf_boundaries_def
      normalizeBoundaries_props)

lemma clampBuckets_id: "wf_buckets fb \<Longrightarrow> clampBuckets fb = fb"
  by (simp add: clampBuckets_def Let_def wf_buckets_def normalizeBoundaries_id)
    (auto simp: wf_boundaries_def)

lemma normalizeBoundaries_Nil_iff [simp]: "normalizeBoundaries xs = [] \<longleftrightarrow> xs = []"
  by (simp add: normalizeBoundaries_def)

lemma nan_free_loaded:
  assumes "nan_free_files files" "loadFeatureBucketsFromWorkloadDistribution files path = Inr fb"
  shows "nan_free_buckets fb"
proof -
  obtain cfg where "files path = Some cfg"
    using assms(2) by (auto simp: loadFeatureBucketsFromWorkloadDistribution_def split: option.splits)
  with assms show ?thesis
    unfolding nan_free_files_def loadFeatureBucketsFromWorkloadDistribution_def
    by (force simp: Let_def nan_free_buckets_def normalizeBoundaries_props split: if_splits)
qed

lemma nan_free_defaultBuckets:
  assumes "nan_free_files files" "nan_free_buckets fb"
  shows "nan_free_buckets (defaultBuckets files fb)"
  using assms nan_free_loaded [OF assms(1)] nan_free_defaultFeatureBuckets
  by (auto simp: defaultBuckets_def Let_def nan_free_buckets_def split: sum.splits)

section \<open>Loading gives a well-formed configuration\<close>

lemma wf_default_rules_nan_free: "wf_cap_rules rules \<Longrightarrow> nan_free_rules rules"
  by (auto simp: wf_cap_rules_def nan_free_rules_def unit01_def)

lemma nan_free_applyPolicyDefaults:
  assumes "nan_free_files files" "nan_free_policy dp"
  shows "nan_free_policy (applyPolicyDefaults files dp)"
  using assms wf_default_rules [THEN wf_default_rules_nan_free] nan_free_defaultBuckets [OF assms(1)]
  by (auto simp: nan_free_policy_def applyPolicyDefaults_def if_zero_not_NaN
      defaultTargetSpotRatioDriftAlpha_def split: option.splits)

lemma nan_free_applyRuntimeDefaults:
  "nan_free_files files \<Longrightarrow> nan_free_config cfg \<Longrightarrow> nan_free_config (applyRuntimeDefaults files cfg)"
  by (simp add: nan_free_config_def applyRuntimeDefaults_def Let_def if_zero_not_NaN
      nan_free_applyPolicyDefaults)

lemma unit01_drift_alpha: "nan_free_policy dp \<Longrightarrow> unit01 (ResolvedTargetSpotRatioDriftAlpha dp)"
  by (auto simp: ResolvedTargetSpotRatioDriftAlpha_def defaultTargetSpotRatioDriftAlpha_def
      nan_free_policy_def unit01_def f64_lit clampFloat_ge clampFloat_le split: option.splits)

lemma wf_risk_bands_clamped: "nan_free_policy dp \<Longrightarrow> wf_risk_bands (applyPolicyClamps dp)"
  by (auto simp: wf_risk_bands_def applyPolicyClamps_def Let_def nan_free_policy_def
      clampFloat_ge clampFloat_le clampFloat_not_NaN f_not_less unit01_def intro: f_less_imp_le)

lemma applyPolicyClamps_fields:
  "RuntimeEmergencyThreshold (applyPolicyClamps dp) = clampFloat (RuntimeEmergencyThreshold dp) (Fin 0) (Fin 1)"
  "MinSavingsRatioForIncrease (applyPolicyClamps dp) = clampFloat (MinSavingsRatioForIncrease dp) (Fin 0) (Fin 1)"
  "MaxPaybackHoursForIncrease (applyPolicyClamps dp) =
     clampFloat (MaxPaybackHoursForIncrease dp) (to_f64 (1 / 10)) (Fin 168)"
  "OODMode (applyPolicyClamps dp) =
     (if TrimSpace (OODMode dp) = [] then ''conservative'' else ToLower (TrimSpace (OODMode dp)))"
  "OODMaxRiskForIncrease (applyPolicyClamps dp) = clampFloat (OODMaxRiskForIncrease dp) (Fin 0) (Fin 1)"
  "OODMinSavingsRatioForIncrease (applyPolicyClamps dp) =
     clampFloat (OODMinSavingsRatioForIncrease dp) (Fin 0) (Fin 1)"
  "OODMaxPaybackHoursForIncrease (applyPolicyClamps dp) =
     clampFloat (OODMaxPaybackHoursForIncrease dp) (to_f64 (1 / 10)) (Fin 168)"
  "TargetSpotRatioDriftAlpha (applyPolicyClamps dp) = Some (ResolvedTargetSpotRatioDriftAlpha dp)"
  "PriorityCapRules (applyPolicyClamps dp) = ResolvedPriorityCapRules dp"
  "OutagePenaltyCapRules (applyPolicyClamps dp) = ResolvedOutagePenaltyCapRules dp"
  "StartupTimeCapRules (applyPolicyClamps dp) = ResolvedStartupTimeCapRules dp"
  "MigrationCostCapRules (applyPolicyClamps dp) = ResolvedMigrationCostCapRules dp"
  "UtilizationCapRules (applyPolicyClamps dp) = ResolvedUtilizationCapRules dp"
  "FeatureBuckets (applyPolicyClamps dp) = clampBuckets (FeatureBuckets dp)"
  by (simp_all add: applyPolicyClamps_def Let_def)

lemma resolved_drift_alpha_clamped:
  "ResolvedTargetSpotRatioDriftAlpha (applyPolicyClamps dp) =
     clampFloat (ResolvedTargetSpotRatioDriftAlpha dp) (Fin 0) (Fin 1)"
  by (simp add: ResolvedTargetSpotRatioDriftAlpha_def [of "applyPolicyClamps dp"] applyPolicyClamps_fields)

lemma lit_0_1_le_168: "to_f64 (1 / 10) \<le> Fin 168"
  by (simp add: f64_lit)

lemma wf_policy_clamped:
  assumes "nan_free_policy dp"
  shows "wf_policy (applyPolicyClamps dp)"
proof -
  have rules: "wf_cap_rules (ResolvedPriorityCapRules dp)" "wf_cap_rules (ResolvedOutagePenaltyCapRules dp)"
    "wf_cap_rules (ResolvedStartupTimeCapRules dp)" "wf_cap_rules (ResolvedMigrationCostCapRules dp)"
    "wf_cap_rules (ResolvedUtilizationCapRules dp)"
    using assms by (simp_all add: resolved_rules_defs nan_free_policy_def wf_resolvedCapRules wf_intros)
  have alpha: "unit01 (ResolvedTargetSpotRatioDriftAlpha (applyPolicyClamps dp))"
    using unit01_drift_alpha [OF assms] by (simp add: resolved_drift_alpha_clamped unit01_clamp_id)
  show ?thesis
    using wf_risk_bands_clamped [OF assms] rules alpha assms
    by (simp add: wf_policy_def applyPolicyClamps_fields nan_free_policy_def wf_clampBuckets
        clampFloat_ge [OF _ lit_0_1_le_168] clampFloat_le [OF _ lit_0_1_le_168])
qed

lemma clampMode_cases: "clampMode m \<in> {PolicyModeDeterministic, PolicyModeRL}"
  by (simp add: clampMode_def Let_def)

lemma wf_ratios_clamped: "nan_free_config cfg \<Longrightarrow> wf_ratios (applyRuntimeClamps cfg)"
  by (auto simp: wf_ratios_def applyRuntimeClamps_def Let_def nan_free_config_def
      clampFloat_ge clampFloat_le clampFloat_not_NaN if_zero_not_NaN f_not_less intro: f_less_imp_le)

lemma wf_risk_multiplier:
  "v \<noteq> NaN \<Longrightarrow> (let r = (if v < to_f64 (1 / 10) then to_f64 (1 / 10) else v);
     r = (if Fin 10 < r then Fin 10 else r) in to_f64 (1 / 10) \<le> r \<and> r \<le> Fin 10)"
  by (cases v) (auto simp: Let_def f64_lit)

lemma wf_applyRuntimeClamps:
  assumes "nan_free_config cfg"
  shows "wf_runtime_config (applyRuntimeClamps cfg)"
  using assms wf_ratios_clamped [OF assms] wf_risk_multiplier [of "RiskMultiplier cfg"] clampMode_cases
  by (simp add: wf_runtime_config_def applyRuntimeClamps_def Let_def nan_free_config_def wf_policy_clamped)

section \<open>The clamps are a fixed point after loading\<close>

lemma resolvedCapRules_idem:
  assumes "nan_free_rules rules" "wf_cap_rules fallback"
    and "u \<longrightarrow> (\<forall>r \<in> set fallback. Threshold r \<le> Fin 1)"
  shows "resolvedCapRules (resolvedCapRules rules fallback u) fallback u = resolvedCapRules rules fallback u"
proof -
  let ?r = "resolvedCapRules rules fallback u"
  have wf: "wf_cap_rules ?r" using assms by (simp add: wf_resolvedCapRules)
  have "u \<longrightarrow> (\<forall>r \<in> set ?r. Threshold r \<le> Fin 1)"
    using assms normalizeCapRules_unit_thresholds by (simp add: resolvedCapRules_def cloneCapRules_def)
  with wf have "normalizeCapRules ?r u = ?r" by (rule normalizeCapRules_id)
  with wf show ?thesis
    by (simp add: resolvedCapRules_def [of ?r] wf_cap_rules_def)
qed

lemma default_unit_thresholds:
  "\<forall>r \<in> set defaultPriorityCapRules. Threshold r \<le> Fin 1"
  "\<forall>r \<in> set defaultUtilizationCapRules. Threshold r \<le> Fin 1"
  by (simp_all add: default_rules_defs capRule_def f64_lit)

lemma OODMode_clamped_stable:
  "ToLower (TrimSpace (OODMode (applyPolicyClamps dp))) = OODMode (applyPolicyClamps dp)"
proof -
  have "ToLower (TrimSpace ''conservative'') = ''conservative''" by code_simp
  then show ?thesis
    by (simp add: applyPolicyClamps_fields TrimSpace_ToLower)
qed

lemma risk_bands_id:
  "wf_risk_bands dp \<Longrightarrow>
     clampFloat (EmergencyRiskThreshold dp) (Fin 0) (Fin 1) = EmergencyRiskThreshold dp \<and>
     clampFloat (HighRiskThreshold dp) (Fin 0) (Fin 1) = HighRiskThreshold dp \<and>
     clampFloat (MediumRiskThreshold dp) (Fin 0) (Fin 1) = MediumRiskThreshold dp \<and>
     \<not> EmergencyRiskThreshold dp < HighRiskThreshold dp \<and>
     \<not> HighRiskThreshold dp < MediumRiskThreshold dp"
  unfolding wf_risk_bands_def
  by (meson clampFloat_id f_le_trans f_less_not_le)

lemma applyPolicyClamps_idem:
  assumes "nan_free_policy dp"
  shows "applyPolicyClamps (applyPolicyClamps dp) = applyPolicyClamps dp"
proof (rule DeterministicPolicyConfig.equality)
  let ?d = "applyPolicyClamps dp"
  have wf: "wf_policy ?d" using assms by (rule wf_policy_clamped)
  then have bands: "wf_risk_bands ?d" by (simp add: wf_policy_def)
  note rb = risk_bands_id [OF bands]
  show "EmergencyRiskThreshold (applyPolicyClamps ?d) = EmergencyRiskThreshold ?d"
    "HighRiskThreshold (applyPolicyClamps ?d) = HighRiskThreshold ?d"
    "MediumRiskThreshold (applyPolicyClamps ?d) = MediumRiskThreshold ?d"
    using rb by (simp_all add: applyPolicyClamps_def [of ?d] Let_def)
  show "RuntimeEmergencyThreshold (applyPolicyClamps ?d) = RuntimeEmergencyThreshold ?d"
    "MinSavingsRatioForIncrease (applyPolicyClamps ?d) = MinSavingsRatioForIncrease ?d"
    "MaxPaybackHoursForIncrease (applyPolicyClamps ?d) = MaxPaybackHoursForIncrease ?d"
    "OODMaxRiskForIncrease (applyPolicyClamps ?d) = OODMaxRiskForIncrease ?d"
    "OODMinSavingsRatioForIncrease (applyPolicyClamps ?d) = OODMinSavingsRatioForIncrease ?d"
    "OODMaxPaybackHoursForIncrease (applyPolicyClamps ?d) = OODMaxPaybackHoursForIncrease ?d"
    using wf by (simp_all add: applyPolicyClamps_fields(1-3,5-7) [of ?d] wf_policy_def wf_risk_bands_def
        unit01_clamp_id clampFloat_id)
  show "OODMode (applyPolicyClamps ?d) = OODMode ?d"
    using OODMode_clamped_stable [of dp] wf
    by (auto simp: applyPolicyClamps_fields(4) [of ?d] wf_policy_def)
  show "TargetSpotRatioDriftAlpha (applyPolicyClamps ?d) = TargetSpotRatioDriftAlpha ?d"
    using unit01_drift_alpha [OF assms]
    by (simp add: applyPolicyClamps_fields(8) resolved_drift_alpha_clamped unit01_clamp_id)
  show "PriorityCapRules (applyPolicyClamps ?d) = PriorityCapRules ?d"
    "OutagePenaltyCapRules (applyPolicyClamps ?d) = OutagePenaltyCapRules ?d"
    "StartupTimeCapRules (applyPolicyClamps ?d) = StartupTimeCapRules ?d"
    "MigrationCostCapRules (applyPolicyClamps ?d) = MigrationCostCapRules ?d"
    "UtilizationCapRules (applyPolicyClamps ?d) = UtilizationCapRules ?d"
    using assms default_unit_thresholds
    by (simp_all add: applyPolicyClamps_fields resolved_rules_defs nan_free_policy_def
        resolvedCapRules_idem wf_default_rules)
  show "FeatureBuckets (applyPolicyClamps ?d) = FeatureBuckets ?d"
    using assms
    by (simp add: applyPolicyClamps_fields nan_free_policy_def clampBuckets_id wf_clampBuckets)
qed simp_all

lemma clampMode_idem: "clampMode (clampMode m) = clampMode m"
proof -
  have "ToLower (TrimSpace PolicyModeDeterministic) = PolicyModeDeterministic"
    "ToLower (TrimSpace PolicyModeRL) = PolicyModeRL"
    by code_simp+
  then show ?thesis using clampMode_cases [of m] by (auto simp: clampMode_def [of "clampMode m"])
qed

lemma applyRuntimeClamps_fields:
  "StepMinutes (applyRuntimeClamps c) = (if StepMinutes c < 1 then 1 else if 120 < StepMinutes c then 120 else StepMinutes c)"
  "PolicyMode (applyRuntimeClamps c) = clampMode (PolicyMode c)"
  "MaxSpotRatio (applyRuntimeClamps c) = clampFloat (if_zero (MaxSpotRatio c) (Fin 1)) (Fin 0) (Fin 1)"
  "RLShadowEnabled (applyRuntimeClamps c) = RLShadowEnabled c"
  "DeterministicPolicy (applyRuntimeClamps c) = applyPolicyClamps (DeterministicPolicy c)"
  by (simp_all add: applyRuntimeClamps_def Let_def)

lemma applyRuntimeClamps_id:
  assumes wf: "wf_runtime_config c" and nz: "MaxSpotRatio c \<noteq> Fin 0"
    and mode: "clampMode (PolicyMode c) = PolicyMode c"
    and dp: "applyPolicyClamps (DeterministicPolicy c) = DeterministicPolicy c"
  shows "applyRuntimeClamps c = c"
proof -
  have r: "Fin 0 \<le> MinSpotRatio c" "MinSpotRatio c \<le> TargetSpotRatio c"
    "TargetSpotRatio c \<le> MaxSpotRatio c" "MaxSpotRatio c \<le> Fin 1"
    using wf by (simp_all add: wf_runtime_config_def wf_ratios_def)
  have ids: "clampFloat (MinSpotRatio c) (Fin 0) (Fin 1) = MinSpotRatio c"
    "clampFloat (MaxSpotRatio c) (Fin 0) (Fin 1) = MaxSpotRatio c"
    "clampFloat (TargetSpotRatio c) (Fin 0) (Fin 1) = TargetSpotRatio c"
    "if_zero (MaxSpotRatio c) (Fin 1) = MaxSpotRatio c"
    using r nz by (meson clampFloat_id f_le_trans)+ (simp add: if_zero_def feq_iff nz)
  have nl: "\<not> MaxSpotRatio c < MinSpotRatio c" "\<not> TargetSpotRatio c < MinSpotRatio c"
    "\<not> MaxSpotRatio c < TargetSpotRatio c"
    "\<not> RiskMultiplier c < to_f64 (1 / 10)" "\<not> Fin 10 < RiskMultiplier c"
    using r wf unfolding wf_runtime_config_def by (meson f_le_trans f_less_not_le)+
  show ?thesis
    using wf mode dp ids nl
    by (intro RuntimeConfig.equality)
      (simp_all add: applyRuntimeClamps_def Let_def wf_runtime_config_def)
qed


lemma nan_free_zero_config: "nan_free_config zero_config"
  by (simp add: nan_free_config_def nan_free_policy_def nan_free_rules_def nan_free_buckets_def zero_config_def)


text \<open>
  A second pass of \<open>applyRuntimeClamps\<close> changes nothing, unless the
  decoded \<open>max_spot_ratio\<close> was negative (it is clamped to 0, and 0 means unset).
\<close>

lemma applyRuntimeClamps_idem:
  assumes nf: "nan_free_config cfg" and pos: "\<not> MaxSpotRatio cfg < Fin 0"
  shows "applyRuntimeClamps (applyRuntimeClamps cfg) = applyRuntimeClamps cfg"
proof (rule applyRuntimeClamps_id)
  show "wf_runtime_config (applyRuntimeClamps cfg)" using nf by (rule wf_applyRuntimeClamps)
  show "MaxSpotRatio (applyRuntimeClamps cfg) \<noteq> Fin 0"
    using nf pos by (cases "MaxSpotRatio cfg")
      (auto simp: applyRuntimeClamps_fields if_zero_def feq_iff clampFloat_def nan_free_config_def)
qed (use nf in \<open>simp_all add: applyRuntimeClamps_fields clampMode_idem applyPolicyClamps_idem nan_free_config_def\<close>)

text \<open>
  \<open>LoadRuntimeConfig\<close> fails exactly when the file does not decode, or when it
  asks for RL shadowing while the normalised policy mode is RL; every other file loads.
\<close>

lemma LoadRuntimeConfig_error_iff:
  "LoadRuntimeConfig files decoded = Inl e \<longleftrightarrow>
     decoded = Inl e \<or>
     (\<exists>raw. decoded = Inr raw \<and> e = ShadowNeedsDeterministic \<and>
        ToLower (TrimSpace (PolicyMode raw)) = PolicyModeRL \<and> RLShadowEnabled raw = Some True)"
proof (cases decoded)
  case (Inr raw)
  have "EqualFold (clampMode m) PolicyModeRL \<longleftrightarrow> ToLower (TrimSpace m) = PolicyModeRL" for m
  proof -
    have "\<not> EqualFold PolicyModeDeterministic PolicyModeRL" "EqualFold PolicyModeRL PolicyModeRL"
      "PolicyModeDeterministic \<noteq> PolicyModeRL"
      by code_simp+
    then show ?thesis by (auto simp: clampMode_def Let_def)
  qed
  moreover have "ToLower (TrimSpace (if TrimSpace (ToLower m) = [] then PolicyModeDeterministic
      else TrimSpace (ToLower m))) = PolicyModeRL \<longleftrightarrow> ToLower (TrimSpace m) = PolicyModeRL" for m
  proof -
    have "ToLower (TrimSpace PolicyModeDeterministic) \<noteq> PolicyModeRL" "PolicyModeRL \<noteq> []"
      by code_simp+
    then show ?thesis by (auto simp: TrimSpace_ToLower)
  qed
  ultimately show ?thesis
    using Inr
    by (auto simp: LoadRuntimeConfig_def validateRuntimeConfig_def applyRuntimeClamps_fields
        applyRuntimeDefaults_def Let_def)
qed (simp add: LoadRuntimeConfig_def)

end
