(* ===== verification/Policy.thy ===== *)
theory Policy
  imports Runtime_Config
begin

text \<open>
  The deterministic policy of internal/controller/policy_deterministic.go, on the node state
  and the actions of internal/inference. \<open>Evaluate\<close> keeps the order of the source's early
  returns. The theorems give its safety (when it may grow Spot, what NaN risk does), its
  bands, its caps and the bounds of every value it reports.
\<close>

section \<open>Actions and node state of package inference\<close>

text \<open>
  \<open>Action\<close> is an int in the source; a value outside the six constants (a model with more
  outputs) is \<open>ActionUnknown\<close>.
\<close>

datatype Action = ActionHold | ActionDecrease10 | ActionDecrease30 | ActionIncrease10
  | ActionIncrease30 | ActionEmergencyExit | ActionUnknown int

definition Action_of_int :: "int \<Rightarrow> Action" where
  "Action_of_int i =
     (if i = 0 then ActionHold else if i = 1 then ActionDecrease10
      else if i = 2 then ActionDecrease30 else if i = 3 then ActionIncrease10
      else if i = 4 then ActionIncrease30 else if i = 5 then ActionEmergencyExit
      else ActionUnknown i)"

record NodeState =
  ns_SpotPrice :: f64
  ns_OnDemandPrice :: f64
  ns_PriceHistory :: "f64 list"
  ns_CPUUsage :: f64
  ns_MemoryUsage :: f64
  ns_PodStartupTime :: f64
  ns_OutagePenaltyHours :: f64
  ns_MigrationCost :: f64
  ns_PriorityScore :: f64
  ns_ClusterUtilization :: f64
  ns_TimeSinceMigration :: int
  ns_RuntimeScore :: f64
  ns_IsSpot :: bool
  ns_CurrentSpotRatio :: f64
  ns_TargetSpotRatio :: f64
  ns_PoolSafety :: PoolSafetyVector
  ns_Hour :: int
  ns_Weekday :: int

section \<open>The evaluator\<close>

datatype PolicyResponseMode = ResponseModeNone | ResponseModeAllowGrowth | ResponseModeHold
  | ResponseModeFreezeSpot | ResponseModeReduceSpotGradual | ResponseModeReduceSpotFast
  | ResponseModeEmergencyExit

datatype PolicyUrgency = PolicyUrgencyNone | PolicyUrgencyLow | PolicyUrgencyMedium
  | PolicyUrgencyHigh | PolicyUrgencyCritical

record deterministicDecision =
  Reason :: string
  ResponseMode :: PolicyResponseMode
  Urgency :: PolicyUrgency
  CompositeRisk :: f64
  FeatureCap :: f64
  WorkloadCap :: f64
  EffectiveCap :: f64
  DecisionPoolSafety :: PoolSafetyVector
  IsOOD :: bool
  OODReasons :: "string list"

record PolicyEvaluator =
  pe_cfg :: RuntimeConfig
  pe_PriorityCapRules :: "SpotRatioCapRule list"
  pe_OutageCapRules :: "SpotRatioCapRule list"
  pe_StartupCapRules :: "SpotRatioCapRule list"
  pe_MigrationCapRules :: "SpotRatioCapRule list"
  pe_UtilizationCapRules :: "SpotRatioCapRule list"

text \<open>\<open>files\<close> is the bucket file \<open>DefaultRuntimeConfig\<close> may read when no configuration is given.\<close>

definition NewPolicyEvaluator :: "yaml_files \<Rightarrow> RuntimeConfig option \<Rightarrow> PolicyEvaluator" where
  "NewPolicyEvaluator files runtimeCfg =
     (let cfg = (case runtimeCfg of None \<Rightarrow> DefaultRuntimeConfig files | Some c \<Rightarrow> c);
          dp = DeterministicPolicy cfg
      in \<lparr>pe_cfg = cfg,
          pe_PriorityCapRules = ResolvedPriorityCapRules dp,
          pe_OutageCapRules = ResolvedOutagePenaltyCapRules dp,
          pe_StartupCapRules = ResolvedStartupTimeCapRules dp,
          pe_MigrationCapRules = ResolvedMigrationCostCapRules dp,
          pe_UtilizationCapRules = ResolvedUtilizationCapRules dp\<rparr>)"

definition clampRange :: "f64 \<Rightarrow> f64 \<Rightarrow> f64 \<Rightarrow> f64" where
  "clampRange v lo hi = (if v < lo then lo else if hi < v then hi else v)"

definition clamp01 :: "f64 \<Rightarrow> f64" where
  "clamp01 v = clampRange v (Fin 0) (Fin 1)"

fun applyCapRules :: "f64 \<Rightarrow> f64 \<Rightarrow> SpotRatioCapRule list \<Rightarrow> f64" where
  "applyCapRules value currentCap [] = currentCap"
| "applyCapRules value currentCap (rule # rules) =
     (if Threshold rule \<le> value then math_Min currentCap (RuleMaxSpotRatio rule)
      else applyCapRules value currentCap rules)"

definition outOfRange :: "f64 \<Rightarrow> f64 list \<Rightarrow> bool" where
  "outOfRange value boundaries =
     (if length boundaries < 2 then False
      else value < hd boundaries \<or> last boundaries < value)"

definition detectOOD :: "NodeState \<Rightarrow> FeatureBuckets \<Rightarrow> bool \<times> string list" where
  "detectOOD state buckets =
     (let reasons =
        (if outOfRange (ns_PodStartupTime state) (PodStartupTimeSeconds buckets)
         then [''pod_startup_time''] else []) @
        (if outOfRange (ns_OutagePenaltyHours state) (OutagePenaltyHoursBuckets buckets)
         then [''outage_penalty_hours''] else []) @
        (if outOfRange (ns_PriorityScore state) (PriorityScoreBuckets buckets)
         then [''priority_score''] else []) @
        (if outOfRange (ns_ClusterUtilization state) (ClusterUtilizationBuckets buckets)
         then [''cluster_utilization''] else [])
      in (0 < length reasons, reasons))"

definition computeFeatureSpotCap :: "PolicyEvaluator \<Rightarrow> NodeState \<Rightarrow> f64" where
  "computeFeatureSpotCap p state =
     (let cap = Fin 1;
          cap = applyCapRules (ns_PriorityScore state) cap (pe_PriorityCapRules p);
          cap = applyCapRules (ns_OutagePenaltyHours state) cap (pe_OutageCapRules p);
          cap = applyCapRules (ns_PodStartupTime state) cap (pe_StartupCapRules p);
          cap = applyCapRules (ns_MigrationCost state) cap (pe_MigrationCapRules p);
          cap = applyCapRules (ns_ClusterUtilization state) cap (pe_UtilizationCapRules p)
      in clamp01 cap)"

definition resolvePoolSafetyVector :: "PoolSafetyVector \<Rightarrow> PoolSafetyVector" where
  "resolvePoolSafetyVector v =
     (if IsZero v then DefaultPoolSafetyVector else NormalizePoolSafetyVector v)"

definition resolveWorkloadSurface :: "PolicyEvaluator \<Rightarrow> NodeState \<Rightarrow> f64 \<times> f64 \<times> PoolSafetyVector" where
  "resolveWorkloadSurface p state =
     (let featureCap = computeFeatureSpotCap p state;
          poolSafety = resolvePoolSafetyVector (ns_PoolSafety state);
          workloadCap = math_Min featureCap (SafeMaxSpotRatio poolSafety)
      in (clamp01 workloadCap, featureCap, poolSafety))"

definition computeWorkloadSpotCap :: "PolicyEvaluator \<Rightarrow> NodeState \<Rightarrow> f64" where
  "computeWorkloadSpotCap p state = fst (resolveWorkloadSurface p state)"

definition canIncreaseSpot :: "NodeState \<Rightarrow> f64 \<Rightarrow> f64 \<Rightarrow> f64 \<Rightarrow> f64 \<Rightarrow> bool" where
  "canIncreaseSpot state compositeRisk maxRisk minSavingsRatio maxPaybackHours =
     (if ns_OnDemandPrice state \<le> Fin 0 then False
      else let delta = math_Max (Fin 0) (ns_OnDemandPrice state - ns_SpotPrice state)
           in if delta \<le> Fin 0 then False
              else let savingsRatio = delta / math_Max (ns_OnDemandPrice state) (to_f64 (1 / 1000000));
                       paybackHours = ns_MigrationCost state / math_Max delta (to_f64 (1 / 1000000))
                   in compositeRisk \<le> maxRisk \<and> minSavingsRatio \<le> savingsRatio \<and>
                      paybackHours \<le> maxPaybackHours)"

definition Evaluate ::
  "PolicyEvaluator \<Rightarrow> NodeState \<Rightarrow> f64 \<Rightarrow> f64 \<Rightarrow> Action \<times> deterministicDecision" where
  "Evaluate p state capacityScore runtimeScore =
     (let dp = DeterministicPolicy (pe_cfg p);
          compositeRisk = math_Max capacityScore runtimeScore;
          (workloadCap, featureCap, poolSafety) = resolveWorkloadSurface p state;
          effectiveCap = clampRange workloadCap (MinSpotRatio (pe_cfg p)) (MaxSpotRatio (pe_cfg p));
          (isOOD, oodReasons) = detectOOD state (FeatureBuckets dp);
          decide = (\<lambda>action reason mode urgency. (action,
            \<lparr>Reason = reason, ResponseMode = mode, Urgency = urgency, CompositeRisk = compositeRisk,
             FeatureCap = featureCap, WorkloadCap = workloadCap, EffectiveCap = effectiveCap,
             DecisionPoolSafety = poolSafety, IsOOD = isOOD, OODReasons = oodReasons\<rparr>));
          overshoot = ns_CurrentSpotRatio state - effectiveCap
      in if EmergencyRiskThreshold dp \<le> compositeRisk \<or> RuntimeEmergencyThreshold dp \<le> runtimeScore
         then decide ActionEmergencyExit ''emergency_risk'' ResponseModeEmergencyExit PolicyUrgencyCritical
         else if HighRiskThreshold dp \<le> compositeRisk
         then decide ActionDecrease30 ''high_risk'' ResponseModeReduceSpotFast PolicyUrgencyHigh
         else if MediumRiskThreshold dp \<le> compositeRisk
         then decide ActionDecrease10 ''medium_risk'' ResponseModeReduceSpotGradual PolicyUrgencyMedium
         else if to_f64 (1 / 1000000) < overshoot
         then (if Fin (1 / 4) \<le> overshoot \<or> to_f64 (17 / 20) \<le> RecoveryBudgetViolationRisk poolSafety \<or>
                  MinPDBSlackIfOneNodeLost poolSafety < Fin 0
               then decide ActionDecrease30 ''pool_safety_reduce_fast'' ResponseModeReduceSpotFast PolicyUrgencyHigh
               else decide ActionDecrease10 ''pool_safety_reduce_gradual'' ResponseModeReduceSpotGradual PolicyUrgencyMedium)
         else if effectiveCap - to_f64 (1 / 1000000) \<le> ns_CurrentSpotRatio state
         then decide ActionHold ''cap_reached'' ResponseModeFreezeSpot PolicyUrgencyMedium
         else if to_f64 (3 / 5) \<le> RecoveryBudgetViolationRisk poolSafety
         then decide ActionHold ''pool_safety_freeze'' ResponseModeFreezeSpot PolicyUrgencyMedium
         else if isOOD \<and> EqualFold (OODMode dp) ''conservative''
         then (if canIncreaseSpot state compositeRisk (OODMaxRiskForIncrease dp)
                    (OODMinSavingsRatioForIncrease dp) (OODMaxPaybackHoursForIncrease dp)
               then decide ActionIncrease10 ''ood_conservative_increase10'' ResponseModeAllowGrowth PolicyUrgencyLow
               else decide ActionHold ''ood_conservative_hold'' ResponseModeHold PolicyUrgencyLow)
         else if canIncreaseSpot state compositeRisk (MediumRiskThreshold dp)
                    (MinSavingsRatioForIncrease dp) (MaxPaybackHoursForIncrease dp)
         then (if Fin (1 / 4) \<le> effectiveCap - ns_CurrentSpotRatio state
               then decide ActionIncrease30 ''economic_increase30'' ResponseModeAllowGrowth PolicyUrgencyLow
               else decide ActionIncrease10 ''economic_increase10'' ResponseModeAllowGrowth PolicyUrgencyLow)
         else decide ActionHold ''hold_no_edge'' ResponseModeHold PolicyUrgencyLow)"

definition evaluateDeterministicPolicy ::
  "yaml_files \<Rightarrow> NodeState \<Rightarrow> f64 \<Rightarrow> f64 \<Rightarrow> RuntimeConfig option \<Rightarrow> Action \<times> deterministicDecision" where
  "evaluateDeterministicPolicy files state capacityScore runtimeScore runtimeCfg =
     Evaluate (NewPolicyEvaluator files runtimeCfg) state capacityScore runtimeScore"

section \<open>Caps\<close>

lemma clampRange_eq: "clampRange = clampFloat"
  by (intro ext) (simp add: clampRange_def clampFloat_def)

definition effective_cap :: "PolicyEvaluator \<Rightarrow> NodeState \<Rightarrow> f64" where
  "effective_cap p state =
     clampRange (computeWorkloadSpotCap p state) (MinSpotRatio (pe_cfg p)) (MaxSpotRatio (pe_cfg p))"

definition wf_evaluator :: "PolicyEvaluator \<Rightarrow> bool" where
  "wf_evaluator p \<longleftrightarrow> wf_runtime_config (pe_cfg p) \<and>
     wf_cap_rules (pe_PriorityCapRules p) \<and> wf_cap_rules (pe_OutageCapRules p) \<and>
     wf_cap_rules (pe_StartupCapRules p) \<and> wf_cap_rules (pe_MigrationCapRules p) \<and>
     wf_cap_rules (pe_UtilizationCapRules p)"

lemma Evaluate_eq_fields:
  assumes "Evaluate p state cs rs = (a, d)"
  shows "CompositeRisk d = math_Max cs rs" "EffectiveCap d = effective_cap p state"
    "FeatureCap d = computeFeatureSpotCap p state" "WorkloadCap d = computeWorkloadSpotCap p state"
    "DecisionPoolSafety d = resolvePoolSafetyVector (ns_PoolSafety state)"
  using assms
  by (auto simp: Evaluate_def Let_def resolveWorkloadSurface_def computeWorkloadSpotCap_def
      effective_cap_def split: if_splits prod.splits)

lemma applyCapRules_le:
  assumes "cap \<noteq> NaN" "\<forall>r \<in> set rules. RuleMaxSpotRatio r \<noteq> NaN"
  shows "applyCapRules v cap rules \<le> cap"
  using assms by (induction rules) (auto simp: math_Min_le)

lemma unit01_math_Min: "unit01 x \<Longrightarrow> unit01 y \<Longrightarrow> unit01 (math_Min x y)"
  by (cases x; cases y) (auto simp: unit01_def math_Min_def)

lemma unit01_applyCapRules: "unit01 cap \<Longrightarrow> wf_cap_rules rules \<Longrightarrow> unit01 (applyCapRules v cap rules)"
proof -
  assume cap: "unit01 cap" and wf: "wf_cap_rules rules"
  have "\<forall>r \<in> set rules. unit01 (RuleMaxSpotRatio r)" using wf by (simp add: wf_cap_rules_def)
  then show ?thesis using cap by (induction rules) (auto intro: unit01_math_Min)
qed

lemma clamp01_id: "unit01 v \<Longrightarrow> clamp01 v = v"
  by (simp add: clamp01_def clampRange_eq unit01_clamp_id)

lemma unit01_Fin1 [simp]: "unit01 (Fin 1)" and unit01_Fin0 [simp]: "unit01 (Fin 0)"
  by (simp_all add: unit01_def)

lemma unit01_featureCap: "wf_evaluator p \<Longrightarrow> unit01 (computeFeatureSpotCap p state)"
  by (simp add: computeFeatureSpotCap_def Let_def wf_evaluator_def unit01_applyCapRules clamp01_id)

lemma unit01_SafeMax:
  "SafeMaxSpotRatio v \<noteq> NaN \<Longrightarrow> unit01 (SafeMaxSpotRatio (resolvePoolSafetyVector v))"
  by (simp add: resolvePoolSafetyVector_def DefaultPoolSafetyVector_def NormalizePoolSafetyVector_def)

lemma workload_cap_bounds:
  assumes "wf_evaluator p" "SafeMaxSpotRatio (ns_PoolSafety state) \<noteq> NaN"
  shows "unit01 (computeWorkloadSpotCap p state)"
    "computeWorkloadSpotCap p state \<le> computeFeatureSpotCap p state"
    "computeWorkloadSpotCap p state \<le> SafeMaxSpotRatio (resolvePoolSafetyVector (ns_PoolSafety state))"
proof -
  note u = unit01_featureCap [OF assms(1), of state] unit01_SafeMax [OF assms(2)]
  have "computeWorkloadSpotCap p state =
      math_Min (computeFeatureSpotCap p state) (SafeMaxSpotRatio (resolvePoolSafetyVector (ns_PoolSafety state)))"
    using u by (simp add: computeWorkloadSpotCap_def resolveWorkloadSurface_def Let_def clamp01_id unit01_math_Min)
  with u show "unit01 (computeWorkloadSpotCap p state)"
    "computeWorkloadSpotCap p state \<le> computeFeatureSpotCap p state"
    "computeWorkloadSpotCap p state \<le> SafeMaxSpotRatio (resolvePoolSafetyVector (ns_PoolSafety state))"
    using math_Min_le unit01_not_NaN by (auto intro: unit01_math_Min)
qed

lemma wf_NewPolicyEvaluator:
  assumes "wf_runtime_config c"
  shows "wf_evaluator (NewPolicyEvaluator files (Some c))"
proof -
  have "wf_policy (DeterministicPolicy c)" using assms by (simp add: wf_runtime_config_def)
  with assms show ?thesis
    by (simp add: wf_evaluator_def NewPolicyEvaluator_def Let_def wf_policy_def resolved_rules_defs
        wf_resolvedCapRules wf_default_rules wf_default_rules_nan_free)
qed

section \<open>Risk bands and economics\<close>

definition pol :: "PolicyEvaluator \<Rightarrow> DeterministicPolicyConfig" where
  "pol p = DeterministicPolicy (pe_cfg p)"

definition emergency_band :: "PolicyEvaluator \<Rightarrow> f64 \<Rightarrow> f64 \<Rightarrow> bool" where
  "emergency_band p cs rs \<longleftrightarrow>
     EmergencyRiskThreshold (pol p) \<le> math_Max cs rs \<or> RuntimeEmergencyThreshold (pol p) \<le> rs"

lemma f64_minus_pos: "Fin 0 < a - b \<Longrightarrow> b < a" for a b :: f64
proof (cases a; cases b)
  fix x y assume "Fin 0 < a - b" "a = Fin x" "b = Fin y"
  then have "\<not> x - y \<le> 0"
    using rnd64.rd_nonpos [of "x - y"] f_less_not_le [of "Fin 0"] by (auto simp: minus_f64_def)
  with \<open>a = Fin x\<close> \<open>b = Fin y\<close> show "b < a" by simp
qed (simp_all add: minus_f64_def)

lemma fdiv_NaN_right [simp]: "x / NaN = NaN" for x :: f64
  by (cases x) auto

lemma canIncreaseSpot_facts:
  assumes "canIncreaseSpot state risk maxRisk minS maxP"
  shows "risk \<le> maxRisk" "Fin 0 < ns_OnDemandPrice state" "ns_SpotPrice state < ns_OnDemandPrice state"
proof -
  let ?od = "ns_OnDemandPrice state" and ?d = "ns_OnDemandPrice state - ns_SpotPrice state"
  let ?delta = "math_Max (Fin 0) ?d"
  have h: "\<not> ?od \<le> Fin 0" "\<not> ?delta \<le> Fin 0" "risk \<le> maxRisk"
    "minS \<le> ?delta / math_Max ?od (to_f64 (1 / 1000000))"
    using assms by (auto simp: canIncreaseSpot_def Let_def split: if_splits)
  have "?delta \<noteq> NaN" using h(4) by auto
  then have "?d \<noteq> NaN" by (auto simp: math_Max_def)
  then have "Fin 0 < ?d"
    using h(2) f_not_le [of ?d "Fin 0"] by (auto simp: math_Max_def split: if_splits)
  moreover have "?od \<noteq> NaN" using \<open>?d \<noteq> NaN\<close> by (auto simp: minus_f64_def)
  ultimately show "risk \<le> maxRisk" "Fin 0 < ?od" "ns_SpotPrice state < ?od"
    using h f_not_le by (auto intro: f64_minus_pos)
qed

lemma canIncreaseSpot_antimono:
  "canIncreaseSpot state r' m s h \<Longrightarrow> r \<le> r' \<Longrightarrow> canIncreaseSpot state r m s h"
  by (auto simp: canIncreaseSpot_def Let_def split: if_splits intro: f_le_trans)

text \<open>The decision below the risk bands, as a function of whether growth pays.\<close>

definition calm_action :: "PolicyEvaluator \<Rightarrow> NodeState \<Rightarrow> f64 \<Rightarrow> Action" where
  "calm_action p state risk =
     (let cap = effective_cap p state; cur = ns_CurrentSpotRatio state;
          over = cur - cap; safety = resolvePoolSafetyVector (ns_PoolSafety state)
      in if to_f64 (1 / 1000000) < over
         then (if Fin (1 / 4) \<le> over \<or> to_f64 (17 / 20) \<le> RecoveryBudgetViolationRisk safety \<or>
                  MinPDBSlackIfOneNodeLost safety < Fin 0
               then ActionDecrease30 else ActionDecrease10)
         else if cap - to_f64 (1 / 1000000) \<le> cur then ActionHold
         else if to_f64 (3 / 5) \<le> RecoveryBudgetViolationRisk safety then ActionHold
         else if fst (detectOOD state (FeatureBuckets (pol p))) \<and> EqualFold (OODMode (pol p)) ''conservative''
         then (if canIncreaseSpot state risk (OODMaxRiskForIncrease (pol p))
                    (OODMinSavingsRatioForIncrease (pol p)) (OODMaxPaybackHoursForIncrease (pol p))
               then ActionIncrease10 else ActionHold)
         else if canIncreaseSpot state risk (MediumRiskThreshold (pol p))
                    (MinSavingsRatioForIncrease (pol p)) (MaxPaybackHoursForIncrease (pol p))
         then (if Fin (1 / 4) \<le> cap - cur then ActionIncrease30 else ActionIncrease10)
         else ActionHold)"

lemma Evaluate_action:
  "fst (Evaluate p state cs rs) =
     (if emergency_band p cs rs then ActionEmergencyExit
      else if HighRiskThreshold (pol p) \<le> math_Max cs rs then ActionDecrease30
      else if MediumRiskThreshold (pol p) \<le> math_Max cs rs then ActionDecrease10
      else calm_action p state (math_Max cs rs))"
  by (simp add: Evaluate_def calm_action_def emergency_band_def pol_def Let_def resolveWorkloadSurface_def
      computeWorkloadSpotCap_def effective_cap_def if_distrib [of fst] prod.case_eq_if
      cong: if_cong split del: if_split)

lemma calm_action_range:
  "calm_action p state risk \<in> {ActionHold, ActionDecrease10, ActionDecrease30, ActionIncrease10, ActionIncrease30}"
  by (simp add: calm_action_def Let_def)

lemma calm_action_growth:
  assumes "calm_action p state risk \<in> {ActionIncrease10, ActionIncrease30}"
  shows "risk \<noteq> NaN" "Fin 0 < ns_OnDemandPrice state" "ns_SpotPrice state < ns_OnDemandPrice state"
    "\<not> effective_cap p state - to_f64 (1 / 1000000) \<le> ns_CurrentSpotRatio state"
    "\<not> to_f64 (3 / 5) \<le> RecoveryBudgetViolationRisk (resolvePoolSafetyVector (ns_PoolSafety state))"
  using assms
  by (auto simp: calm_action_def Let_def split: if_splits dest: canIncreaseSpot_facts)

fun spot_step :: "Action \<Rightarrow> int" where
  "spot_step ActionIncrease30 = 30"
| "spot_step ActionIncrease10 = 10"
| "spot_step ActionDecrease10 = - 10"
| "spot_step ActionDecrease30 = - 30"
| "spot_step ActionEmergencyExit = - 100"
| "spot_step _ = 0"

lemma calm_action_antimono:
  "r \<le> r' \<Longrightarrow> spot_step (calm_action p state r') \<le> spot_step (calm_action p state r)"
  by (auto simp: calm_action_def Let_def dest: canIncreaseSpot_antimono)

lemma calm_action_no_overshoot:
  "\<not> to_f64 (1 / 1000000) < ns_CurrentSpotRatio state - effective_cap p state \<Longrightarrow>
     0 \<le> spot_step (calm_action p state r)"
  by (simp add: calm_action_def Let_def)

section \<open>Theorems\<close>

text \<open>
  C6 (safety). The policy asks for more Spot only when the composite risk is a number below
  the medium threshold, the runtime score is below its emergency threshold, the pool is more
  than the tolerance below its effective cap, the recovery risk is not at or above 0.60, and
  Spot is strictly cheaper than a positive On-Demand price.
\<close>

theorem Evaluate_growth_safe:
  assumes "Evaluate p state cs rs = (a, d)" "a \<in> {ActionIncrease10, ActionIncrease30}"
    "wf_evaluator p" "rs \<noteq> NaN"
  shows "CompositeRisk d < MediumRiskThreshold (DeterministicPolicy (pe_cfg p)) \<and>
     rs < RuntimeEmergencyThreshold (DeterministicPolicy (pe_cfg p)) \<and>
     \<not> EffectiveCap d - to_f64 (1 / 1000000) \<le> ns_CurrentSpotRatio state \<and>
     \<not> to_f64 (3 / 5) \<le> RecoveryBudgetViolationRisk (DecisionPoolSafety d) \<and>
     Fin 0 < ns_OnDemandPrice state \<and> ns_SpotPrice state < ns_OnDemandPrice state"
proof -
  have bands: "wf_risk_bands (pol p)"
    using assms(3) by (simp add: wf_evaluator_def wf_runtime_config_def wf_policy_def pol_def)
  have act: "fst (Evaluate p state cs rs) \<in> {ActionIncrease10, ActionIncrease30}"
    using assms by simp
  then have b: "\<not> emergency_band p cs rs" "\<not> MediumRiskThreshold (pol p) \<le> math_Max cs rs"
    and g: "calm_action p state (math_Max cs rs) \<in> {ActionIncrease10, ActionIncrease30}"
    by (auto simp: Evaluate_action split: if_splits)
  have t: "MediumRiskThreshold (pol p) \<noteq> NaN" "RuntimeEmergencyThreshold (pol p) \<noteq> NaN"
    using bands by (auto simp: wf_risk_bands_def unit01_def)
  have "math_Max cs rs < MediumRiskThreshold (pol p)" "rs < RuntimeEmergencyThreshold (pol p)"
    using b t assms(4) calm_action_growth(1) [OF g] by (auto simp: emergency_band_def f_not_le)
  then show ?thesis
    using calm_action_growth [OF g] by (simp add: Evaluate_eq_fields [OF assms(1)] pol_def)
qed

text \<open>A small pool on which the hypotheses of the policy theorems are evaluated.\<close>

definition example_safety :: "f64 \<Rightarrow> PoolSafetyVector" where
  "example_safety cap = DefaultPoolSafetyVector\<lparr>SafeMaxSpotRatio := cap\<rparr>"

definition example_state :: "f64 \<Rightarrow> f64 \<Rightarrow> NodeState" where
  "example_state current cap = \<lparr>ns_SpotPrice = Fin (1 / 4), ns_OnDemandPrice = Fin 1, ns_PriceHistory = [],
     ns_CPUUsage = Fin 0, ns_MemoryUsage = Fin 0, ns_PodStartupTime = Fin 60,
     ns_OutagePenaltyHours = Fin 1, ns_MigrationCost = Fin (3 / 4), ns_PriorityScore = Fin (1 / 4),
     ns_ClusterUtilization = Fin (1 / 2), ns_TimeSinceMigration = 100, ns_RuntimeScore = Fin 0,
     ns_IsSpot = True, ns_CurrentSpotRatio = current, ns_TargetSpotRatio = current,
     ns_PoolSafety = example_safety cap, ns_Hour = 0, ns_Weekday = 1\<rparr>"

definition example_rules :: "SpotRatioCapRule list" where
  "example_rules = [capRule (Fin 1000) (Fin (1 / 4))]"

definition example_policy :: DeterministicPolicyConfig where
  "example_policy = \<lparr>EmergencyRiskThreshold = Fin (7 / 8), RuntimeEmergencyThreshold = Fin (3 / 4),
     HighRiskThreshold = Fin (5 / 8), MediumRiskThreshold = Fin (3 / 8),
     MinSavingsRatioForIncrease = Fin (1 / 8), MaxPaybackHoursForIncrease = Fin 6,
     OODMode = ''conservative'', OODMaxRiskForIncrease = Fin (1 / 4),
     OODMinSavingsRatioForIncrease = Fin (1 / 4), OODMaxPaybackHoursForIncrease = Fin 3,
     TargetSpotRatioDriftAlpha = Some (Fin (1 / 8)),
     PriorityCapRules = [capRule (Fin 1) (Fin (1 / 4))], OutagePenaltyCapRules = example_rules,
     StartupTimeCapRules = example_rules, MigrationCostCapRules = example_rules,
     UtilizationCapRules = [capRule (Fin 1) (Fin (1 / 4))],
     FeatureBuckets = \<lparr>Source = ''default'', PodStartupTimeSeconds = [Fin 0, Fin 1200],
       OutagePenaltyHoursBuckets = [Fin 0, Fin 96], PriorityScoreBuckets = [Fin 0, Fin 1],
       ClusterUtilizationBuckets = [Fin 0, Fin 1]\<rparr>\<rparr>"

definition example_config :: RuntimeConfig where
  "example_config = \<lparr>RiskMultiplier = Fin 1, MinSpotRatio = Fin (1 / 8), MaxSpotRatio = Fin 1,
     TargetSpotRatio = Fin (1 / 2), StepMinutes = 10, PolicyMode = PolicyModeDeterministic,
     RLShadowEnabled = None, DeterministicPolicy = example_policy\<rparr>"

definition example_evaluator :: PolicyEvaluator where
  "example_evaluator = \<lparr>pe_cfg = example_config, pe_PriorityCapRules = [capRule (Fin 1) (Fin (1 / 4))],
     pe_OutageCapRules = example_rules, pe_StartupCapRules = example_rules,
     pe_MigrationCapRules = example_rules, pe_UtilizationCapRules = [capRule (Fin 1) (Fin (1 / 4))]\<rparr>"

lemmas example_defs = example_evaluator_def example_config_def example_policy_def example_rules_def
  example_state_def example_safety_def DefaultPoolSafetyVector_def capRule_def

lemma wf_example_config: "wf_runtime_config example_config"
  by (simp add: wf_runtime_config_def wf_ratios_def wf_policy_def wf_risk_bands_def wf_cap_rules_def
      wf_buckets_def wf_boundaries_def unit01_def ResolvedTargetSpotRatioDriftAlpha_def clampFloat_def
      capRuleLess_def example_defs f64_lit)

lemma wf_example_evaluator: "wf_evaluator example_evaluator"
  using wf_example_config
  by (simp add: wf_evaluator_def wf_cap_rules_def capRuleLess_def unit01_def example_evaluator_def
      example_rules_def capRule_def)

lemmas policy_eval = Evaluate_action calm_action_def emergency_band_def pol_def Let_def effective_cap_def
  computeWorkloadSpotCap_def resolveWorkloadSurface_def computeFeatureSpotCap_def clamp01_def clampRange_def
  resolvePoolSafetyVector_def IsZero_def NormalizePoolSafetyVector_def clampFloat_def detectOOD_def
  outOfRange_def canIncreaseSpot_def math_Max_def math_Min_def minus_f64_def

lemma to_f64_examples:
  "to_f64 (- (3 / 4)) = Fin (- (3 / 4))" "to_f64 (3 / 4) = Fin (3 / 4)"
  "\<not> to_f64 (4722361760503162344051 / 4722366482869645213696) \<le> Fin (1 / 4)"
  by code_simp+

lemma example_growth:
  "fst (Evaluate example_evaluator (example_state (Fin (1 / 4)) (Fin 1)) (Fin (1 / 8)) (Fin (1 / 8))) =
     ActionIncrease30"
  by (simp add: policy_eval example_defs f64_lit to_f64_examples)

theorem Evaluate_growth_safe_witness:
  "\<exists>d. Evaluate example_evaluator (example_state (Fin (1 / 4)) (Fin 1)) (Fin (1 / 8)) (Fin (1 / 8)) =
       (ActionIncrease30, d) \<and> CompositeRisk d < Fin (3 / 8)"
proof -
  let ?e = "Evaluate example_evaluator (example_state (Fin (1 / 4)) (Fin 1)) (Fin (1 / 8)) (Fin (1 / 8))"
  have eq: "?e = (ActionIncrease30, snd ?e)"
    using example_growth by (metis prod.collapse)
  show ?thesis
    using Evaluate_growth_safe [OF eq _ wf_example_evaluator] eq
    by (auto simp: example_evaluator_def example_config_def example_policy_def)
qed

text \<open>
  A NaN among the risk scores never grows Spot: unless the other score is
  positive infinity, the action is hold, a reduction or the emergency exit.
\<close>

lemma Evaluate_NaN_never_grows:
  assumes "cs = NaN \<or> rs = NaN" "cs \<noteq> PosInf" "rs \<noteq> PosInf"
  shows "fst (Evaluate p state cs rs) \<in>
     {ActionHold, ActionDecrease10, ActionDecrease30, ActionEmergencyExit}"
proof -
  have nan: "math_Max cs rs = NaN" using assms by (simp add: math_Max_NaN_iff)
  have "calm_action p state NaN \<notin> {ActionIncrease10, ActionIncrease30}"
    using calm_action_growth(1) by blast
  with calm_action_range [of p state NaN] show ?thesis
    by (auto simp: Evaluate_action nan)
qed

text \<open>
  The emergency exit is taken exactly in the emergency band; at or above the
  high threshold the policy reduces by 30, between medium and high by 10, whatever the
  pool, the economics and the distribution of the features.
\<close>

theorem Evaluate_bands:
  "(fst (Evaluate p state cs rs) = ActionEmergencyExit \<longleftrightarrow>
      EmergencyRiskThreshold (DeterministicPolicy (pe_cfg p)) \<le> math_Max cs rs \<or>
      RuntimeEmergencyThreshold (DeterministicPolicy (pe_cfg p)) \<le> rs) \<and>
   (fst (Evaluate p state cs rs) \<noteq> ActionEmergencyExit \<and>
      HighRiskThreshold (DeterministicPolicy (pe_cfg p)) \<le> math_Max cs rs \<longrightarrow>
      fst (Evaluate p state cs rs) = ActionDecrease30) \<and>
   (fst (Evaluate p state cs rs) \<noteq> ActionEmergencyExit \<and>
      \<not> HighRiskThreshold (DeterministicPolicy (pe_cfg p)) \<le> math_Max cs rs \<and>
      MediumRiskThreshold (DeterministicPolicy (pe_cfg p)) \<le> math_Max cs rs \<longrightarrow>
      fst (Evaluate p state cs rs) = ActionDecrease10)"
  using calm_action_range [of p state "math_Max cs rs"]
  by (auto simp: Evaluate_action emergency_band_def pol_def)

theorem Evaluate_bands_witness:
  "fst (Evaluate example_evaluator (example_state (Fin (1 / 4)) (Fin 1)) (Fin (3 / 4)) (Fin 0)) = ActionDecrease30"
proof -
  have "fst (Evaluate example_evaluator (example_state (Fin (1 / 4)) (Fin 1)) (Fin (3 / 4)) (Fin 0)) \<noteq> ActionEmergencyExit"
    by (simp add: Evaluate_action emergency_band_def pol_def math_Max_def example_evaluator_def
        example_config_def example_policy_def)
  then show ?thesis
    using Evaluate_bands [of example_evaluator "example_state (Fin (1 / 4)) (Fin 1)" "Fin (3 / 4)" "Fin 0"]
    by (simp add: math_Max_def example_evaluator_def example_config_def example_policy_def)
qed

text \<open>
  C20 (safety). With a well-formed configuration and a pool that is not above its effective
  cap, more risk never means more Spot: raising either score never raises the step the
  action asks for.
\<close>

theorem Evaluate_antimono:
  assumes wf: "wf_evaluator p" and le: "cs \<le> cs'" "rs \<le> rs'"
    and calm: "\<not> to_f64 (1 / 1000000) < ns_CurrentSpotRatio state - effective_cap p state"
  shows "spot_step (fst (Evaluate p state cs' rs')) \<le> spot_step (fst (Evaluate p state cs rs))"
proof -
  have m: "math_Max cs rs \<le> math_Max cs' rs'" using le by (rule math_Max_mono)
  have up: "t \<le> math_Max cs rs \<Longrightarrow> t \<le> math_Max cs' rs'" for t
    using m f_le_trans by blast
  have em: "emergency_band p cs rs \<Longrightarrow> emergency_band p cs' rs'"
    using up le(2) f_le_trans by (auto simp: emergency_band_def)
  show ?thesis
    using up em calm_action_no_overshoot [OF calm, of "math_Max cs rs"]
      calm_action_no_overshoot [OF calm, of "math_Max cs' rs'"] calm_action_antimono [OF m, of p state]
    by (auto simp: Evaluate_action)
qed

theorem Evaluate_antimono_witness:
  "spot_step (fst (Evaluate example_evaluator (example_state (Fin (1 / 4)) (Fin 1)) (Fin (3 / 4)) (Fin 0)))
     \<le> spot_step (fst (Evaluate example_evaluator (example_state (Fin (1 / 4)) (Fin 1)) (Fin (1 / 8)) (Fin 0)))"
proof (rule Evaluate_antimono)
  show "\<not> to_f64 (1 / 1000000) < ns_CurrentSpotRatio (example_state (Fin (1 / 4)) (Fin 1)) -
      effective_cap example_evaluator (example_state (Fin (1 / 4)) (Fin 1))"
    by (simp add: policy_eval example_defs f64_lit to_f64_examples)
qed (simp_all add: wf_example_evaluator)

text \<open>
  For a pool at least 0.25 above its cap, the policy reduces by 30 below the
  medium threshold but only by 10 inside the medium band: the band is tested before the
  pool-safety overshoot, so a higher market risk makes the reduction gentler.
\<close>

theorem medium_risk_softens_reduction:
  assumes "to_f64 (1 / 1000000) < ns_CurrentSpotRatio state - effective_cap p state"
    "Fin (1 / 4) \<le> ns_CurrentSpotRatio state - effective_cap p state"
    "math_Max cs rs < MediumRiskThreshold (DeterministicPolicy (pe_cfg p))"
    "MediumRiskThreshold (DeterministicPolicy (pe_cfg p)) \<le> math_Max cs' rs'"
    "math_Max cs' rs' < HighRiskThreshold (DeterministicPolicy (pe_cfg p))"
    "rs' < RuntimeEmergencyThreshold (DeterministicPolicy (pe_cfg p))" "rs \<le> rs'" "wf_evaluator p"
  shows "fst (Evaluate p state cs rs) = ActionDecrease30 \<and> fst (Evaluate p state cs' rs') = ActionDecrease10"
proof -
  have "wf_risk_bands (pol p)"
    using assms(8) by (simp add: wf_evaluator_def wf_runtime_config_def wf_policy_def pol_def)
  then have he: "MediumRiskThreshold (pol p) \<le> HighRiskThreshold (pol p)"
    "HighRiskThreshold (pol p) \<le> EmergencyRiskThreshold (pol p)"
    by (simp_all add: wf_risk_bands_def)
  have "math_Max cs rs < HighRiskThreshold (pol p)" "math_Max cs rs < EmergencyRiskThreshold (pol p)"
    "math_Max cs' rs' < EmergencyRiskThreshold (pol p)" "rs < RuntimeEmergencyThreshold (pol p)"
    using assms he f_less_le_trans f_le_less_trans unfolding pol_def by blast+
  then show ?thesis
    using assms by (auto simp: Evaluate_action emergency_band_def calm_action_def Let_def pol_def
        dest: f_less_not_le)
qed

lemma example_overshoot:
  "to_f64 (1 / 1000000) < ns_CurrentSpotRatio (example_state (Fin 1) (Fin (1 / 4))) -
     effective_cap example_evaluator (example_state (Fin 1) (Fin (1 / 4)))"
  "Fin (1 / 4) \<le> ns_CurrentSpotRatio (example_state (Fin 1) (Fin (1 / 4))) -
     effective_cap example_evaluator (example_state (Fin 1) (Fin (1 / 4)))"
  by (simp_all add: policy_eval example_defs f64_lit to_f64_examples)

theorem medium_risk_softens_reduction_witness:
  "fst (Evaluate example_evaluator (example_state (Fin 1) (Fin (1 / 4))) (Fin (1 / 8)) (Fin 0)) = ActionDecrease30 \<and>
   fst (Evaluate example_evaluator (example_state (Fin 1) (Fin (1 / 4))) (Fin (1 / 2)) (Fin 0)) = ActionDecrease10"
  by (rule medium_risk_softens_reduction [OF example_overshoot])
    (simp_all add: wf_example_evaluator, simp_all add: math_Max_def example_evaluator_def example_config_def example_policy_def)

text \<open>
  C37 (equivalence). On normalised rules the first-match loop of \<open>applyCapRules\<close> is the
  declarative reading of the table: the cap of the matching rule with the greatest
  threshold, the smallest such cap on a tie, met with the current cap.
\<close>

theorem applyCapRules_spec:
  assumes "wf_cap_rules rules" "\<exists>r \<in> set rules. Threshold r \<le> value"
  shows "\<exists>best \<in> set rules. Threshold best \<le> value \<and>
     (\<forall>r \<in> set rules. Threshold r \<le> value \<longrightarrow> Threshold r \<le> Threshold best \<and>
        (Threshold r = Threshold best \<longrightarrow> RuleMaxSpotRatio best \<le> RuleMaxSpotRatio r)) \<and>
     applyCapRules value cap rules = math_Min cap (RuleMaxSpotRatio best)"
proof -
  have "\<forall>r \<in> set rules. Threshold r \<noteq> NaN \<and> RuleMaxSpotRatio r \<noteq> NaN"
    "sorted_wrt (\<lambda>a b. \<not> capRuleLess b a) rules"
    using assms(1) by (auto simp: wf_cap_rules_def unit01_def)
  then show ?thesis using assms(2)
  proof (induction rules)
    case (Cons r rs)
    have sorted: "Threshold x \<le> Threshold r \<and>
        (Threshold x = Threshold r \<longrightarrow> RuleMaxSpotRatio r \<le> RuleMaxSpotRatio x)" if "x \<in> set rs" for x
    proof -
      have "\<not> capRuleLess x r" using that Cons.prems by simp
      with that Cons.prems show ?thesis
        by (auto simp: capRuleLess_def feq_iff f_not_less split: if_splits)
    qed
    show ?case
    proof (cases "Threshold r \<le> value")
      case True
      with sorted Cons.prems show ?thesis by (intro bexI [of _ r]) auto
    next
      case False
      with Cons show ?thesis by auto
    qed
  qed simp
qed

theorem applyCapRules_spec_witness:
  "\<exists>best \<in> set defaultPriorityCapRules. Threshold best \<le> Fin (3 / 4) \<and>
     applyCapRules (Fin (3 / 4)) (Fin 1) defaultPriorityCapRules = math_Min (Fin 1) (RuleMaxSpotRatio best)"
proof -
  have "\<exists>r \<in> set defaultPriorityCapRules. Threshold r \<le> Fin (3 / 4)"
    by (simp add: defaultPriorityCapRules_def capRule_def f64_lit)
  from applyCapRules_spec [OF wf_default_rules(1) this, of "Fin 1"] show ?thesis by blast
qed

text \<open>
  With a well-formed configuration and a pool-safety cap that is a number, the
  workload cap is in the unit interval and below both the feature cap and the pool's safe
  ratio, and the effective cap lies between the configured bounds.
\<close>

theorem Evaluate_cap_bounds:
  assumes "Evaluate p state cs rs = (a, d)" "wf_evaluator p"
    "SafeMaxSpotRatio (ns_PoolSafety state) \<noteq> NaN"
  shows "unit01 (WorkloadCap d) \<and> WorkloadCap d \<le> FeatureCap d \<and>
     WorkloadCap d \<le> SafeMaxSpotRatio (DecisionPoolSafety d) \<and>
     MinSpotRatio (pe_cfg p) \<le> EffectiveCap d \<and> EffectiveCap d \<le> MaxSpotRatio (pe_cfg p)"
proof -
  have "wf_ratios (pe_cfg p)" using assms(2) by (simp add: wf_evaluator_def wf_runtime_config_def)
  then have "MinSpotRatio (pe_cfg p) \<le> MaxSpotRatio (pe_cfg p)"
    using f_le_trans by (auto simp: wf_ratios_def)
  then show ?thesis
    using workload_cap_bounds [OF assms(2,3)] unit01_not_NaN
    by (simp add: Evaluate_eq_fields [OF assms(1)] effective_cap_def clampRange_eq clampFloat_ge clampFloat_le)
qed

theorem Evaluate_cap_bounds_witness:
  "unit01 (WorkloadCap (snd (Evaluate example_evaluator (example_state (Fin 1) (Fin (1 / 4))) (Fin 0) (Fin 0))))"
proof -
  have "SafeMaxSpotRatio (ns_PoolSafety (example_state (Fin 1) (Fin (1 / 4)))) \<noteq> NaN"
    by (simp add: example_state_def example_safety_def)
  from Evaluate_cap_bounds [OF prod.collapse [symmetric] wf_example_evaluator this] show ?thesis by blast
qed

end
