(* ===== verification/Agent_Config.thy ===== *)
theory Agent_Config
  imports Float64
begin

text \<open>
  internal/config/config.go: the YAML configuration, its validation and defaults, and the
  helpers the controller calls. Reading and decoding the file is a parameter of \<open>Load\<close>. A
  \<open>time.Duration\<close> is its number of nanoseconds, a 64-bit integer whose products wrap.
\<close>

section \<open>Data\<close>

record KarpenterConfig =
  kc_Enabled :: bool
  UseExtendedPoolID :: bool
  SpotNodePoolSuffix :: string
  OnDemandNodePoolSuffix :: string
  SpotWeight :: int
  OnDemandWeight :: int
  ManagedWorkloadPools :: "string list"
  WeightChangeCooldownSeconds :: int
  UsePoolLevelInference :: bool
  RespectDisruptionBudgets :: bool

record ControllerConfig =
  cc_RiskThreshold :: f64
  cc_MaxDrainRatio :: f64
  ReconcileIntervalSeconds :: int
  cc_ConfidenceThreshold :: f64
  DrainGracePeriodSeconds :: int

record InferenceConfig =
  TFTModelPath :: string
  RLModelPath :: string
  ModelManifestPath :: string
  ExpectedCloud :: string

record PrometheusConfig =
  prom_URL :: string
  TimeoutSeconds :: int

record ASGDiscoveryTags =
  tag_Pool :: string
  tag_CapacityType :: string

record AutoscalingConfig =
  as_Enabled :: bool
  DiscoveryTags :: ASGDiscoveryTags
  NodeReadyTimeoutSeconds :: int
  PollIntervalSeconds :: int

record AWSConfig =
  aws_Region :: string
  InstanceTypes :: "string list"
  AvailabilityZones :: "string list"

record GCPConfig =
  gcp_ProjectID :: string
  gcp_Region :: string
  MachineTypes :: "string list"

record Config =
  cfg_Controller :: ControllerConfig
  cfg_Inference :: InferenceConfig
  cfg_Prometheus :: PrometheusConfig
  cfg_Karpenter :: KarpenterConfig
  cfg_Autoscaling :: AutoscalingConfig
  cfg_AWS :: AWSConfig
  cfg_GCP :: GCPConfig

section \<open>Operations\<close>

definition Second :: int where "Second = 1000000000"

fun pool_listed :: "string \<Rightarrow> string list \<Rightarrow> bool" where
  "pool_listed p [] = False"
| "pool_listed p (q # qs) = (if q = p then True else pool_listed p qs)"

definition IsWorkloadPoolManaged :: "KarpenterConfig \<Rightarrow> string \<Rightarrow> bool" where
  "IsWorkloadPoolManaged k workloadPool =
     (if ManagedWorkloadPools k = [] then True else pool_listed workloadPool (ManagedWorkloadPools k))"

definition WeightChangeCooldown :: "KarpenterConfig \<Rightarrow> int" where
  "WeightChangeCooldown k =
     (if WeightChangeCooldownSeconds k \<le> 0 then 60 * Second
      else wrap 64 (WeightChangeCooldownSeconds k * Second))"

definition NodeReadyTimeout :: "AutoscalingConfig \<Rightarrow> int" where
  "NodeReadyTimeout a =
     (if NodeReadyTimeoutSeconds a \<le> 0 then 300 * Second
      else wrap 64 (NodeReadyTimeoutSeconds a * Second))"

definition PollInterval :: "AutoscalingConfig \<Rightarrow> int" where
  "PollInterval a =
     (if PollIntervalSeconds a \<le> 0 then 10 * Second
      else wrap 64 (PollIntervalSeconds a * Second))"

definition ReconcileInterval :: "ControllerConfig \<Rightarrow> int" where
  "ReconcileInterval c = wrap 64 (ReconcileIntervalSeconds c * Second)"

definition DrainGracePeriod :: "ControllerConfig \<Rightarrow> int" where
  "DrainGracePeriod c = wrap 64 (DrainGracePeriodSeconds c * Second)"

definition Timeout :: "PrometheusConfig \<Rightarrow> int" where
  "Timeout c = wrap 64 (TimeoutSeconds c * Second)"

datatype config_error = BadRiskThreshold | BadMaxDrainRatio | BadReconcileInterval | BadConfidenceThreshold
  | MissingTFTModelPath | MissingRLModelPath | MissingModelManifestPath | MissingPrometheusURL
  | ConfigReadFailed string | ConfigParseFailed string

definition autoscaling_defaults :: "AutoscalingConfig \<Rightarrow> AutoscalingConfig" where
  "autoscaling_defaults a =
     (if \<not> as_Enabled a then a
      else
        let t = DiscoveryTags a;
            t = (if tag_Pool t = [] then t\<lparr>tag_Pool := ''spotvortex.io/pool''\<rparr> else t);
            t = (if tag_CapacityType t = [] then t\<lparr>tag_CapacityType := ''spotvortex.io/capacity-type''\<rparr> else t);
            a = a\<lparr>DiscoveryTags := t\<rparr>;
            a = (if NodeReadyTimeoutSeconds a = 0 then a\<lparr>NodeReadyTimeoutSeconds := 300\<rparr> else a)
        in (if PollIntervalSeconds a = 0 then a\<lparr>PollIntervalSeconds := 10\<rparr> else a))"

definition karpenter_defaults :: "KarpenterConfig \<Rightarrow> KarpenterConfig" where
  "karpenter_defaults k =
     (if \<not> kc_Enabled k then k
      else
        let k = (if SpotNodePoolSuffix k = [] then k\<lparr>SpotNodePoolSuffix := ''-spot''\<rparr> else k);
            k = (if OnDemandNodePoolSuffix k = [] then k\<lparr>OnDemandNodePoolSuffix := ''-od''\<rparr> else k);
            k = (if SpotWeight k = 0 then k\<lparr>SpotWeight := 100\<rparr> else k);
            k = (if OnDemandWeight k = 0 then k\<lparr>OnDemandWeight := 10\<rparr> else k)
        in (if WeightChangeCooldownSeconds k = 0 then k\<lparr>WeightChangeCooldownSeconds := 60\<rparr> else k))"

definition Validate :: "Config \<Rightarrow> config_error + Config" where
  "Validate c =
     (let ctl = cfg_Controller c in
      if cc_RiskThreshold ctl \<le> Fin 0 \<or> Fin 1 < cc_RiskThreshold ctl then Inl BadRiskThreshold
      else if cc_MaxDrainRatio ctl \<le> Fin 0 \<or> Fin 1 < cc_MaxDrainRatio ctl then Inl BadMaxDrainRatio
      else if ReconcileIntervalSeconds ctl < 10 then Inl BadReconcileInterval
      else if cc_ConfidenceThreshold ctl \<le> Fin 0 \<or> Fin 1 < cc_ConfidenceThreshold ctl
      then Inl BadConfidenceThreshold
      else if TFTModelPath (cfg_Inference c) = [] then Inl MissingTFTModelPath
      else if RLModelPath (cfg_Inference c) = [] then Inl MissingRLModelPath
      else if ModelManifestPath (cfg_Inference c) = [] then Inl MissingModelManifestPath
      else if prom_URL (cfg_Prometheus c) = [] then Inl MissingPrometheusURL
      else
        let c = (if aws_Region (cfg_AWS c) = []
                 then c\<lparr>cfg_AWS := (cfg_AWS c)\<lparr>aws_Region := ''us-east-1''\<rparr>\<rparr> else c);
            c = c\<lparr>cfg_Autoscaling := autoscaling_defaults (cfg_Autoscaling c)\<rparr>
        in Inr (c\<lparr>cfg_Karpenter := karpenter_defaults (cfg_Karpenter c)\<rparr>))"

text \<open>\<open>readf\<close> is the file read and \<open>decode\<close> the YAML decoder; \<open>None\<close> is their error.\<close>

definition Load :: "(string \<Rightarrow> 'b option) \<Rightarrow> ('b \<Rightarrow> Config option) \<Rightarrow> string \<Rightarrow> config_error + Config" where
  "Load readf decode path =
     (case readf path of
        None \<Rightarrow> Inl (ConfigReadFailed path)
      | Some data \<Rightarrow> (case decode data of None \<Rightarrow> Inl (ConfigParseFailed path) | Some cfg \<Rightarrow> Validate cfg))"

section \<open>What a loaded configuration guarantees\<close>

definition ratio_ok :: "f64 \<Rightarrow> bool" where
  "ratio_ok x \<longleftrightarrow> Fin 0 < x \<and> x \<le> Fin 1"

definition wf_config :: "Config \<Rightarrow> bool" where
  "wf_config c \<longleftrightarrow>
     10 \<le> ReconcileIntervalSeconds (cfg_Controller c) \<and>
     (\<forall>x \<in> {cc_RiskThreshold (cfg_Controller c), cc_MaxDrainRatio (cfg_Controller c),
            cc_ConfidenceThreshold (cfg_Controller c)}. ratio_ok x \<or> x = NaN) \<and>
     TFTModelPath (cfg_Inference c) \<noteq> [] \<and> RLModelPath (cfg_Inference c) \<noteq> [] \<and>
     ModelManifestPath (cfg_Inference c) \<noteq> [] \<and> prom_URL (cfg_Prometheus c) \<noteq> [] \<and>
     aws_Region (cfg_AWS c) \<noteq> [] \<and>
     (as_Enabled (cfg_Autoscaling c) \<longrightarrow>
        tag_Pool (DiscoveryTags (cfg_Autoscaling c)) \<noteq> [] \<and>
        tag_CapacityType (DiscoveryTags (cfg_Autoscaling c)) \<noteq> [] \<and>
        NodeReadyTimeoutSeconds (cfg_Autoscaling c) \<noteq> 0 \<and> PollIntervalSeconds (cfg_Autoscaling c) \<noteq> 0) \<and>
     (kc_Enabled (cfg_Karpenter c) \<longrightarrow>
        SpotNodePoolSuffix (cfg_Karpenter c) \<noteq> [] \<and> OnDemandNodePoolSuffix (cfg_Karpenter c) \<noteq> [] \<and>
        SpotWeight (cfg_Karpenter c) \<noteq> 0 \<and> OnDemandWeight (cfg_Karpenter c) \<noteq> 0 \<and>
        WeightChangeCooldownSeconds (cfg_Karpenter c) \<noteq> 0)"

lemma ratio_ok_iff: "ratio_ok x \<or> x = NaN \<longleftrightarrow> \<not> x \<le> Fin 0 \<and> \<not> Fin 1 < x"
  by (cases x) (auto simp: ratio_ok_def)

lemma autoscaling_defaults_set:
  "as_Enabled (autoscaling_defaults a) = as_Enabled a"
  "as_Enabled a \<Longrightarrow> tag_Pool (DiscoveryTags (autoscaling_defaults a)) \<noteq> [] \<and>
     tag_CapacityType (DiscoveryTags (autoscaling_defaults a)) \<noteq> [] \<and>
     NodeReadyTimeoutSeconds (autoscaling_defaults a) \<noteq> 0 \<and> PollIntervalSeconds (autoscaling_defaults a) \<noteq> 0"
  by (simp_all add: autoscaling_defaults_def Let_def)

lemma karpenter_defaults_set:
  "kc_Enabled (karpenter_defaults k) = kc_Enabled k"
  "kc_Enabled k \<Longrightarrow> SpotNodePoolSuffix (karpenter_defaults k) \<noteq> [] \<and> OnDemandNodePoolSuffix (karpenter_defaults k) \<noteq> [] \<and>
     SpotWeight (karpenter_defaults k) \<noteq> 0 \<and> OnDemandWeight (karpenter_defaults k) \<noteq> 0 \<and>
     WeightChangeCooldownSeconds (karpenter_defaults k) \<noteq> 0"
  by (simp_all add: karpenter_defaults_def Let_def)

lemma pool_listed_iff [simp]: "pool_listed p qs \<longleftrightarrow> p \<in> set qs"
  by (induction qs) auto

lemma Validate_result:
  assumes "Validate c = Inr c'"
  shows "wf_config c' \<and> cfg_Controller c' = cfg_Controller c \<and> cfg_Inference c' = cfg_Inference c \<and>
         cfg_Prometheus c' = cfg_Prometheus c \<and> cfg_GCP c' = cfg_GCP c"
  using assms autoscaling_defaults_set [of "cfg_Autoscaling c"] karpenter_defaults_set [of "cfg_Karpenter c"]
  unfolding Validate_def Let_def wf_config_def ratio_ok_iff
  by (simp split: if_splits; force)

lemma wf_config_Validate:
  assumes "wf_config c"
  shows "Validate c = Inr c"
proof -
  have a: "autoscaling_defaults (cfg_Autoscaling c) = cfg_Autoscaling c"
    using assms by (cases "as_Enabled (cfg_Autoscaling c)") (auto simp: autoscaling_defaults_def Let_def wf_config_def)
  have k: "karpenter_defaults (cfg_Karpenter c) = cfg_Karpenter c"
    using assms by (cases "kc_Enabled (cfg_Karpenter c)") (auto simp: karpenter_defaults_def Let_def wf_config_def)
  show ?thesis
    using assms a k unfolding Validate_def Let_def wf_config_def ratio_ok_iff by simp
qed

text \<open>
  Every configuration the agent starts with is well formed: thresholds and the
  drain ratio lie in the half-open unit interval (a NaN in the file is the one value the
  range tests let through), the required paths and the Prometheus URL are present, and the
  optional sections have their defaults. Validating it again changes nothing.
\<close>

theorem Load_wf:
  assumes "Load readf decode path = Inr c"
  shows "wf_config c \<and> Validate c = Inr c"
  using assms by (auto simp: Load_def split: option.splits dest!: Validate_result intro: wf_config_Validate)

definition example_yaml :: Config where
  "example_yaml =
     \<lparr>cfg_Controller = \<lparr>cc_RiskThreshold = Fin (3 / 4), cc_MaxDrainRatio = Fin (1 / 8), ReconcileIntervalSeconds = 30,
        cc_ConfidenceThreshold = Fin (1 / 2), DrainGracePeriodSeconds = 30\<rparr>,
      cfg_Inference = \<lparr>TFTModelPath = ''tft.onnx'', RLModelPath = ''rl.onnx'', ModelManifestPath = ''manifest.json'',
        ExpectedCloud = ''aws''\<rparr>,
      cfg_Prometheus = \<lparr>prom_URL = ''http://prom'', TimeoutSeconds = 10\<rparr>,
      cfg_Karpenter = \<lparr>kc_Enabled = True, UseExtendedPoolID = True, SpotNodePoolSuffix = [], OnDemandNodePoolSuffix = [],
        SpotWeight = 0, OnDemandWeight = 0, ManagedWorkloadPools = [], WeightChangeCooldownSeconds = 0,
        UsePoolLevelInference = True, RespectDisruptionBudgets = True\<rparr>,
      cfg_Autoscaling = \<lparr>as_Enabled = False, DiscoveryTags = \<lparr>tag_Pool = [], tag_CapacityType = []\<rparr>,
        NodeReadyTimeoutSeconds = 0, PollIntervalSeconds = 0\<rparr>,
      cfg_AWS = \<lparr>aws_Region = [], InstanceTypes = [], AvailabilityZones = []\<rparr>,
      cfg_GCP = \<lparr>gcp_ProjectID = [], gcp_Region = [], MachineTypes = []\<rparr>\<rparr>"

theorem Load_wf_witness:
  "\<exists>c. Load (\<lambda>_. Some ()) (\<lambda>_. Some example_yaml) ''config.yaml'' = Inr c \<and> wf_config c \<and> Validate c = Inr c"
proof -
  obtain c where "Load (\<lambda>_. Some ()) (\<lambda>_. Some example_yaml) ''config.yaml'' = Inr c"
    by (simp add: Load_def Validate_def example_yaml_def Let_def)
  from this Load_wf [OF this] show ?thesis by blast
qed

end
