(* ===== verification/Cluster.thy ===== *)
theory Cluster
  imports Prelude
begin

text \<open>
  The Kubernetes objects the agent reads and writes, with the fields it uses, and the API
  server as a parameter: a record of operations over a server state of any type. A nil label
  or annotation map is the empty map; every use in the source treats the two alike.
\<close>

type_synonym labels = "string \<rightharpoonup> string"

text \<open>Indexing a Go map: the zero value when the key is absent.\<close>

definition label_get :: "labels \<Rightarrow> string \<Rightarrow> string" where
  "label_get m k = (case m k of None \<Rightarrow> [] | Some v \<Rightarrow> v)"

record Taint =
  taint_Key :: string
  taint_Effect :: string

record NodeCondition =
  cond_Type :: string
  cond_Status :: string

record Node =
  node_Name :: string
  node_Labels :: labels
  node_Taints :: "Taint list"
  node_Unschedulable :: bool
  node_ProviderID :: string
  node_Addresses :: "string list"
  node_Conditions :: "NodeCondition list"

record Pod =
  pod_Name :: string
  pod_Namespace :: string
  pod_NodeName :: string
  pod_Labels :: labels
  pod_Annotations :: labels
  pod_OwnerKinds :: "string list"

text \<open>
  A disruption budget with its converted selector: \<open>None\<close> when
  \<open>metav1.LabelSelectorAsSelector\<close> rejects it, else the predicate \<open>Matches\<close>.
\<close>

record PDB =
  pdb_Name :: string
  pdb_Selector :: "(labels \<Rightarrow> bool) option"
  pdb_DisruptionsAllowed :: int

datatype api_error = NotFound | TooManyRequests | ApiError string

record 'w k8s =
  k_getNode :: "'w \<Rightarrow> string \<Rightarrow> api_error + Node"
  k_listNodes :: "'w \<Rightarrow> api_error + Node list"
  k_listPodsOnNode :: "'w \<Rightarrow> string \<Rightarrow> api_error + Pod list"
  k_listPDBs :: "'w \<Rightarrow> string \<Rightarrow> api_error + PDB list"
  k_updateNode :: "'w \<Rightarrow> Node \<Rightarrow> api_error option \<times> 'w"
  k_evict :: "'w \<Rightarrow> string \<Rightarrow> string \<Rightarrow> int \<Rightarrow> api_error option \<times> 'w"

section \<open>An in-memory server\<close>

text \<open>
  A concrete server for closed examples: nodes and pods as lists, every eviction refused for
  the pods listed as protected.
\<close>

record mem_server =
  ms_nodes :: "Node list"
  ms_pods :: "Pod list"
  ms_pdbs :: "string \<Rightarrow> PDB list"
  ms_protected :: "string list"

fun find_node :: "string \<Rightarrow> Node list \<Rightarrow> Node option" where
  "find_node n [] = None"
| "find_node n (x # xs) = (if node_Name x = n then Some x else find_node n xs)"

definition mem_k8s :: "mem_server k8s" where
  "mem_k8s = \<lparr>
     k_getNode = (\<lambda>w n. case find_node n (ms_nodes w) of None \<Rightarrow> Inl NotFound | Some x \<Rightarrow> Inr x),
     k_listNodes = (\<lambda>w. Inr (ms_nodes w)),
     k_listPodsOnNode = (\<lambda>w n. Inr (filter (\<lambda>p. pod_NodeName p = n) (ms_pods w))),
     k_listPDBs = (\<lambda>w ns. Inr (ms_pdbs w ns)),
     k_updateNode = (\<lambda>w x. (None, w\<lparr>ms_nodes := map (\<lambda>y. if node_Name y = node_Name x then x else y) (ms_nodes w)\<rparr>)),
     k_evict = (\<lambda>w ns n _.
       if n \<in> set (ms_protected w) then (Some TooManyRequests, w)
       else (None, w\<lparr>ms_pods := filter (\<lambda>p. \<not> (pod_Name p = n \<and> pod_Namespace p = ns)) (ms_pods w)\<rparr>))\<rparr>"

lemma find_node_Some: "find_node n xs = Some x \<Longrightarrow> x \<in> set xs \<and> node_Name x = n"
  by (induction xs) (auto split: if_splits)

end
