(* ===== verification/Capacity_Types.thy ===== *)
theory Capacity_Types
  imports Cluster
begin

text \<open>
  internal/capacity: the capacity type of a node (capacity_type.go), the provisioner detector
  (detector.go), and the vocabulary of capacity swaps (types.go).
\<close>

section \<open>Capacity type of a node\<close>

definition LabelKarpenterNodePool :: string where "LabelKarpenterNodePool = ''karpenter.sh/nodepool''"
definition LabelKarpenterCapacity :: string where "LabelKarpenterCapacity = ''karpenter.sh/capacity-type''"
definition LabelEKSNodegroup :: string where "LabelEKSNodegroup = ''eks.amazonaws.com/nodegroup''"
definition LabelManagerOverride :: string where "LabelManagerOverride = ''spotvortex.io/manager''"
definition TagCapacityType :: string where "TagCapacityType = ''spotvortex.io/capacity-type''"
definition LabelSpotVortexCapacity :: string where "LabelSpotVortexCapacity = TagCapacityType"
definition LabelEKSCapacityType :: string where "LabelEKSCapacityType = ''eks.amazonaws.com/capacityType''"
definition LabelNodeLifecycle :: string where "LabelNodeLifecycle = ''node.kubernetes.io/lifecycle''"

definition replace_char :: "char \<Rightarrow> char \<Rightarrow> string \<Rightarrow> string" where
  "replace_char a b s = map (\<lambda>c. if c = a then b else c) s"

definition NormalizeCapacityType :: "string \<Rightarrow> string" where
  "NormalizeCapacityType value =
     (let normalized = ToLower (TrimSpace value) in
      if normalized = [] then []
      else
        let normalized = replace_char CHR ''_'' CHR ''-'' normalized;
            normalized = replace_char CHR '' '' CHR ''-'' normalized
        in if normalized \<in> {''spot'', ''ec2spot''} then ''spot''
           else if normalized \<in> {''on-demand'', ''ondemand'', ''ec2ondemand'', ''ec2-on-demand'', ''normal''}
           then ''on-demand''
           else if normalized \<in> {''reserved'', ''capacity-block'', ''capacityblock''} then ''reserved''
           else normalized)"

fun first_capacity_type :: "labels \<Rightarrow> string list \<Rightarrow> string" where
  "first_capacity_type m [] = []"
| "first_capacity_type m (key # keys) =
     (case m key of
        None \<Rightarrow> first_capacity_type m keys
      | Some value \<Rightarrow>
          let normalized = NormalizeCapacityType value
          in if normalized \<noteq> [] then normalized else first_capacity_type m keys)"

definition CapacityTypeFromLabels :: "labels \<Rightarrow> string" where
  "CapacityTypeFromLabels m = first_capacity_type m
     [LabelKarpenterCapacity, LabelSpotVortexCapacity, LabelEKSCapacityType, LabelNodeLifecycle]"

definition IsSpotLabels :: "labels \<Rightarrow> bool" where
  "IsSpotLabels m \<longleftrightarrow> CapacityTypeFromLabels m = ''spot''"

definition IsSpotNode :: "Node option \<Rightarrow> bool" where
  "IsSpotNode node = (case node of None \<Rightarrow> False | Some n \<Rightarrow> IsSpotLabels (node_Labels n))"

section \<open>Provisioner detection\<close>

datatype ManagerType = ManagerKarpenter | ManagerClusterAutoscaler | ManagerManagedNodegroup | ManagerUnknown

definition DetectManager :: "Node option \<Rightarrow> ManagerType" where
  "DetectManager node =
     (case node of None \<Rightarrow> ManagerUnknown
      | Some n \<Rightarrow>
          let m = node_Labels n;
              rest =
                (if m LabelKarpenterNodePool \<noteq> None then ManagerKarpenter
                 else if m LabelKarpenterCapacity \<noteq> None \<and> m LabelEKSNodegroup = None then ManagerKarpenter
                 else if m LabelEKSNodegroup \<noteq> None then ManagerManagedNodegroup
                 else ManagerUnknown)
          in case m LabelManagerOverride of
               None \<Rightarrow> rest
             | Some override \<Rightarrow>
                 if override = ''karpenter'' then ManagerKarpenter
                 else if override = ''cluster-autoscaler'' then ManagerClusterAutoscaler
                 else if override = ''managed-nodegroup'' then ManagerManagedNodegroup
                 else rest)"

definition DetectManagerForLabels :: "labels \<Rightarrow> ManagerType" where
  "DetectManagerForLabels m = DetectManager (Some
     \<lparr>node_Name = [], node_Labels = m, node_Taints = [], node_Unschedulable = False,
      node_ProviderID = [], node_Addresses = [], node_Conditions = []\<rparr>)"

definition GroupNodesByManager :: "Node list \<Rightarrow> ManagerType \<Rightarrow> Node list" where
  "GroupNodesByManager nodes =
     foldl (\<lambda>groups node. groups(DetectManager (Some node) := groups (DetectManager (Some node)) @ [node]))
       (\<lambda>_. []) nodes"

section \<open>Swaps\<close>

datatype SwapDirection = SwapToOnDemand | SwapToSpot

record PoolInfo =
  pool_Name :: string
  pool_Zone :: string
  pool_InstanceType :: string

record SwapResult =
  sr_Ready :: bool
  sr_ReplacementNodeName :: string

section \<open>Facts\<close>

lemma replace_char_idem [simp]: "a \<noteq> b \<Longrightarrow> replace_char a b (replace_char a b s) = replace_char a b s"
  by (simp add: replace_char_def)

lemma replace_char_Nil [simp]: "replace_char a b s = [] \<longleftrightarrow> s = []"
  by (simp add: replace_char_def)

lemma GroupNodesByManager_filter:
  "GroupNodesByManager nodes t = filter (\<lambda>n. DetectManager (Some n) = t) nodes"
proof -
  have "foldl (\<lambda>groups node. groups(DetectManager (Some node) := groups (DetectManager (Some node)) @ [node])) g nodes t
      = g t @ filter (\<lambda>n. DetectManager (Some n) = t) nodes" for g
    by (induction nodes arbitrary: g) auto
  then show ?thesis by (simp add: GroupNodesByManager_def)
qed

lemma first_capacity_type_in:
  "first_capacity_type m keys = t \<Longrightarrow> t \<noteq> [] \<Longrightarrow>
     \<exists>k \<in> set keys. \<exists>v. m k = Some v \<and> NormalizeCapacityType v = t"
  by (induction keys) (auto split: option.splits if_splits simp: Let_def)

text \<open>
  Grouping nodes by provisioner partitions them: each group is the
  sub-list of the nodes detected as that provisioner, in their order, and only an explicit
  override label ever selects the Cluster Autoscaler.
\<close>

lemma GroupNodesByManager_partition:
  "GroupNodesByManager nodes t = filter (\<lambda>n. DetectManager (Some n) = t) nodes \<and>
   (\<forall>n \<in> set (GroupNodesByManager nodes ManagerClusterAutoscaler).
      node_Labels n LabelManagerOverride = Some ''cluster-autoscaler'')"
  by (auto simp: GroupNodesByManager_filter DetectManager_def Let_def split: option.splits if_splits)

definition asg_node :: Node where
  "asg_node = \<lparr>node_Name = ''a'', node_Labels = [LabelManagerOverride \<mapsto> ''cluster-autoscaler''],
     node_Taints = [], node_Unschedulable = False, node_ProviderID = ''aws:///us-east-1a/i-1'',
     node_Addresses = [], node_Conditions = []\<rparr>"

end
