(* ===== verification/Guardrails.thy ===== *)
theory Guardrails
  imports Policy Capacity_Types
begin

text \<open>
  internal/controller/guardrails.go: the checks every action passes before capacity is
  prepared or a node is drained. The API server is the parameter \<open>K\<close> at the state \<open>w\<close>; the
  checks only read. A reason string is kept as the arguments it is formatted from.
\<close>

section \<open>Executor actions\<close>

text \<open>The controller's own \<open>Action\<close> type (executor.go) and its translation (shadow_observability.go).\<close>

datatype ExAction = ExHold | ExDecrease10 | ExDecrease30 | ExIncrease10 | ExIncrease30
  | ExEmergencyExit | ExUnknown int

fun toExecutorAction :: "Action \<Rightarrow> ExAction \<times> bool" where
  "toExecutorAction ActionHold = (ExHold, True)"
| "toExecutorAction ActionDecrease10 = (ExDecrease10, True)"
| "toExecutorAction ActionDecrease30 = (ExDecrease30, True)"
| "toExecutorAction ActionIncrease10 = (ExIncrease10, True)"
| "toExecutorAction ActionIncrease30 = (ExIncrease30, True)"
| "toExecutorAction ActionEmergencyExit = (ExEmergencyExit, True)"
| "toExecutorAction (ActionUnknown _) = (ExHold, False)"

fun fromExecutorAction :: "ExAction \<Rightarrow> Action \<times> bool" where
  "fromExecutorAction ExHold = (ActionHold, True)"
| "fromExecutorAction ExDecrease10 = (ActionDecrease10, True)"
| "fromExecutorAction ExDecrease30 = (ActionDecrease30, True)"
| "fromExecutorAction ExIncrease10 = (ActionIncrease10, True)"
| "fromExecutorAction ExIncrease30 = (ActionIncrease30, True)"
| "fromExecutorAction ExEmergencyExit = (ActionEmergencyExit, True)"
| "fromExecutorAction (ExUnknown _) = (ActionHold, False)"

record ExecNodeState =
  es_NodeName :: string
  es_InstanceType :: string
  es_Zone :: string
  es_CapacityScore :: f64
  es_SpotPrice :: f64
  es_OnDemandPrice :: f64
  es_PodStartupTime :: f64
  es_OutagePenalty :: f64
  es_Confidence :: f64
  es_ClusterUtilization :: f64

section \<open>The checker\<close>

definition AnnotationCritical :: string where "AnnotationCritical = ''spotvortex.io/critical''"
definition AnnotationMigrationStrategy :: string where
  "AnnotationMigrationStrategy = ''spotvortex.io/migration-strategy''"

datatype guard_reason = NoReason | FractionTooHigh f64 f64 | ConfidenceTooLow f64 f64
  | PDBZero string string | CriticalPod string | GracefulOnly string
  | UtilizationDowngrade f64 f64 | UtilizationBlock f64 | UtilizationCaution f64

record GuardrailResult =
  Approved :: bool
  ModifiedAction :: ExAction
  gr_Reason :: guard_reason
  GuardrailName :: string

record GuardrailChecker =
  clusterFractionLimit :: f64
  confidenceThreshold :: f64
  highUtilizationThreshold :: f64

definition NewGuardrailChecker :: "f64 \<Rightarrow> GuardrailChecker" where
  "NewGuardrailChecker limit =
     \<lparr>clusterFractionLimit = (if limit \<le> Fin 0 then to_f64 (1 / 5) else limit),
      confidenceThreshold = Fin (1 / 2),
      highUtilizationThreshold = to_f64 (17 / 20)\<rparr>"

definition approve :: "string \<Rightarrow> ExAction \<Rightarrow> GuardrailResult" where
  "approve name action = \<lparr>Approved = True, ModifiedAction = action, gr_Reason = NoReason, GuardrailName = name\<rparr>"

definition spot_count :: "Node list \<Rightarrow> int" where
  "spot_count nodes = int (length (filter (\<lambda>n. IsSpotNode (Some n)) nodes))"

text \<open>Where the source leaves \<open>ModifiedAction\<close> unset it is the zero value, \<open>ActionHold\<close>.\<close>

definition checkClusterFraction ::
  "'w k8s \<Rightarrow> 'w \<Rightarrow> GuardrailChecker \<Rightarrow> api_error + GuardrailResult" where
  "checkClusterFraction K w g =
     (case k_listNodes K w of
        Inl e \<Rightarrow> Inl e
      | Inr nodes \<Rightarrow>
          let clusterSize = spot_count nodes in
          if clusterSize = 0 then Inr (approve ''cluster_fraction'' ExHold)
          else
            let fraction = Fin 1 / f64_of_int clusterSize in
            if clusterFractionLimit g < fraction
            then Inr \<lparr>Approved = False, ModifiedAction = ExHold,
                      gr_Reason = FractionTooHigh fraction (clusterFractionLimit g),
                      GuardrailName = ''cluster_fraction''\<rparr>
            else Inr (approve ''cluster_fraction'' ExHold))"

definition checkConfidence :: "GuardrailChecker \<Rightarrow> ExecNodeState \<Rightarrow> GuardrailResult" where
  "checkConfidence g state =
     (if es_Confidence state < confidenceThreshold g
      then \<lparr>Approved = False, ModifiedAction = ExHold,
            gr_Reason = ConfidenceTooLow (es_Confidence state) (confidenceThreshold g),
            GuardrailName = ''low_confidence''\<rparr>
      else approve ''low_confidence'' ExHold)"

fun matching_pdb :: "Pod \<Rightarrow> PDB list \<Rightarrow> PDB option" where
  "matching_pdb pod [] = None"
| "matching_pdb pod (pdb # pdbs) =
     (case pdb_Selector pdb of
        None \<Rightarrow> matching_pdb pod pdbs
      | Some sel \<Rightarrow> if sel (pod_Labels pod) then Some pdb else matching_pdb pod pdbs)"

definition getPDBForPod :: "'w k8s \<Rightarrow> 'w \<Rightarrow> Pod \<Rightarrow> api_error + PDB option" where
  "getPDBForPod K w pod =
     (case k_listPDBs K w (pod_Namespace pod) of
        Inl e \<Rightarrow> Inl e
      | Inr pdbs \<Rightarrow> Inr (matching_pdb pod pdbs))"

fun pdb_loop :: "'w k8s \<Rightarrow> 'w \<Rightarrow> ExAction \<Rightarrow> Pod list \<Rightarrow> GuardrailResult" where
  "pdb_loop K w action [] = approve ''pdb'' action"
| "pdb_loop K w action (pod # pods) =
     (case getPDBForPod K w pod of
        Inl _ \<Rightarrow> pdb_loop K w action pods
      | Inr None \<Rightarrow> pdb_loop K w action pods
      | Inr (Some pdb) \<Rightarrow>
          if pdb_DisruptionsAllowed pdb = 0
          then \<lparr>Approved = True, ModifiedAction = ExDecrease30,
                gr_Reason = PDBZero (pdb_Name pdb) (pod_Name pod), GuardrailName = ''pdb''\<rparr>
          else pdb_loop K w action pods)"

definition checkPDB :: "'w k8s \<Rightarrow> 'w \<Rightarrow> Node \<Rightarrow> ExAction \<Rightarrow> api_error + GuardrailResult" where
  "checkPDB K w node action =
     (if action \<noteq> ExEmergencyExit then Inr (approve ''pdb'' action)
      else case k_listPodsOnNode K w (node_Name node) of
             Inl e \<Rightarrow> Inl e
           | Inr pods \<Rightarrow> Inr (pdb_loop K w action pods))"

fun critical_loop :: "ExAction \<Rightarrow> Pod list \<Rightarrow> GuardrailResult" where
  "critical_loop action [] = approve ''critical_workload'' action"
| "critical_loop action (pod # pods) =
     (if label_get (pod_Annotations pod) AnnotationCritical = ''true''
      then \<lparr>Approved = True, ModifiedAction = ExDecrease30,
            gr_Reason = CriticalPod (pod_Name pod), GuardrailName = ''critical_workload''\<rparr>
      else if label_get (pod_Annotations pod) AnnotationMigrationStrategy = ''graceful-only''
      then \<lparr>Approved = True, ModifiedAction = ExDecrease30,
            gr_Reason = GracefulOnly (pod_Name pod), GuardrailName = ''critical_workload''\<rparr>
      else critical_loop action pods)"

definition checkCriticalWorkloads ::
  "'w k8s \<Rightarrow> 'w \<Rightarrow> Node \<Rightarrow> ExAction \<Rightarrow> api_error + GuardrailResult" where
  "checkCriticalWorkloads K w node action =
     (if action \<noteq> ExEmergencyExit then Inr (approve ''critical_workload'' action)
      else case k_listPodsOnNode K w (node_Name node) of
             Inl e \<Rightarrow> Inl e
           | Inr pods \<Rightarrow> Inr (critical_loop action pods))"

definition checkHighUtilization :: "GuardrailChecker \<Rightarrow> ExecNodeState \<Rightarrow> ExAction \<Rightarrow> GuardrailResult" where
  "checkHighUtilization g state action =
     (if action \<in> {ExHold, ExIncrease10, ExIncrease30} then approve ''high_utilization'' action
      else if highUtilizationThreshold g < es_ClusterUtilization state
      then (if action = ExEmergencyExit
            then \<lparr>Approved = True, ModifiedAction = ExDecrease30,
                  gr_Reason = UtilizationDowngrade (es_ClusterUtilization state) (highUtilizationThreshold g),
                  GuardrailName = ''high_utilization''\<rparr>
            else if to_f64 (19 / 20) < es_ClusterUtilization state
            then \<lparr>Approved = False, ModifiedAction = ExHold,
                  gr_Reason = UtilizationBlock (es_ClusterUtilization state),
                  GuardrailName = ''high_utilization''\<rparr>
            else \<lparr>Approved = True, ModifiedAction = action,
                  gr_Reason = UtilizationCaution (es_ClusterUtilization state),
                  GuardrailName = ''high_utilization''\<rparr>)
      else approve ''high_utilization'' action)"

definition Check ::
  "'w k8s \<Rightarrow> 'w \<Rightarrow> GuardrailChecker \<Rightarrow> Node \<Rightarrow> ExAction \<Rightarrow> ExecNodeState \<Rightarrow> api_error + GuardrailResult" where
  "Check K w g node action state =
     (if action = ExHold then Inr (approve [] action)
      else case checkClusterFraction K w g of
        Inl e \<Rightarrow> Inl e
      | Inr r1 \<Rightarrow>
          if \<not> Approved r1 then Inr r1
          else let r2 = checkConfidence g state in
          if \<not> Approved r2 then Inr r2
          else case checkPDB K w node action of
            Inl e \<Rightarrow> Inl e
          | Inr r3 \<Rightarrow>
              if ModifiedAction r3 \<noteq> action then Inr r3
              else case checkCriticalWorkloads K w node action of
                Inl e \<Rightarrow> Inl e
              | Inr r4 \<Rightarrow>
                  if ModifiedAction r4 \<noteq> action then Inr r4
                  else let r5 = checkHighUtilization g state action in
                  if \<not> Approved r5 \<or> ModifiedAction r5 \<noteq> action then Inr r5
                  else Inr (approve [] action))"

section \<open>Facts about the single checks\<close>

lemma approve_simps [simp]:
  "Approved (approve n a)" "ModifiedAction (approve n a) = a" "GuardrailName (approve n a) = n"
  by (simp_all add: approve_def)

definition pod_blocked :: "'w k8s \<Rightarrow> 'w \<Rightarrow> Pod \<Rightarrow> bool" where
  "pod_blocked K w pod \<longleftrightarrow>
     (\<exists>pdb. getPDBForPod K w pod = Inr (Some pdb) \<and> pdb_DisruptionsAllowed pdb = 0)"

definition pod_critical :: "Pod \<Rightarrow> bool" where
  "pod_critical pod \<longleftrightarrow> label_get (pod_Annotations pod) AnnotationCritical = ''true'' \<or>
     label_get (pod_Annotations pod) AnnotationMigrationStrategy = ''graceful-only''"

lemma pdb_loop_spec:
  "Approved (pdb_loop K w action pods) \<and>
   ModifiedAction (pdb_loop K w action pods) = (if \<exists>p \<in> set pods. pod_blocked K w p then ExDecrease30 else action)"
  by (induction pods) (auto simp: pod_blocked_def split: sum.splits option.splits)

lemma critical_loop_spec:
  "Approved (critical_loop action pods) \<and>
   ModifiedAction (critical_loop action pods) = (if \<exists>p \<in> set pods. pod_critical p then ExDecrease30 else action)"
  by (induction pods) (auto simp: pod_critical_def)

lemma checkHighUtilization_cases:
  "Approved (checkHighUtilization g s a) \<Longrightarrow>
     ModifiedAction (checkHighUtilization g s a) = a \<or>
     (a = ExEmergencyExit \<and> ModifiedAction (checkHighUtilization g s a) = ExDecrease30)"
  by (auto simp: checkHighUtilization_def split: if_splits)

lemma checkPDB_cases:
  "checkPDB K w node a = Inr r \<Longrightarrow> Approved r \<and> (ModifiedAction r = a \<or> (a = ExEmergencyExit \<and> ModifiedAction r = ExDecrease30))"
  using pdb_loop_spec [of K w a] by (auto simp: checkPDB_def split: if_splits sum.splits)

lemma checkCritical_cases:
  "checkCriticalWorkloads K w node a = Inr r \<Longrightarrow> Approved r \<and> (ModifiedAction r = a \<or> (a = ExEmergencyExit \<and> ModifiedAction r = ExDecrease30))"
  using critical_loop_spec [of a] by (auto simp: checkCriticalWorkloads_def split: if_splits sum.splits)

lemma to_from_executor:
  "toExecutorAction a = (x, True) \<Longrightarrow> fromExecutorAction x = (a, True)"
  by (cases a) auto

section \<open>The chain of checks\<close>

definition fraction_ok :: "GuardrailChecker \<Rightarrow> Node list \<Rightarrow> bool" where
  "fraction_ok g nodes \<longleftrightarrow> spot_count nodes = 0 \<or> \<not> clusterFractionLimit g < Fin 1 / f64_of_int (spot_count nodes)"

lemma checkClusterFraction_ok:
  "k_listNodes K w = Inr nodes \<Longrightarrow>
     \<exists>r. checkClusterFraction K w g = Inr r \<and> (Approved r \<longleftrightarrow> fraction_ok g nodes) \<and> ModifiedAction r = ExHold"
  by (simp add: checkClusterFraction_def fraction_ok_def Let_def)

lemma checkConfidence_ok:
  "Approved (checkConfidence g s) \<longleftrightarrow> \<not> es_Confidence s < confidenceThreshold g"
  "ModifiedAction (checkConfidence g s) = ExHold"
  by (simp_all add: checkConfidence_def)

lemma checkHighUtilization_emergency:
  "Approved (checkHighUtilization g s ExEmergencyExit)"
  "ModifiedAction (checkHighUtilization g s ExEmergencyExit) =
     (if highUtilizationThreshold g < es_ClusterUtilization s then ExDecrease30 else ExEmergencyExit)"
  by (simp_all add: checkHighUtilization_def)

lemma checkClusterFraction_rejects:
  "checkClusterFraction K w g = Inr r \<Longrightarrow> ModifiedAction r = ExHold"
  by (auto simp: checkClusterFraction_def Let_def split: sum.splits if_splits)

lemma checkHighUtilization_rejects:
  "\<not> Approved (checkHighUtilization g s a) \<Longrightarrow>
     ModifiedAction (checkHighUtilization g s a) = ExHold"
  by (auto simp: checkHighUtilization_def split: if_splits)

lemma Check_total:
  assumes "k_listNodes K w = Inr nodes" and "k_listPodsOnNode K w (node_Name node) = Inr pods"
  shows "\<exists>r. Check K w g node action state = Inr r"
  using assms
  by (auto simp: Check_def checkClusterFraction_def checkPDB_def checkCriticalWorkloads_def Let_def)

lemma Check_cases:
  assumes "Check K w g node action state = Inr r"
  shows "if Approved r
         then ModifiedAction r = action \<or> (action = ExEmergencyExit \<and> ModifiedAction r = ExDecrease30)
         else ModifiedAction r = ExHold"
  using assms unfolding Check_def Let_def
  by (auto split: if_splits sum.splits
        dest: checkPDB_cases checkCritical_cases checkClusterFraction_rejects
              checkHighUtilization_cases checkHighUtilization_rejects
        simp: checkConfidence_ok)

text \<open>
  The guardrails never make an action more aggressive: a rejected action becomes
  a hold, an approved one is passed on as it is, except that an emergency exit may be softened
  to a 30 percent decrease. This holds whatever the API server answers.
\<close>

theorem Check_never_escalates:
  assumes "Check K w g node action state = Inr r"
  shows "if Approved r
         then ModifiedAction r = action \<or> (action = ExEmergencyExit \<and> ModifiedAction r = ExDecrease30)
         else ModifiedAction r = ExHold"
  using assms by (rule Check_cases)

definition guard_server :: mem_server where
  "guard_server =
     \<lparr>ms_nodes = [\<lparr>node_Name = ''n1'', node_Labels = [''karpenter.sh/capacity-type'' \<mapsto> ''spot''],
                    node_Taints = [], node_Unschedulable = False, node_ProviderID = [],
                    node_Addresses = [], node_Conditions = []\<rparr>],
      ms_pods = [\<lparr>pod_Name = ''p1'', pod_Namespace = ''ns'', pod_NodeName = ''n1'',
                   pod_Labels = Map.empty, pod_Annotations = [''spotvortex.io/critical'' \<mapsto> ''true''],
                   pod_OwnerKinds = [''ReplicaSet'']\<rparr>],
      ms_pdbs = (\<lambda>_. []), ms_protected = []\<rparr>"

definition guard_state :: ExecNodeState where
  "guard_state =
     \<lparr>es_NodeName = ''n1'', es_InstanceType = ''m5.large'', es_Zone = ''us-east-1a'',
      es_CapacityScore = Fin (3 / 4), es_SpotPrice = Fin (1 / 4), es_OnDemandPrice = Fin 1,
      es_PodStartupTime = Fin 30, es_OutagePenalty = Fin 1, es_Confidence = Fin (3 / 4),
      es_ClusterUtilization = Fin (1 / 2)\<rparr>"

definition guard_checker :: GuardrailChecker where
  "guard_checker =
     \<lparr>clusterFractionLimit = Fin 1, confidenceThreshold = Fin (1 / 2),
      highUtilizationThreshold = Fin (7 / 8)\<rparr>"

lemmas guard_example_defs = guard_server_def guard_state_def guard_checker_def mem_k8s_def

lemma guard_example [simp]:
  "k_listNodes mem_k8s guard_server = Inr (ms_nodes guard_server)"
  "k_listPodsOnNode mem_k8s guard_server (node_Name (hd (ms_nodes guard_server))) = Inr (ms_pods guard_server)"
  "\<not> es_Confidence guard_state < confidenceThreshold guard_checker"
  by (simp_all add: guard_example_defs)

lemma guard_example_fraction [simp]: "fraction_ok guard_checker (ms_nodes guard_server)"
  by code_simp

theorem Check_never_escalates_witness:
  "\<exists>r. Check mem_k8s guard_server guard_checker (hd (ms_nodes guard_server)) ExEmergencyExit guard_state = Inr r \<and>
       (if Approved r
        then ModifiedAction r = ExEmergencyExit \<or> (ExEmergencyExit = ExEmergencyExit \<and> ModifiedAction r = ExDecrease30)
        else ModifiedAction r = ExHold)"
proof -
  obtain r where
    "Check mem_k8s guard_server guard_checker (hd (ms_nodes guard_server)) ExEmergencyExit guard_state = Inr r"
    using Check_total [OF guard_example(1) guard_example(2)] by blast
  from this Check_never_escalates [OF this] show ?thesis by blast
qed

text \<open>
  C10 (functional). With a server that answers, an emergency exit goes through unchanged exactly
  when one node is an acceptable share of the Spot nodes, the confidence reaches its threshold,
  no pod of the node has an exhausted disruption budget, no pod is marked critical or
  graceful-only, and the cluster is not over the utilisation threshold; when only the last
  three fail it is softened to a 30 percent decrease, and otherwise it is held.
\<close>

theorem Check_emergency_exact:
  assumes "k_listNodes K w = Inr nodes" and "k_listPodsOnNode K w (node_Name node) = Inr pods"
  shows "\<exists>r. Check K w g node ExEmergencyExit state = Inr r \<and>
           (Approved r \<longleftrightarrow> fraction_ok g nodes \<and> \<not> es_Confidence state < confidenceThreshold g) \<and>
           ModifiedAction r =
             (if \<not> Approved r then ExHold
              else if (\<exists>p \<in> set pods. pod_blocked K w p \<or> pod_critical p) \<or>
                      highUtilizationThreshold g < es_ClusterUtilization state
              then ExDecrease30 else ExEmergencyExit)"
proof -
  obtain r1 where r1: "checkClusterFraction K w g = Inr r1" "Approved r1 \<longleftrightarrow> fraction_ok g nodes"
      "ModifiedAction r1 = ExHold"
    using checkClusterFraction_ok [OF assms(1)] by blast
  show ?thesis
    using r1 pdb_loop_spec [of K w ExEmergencyExit pods] critical_loop_spec [of ExEmergencyExit pods]
      checkHighUtilization_emergency [of g state] checkConfidence_ok [of g state]
    by (auto simp: Check_def Let_def checkPDB_def checkCriticalWorkloads_def assms(2))
qed

theorem Check_emergency_exact_witness:
  "k_listNodes mem_k8s guard_server = Inr (ms_nodes guard_server) \<and>
   (\<exists>r. Check mem_k8s guard_server guard_checker (hd (ms_nodes guard_server)) ExEmergencyExit guard_state = Inr r \<and>
        Approved r \<and> ModifiedAction r = ExDecrease30)"
proof -
  have "\<exists>p \<in> set (ms_pods guard_server). pod_critical p"
    by (simp add: guard_example_defs pod_critical_def AnnotationCritical_def label_get_def)
  then show ?thesis
    using Check_emergency_exact [OF guard_example(1) guard_example(2), of guard_checker guard_state]
    by (auto split: if_splits)
qed

text \<open>
  The guardrails fail closed: no action but a hold is approved while the nodes
  cannot be listed, and no emergency exit is approved, unchanged or softened, while the pods of its
  node cannot be listed.
\<close>

theorem Check_fails_closed:
  assumes "action \<noteq> ExHold"
  shows "(k_listNodes K w = Inl e \<longrightarrow> Check K w g node action state = Inl e) \<and>
         (k_listPodsOnNode K w (node_Name node) = Inl e \<longrightarrow>
            (\<forall>r. Check K w g node ExEmergencyExit state = Inr r \<longrightarrow> \<not> Approved r))"
  using assms
  by (auto simp: Check_def checkClusterFraction_def checkPDB_def Let_def split: sum.splits if_splits)

theorem Check_fails_closed_witness:
  "(ExDecrease10 \<noteq> ExHold \<and> k_listNodes (mem_k8s\<lparr>k_listNodes := \<lambda>_. Inl NotFound\<rparr>) guard_server = Inl NotFound) \<and>
   Check (mem_k8s\<lparr>k_listNodes := \<lambda>_. Inl NotFound\<rparr>) guard_server guard_checker (hd (ms_nodes guard_server)) ExDecrease10 guard_state = Inl NotFound"
  using Check_fails_closed [of ExDecrease10 "mem_k8s\<lparr>k_listNodes := \<lambda>_. Inl NotFound\<rparr>" guard_server NotFound]
  by simp

end
