(* ===== verification/Drain.thy ===== *)
theory Drain
  imports Cluster
begin

text \<open>
  internal/controller/drain.go: cordon, eviction through the Eviction API, uncordon. The API
  server is the parameter \<open>K\<close>; its state is threaded through the calls in the order the code
  makes them. Durations and log lines are left out.
\<close>

section \<open>Operations\<close>

record DrainConfig =
  GracePeriodSeconds :: int
  dc_DryRun :: bool
  IgnoreDaemonSets :: bool
  Force :: bool

datatype evict_error = PDBPrevents api_error | EvictRefused api_error

datatype drain_error = CordonFailed api_error | ListFailed api_error | EvictFailed string string evict_error

record DrainResult =
  dr_NodeName :: string
  dr_Success :: bool
  dr_DryRun :: bool
  PodsEvicted :: int
  PodsSkipped :: int
  PodsFailed :: int
  FailedPods :: "string list"
  dr_Error :: "drain_error option"

definition cordonNode :: "'w k8s \<Rightarrow> DrainConfig \<Rightarrow> 'w \<Rightarrow> string \<Rightarrow> api_error option \<times> 'w" where
  "cordonNode K cfg w nodeName =
     (if dc_DryRun cfg then (None, w)
      else case k_getNode K w nodeName of
        Inl e \<Rightarrow> (Some e, w)
      | Inr node \<Rightarrow>
          if node_Unschedulable node then (None, w)
          else k_updateNode K w (node\<lparr>node_Unschedulable := True\<rparr>))"

definition getPodsOnNode :: "'w k8s \<Rightarrow> 'w \<Rightarrow> string \<Rightarrow> api_error + Pod list" where
  "getPodsOnNode K w nodeName = k_listPodsOnNode K w nodeName"

definition evictPod :: "'w k8s \<Rightarrow> DrainConfig \<Rightarrow> 'w \<Rightarrow> Pod \<Rightarrow> evict_error option \<times> 'w" where
  "evictPod K cfg w pod =
     (if dc_DryRun cfg then (None, w)
      else case k_evict K w (pod_Namespace pod) (pod_Name pod) (GracePeriodSeconds cfg) of
        (None, w') \<Rightarrow> (None, w')
      | (Some e, w') \<Rightarrow>
          if e = NotFound then (None, w')
          else if e = TooManyRequests then (Some (PDBPrevents e), w')
          else (Some (EvictRefused e), w'))"

fun owned_by_daemonset :: "string list \<Rightarrow> bool" where
  "owned_by_daemonset [] = False"
| "owned_by_daemonset (kind # kinds) = (if kind = ''DaemonSet'' then True else owned_by_daemonset kinds)"

definition isDaemonSetPod :: "Pod \<Rightarrow> bool" where
  "isDaemonSetPod pod = owned_by_daemonset (pod_OwnerKinds pod)"

definition isMirrorPod :: "Pod \<Rightarrow> bool" where
  "isMirrorPod pod = (pod_Annotations pod ''kubernetes.io/config.mirror'' \<noteq> None)"

definition pod_key :: "Pod \<Rightarrow> string" where
  "pod_key pod = pod_Namespace pod @ ''/'' @ pod_Name pod"

fun drain_loop :: "'w k8s \<Rightarrow> DrainConfig \<Rightarrow> 'w \<Rightarrow> DrainResult \<Rightarrow> Pod list \<Rightarrow> DrainResult \<times> 'w" where
  "drain_loop K cfg w result [] = (result\<lparr>dr_Success := (PodsFailed result = 0)\<rparr>, w)"
| "drain_loop K cfg w result (pod # pods) =
     (if IgnoreDaemonSets cfg \<and> isDaemonSetPod pod
      then drain_loop K cfg w (result\<lparr>PodsSkipped := PodsSkipped result + 1\<rparr>) pods
      else if isMirrorPod pod
      then drain_loop K cfg w (result\<lparr>PodsSkipped := PodsSkipped result + 1\<rparr>) pods
      else case evictPod K cfg w pod of
        (Some err, w') \<Rightarrow>
          let result = result\<lparr>PodsFailed := PodsFailed result + 1,
                              FailedPods := FailedPods result @ [pod_key pod]\<rparr>
          in if \<not> Force cfg
             then (result\<lparr>dr_Error := Some (EvictFailed (pod_Namespace pod) (pod_Name pod) err)\<rparr>, w')
             else drain_loop K cfg w' result pods
      | (None, w') \<Rightarrow> drain_loop K cfg w' (result\<lparr>PodsEvicted := PodsEvicted result + 1\<rparr>) pods)"

definition new_drain_result :: "DrainConfig \<Rightarrow> string \<Rightarrow> DrainResult" where
  "new_drain_result cfg nodeName =
     \<lparr>dr_NodeName = nodeName, dr_Success = False, dr_DryRun = dc_DryRun cfg, PodsEvicted = 0,
      PodsSkipped = 0, PodsFailed = 0, FailedPods = [], dr_Error = None\<rparr>"

definition Drain :: "'w k8s \<Rightarrow> DrainConfig \<Rightarrow> 'w \<Rightarrow> string \<Rightarrow> DrainResult \<times> 'w" where
  "Drain K cfg w nodeName =
     (let result = new_drain_result cfg nodeName in
      case cordonNode K cfg w nodeName of
        (Some e, w') \<Rightarrow> (result\<lparr>dr_Error := Some (CordonFailed e)\<rparr>, w')
      | (None, w') \<Rightarrow>
          (case getPodsOnNode K w' nodeName of
             Inl e \<Rightarrow> (result\<lparr>dr_Error := Some (ListFailed e)\<rparr>, w')
           | Inr pods \<Rightarrow> drain_loop K cfg w' result pods))"

definition Uncordon :: "'w k8s \<Rightarrow> DrainConfig \<Rightarrow> 'w \<Rightarrow> string \<Rightarrow> api_error option \<times> 'w" where
  "Uncordon K cfg w nodeName =
     (if dc_DryRun cfg then (None, w)
      else case k_getNode K w nodeName of
        Inl e \<Rightarrow> (Some e, w)
      | Inr node \<Rightarrow>
          if \<not> node_Unschedulable node then (None, w)
          else k_updateNode K w (node\<lparr>node_Unschedulable := False\<rparr>))"

section \<open>The loop as a sequence of evictions\<close>

definition pod_skipped :: "DrainConfig \<Rightarrow> Pod \<Rightarrow> bool" where
  "pod_skipped cfg pod \<longleftrightarrow> IgnoreDaemonSets cfg \<and> isDaemonSetPod pod \<or> isMirrorPod pod"

definition pods_seen :: "DrainResult \<Rightarrow> int" where
  "pods_seen r = PodsEvicted r + PodsSkipped r + PodsFailed r"

lemma drain_loop_Cons [simp]:
  "drain_loop K cfg w result (pod # pods) =
     (if pod_skipped cfg pod
      then drain_loop K cfg w (result\<lparr>PodsSkipped := PodsSkipped result + 1\<rparr>) pods
      else case evictPod K cfg w pod of
        (Some err, w') \<Rightarrow>
          let result = result\<lparr>PodsFailed := PodsFailed result + 1,
                              FailedPods := FailedPods result @ [pod_key pod]\<rparr>
          in if \<not> Force cfg
             then (result\<lparr>dr_Error := Some (EvictFailed (pod_Namespace pod) (pod_Name pod) err)\<rparr>, w')
             else drain_loop K cfg w' result pods
      | (None, w') \<Rightarrow> drain_loop K cfg w' (result\<lparr>PodsEvicted := PodsEvicted result + 1\<rparr>) pods)"
  by (auto simp: pod_skipped_def)

declare drain_loop.simps(2) [simp del]

lemma drain_loop_counts:
  assumes "drain_loop K cfg w r pods = (r', w')" and "dr_Error r = None"
    and "int (length (FailedPods r)) = PodsFailed r"
  shows "int (length (FailedPods r')) = PodsFailed r' \<and>
         pods_seen r' \<le> pods_seen r + int (length pods) \<and>
         (dr_Error r' = None \<longrightarrow> pods_seen r' = pods_seen r + int (length pods) \<and> dr_Success r' = (PodsFailed r' = 0)) \<and>
         (dr_Error r' \<noteq> None \<longrightarrow> \<not> Force cfg \<and> dr_Success r' = dr_Success r \<and> PodsFailed r' = PodsFailed r + 1) \<and>
         PodsSkipped r' \<ge> PodsSkipped r \<and> PodsEvicted r' \<ge> PodsEvicted r"
  using assms
proof (induction pods arbitrary: w r)
  case Nil
  then show ?case by (auto simp: pods_seen_def)
next
  case (Cons pod pods)
  show ?case
    using Cons.prems Cons.IH
    by (auto simp: Let_def pods_seen_def split: if_splits prod.splits option.splits) (fastforce simp: pods_seen_def)+
qed

lemma drain_loop_no_force:
  "drain_loop K cfg w r pods = (r', w') \<Longrightarrow> \<not> Force cfg \<Longrightarrow> dr_Error r = None \<Longrightarrow>
     dr_Error r' = None \<Longrightarrow> PodsFailed r' = PodsFailed r"
  by (induction pods arbitrary: w r) (auto simp: Let_def split: if_splits prod.splits option.splits)

lemma drain_loop_failed_mono:
  "drain_loop K cfg w r pods = (r', w') \<Longrightarrow> PodsFailed r \<le> PodsFailed r'"
proof (induction pods arbitrary: w r)
  case (Cons pod pods)
  from Cons.prems show ?case
    by (auto simp: Let_def split: if_splits prod.splits option.splits dest!: Cons.IH)
qed auto

lemma drain_loop_name:
  "drain_loop K cfg w r pods = (r', w') \<Longrightarrow> dr_NodeName r' = dr_NodeName r"
  by (induction pods arbitrary: w r) (fastforce simp: Let_def split: if_splits prod.splits option.splits)+

lemma drain_loop_dry_run:
  "dc_DryRun cfg \<Longrightarrow> drain_loop K cfg w r pods =
     (r\<lparr>PodsSkipped := PodsSkipped r + int (length (filter (pod_skipped cfg) pods)),
        PodsEvicted := PodsEvicted r + int (length (filter (\<lambda>p. \<not> pod_skipped cfg p) pods)),
        dr_Success := (PodsFailed r = 0)\<rparr>, w)"
  by (induction pods arbitrary: r) (simp_all add: evictPod_def)

text \<open>
  The contract of the Eviction API that a drain relies on: \<open>gone w pod\<close> says that the server
  has accepted the removal of the pod. An eviction that is accepted, or that finds no pod,
  makes it so, and no later eviction takes it back.
\<close>

definition eviction_contract :: "'w k8s \<Rightarrow> ('w \<Rightarrow> Pod \<Rightarrow> bool) \<Rightarrow> bool" where
  "eviction_contract K gone \<longleftrightarrow>
     (\<forall>w p g. fst (k_evict K w (pod_Namespace p) (pod_Name p) g) \<in> {None, Some NotFound} \<longrightarrow>
        gone (snd (k_evict K w (pod_Namespace p) (pod_Name p) g)) p) \<and>
     (\<forall>w p ns n g. gone w p \<longrightarrow> gone (snd (k_evict K w ns n g)) p)"

lemma evictPod_gone:
  assumes "eviction_contract K gone" and "\<not> dc_DryRun cfg"
  shows "fst (evictPod K cfg w pod) = None \<Longrightarrow> gone (snd (evictPod K cfg w pod)) pod"
    and "gone w p \<Longrightarrow> gone (snd (evictPod K cfg w pod)) p"
proof -
  obtain e w' where e: "k_evict K w (pod_Namespace pod) (pod_Name pod) (GracePeriodSeconds cfg) = (e, w')"
    by fastforce
  have snd: "snd (evictPod K cfg w pod) = w'"
    using assms(2) e by (auto simp: evictPod_def split: option.splits)
  show "gone w p \<Longrightarrow> gone (snd (evictPod K cfg w pod)) p"
    using assms(1) e snd unfolding eviction_contract_def by (metis snd_conv)
  assume "fst (evictPod K cfg w pod) = None"
  then have "e \<in> {None, Some NotFound}"
    using assms(2) e by (auto simp: evictPod_def split: option.splits if_splits)
  then show "gone (snd (evictPod K cfg w pod)) pod"
    using assms(1) e snd unfolding eviction_contract_def by (metis fst_conv snd_conv)
qed

lemma drain_loop_gone_stable:
  assumes "eviction_contract K gone" and "\<not> dc_DryRun cfg"
  shows "drain_loop K cfg w r pods = (r', w') \<Longrightarrow> gone w p \<Longrightarrow> gone w' p"
proof (induction pods arbitrary: w r)
  case (Cons pod pods)
  have "gone (snd (evictPod K cfg w pod)) p"
    using evictPod_gone(2) [OF assms Cons.prems(2)] .
  then show ?case
    using Cons by (auto simp: Let_def split: if_splits prod.splits option.splits)
qed simp

lemma drain_loop_gone:
  assumes "eviction_contract K gone" and "\<not> dc_DryRun cfg"
  shows "drain_loop K cfg w r pods = (r', w') \<Longrightarrow> dr_Error r' = None \<Longrightarrow> PodsFailed r' = PodsFailed r \<Longrightarrow>
    dr_Error r = None \<Longrightarrow> int (length (FailedPods r)) = PodsFailed r \<Longrightarrow>
    p \<in> set pods \<Longrightarrow> pod_skipped cfg p \<or> gone w' p"
proof (induction pods arbitrary: w r)
  case (Cons pod pods)
  show ?case
  proof (cases "pod_skipped cfg pod \<or> fst (evictPod K cfg w pod) = None")
    case True
    then show ?thesis
      using Cons evictPod_gone(1) [OF assms, of w pod] drain_loop_gone_stable [OF assms]
      by (fastforce split: if_splits prod.splits option.splits)
  next
    case nf: False
    then obtain e w1 where e: "evictPod K cfg w pod = (Some e, w1)" by (metis option.exhaust prod.collapse)
    show ?thesis
    proof (cases "Force cfg")
      case True
      have "PodsFailed r' > PodsFailed r"
        using Cons.prems(1) nf e True
        by (auto simp: Let_def dest!: drain_loop_failed_mono)
      then show ?thesis using Cons.prems(3) by simp
    next
      case False
      with e nf Cons.prems show ?thesis by (auto simp: Let_def)
    qed
  qed
qed simp

section \<open>What a drain guarantees\<close>

text \<open>
  The report of a drain accounts for the pods it saw: the failures are the
  listed pods, success means that there was no error and no failure, and a drain that ends
  without error has counted each pod of the node exactly once. Without \<open>Force\<close> the first
  failed eviction ends the drain with an error.
\<close>

theorem Drain_accounting:
  assumes "Drain K cfg w nodeName = (r, w')"
  shows "int (length (FailedPods r)) = PodsFailed r \<and> dr_NodeName r = nodeName \<and>
         (dr_Success r \<longleftrightarrow> dr_Error r = None \<and> PodsFailed r = 0) \<and>
         (dr_Error r = None \<longrightarrow>
            (\<exists>w1 pods. cordonNode K cfg w nodeName = (None, w1) \<and> getPodsOnNode K w1 nodeName = Inr pods \<and>
               pods_seen r = int (length pods))) \<and>
         (\<not> Force cfg \<longrightarrow> PodsFailed r \<le> 1 \<and> (PodsFailed r = 1 \<longrightarrow> dr_Error r \<noteq> None))"
proof (cases "cordonNode K cfg w nodeName")
  case (Pair ce w1)
  show ?thesis
  proof (cases "ce = None \<and> (\<exists>pods. getPodsOnNode K w1 nodeName = Inr pods)")
    case True
    then obtain pods where ce: "ce = None" and pods: "getPodsOnNode K w1 nodeName = Inr pods" by blast
    let ?r0 = "new_drain_result cfg nodeName"
    have loop: "drain_loop K cfg w1 ?r0 pods = (r, w')"
      using assms Pair ce pods by (simp add: Drain_def)
    have r0: "dr_Error ?r0 = None" "int (length (FailedPods ?r0)) = PodsFailed ?r0"
        "\<not> dr_Success ?r0" "PodsFailed ?r0 = 0" "pods_seen ?r0 = 0"
      by (simp_all add: new_drain_result_def pods_seen_def)
    show ?thesis
      using drain_loop_counts [OF loop r0(1,2)] drain_loop_no_force [OF loop _ r0(1)] r0 Pair ce pods
        drain_loop_name [OF loop]
      by (cases "dr_Error r = None") (auto simp: new_drain_result_def)
  next
    case False
    with Pair assms show ?thesis
      by (auto simp: Drain_def Let_def new_drain_result_def split: option.splits sum.splits)
  qed
qed

definition drain_config :: "bool \<Rightarrow> DrainConfig" where
  "drain_config dry = \<lparr>GracePeriodSeconds = 30, dc_DryRun = dry, IgnoreDaemonSets = True, Force = False\<rparr>"

definition drain_node :: Node where
  "drain_node = \<lparr>node_Name = ''n1'', node_Labels = Map.empty, node_Taints = [], node_Unschedulable = False,
     node_ProviderID = [], node_Addresses = [], node_Conditions = []\<rparr>"

definition drain_pod :: "string \<Rightarrow> string \<Rightarrow> Pod" where
  "drain_pod n kind = \<lparr>pod_Name = n, pod_Namespace = ''ns'', pod_NodeName = ''n1'', pod_Labels = Map.empty,
     pod_Annotations = Map.empty, pod_OwnerKinds = [kind]\<rparr>"

definition drain_server :: "string list \<Rightarrow> mem_server" where
  "drain_server protected =
     \<lparr>ms_nodes = [drain_node],
      ms_pods = [drain_pod ''ds'' ''DaemonSet'', drain_pod ''a'' ''ReplicaSet'', drain_pod ''b'' ''ReplicaSet''],
      ms_pdbs = (\<lambda>_. []), ms_protected = protected\<rparr>"

lemmas drain_example_defs = drain_config_def drain_node_def drain_pod_def drain_server_def mem_k8s_def
  Drain_def new_drain_result_def cordonNode_def getPodsOnNode_def evictPod_def pod_skipped_def
  isDaemonSetPod_def isMirrorPod_def pod_key_def

theorem Drain_accounting_witness:
  "\<exists>r w'. Drain mem_k8s (drain_config False) (drain_server [''a'']) ''n1'' = (r, w') \<and>
     FailedPods r = [''ns/a''] \<and> int (length (FailedPods r)) = PodsFailed r \<and>
     (dr_Success r \<longleftrightarrow> dr_Error r = None \<and> PodsFailed r = 0)"
proof -
  obtain r w' where d: "Drain mem_k8s (drain_config False) (drain_server [''a'']) ''n1'' = (r, w')"
    and f: "FailedPods r = [''ns/a'']"
    by (simp add: drain_example_defs Let_def)
  show ?thesis using d f Drain_accounting [OF d] by blast
qed

text \<open>
  In dry-run mode a drain writes nothing to the API server: the state afterwards
  is the state before, no failure is ever reported, and the skipped and evicted counts are
  what the real drain would attempt.
\<close>

theorem Drain_dry_run:
  assumes "dc_DryRun cfg" and "k_listPodsOnNode K w nodeName = Inr pods"
  shows "\<exists>r. Drain K cfg w nodeName = (r, w) \<and> dr_Success r \<and> dr_Error r = None \<and> PodsFailed r = 0 \<and>
           PodsSkipped r = int (length (filter (pod_skipped cfg) pods)) \<and>
           PodsEvicted r = int (length pods) - PodsSkipped r \<and> Uncordon K cfg w nodeName = (None, w)"
  using assms sum_length_filter_compl [of "pod_skipped cfg" pods]
  by (simp add: Drain_def cordonNode_def getPodsOnNode_def drain_loop_dry_run new_drain_result_def Uncordon_def)

theorem Drain_dry_run_witness:
  "dc_DryRun (drain_config True) \<and>
   (\<exists>r. Drain mem_k8s (drain_config True) (drain_server [''a'']) ''n1'' = (r, drain_server [''a'']) \<and>
      PodsSkipped r = 1 \<and> PodsEvicted r = 2)"
proof -
  have l: "k_listPodsOnNode mem_k8s (drain_server [''a'']) ''n1'' = Inr (ms_pods (drain_server [''a'']))"
    and d: "dc_DryRun (drain_config True)"
    and f: "length (filter (pod_skipped (drain_config True)) (ms_pods (drain_server [''a'']))) = 1"
    by (simp_all add: drain_example_defs)
  show ?thesis using Drain_dry_run [OF d l] f d
    by (auto simp: drain_server_def)
qed

text \<open>
  C15 (liveness). A drain that reports success has removed what it set out to remove: with a
  server that keeps the contract of the Eviction API, every pod that was on the node is either
  one the drain skips (a mirror pod, or a DaemonSet pod when those are ignored) or gone.
\<close>

theorem Drain_success_evicts_all:
  assumes "eviction_contract K gone" and "\<not> dc_DryRun cfg"
    and "Drain K cfg w nodeName = (r, w')" and "dr_Success r"
  shows "\<exists>w1 pods. cordonNode K cfg w nodeName = (None, w1) \<and> k_listPodsOnNode K w1 nodeName = Inr pods \<and>
           (\<forall>p \<in> set pods. pod_skipped cfg p \<or> gone w' p)"
proof -
  let ?r0 = "new_drain_result cfg nodeName"
  have r0: "dr_Error ?r0 = None" "int (length (FailedPods ?r0)) = PodsFailed ?r0"
      "\<not> dr_Success ?r0" "PodsFailed ?r0 = 0"
    by (simp_all add: new_drain_result_def)
  obtain w1 pods where c: "cordonNode K cfg w nodeName = (None, w1)"
      and l: "getPodsOnNode K w1 nodeName = Inr pods" and d: "drain_loop K cfg w1 ?r0 pods = (r, w')"
    using assms(3,4) r0(3) by (auto simp: Drain_def Let_def split: prod.splits option.splits sum.splits)
  have "dr_Error r = None" "PodsFailed r = PodsFailed ?r0"
    using drain_loop_counts [OF d r0(1,2)] assms(4) r0 by auto
  then show ?thesis
    using drain_loop_gone [OF assms(1,2) d _ _ r0(1,2)] c l by (auto simp: getPodsOnNode_def)
qed

definition mem_gone :: "mem_server \<Rightarrow> Pod \<Rightarrow> bool" where
  "mem_gone w p \<longleftrightarrow> (\<forall>q \<in> set (ms_pods w). \<not> (pod_Name q = pod_Name p \<and> pod_Namespace q = pod_Namespace p))"

lemma mem_eviction_contract: "eviction_contract mem_k8s mem_gone"
  by (auto simp: eviction_contract_def mem_gone_def mem_k8s_def split: if_splits)

theorem Drain_success_evicts_all_witness:
  "eviction_contract mem_k8s mem_gone \<and>
   (\<exists>r w' w1 pods. Drain mem_k8s (drain_config False) (drain_server []) ''n1'' = (r, w') \<and>
      cordonNode mem_k8s (drain_config False) (drain_server []) ''n1'' = (None, w1) \<and>
      k_listPodsOnNode mem_k8s w1 ''n1'' = Inr pods \<and>
      (\<forall>p \<in> set pods. pod_skipped (drain_config False) p \<or> mem_gone w' p))"
proof -
  obtain r w' where d: "Drain mem_k8s (drain_config False) (drain_server []) ''n1'' = (r, w')" "dr_Success r"
    by (simp add: drain_example_defs Let_def)
  have "\<not> dc_DryRun (drain_config False)" by (simp add: drain_config_def)
  from Drain_success_evicts_all [OF mem_eviction_contract this d] d show ?thesis
    using mem_eviction_contract by blast
qed

text \<open>
  The contract of node reads and writes: an accepted update is what the next read of that
  node returns.
\<close>

definition node_store_contract :: "'w k8s \<Rightarrow> bool" where
  "node_store_contract K \<longleftrightarrow>
     (\<forall>w n x. k_getNode K w n = Inr x \<longrightarrow> node_Name x = n) \<and>
     (\<forall>w n x y w'. k_getNode K w n = Inr x \<longrightarrow> node_Name y = n \<longrightarrow> k_updateNode K w y = (None, w') \<longrightarrow>
        k_getNode K w' n = Inr y)"

text \<open>
  Cordoning a schedulable node and then uncordoning it restores it: a
  successful cordon leaves the node unschedulable and otherwise unchanged, and a successful
  uncordon gives back the node as it was.
\<close>

theorem cordon_Uncordon_roundtrip:
  assumes "node_store_contract K" and "\<not> dc_DryRun cfg"
    and "k_getNode K w n = Inr node" and "\<not> node_Unschedulable node"
    and "cordonNode K cfg w n = (None, w1)" and "Uncordon K cfg w1 n = (None, w2)"
  shows "k_getNode K w1 n = Inr (node\<lparr>node_Unschedulable := True\<rparr>) \<and> k_getNode K w2 n = Inr node"
proof -
  have name: "node_Name node = n"
    and store: "\<And>w x y w'. k_getNode K w n = Inr x \<Longrightarrow> node_Name y = n \<Longrightarrow> k_updateNode K w y = (None, w') \<Longrightarrow>
        k_getNode K w' n = Inr y"
    using assms(1,3) unfolding node_store_contract_def by blast+
  have g1: "k_getNode K w1 n = Inr (node\<lparr>node_Unschedulable := True\<rparr>)"
    using assms(2-5) name by (intro store [OF assms(3)]) (auto simp: cordonNode_def)
  have "k_getNode K w2 n = Inr (node\<lparr>node_Unschedulable := True, node_Unschedulable := False\<rparr>)"
    using assms(2,6) name g1 by (intro store [OF g1]) (auto simp: Uncordon_def)
  moreover have "node\<lparr>node_Unschedulable := False\<rparr> = node" using assms(4) by simp
  ultimately show ?thesis using g1 by simp
qed

lemma find_node_replace:
  "find_node n xs = Some x \<Longrightarrow> node_Name y = n \<Longrightarrow>
     find_node n (map (\<lambda>z. if node_Name z = n then y else z) xs) = Some y"
  by (induction xs) (auto split: if_splits)

lemma mem_getNode:
  "k_getNode mem_k8s w n = Inr x \<longleftrightarrow> find_node n (ms_nodes w) = Some x"
  "k_updateNode mem_k8s w y = (None, w') \<longleftrightarrow>
     w' = w\<lparr>ms_nodes := map (\<lambda>z. if node_Name z = node_Name y then y else z) (ms_nodes w)\<rparr>"
  by (auto simp: mem_k8s_def split: option.splits)

lemma mem_node_store: "node_store_contract mem_k8s"
  unfolding node_store_contract_def mem_getNode
  using find_node_Some find_node_replace by fastforce

theorem cordon_Uncordon_roundtrip_witness:
  "\<exists>w1 w2. cordonNode mem_k8s (drain_config False) (drain_server []) ''n1'' = (None, w1) \<and>
     Uncordon mem_k8s (drain_config False) w1 ''n1'' = (None, w2) \<and>
     k_getNode mem_k8s w1 ''n1'' = Inr (drain_node\<lparr>node_Unschedulable := True\<rparr>) \<and>
     k_getNode mem_k8s w2 ''n1'' = Inr drain_node"
proof -
  have g: "k_getNode mem_k8s (drain_server []) ''n1'' = Inr drain_node" "\<not> node_Unschedulable drain_node"
      "\<not> dc_DryRun (drain_config False)"
    by (simp_all add: drain_example_defs)
  obtain w1 w2 where c: "cordonNode mem_k8s (drain_config False) (drain_server []) ''n1'' = (None, w1)"
      "Uncordon mem_k8s (drain_config False) w1 ''n1'' = (None, w2)"
    by (simp add: drain_example_defs Uncordon_def)
  show ?thesis using cordon_Uncordon_roundtrip [OF mem_node_store g(3,1,2) c] c by blast
qed

end
