(* ===== verification/ASG.thy ===== *)
theory ASG
  imports Capacity_Types
begin

text \<open>
  internal/capacity/asg_client.go and asg_manager.go: the Auto Scaling Group client interface,
  the in-memory client the repository ships, and the twin-group swap: scale up the twin, wait
  for a Ready node, and after the drain terminate the old instance. 32-bit capacities wrap.
\<close>

section \<open>The client interface\<close>

record ASGInfo =
  ASGID :: string
  asg_Pool :: string
  asg_CapacityType :: string
  DesiredCapacity :: int
  CurrentCount :: int
  MaxSize :: int

datatype asg_error = TwinNotFound string | ASGNotFound string | ExceedsMax int int string
  | UseNodeLabels | AsgApiError string

record 'w asg_client =
  a_DiscoverTwinASGs :: "'w \<Rightarrow> string \<Rightarrow> asg_error + (ASGInfo \<times> ASGInfo)"
  a_SetDesiredCapacity :: "'w \<Rightarrow> string \<Rightarrow> int \<Rightarrow> asg_error option \<times> 'w"
  a_TerminateInstance :: "'w \<Rightarrow> string \<Rightarrow> string \<Rightarrow> bool \<Rightarrow> asg_error option \<times> 'w"
  a_GetInstanceASG :: "'w \<Rightarrow> string \<Rightarrow> asg_error + string"

section \<open>The in-memory client\<close>

record fakeScaleCall =
  sc_ASGID :: string
  sc_Desired :: int

record fakeTerminateCall =
  tc_ASGID :: string
  tc_InstanceID :: string
  tc_Decrement :: bool

record FakeASGClient =
  asgs :: "string \<rightharpoonup> ASGInfo"
  ScaleUpCalls :: "fakeScaleCall list"
  TerminateCalls :: "fakeTerminateCall list"

definition NewFakeASGClient :: FakeASGClient where
  "NewFakeASGClient = \<lparr>asgs = Map.empty, ScaleUpCalls = [], TerminateCalls = []\<rparr>"

definition spot_asg_id :: "string \<Rightarrow> string" where "spot_asg_id pool = pool @ ''-spot-asg''"
definition od_asg_id :: "string \<Rightarrow> string" where "od_asg_id pool = pool @ ''-od-asg''"

definition AddTwinPair :: "FakeASGClient \<Rightarrow> string \<Rightarrow> int \<Rightarrow> int \<Rightarrow> FakeASGClient" where
  "AddTwinPair f pool spotDesired odDesired =
     f\<lparr>asgs := (asgs f)
        (spot_asg_id pool \<mapsto> \<lparr>ASGID = spot_asg_id pool, asg_Pool = pool, asg_CapacityType = ''spot'',
           DesiredCapacity = spotDesired, CurrentCount = spotDesired, MaxSize = wrap 32 (spotDesired + 5)\<rparr>,
         od_asg_id pool \<mapsto> \<lparr>ASGID = od_asg_id pool, asg_Pool = pool, asg_CapacityType = ''on-demand'',
           DesiredCapacity = odDesired, CurrentCount = odDesired, MaxSize = wrap 32 (odDesired + 5)\<rparr>)\<rparr>"

definition DiscoverTwinASGs :: "FakeASGClient \<Rightarrow> string \<Rightarrow> asg_error + (ASGInfo \<times> ASGInfo)" where
  "DiscoverTwinASGs f pool =
     (case (asgs f (spot_asg_id pool), asgs f (od_asg_id pool)) of
        (Some spot, Some od) \<Rightarrow> Inr (spot, od)
      | _ \<Rightarrow> Inl (TwinNotFound pool))"

definition SetDesiredCapacity :: "FakeASGClient \<Rightarrow> string \<Rightarrow> int \<Rightarrow> asg_error option \<times> FakeASGClient" where
  "SetDesiredCapacity f asgID desired =
     (case asgs f asgID of
        None \<Rightarrow> (Some (ASGNotFound asgID), f)
      | Some asg \<Rightarrow>
          if desired > MaxSize asg then (Some (ExceedsMax desired (MaxSize asg) asgID), f)
          else (None, f\<lparr>asgs := (asgs f)(asgID \<mapsto> asg\<lparr>DesiredCapacity := desired, CurrentCount := desired\<rparr>),
                        ScaleUpCalls := ScaleUpCalls f @ [\<lparr>sc_ASGID = asgID, sc_Desired = desired\<rparr>]\<rparr>))"

definition TerminateInstance ::
  "FakeASGClient \<Rightarrow> string \<Rightarrow> string \<Rightarrow> bool \<Rightarrow> asg_error option \<times> FakeASGClient" where
  "TerminateInstance f asgID instanceID decrementDesired =
     (case asgs f asgID of
        None \<Rightarrow> (Some (ASGNotFound asgID), f)
      | Some asg \<Rightarrow>
          let asg = (if decrementDesired \<and> DesiredCapacity asg > 0
                     then asg\<lparr>DesiredCapacity := DesiredCapacity asg - 1\<rparr> else asg);
              asg = (if CurrentCount asg > 0 then asg\<lparr>CurrentCount := CurrentCount asg - 1\<rparr> else asg)
          in (None, f\<lparr>asgs := (asgs f)(asgID \<mapsto> asg),
                      TerminateCalls := TerminateCalls f @
                        [\<lparr>tc_ASGID = asgID, tc_InstanceID = instanceID, tc_Decrement = decrementDesired\<rparr>]\<rparr>))"

definition GetInstanceASG :: "FakeASGClient \<Rightarrow> string \<Rightarrow> asg_error + string" where
  "GetInstanceASG f instanceID = Inl UseNodeLabels"

definition GetASG :: "FakeASGClient \<Rightarrow> string \<Rightarrow> ASGInfo option" where
  "GetASG f asgID = asgs f asgID"

definition fake_client :: "FakeASGClient asg_client" where
  "fake_client = \<lparr>a_DiscoverTwinASGs = DiscoverTwinASGs, a_SetDesiredCapacity = SetDesiredCapacity,
     a_TerminateInstance = TerminateInstance, a_GetInstanceASG = GetInstanceASG\<rparr>"

section \<open>The manager\<close>

record 'w ASGManager =
  asgClient :: "'w asg_client option"
  k8sClient :: "'w k8s option"
  managerType :: ManagerType
  nodeReadyTimeout :: int
  pollInterval :: int

text \<open>\<open>ManagerUnknown\<close> stands for the empty manager type of the configuration.\<close>

definition NewASGManager :: "'w ASGManager \<Rightarrow> 'w ASGManager" where
  "NewASGManager cfg =
     (let cfg = (if managerType cfg = ManagerUnknown then cfg\<lparr>managerType := ManagerClusterAutoscaler\<rparr> else cfg);
          cfg = (if nodeReadyTimeout cfg \<le> 0 then cfg\<lparr>nodeReadyTimeout := 300 * 1000000000\<rparr> else cfg)
      in (if pollInterval cfg \<le> 0 then cfg\<lparr>pollInterval := 10 * 1000000000\<rparr> else cfg))"

datatype wait_error = WaitListFailed api_error | WaitCancelled | WaitTimeout string string

datatype swap_error = ASGClientMissing | DiscoverFailed string asg_error | ScaleUpFailed string asg_error
  | ReplacementFailed wait_error | NodePoolManagerMissing | NoManagerFor string ManagerType

fun isNodeReady :: "NodeCondition list \<Rightarrow> bool" where
  "isNodeReady [] = False"
| "isNodeReady (cond # conds) =
     (if cond_Type cond = ''Ready'' then cond_Status cond = ''True'' else isNodeReady conds)"

definition expected_cap_type :: "SwapDirection \<Rightarrow> string" where
  "expected_cap_type direction = (if direction = SwapToSpot then ''spot'' else ''on-demand'')"

definition is_replacement :: "string set \<Rightarrow> PoolInfo \<Rightarrow> SwapDirection \<Rightarrow> Node \<Rightarrow> bool" where
  "is_replacement existing pool direction node \<longleftrightarrow>
     node_Name node \<notin> existing \<and>
     \<not> (label_get (node_Labels node) ''spotvortex.io/pool'' \<noteq> pool_Name pool \<and> pool_Name pool \<noteq> []) \<and>
     CapacityTypeFromLabels (node_Labels node) = expected_cap_type direction \<and>
     isNodeReady (node_Conditions node)"

fun find_replacement :: "string set \<Rightarrow> PoolInfo \<Rightarrow> SwapDirection \<Rightarrow> Node list \<Rightarrow> string option" where
  "find_replacement existing pool direction [] = None"
| "find_replacement existing pool direction (node # nodes) =
     (if node_Name node \<in> existing then find_replacement existing pool direction nodes
      else if label_get (node_Labels node) ''spotvortex.io/pool'' \<noteq> pool_Name pool \<and> pool_Name pool \<noteq> []
      then find_replacement existing pool direction nodes
      else if CapacityTypeFromLabels (node_Labels node) \<noteq> expected_cap_type direction
      then find_replacement existing pool direction nodes
      else if isNodeReady (node_Conditions node) then Some (node_Name node)
      else find_replacement existing pool direction nodes)"

text \<open>
  While the manager waits, the rest of the world moves on. What wakes it up is a list of
  events, each with the state of the world at that moment: a poll tick, the deadline, or the
  cancellation of the context. The result is \<open>None\<close> while it is still waiting.
\<close>

datatype 'w wait_event = Tick 'w | Deadline 'w | Cancelled 'w

fun wait_loop :: "'w k8s \<Rightarrow> string set \<Rightarrow> PoolInfo \<Rightarrow> SwapDirection \<Rightarrow> 'w wait_event list \<Rightarrow>
    ((wait_error + string) \<times> 'w) option" where
  "wait_loop K existing pool direction [] = None"
| "wait_loop K existing pool direction (Cancelled w # es) = Some (Inl WaitCancelled, w)"
| "wait_loop K existing pool direction (Deadline w # es) =
     Some (Inl (WaitTimeout (expected_cap_type direction) (pool_Name pool)), w)"
| "wait_loop K existing pool direction (Tick w # es) =
     (case k_listNodes K w of
        Inl _ \<Rightarrow> wait_loop K existing pool direction es
      | Inr nodes \<Rightarrow>
          (case find_replacement existing pool direction nodes of
             Some name \<Rightarrow> Some (Inr name, w)
           | None \<Rightarrow> wait_loop K existing pool direction es))"

definition waitForNewNode :: "'w ASGManager \<Rightarrow> 'w \<Rightarrow> 'w wait_event list \<Rightarrow> PoolInfo \<Rightarrow> SwapDirection \<Rightarrow>
    ((wait_error + string) \<times> 'w) option" where
  "waitForNewNode m w events pool direction =
     (case k8sClient m of
        None \<Rightarrow> Some (Inr ''fake-replacement-node'', w)
      | Some K \<Rightarrow>
          (case k_listNodes K w of
             Inl e \<Rightarrow> Some (Inl (WaitListFailed e), w)
           | Inr nodes \<Rightarrow> wait_loop K (set (map node_Name nodes)) pool direction events))"

definition PrepareSwap :: "'w ASGManager \<Rightarrow> 'w \<Rightarrow> 'w wait_event list \<Rightarrow> PoolInfo \<Rightarrow> SwapDirection \<Rightarrow>
    ((swap_error + SwapResult) \<times> 'w) option" where
  "PrepareSwap m w events pool direction =
     (case asgClient m of
        None \<Rightarrow> Some (Inl ASGClientMissing, w)
      | Some A \<Rightarrow>
        (case a_DiscoverTwinASGs A w (pool_Name pool) of
           Inl e \<Rightarrow> Some (Inl (DiscoverFailed (pool_Name pool) e), w)
         | Inr (spotASG, odASG) \<Rightarrow>
           let targetASG = (case direction of SwapToOnDemand \<Rightarrow> odASG | SwapToSpot \<Rightarrow> spotASG);
               newDesired = wrap 32 (DesiredCapacity targetASG + 1)
           in case a_SetDesiredCapacity A w (ASGID targetASG) newDesired of
                (Some e, w1) \<Rightarrow> Some (Inl (ScaleUpFailed (ASGID targetASG) e), w1)
              | (None, w1) \<Rightarrow>
                (case waitForNewNode m w1 events pool direction of
                   None \<Rightarrow> None
                 | Some (Inl e, w2) \<Rightarrow>
                     let w3 = snd (a_SetDesiredCapacity A w2 (ASGID targetASG) (DesiredCapacity targetASG))
                     in Some (Inl (ReplacementFailed e), w3)
                 | Some (Inr name, w2) \<Rightarrow>
                     Some (Inr \<lparr>sr_Ready = True, sr_ReplacementNodeName = name\<rparr>, w2))))"

datatype cleanup_error = CleanupGetFailed string api_error | NoInstanceID string string
  | PoolNameRequired string | CleanupDiscoverFailed string asg_error | NoCapacityType string
  | TerminateFailed string string asg_error

fun last_part :: "string list \<Rightarrow> string" where
  "last_part [] = []"
| "last_part (part # parts) = (if TrimSpace part = [] then last_part parts else TrimSpace part)"

text \<open>\<open>last_part\<close> runs over the parts from the last to the first.\<close>

definition instanceIDFromProviderID :: "string \<Rightarrow> string" where
  "instanceIDFromProviderID providerID =
     (let trimmed = TrimSpace providerID in
      if trimmed = [] then [] else last_part (rev (Split CHR ''/'' trimmed)))"

definition twin_for_node :: "'w asg_client \<Rightarrow> 'w \<Rightarrow> Node \<Rightarrow> PoolInfo \<Rightarrow> cleanup_error + string" where
  "twin_for_node A w node pool =
     (if pool_Name pool = [] then Inl (PoolNameRequired (node_Name node))
      else case a_DiscoverTwinASGs A w (pool_Name pool) of
        Inl e \<Rightarrow> Inl (CleanupDiscoverFailed (pool_Name pool) e)
      | Inr (spotASG, odASG) \<Rightarrow>
          (let t = CapacityTypeFromLabels (node_Labels node) in
           if t = ''spot'' then Inr (ASGID spotASG)
           else if t = ''on-demand'' then Inr (ASGID odASG)
           else Inl (NoCapacityType (node_Name node))))"

definition sourceASGForNode ::
  "'w asg_client \<Rightarrow> 'w \<Rightarrow> Node \<Rightarrow> PoolInfo \<Rightarrow> string \<Rightarrow> cleanup_error + string" where
  "sourceASGForNode A w node pool instanceID =
     (if instanceID \<noteq> []
      then (case a_GetInstanceASG A w instanceID of
              Inr asgID \<Rightarrow> if asgID \<noteq> [] then Inr asgID else twin_for_node A w node pool
            | Inl _ \<Rightarrow> twin_for_node A w node pool)
      else twin_for_node A w node pool)"

definition PostDrainCleanup :: "'w ASGManager \<Rightarrow> 'w \<Rightarrow> string \<Rightarrow> PoolInfo \<Rightarrow> cleanup_error option \<times> 'w" where
  "PostDrainCleanup m w nodeName pool =
     (case (asgClient m, k8sClient m) of
        (Some A, Some K) \<Rightarrow>
          (case k_getNode K w nodeName of
             Inl e \<Rightarrow> (Some (CleanupGetFailed nodeName e), w)
           | Inr node \<Rightarrow>
             let instanceID = instanceIDFromProviderID (node_ProviderID node) in
             if instanceID = [] then (Some (NoInstanceID nodeName (node_ProviderID node)), w)
             else case sourceASGForNode A w node pool instanceID of
                    Inl e \<Rightarrow> (Some e, w)
                  | Inr sourceASGID \<Rightarrow>
                    (case a_TerminateInstance A w sourceASGID instanceID True of
                       (Some e, w') \<Rightarrow> (Some (TerminateFailed instanceID sourceASGID e), w')
                     | (None, w') \<Rightarrow> (None, w')))
      | _ \<Rightarrow> (None, w))"

definition IsAvailable :: "'w ASGManager \<Rightarrow> bool" where
  "IsAvailable m = (case asgClient m of None \<Rightarrow> False | Some _ \<Rightarrow> True)"

section \<open>Waiting\<close>

fun world_of :: "'w wait_event \<Rightarrow> 'w" where
  "world_of (Tick w) = w"
| "world_of (Deadline w) = w"
| "world_of (Cancelled w) = w"

lemma find_replacement_Some:
  "find_replacement existing pool direction nodes = Some name \<Longrightarrow>
     \<exists>node \<in> set nodes. node_Name node = name \<and> is_replacement existing pool direction node"
  by (induction nodes) (auto simp: is_replacement_def split: if_splits)

lemma find_replacement_None:
  "find_replacement existing pool direction nodes = None \<Longrightarrow> node \<in> set nodes \<Longrightarrow>
     \<not> is_replacement existing pool direction node"
  by (induction nodes) (auto simp: is_replacement_def split: if_splits)

lemma wait_loop_result:
  "wait_loop K existing pool direction events = Some (r, w) \<Longrightarrow>
     w \<in> world_of ` set events \<and>
     (\<forall>name. r = Inr name \<longrightarrow>
        (\<exists>nodes node. Tick w \<in> set events \<and> k_listNodes K w = Inr nodes \<and> node \<in> set nodes \<and>
           node_Name node = name \<and> is_replacement existing pool direction node))"
proof (induction events)
  case (Cons ev es)
  show ?case
  proof (cases ev)
    case (Tick w0)
    then show ?thesis
      using Cons by (auto split: sum.splits option.splits dest!: find_replacement_Some)
  qed (use Cons.prems in auto)
qed simp

lemma wait_loop_ends:
  "\<exists>w. Deadline w \<in> set events \<or> Cancelled w \<in> set events \<Longrightarrow>
     wait_loop K existing pool direction events \<noteq> None"
proof (induction events)
  case (Cons ev es)
  then show ?case by (cases ev) (auto split: sum.splits option.splits)
qed simp

section \<open>What a swap needs of the client\<close>

definition target_asg :: "SwapDirection \<Rightarrow> ASGInfo \<times> ASGInfo \<Rightarrow> ASGInfo" where
  "target_asg direction twins = (case direction of SwapToOnDemand \<Rightarrow> snd twins | SwapToSpot \<Rightarrow> fst twins)"

text \<open>The state of the world right after the scale-up call of a swap has succeeded.\<close>

definition scaled_up :: "'w asg_client \<Rightarrow> 'w \<Rightarrow> PoolInfo \<Rightarrow> SwapDirection \<Rightarrow> 'w option" where
  "scaled_up A w pool direction =
     (case a_DiscoverTwinASGs A w (pool_Name pool) of
        Inl _ \<Rightarrow> None
      | Inr twins \<Rightarrow>
          let t = target_asg direction twins
          in case a_SetDesiredCapacity A w (ASGID t) (wrap 32 (DesiredCapacity t + 1)) of
               (None, w1) \<Rightarrow> Some w1
             | (Some _, _) \<Rightarrow> None)"

lemma PrepareSwap_scaled_up:
  assumes "asgClient m = Some A"
  shows "PrepareSwap m w events pool direction = Some (Inr r, w') \<longleftrightarrow>
           (\<exists>w1. scaled_up A w pool direction = Some w1 \<and> sr_Ready r \<and>
              waitForNewNode m w1 events pool direction = Some (Inr (sr_ReplacementNodeName r), w'))"
  using assms
  by (auto simp: PrepareSwap_def scaled_up_def target_asg_def Let_def
      split: sum.splits prod.splits option.splits SwapDirection.splits)

text \<open>
  \<open>view w\<close> is the state of the groups as the client reports it. A call that succeeds has
  done what it says and nothing else; a call that fails has changed nothing.
\<close>

locale twin_asgs =
  fixes A :: "'w asg_client" and view :: "'w \<Rightarrow> string \<rightharpoonup> ASGInfo" and inv :: "'w \<Rightarrow> bool"
  assumes discover: "inv w \<Longrightarrow> a_DiscoverTwinASGs A w pool = Inr (s, d) \<Longrightarrow>
      view w (ASGID s) = Some s \<and> view w (ASGID d) = Some d \<and> ASGID s \<noteq> ASGID d"
    and set_ok: "inv w \<Longrightarrow> a_SetDesiredCapacity A w i n = (None, w') \<Longrightarrow>
      \<exists>a a'. view w i = Some a \<and> view w' = (view w)(i \<mapsto> a') \<and> ASGID a' = ASGID a \<and> DesiredCapacity a' = n"
    and set_fail: "inv w \<Longrightarrow> a_SetDesiredCapacity A w i n = (Some e, w') \<Longrightarrow> view w' = view w"
    and terminate_ok: "inv w \<Longrightarrow> a_TerminateInstance A w i x True = (None, w') \<Longrightarrow>
      \<exists>a a'. view w i = Some a \<and> view w' = (view w)(i \<mapsto> a') \<and> ASGID a' = ASGID a \<and>
        DesiredCapacity a' = (if DesiredCapacity a > 0 then DesiredCapacity a - 1 else DesiredCapacity a)"
    and terminate_fail: "inv w \<Longrightarrow> a_TerminateInstance A w i x b = (Some e, w') \<Longrightarrow> view w' = view w"
begin

definition desired :: "'w \<Rightarrow> string \<Rightarrow> int option" where
  "desired w i = map_option DesiredCapacity (view w i)"

text \<open>The environment leaves the groups alone while the manager waits.\<close>

definition quiet :: "'w \<Rightarrow> 'w wait_event list \<Rightarrow> bool" where
  "quiet w1 events \<longleftrightarrow> (\<forall>e \<in> set events. inv (world_of e) \<and> view (world_of e) = view w1)"

lemma set_desired:
  "inv w \<Longrightarrow> a_SetDesiredCapacity A w i n = (None, w') \<Longrightarrow> desired w' = (desired w)(i \<mapsto> n)"
  using set_ok by (fastforce simp: desired_def)

lemma wait_view:
  assumes "waitForNewNode m w1 events pool direction = Some (r, w2)" and "inv w1" and "quiet w1 events"
  shows "inv w2 \<and> view w2 = view w1"
  using assms wait_loop_result
  by (fastforce simp: waitForNewNode_def quiet_def split: option.splits sum.splits)

lemma swap_scaled_up:
  assumes "asgClient m = Some A" and "inv w" and "PrepareSwap m w events pool direction = Some (Inr r, w')"
    and "\<And>w1. scaled_up A w pool direction = Some w1 \<Longrightarrow> inv w1 \<and> quiet w1 events"
  shows "\<exists>twins. a_DiscoverTwinASGs A w (pool_Name pool) = Inr twins \<and>
           (let t = target_asg direction twins
            in desired w' = (desired w)(ASGID t \<mapsto> wrap 32 (DesiredCapacity t + 1)))"
proof -
  obtain w1 where up: "scaled_up A w pool direction = Some w1"
      and wt: "waitForNewNode m w1 events pool direction = Some (Inr (sr_ReplacementNodeName r), w')"
    using assms(3) PrepareSwap_scaled_up [OF assms(1)] by blast
  have "view w' = view w1" using wait_view [OF wt] assms(4) [OF up] by blast
  then have "desired w' = desired w1" by (simp add: desired_def fun_eq_iff)
  moreover from up obtain twins where "a_DiscoverTwinASGs A w (pool_Name pool) = Inr twins"
      "a_SetDesiredCapacity A w (ASGID (target_asg direction twins))
         (wrap 32 (DesiredCapacity (target_asg direction twins) + 1)) = (None, w1)"
    by (auto simp: scaled_up_def Let_def split: sum.splits prod.splits option.splits)
  ultimately show ?thesis using set_desired [OF assms(2)] by (auto simp: Let_def)
qed

end

text \<open>A client that accepts a return to a capacity that was in force.\<close>

locale reliable_twin_asgs = twin_asgs +
  assumes accepts_return: "inv w \<Longrightarrow> a_DiscoverTwinASGs A w pool = Inr (s, d) \<Longrightarrow> t \<in> {s, d} \<Longrightarrow>
      a_SetDesiredCapacity A w (ASGID t) n = (None, w1) \<Longrightarrow> inv w2 \<Longrightarrow> view w2 = view w1 \<Longrightarrow>
      \<exists>w3. a_SetDesiredCapacity A w2 (ASGID t) (DesiredCapacity t) = (None, w3)"
begin

lemma failed_swap_restores:
  assumes "asgClient m = Some A" and "inv w" and "PrepareSwap m w events pool direction = Some (Inl e, w')"
    and "\<And>w1. scaled_up A w pool direction = Some w1 \<Longrightarrow> inv w1 \<and> quiet w1 events"
  shows "desired w' = desired w"
proof (cases "a_DiscoverTwinASGs A w (pool_Name pool)")
  case (Inl e')
  then show ?thesis using assms(1,3) by (auto simp: PrepareSwap_def)
next
  case (Inr p)
  obtain s d where sd: "a_DiscoverTwinASGs A w (pool_Name pool) = Inr (s, d)" using Inr by (cases p) auto
  define t where "t = (case direction of SwapToOnDemand \<Rightarrow> d | SwapToSpot \<Rightarrow> s)"
  have t: "t \<in> {s, d}" by (simp add: t_def split: SwapDirection.splits)
  obtain e1 w1 where up: "a_SetDesiredCapacity A w (ASGID t) (wrap 32 (DesiredCapacity t + 1)) = (e1, w1)"
    by fastforce
  show ?thesis
  proof (cases e1)
    case (Some x)
    then have "w' = w1" using assms(1,3) sd up by (auto simp: PrepareSwap_def t_def Let_def)
    then show ?thesis using set_fail [OF assms(2) up [unfolded Some]] by (simp add: desired_def fun_eq_iff)
  next
    case None
    note up = up [unfolded None]
    have sc: "scaled_up A w pool direction = Some w1"
      using sd up by (auto simp: scaled_up_def target_asg_def t_def Let_def split: SwapDirection.splits)
    obtain f w2 where wt: "waitForNewNode m w1 events pool direction = Some (Inl f, w2)"
        and w': "w' = snd (a_SetDesiredCapacity A w2 (ASGID t) (DesiredCapacity t))"
      using assms(1,3) sd up
      by (auto simp: PrepareSwap_def t_def [symmetric] Let_def split: option.splits prod.splits sum.splits)
    have w2: "inv w2 \<and> view w2 = view w1" using wait_view [OF wt] assms(4) [OF sc] by blast
    obtain w3 where ret: "a_SetDesiredCapacity A w2 (ASGID t) (DesiredCapacity t) = (None, w3)"
      using accepts_return [OF assms(2) sd t up] w2 by blast
    have "view w (ASGID t) = Some t" using discover [OF assms(2) sd] t by auto
    moreover have "desired w2 = desired w1" using w2 by (simp add: desired_def fun_eq_iff)
    ultimately show ?thesis
      using set_desired [OF assms(2) up] set_desired [OF conjunct1 [OF w2] ret] w' ret
      by (auto simp: fun_eq_iff desired_def)
  qed
qed

end

section \<open>The in-memory client keeps the contract\<close>

definition fake_wf :: "FakeASGClient \<Rightarrow> bool" where
  "fake_wf f \<longleftrightarrow> (\<forall>i a. asgs f i = Some a \<longrightarrow> ASGID a = i \<and> DesiredCapacity a \<le> MaxSize a)"

lemma twin_ids_neq: "spot_asg_id p \<noteq> od_asg_id p"
  by (simp add: spot_asg_id_def od_asg_id_def)

lemma fake_wf_intros [wf_intros]:
  "fake_wf NewFakeASGClient"
  "fake_wf f \<Longrightarrow> - (2 ^ 31) \<le> s \<Longrightarrow> s < 2 ^ 31 - 5 \<Longrightarrow> - (2 ^ 31) \<le> d \<Longrightarrow> d < 2 ^ 31 - 5 \<Longrightarrow> fake_wf (AddTwinPair f p s d)"
  "fake_wf f \<Longrightarrow> SetDesiredCapacity f i n = (e, f') \<Longrightarrow> fake_wf f'"
  "fake_wf f \<Longrightarrow> TerminateInstance f i x b = (e, f') \<Longrightarrow> fake_wf f'"
proof -
  show "fake_wf NewFakeASGClient" by (simp add: fake_wf_def NewFakeASGClient_def)
  have w: "wrap 32 (x + 5) = x + 5" if "- (2 ^ 31) \<le> x" "x < 2 ^ 31 - 5" for x
    using that by (intro wrap_id) simp_all
  show "fake_wf f \<Longrightarrow> - (2 ^ 31) \<le> s \<Longrightarrow> s < 2 ^ 31 - 5 \<Longrightarrow> - (2 ^ 31) \<le> d \<Longrightarrow> d < 2 ^ 31 - 5 \<Longrightarrow>
      fake_wf (AddTwinPair f p s d)"
    using w [of s] w [of d] by (auto simp: fake_wf_def AddTwinPair_def)
  show "fake_wf f \<Longrightarrow> SetDesiredCapacity f i n = (e, f') \<Longrightarrow> fake_wf f'"
    by (auto simp: fake_wf_def SetDesiredCapacity_def split: option.splits if_splits)
  show "fake_wf f \<Longrightarrow> TerminateInstance f i x b = (e, f') \<Longrightarrow> fake_wf f'"
    by (fastforce simp: fake_wf_def TerminateInstance_def Let_def split: option.splits if_splits)
qed

lemma fake_discover:
  "fake_wf f \<Longrightarrow> DiscoverTwinASGs f pool = Inr (s, d) \<Longrightarrow>
     asgs f (ASGID s) = Some s \<and> asgs f (ASGID d) = Some d \<and> ASGID s = spot_asg_id pool \<and> ASGID d = od_asg_id pool \<and>
     DesiredCapacity s \<le> MaxSize s \<and> DesiredCapacity d \<le> MaxSize d"
  by (auto simp: DiscoverTwinASGs_def fake_wf_def split: option.splits)

lemma fake_terminate:
  assumes "TerminateInstance w i x True = (None, w')"
  shows "\<exists>a a'. asgs w i = Some a \<and> asgs w' = (asgs w)(i \<mapsto> a') \<and> ASGID a' = ASGID a \<and>
           DesiredCapacity a' = (if DesiredCapacity a > 0 then DesiredCapacity a - 1 else DesiredCapacity a)"
proof -
  obtain a where a: "asgs w i = Some a"
    using assms by (auto simp: TerminateInstance_def split: option.splits)
  show ?thesis
    by (rule exI [of _ a], rule exI [of _ "the (asgs w' i)"])
      (use assms a in \<open>auto simp: TerminateInstance_def Let_def\<close>)
qed

interpretation fake: twin_asgs fake_client asgs fake_wf
proof
  show "fake_wf w \<Longrightarrow> a_DiscoverTwinASGs fake_client w pool = Inr (s, d) \<Longrightarrow>
      asgs w (ASGID s) = Some s \<and> asgs w (ASGID d) = Some d \<and> ASGID s \<noteq> ASGID d" for w pool s d
    using fake_discover [of w pool s d] twin_ids_neq [of pool] by (auto simp: fake_client_def)
  show "\<exists>a a'. asgs w i = Some a \<and> asgs w' = (asgs w)(i \<mapsto> a') \<and> ASGID a' = ASGID a \<and> DesiredCapacity a' = n"
    if "a_SetDesiredCapacity fake_client w i n = (None, w')" for w i n w'
    using that by (auto simp: fake_client_def SetDesiredCapacity_def split: option.splits if_splits)
  show "asgs w' = asgs w" if "a_SetDesiredCapacity fake_client w i n = (Some e, w')" for w i n e w'
    using that by (auto simp: fake_client_def SetDesiredCapacity_def split: option.splits if_splits)
  show "\<exists>a a'. asgs w i = Some a \<and> asgs w' = (asgs w)(i \<mapsto> a') \<and> ASGID a' = ASGID a \<and>
        DesiredCapacity a' = (if DesiredCapacity a > 0 then DesiredCapacity a - 1 else DesiredCapacity a)"
    if "a_TerminateInstance fake_client w i x True = (None, w')" for w i x w'
    using fake_terminate that by (simp add: fake_client_def)
  show "asgs w' = asgs w" if "a_TerminateInstance fake_client w i x b = (Some e, w')" for w i x b e w'
    using that by (auto simp: fake_client_def TerminateInstance_def Let_def split: option.splits if_splits)
qed

interpretation fake: reliable_twin_asgs fake_client asgs fake_wf
proof
  fix w w1 w2 :: FakeASGClient and pool s d t n
  assume "fake_wf w" "a_DiscoverTwinASGs fake_client w pool = Inr (s, d)" "t \<in> {s, d}"
    "a_SetDesiredCapacity fake_client w (ASGID t) n = (None, w1)" "asgs w2 = asgs w1"
  then show "\<exists>w3. a_SetDesiredCapacity fake_client w2 (ASGID t) (DesiredCapacity t) = (None, w3)"
    using fake_discover [of w pool s d]
    by (auto simp: fake_client_def SetDesiredCapacity_def split: option.splits if_splits)
qed

lemma scaled_up_fake_wf: "fake_wf f \<Longrightarrow> scaled_up fake_client f pool direction = Some f1 \<Longrightarrow> fake_wf f1"
  by (auto simp: scaled_up_def fake_client_def Let_def split: sum.splits prod.splits option.splits
      intro: fake_wf_intros(3))

section \<open>What the manager guarantees\<close>

text \<open>
  C36 (safety). A node the manager reports as replacement was seen in a listing while it
  waited, is Ready, has the pool's label and the capacity type the swap asks for, and was not
  there when the wait began; so a node that joined between the scale-up and that first listing
  is never reported.
\<close>

theorem waitForNewNode_sound:
  assumes "k8sClient m = Some K" and "k_listNodes K w = Inr before"
    and "waitForNewNode m w events pool direction = Some (Inr name, w')"
  shows "\<exists>nodes node. Tick w' \<in> set events \<and> k_listNodes K w' = Inr nodes \<and> node \<in> set nodes \<and>
           node_Name node = name \<and> isNodeReady (node_Conditions node) \<and>
           (pool_Name pool \<noteq> [] \<longrightarrow> label_get (node_Labels node) ''spotvortex.io/pool'' = pool_Name pool) \<and>
           CapacityTypeFromLabels (node_Labels node) = expected_cap_type direction \<and>
           name \<notin> node_Name ` set before"
  using assms wait_loop_result [of K "node_Name ` set before" pool direction events "Inr name" w']
  by (auto simp: waitForNewNode_def is_replacement_def)

lemma PrepareSwap_ends:
  assumes "\<exists>w'. Deadline w' \<in> set events \<or> Cancelled w' \<in> set events"
  shows "\<exists>r w'. PrepareSwap m w events pool direction = Some (r, w')"
proof -
  have "\<exists>r w'. waitForNewNode m w1 events pool direction = Some (r, w')" for w1
    using wait_loop_ends [OF assms] by (auto simp: waitForNewNode_def split: option.splits sum.splits)
  then show ?thesis
    by (auto simp: PrepareSwap_def Let_def split: option.splits sum.splits prod.splits) (metis option.distinct(1))+
qed

text \<open>
  The wait always ends: whatever the polls see, once the deadline passes or the
  context is cancelled \<open>PrepareSwap\<close> has returned.
\<close>

theorem PrepareSwap_returns:
  assumes "\<exists>w'. Deadline w' \<in> set events \<or> Cancelled w' \<in> set events"
  shows "\<exists>r w'. PrepareSwap m w events pool direction = Some (r, w')"
  using assms by (rule PrepareSwap_ends)


definition desired_of :: "FakeASGClient \<Rightarrow> string \<Rightarrow> int option" where
  "desired_of f i = map_option DesiredCapacity (GetASG f i)"

lemma desired_of_fake: "desired_of f = fake.desired f"
  by (simp add: fun_eq_iff desired_of_def fake.desired_def GetASG_def)

lemma PostDrainCleanup_fake:
  assumes "asgClient m = Some fake_client" and "k8sClient m = Some K" and "fake_wf f"
    and "k_getNode K f nodeName = Inr node" and "PostDrainCleanup m f nodeName pool = (None, f')"
  shows "\<exists>i n. twin_for_node fake_client f node pool = Inr i \<and> desired_of f i = Some n \<and>
           desired_of f' = (desired_of f)(i \<mapsto> if n > 0 then n - 1 else n)"
proof -
  obtain i x where i: "twin_for_node fake_client f node pool = Inr i"
      and t: "TerminateInstance f i x True = (None, f')"
    using assms(1,2,4,5)
    by (auto simp: PostDrainCleanup_def sourceASGForNode_def fake_client_def GetInstanceASG_def Let_def
        split: if_splits sum.splits prod.splits option.splits)
  show ?thesis using i fake_terminate [OF t] by (fastforce simp: desired_of_def GetASG_def)
qed

definition source_cap_type :: "SwapDirection \<Rightarrow> string" where
  "source_cap_type direction = (case direction of SwapToOnDemand \<Rightarrow> ''spot'' | SwapToSpot \<Rightarrow> ''on-demand'')"


section \<open>A concrete swap\<close>

definition swap_pool :: PoolInfo where
  "swap_pool = \<lparr>pool_Name = ''p'', pool_Zone = ''us-east-1a'', pool_InstanceType = ''m5.large''\<rparr>"

definition swap_node :: "string \<Rightarrow> string \<Rightarrow> Node" where
  "swap_node n t = \<lparr>node_Name = n,
     node_Labels = [''spotvortex.io/pool'' \<mapsto> ''p'', ''karpenter.sh/capacity-type'' \<mapsto> t],
     node_Taints = [], node_Unschedulable = False, node_ProviderID = ''aws:///us-east-1a/i-1'',
     node_Addresses = [], node_Conditions = [\<lparr>cond_Type = ''Ready'', cond_Status = ''True''\<rparr>]\<rparr>"

definition swap_client :: FakeASGClient where
  "swap_client = AddTwinPair NewFakeASGClient ''p'' 2 1"

definition swap_scaled :: FakeASGClient where
  "swap_scaled = snd (SetDesiredCapacity swap_client (od_asg_id ''p'') 2)"

definition swap_later :: FakeASGClient where
  "swap_later = swap_scaled\<lparr>ScaleUpCalls := ScaleUpCalls swap_scaled @ ScaleUpCalls swap_scaled\<rparr>"

text \<open>The replacement node is listed in the later world only.\<close>

definition swap_k8s :: "FakeASGClient k8s" where
  "swap_k8s = \<lparr>k_getNode = (\<lambda>w n. Inr (swap_node n ''spot'')),
     k_listNodes = (\<lambda>w. Inr (swap_node ''old'' ''spot'' #
        (if length (ScaleUpCalls w) = 2 then [swap_node ''new'' ''on-demand''] else []))),
     k_listPodsOnNode = (\<lambda>w n. Inr []), k_listPDBs = (\<lambda>w n. Inr []),
     k_updateNode = (\<lambda>w n. (None, w)), k_evict = (\<lambda>w a b c. (None, w))\<rparr>"

definition swap_manager :: "FakeASGClient ASGManager" where
  "swap_manager = \<lparr>asgClient = Some fake_client, k8sClient = Some swap_k8s,
     managerType = ManagerClusterAutoscaler, nodeReadyTimeout = 300000000000, pollInterval = 10000000000\<rparr>"

lemma swap_wf: "fake_wf swap_client" "fake_wf swap_scaled" "fake_wf swap_later"
proof -
  show 1: "fake_wf swap_client"
    unfolding swap_client_def by (intro wf_intros) simp_all
  show 2: "fake_wf swap_scaled"
    unfolding swap_scaled_def by (rule fake_wf_intros(3) [OF 1 surjective_pairing])
  show "fake_wf swap_later" using 2 by (simp add: swap_later_def fake_wf_def)
qed

lemma swap_types:
  "CapacityTypeFromLabels (node_Labels (swap_node ''old'' ''spot'')) = ''spot''"
  "CapacityTypeFromLabels (node_Labels (swap_node ''new'' ''on-demand'')) = ''on-demand''"
  by code_simp+

lemma swap_groups:
  "asgs swap_client (spot_asg_id ''p'') = Some \<lparr>ASGID = spot_asg_id ''p'', asg_Pool = ''p'', asg_CapacityType = ''spot'',
     DesiredCapacity = 2, CurrentCount = 2, MaxSize = 7\<rparr>"
  "asgs swap_client (od_asg_id ''p'') = Some \<lparr>ASGID = od_asg_id ''p'', asg_Pool = ''p'', asg_CapacityType = ''on-demand'',
     DesiredCapacity = 1, CurrentCount = 1, MaxSize = 6\<rparr>"
  "ScaleUpCalls swap_client = []"
  by (simp_all add: swap_client_def AddTwinPair_def NewFakeASGClient_def twin_ids_neq wrap_def)

lemma swap_set: "SetDesiredCapacity swap_client (od_asg_id ''p'') 2 = (None, swap_scaled)"
  by (simp add: swap_scaled_def SetDesiredCapacity_def swap_groups)

lemma swap_calls: "length (ScaleUpCalls swap_scaled) = 1" "length (ScaleUpCalls swap_later) = 2"
  by (simp_all add: swap_later_def swap_scaled_def SetDesiredCapacity_def swap_groups)

lemma swap_example_scaled_up: "scaled_up fake_client swap_client swap_pool SwapToOnDemand = Some swap_scaled"
  using swap_set
  by (simp add: scaled_up_def fake_client_def DiscoverTwinASGs_def swap_pool_def swap_groups target_asg_def wrap_def)

lemma swap_wait: "waitForNewNode swap_manager swap_scaled [Tick swap_later] swap_pool SwapToOnDemand
    = Some (Inr ''new'', swap_later)"
proof -
  have "find_replacement {''old''} swap_pool SwapToOnDemand [swap_node ''old'' ''spot'', swap_node ''new'' ''on-demand'']
      = Some ''new''"
    using swap_types
    by (simp add: swap_pool_def swap_node_def expected_cap_type_def label_get_def)
  then show ?thesis
    using swap_calls
    by (simp add: waitForNewNode_def swap_manager_def swap_k8s_def swap_node_def)
qed

lemma swap_prepared: "PrepareSwap swap_manager swap_client [Tick swap_later] swap_pool SwapToOnDemand
    = Some (Inr \<lparr>sr_Ready = True, sr_ReplacementNodeName = ''new''\<rparr>, swap_later)"
  using swap_example_scaled_up swap_wait
  by (subst PrepareSwap_scaled_up [of _ fake_client]) (simp_all add: swap_manager_def)

theorem waitForNewNode_sound_witness:
  "\<exists>nodes node. k_listNodes swap_k8s swap_later = Inr nodes \<and> node \<in> set nodes \<and> node_Name node = ''new'' \<and>
     isNodeReady (node_Conditions node) \<and>
     CapacityTypeFromLabels (node_Labels node) = expected_cap_type SwapToOnDemand \<and> ''new'' \<notin> node_Name ` {swap_node ''old'' ''spot''}"
proof -
  have "k8sClient swap_manager = Some swap_k8s" "k_listNodes swap_k8s swap_scaled = Inr [swap_node ''old'' ''spot'']"
    using swap_calls by (simp_all add: swap_manager_def swap_k8s_def)
  from waitForNewNode_sound [OF this swap_wait] show ?thesis by auto
qed

theorem PrepareSwap_returns_witness:
  "(\<exists>w'. Deadline w' \<in> set [Tick swap_client, Deadline swap_client] \<or>
         Cancelled w' \<in> set [Tick swap_client, Deadline swap_client]) \<and>
   (\<exists>r w'. PrepareSwap swap_manager swap_client [Tick swap_client, Deadline swap_client] swap_pool SwapToSpot = Some (r, w'))"
  using PrepareSwap_returns [of "[Tick swap_client, Deadline swap_client]" swap_manager swap_client swap_pool SwapToSpot]
  by auto



end
