(* ===== verification/NodePools.thy ===== *)
theory NodePools
  imports Cluster
begin

text \<open>
  internal/karpenter/nodepool.go: reading and patching Karpenter NodePools. The dynamic client
  and the \<open>unstructured\<close> accessors of the Kubernetes libraries are the record \<open>'w dyn\<close> of
  parameters; a NodePool is a JSON document.
\<close>

section \<open>Documents and the client\<close>

datatype json = JNull | JBool bool | JInt int | JStr string | JArr "json list"
  | JObj "(string \<times> json) list"

text \<open>
  The accessors return an error, or the field (\<open>None\<close> when it is not found).
\<close>

record 'w dyn =
  d_get :: "'w \<Rightarrow> string \<Rightarrow> api_error + json"
  d_list :: "'w \<Rightarrow> api_error + string list"
  d_patch :: "'w \<Rightarrow> string \<Rightarrow> json \<Rightarrow> api_error option \<times> 'w"
  d_NestedSlice :: "json \<Rightarrow> string list \<Rightarrow> api_error + json list option"
  d_NestedString :: "json \<Rightarrow> string list \<Rightarrow> api_error + string option"
  d_NestedInt64 :: "json \<Rightarrow> string list \<Rightarrow> api_error + int option"
  d_NestedStringSlice :: "json \<Rightarrow> string list \<Rightarrow> api_error + string list option"

datatype np_error = NoDynamicClient | PatchFailed string api_error | GetFailed string api_error
  | RequirementsNotFound string | CapacityTypeNotFound string | ReadFailed string api_error
  | ListPoolsFailed api_error

section \<open>Operations\<close>

definition CapacityTypeSpot :: string where "CapacityTypeSpot = ''spot''"
definition CapacityTypeOnDemand :: string where "CapacityTypeOnDemand = ''on-demand''"

definition buildCapacityTypePatch :: "string list \<Rightarrow> json" where
  "buildCapacityTypePatch capacityTypes =
     JObj [(''spec'', JObj [(''template'', JObj [(''spec'', JObj [(''requirements'', JArr [JObj
       [(''key'', JStr ''karpenter.sh/capacity-type''), (''operator'', JStr ''In''),
        (''values'', JArr (map JStr capacityTypes))]])])])])]"

definition buildWeightPatch :: "int \<Rightarrow> json" where
  "buildWeightPatch weight = JObj [(''spec'', JObj [(''weight'', JInt weight)])]"

definition apply_patch :: "'w dyn \<Rightarrow> 'w \<Rightarrow> string \<Rightarrow> json \<Rightarrow> np_error option \<times> 'w" where
  "apply_patch D w poolName patch =
     (case d_patch D w poolName patch of
        (Some e, w') \<Rightarrow> (Some (PatchFailed poolName e), w')
      | (None, w') \<Rightarrow> (None, w'))"

definition SetCapacityTypes :: "'w dyn option \<Rightarrow> 'w \<Rightarrow> string \<Rightarrow> string list \<Rightarrow> np_error option \<times> 'w" where
  "SetCapacityTypes client w poolName capacityTypes =
     (case client of None \<Rightarrow> (Some NoDynamicClient, w)
      | Some D \<Rightarrow> apply_patch D w poolName (buildCapacityTypePatch capacityTypes))"

definition FallbackToOnDemand :: "'w dyn option \<Rightarrow> 'w \<Rightarrow> string \<Rightarrow> np_error option \<times> 'w" where
  "FallbackToOnDemand client w poolName = SetCapacityTypes client w poolName [CapacityTypeOnDemand]"

definition RecoverToSpot :: "'w dyn option \<Rightarrow> 'w \<Rightarrow> string \<Rightarrow> np_error option \<times> 'w" where
  "RecoverToSpot client w poolName = SetCapacityTypes client w poolName [CapacityTypeSpot, CapacityTypeOnDemand]"

definition found_or :: "'b \<Rightarrow> api_error + 'b option \<Rightarrow> 'b" where
  "found_or zero r = (case r of Inr (Some v) \<Rightarrow> v | _ \<Rightarrow> zero)"

fun capacity_values :: "'w dyn \<Rightarrow> json list \<Rightarrow> string list option" where
  "capacity_values D [] = None"
| "capacity_values D (req # reqs) =
     (case req of
        JObj _ \<Rightarrow>
          if found_or [] (d_NestedString D req [''key'']) = ''karpenter.sh/capacity-type''
          then Some (found_or [] (d_NestedStringSlice D req [''values'']))
          else capacity_values D reqs
      | _ \<Rightarrow> capacity_values D reqs)"

definition GetCapacityTypes :: "'w dyn option \<Rightarrow> 'w \<Rightarrow> string \<Rightarrow> np_error + string list" where
  "GetCapacityTypes client w poolName =
     (case client of None \<Rightarrow> Inl NoDynamicClient
      | Some D \<Rightarrow>
        (case d_get D w poolName of Inl e \<Rightarrow> Inl (GetFailed poolName e)
         | Inr nodePool \<Rightarrow>
           (case d_NestedSlice D nodePool [''spec'', ''template'', ''spec'', ''requirements''] of
              Inl _ \<Rightarrow> Inl (RequirementsNotFound poolName)
            | Inr None \<Rightarrow> Inl (RequirementsNotFound poolName)
            | Inr (Some requirements) \<Rightarrow>
              (case capacity_values D requirements of
                 None \<Rightarrow> Inl (CapacityTypeNotFound poolName)
               | Some values \<Rightarrow> Inr values))))"

definition ListNodePools :: "'w dyn option \<Rightarrow> 'w \<Rightarrow> np_error + string list" where
  "ListNodePools client w =
     (case client of None \<Rightarrow> Inl NoDynamicClient
      | Some D \<Rightarrow> (case d_list D w of Inl e \<Rightarrow> Inl (ListPoolsFailed e) | Inr names \<Rightarrow> Inr names))"

definition IsKarpenterAvailable :: "'w dyn option \<Rightarrow> 'w \<Rightarrow> bool" where
  "IsKarpenterAvailable client w =
     (case client of None \<Rightarrow> False | Some D \<Rightarrow> (case d_list D w of Inl _ \<Rightarrow> False | Inr _ \<Rightarrow> True))"

definition SetWeight :: "'w dyn option \<Rightarrow> 'w \<Rightarrow> string \<Rightarrow> int \<Rightarrow> np_error option \<times> 'w" where
  "SetWeight client w poolName weight =
     (case client of None \<Rightarrow> (Some NoDynamicClient, w)
      | Some D \<Rightarrow> apply_patch D w poolName (buildWeightPatch weight))"

definition GetWeight :: "'w dyn option \<Rightarrow> 'w \<Rightarrow> string \<Rightarrow> np_error + int" where
  "GetWeight client w poolName =
     (case client of None \<Rightarrow> Inl NoDynamicClient
      | Some D \<Rightarrow>
        (case d_get D w poolName of Inl e \<Rightarrow> Inl (GetFailed poolName e)
         | Inr nodePool \<Rightarrow>
           (case d_NestedInt64 D nodePool [''spec'', ''weight''] of
              Inl e \<Rightarrow> Inl (ReadFailed poolName e)
            | Inr None \<Rightarrow> Inr 0
            | Inr (Some weight) \<Rightarrow> Inr (wrap 32 weight))))"

definition SetLimits :: "'w dyn option \<Rightarrow> 'w \<Rightarrow> string \<Rightarrow> string \<Rightarrow> string \<Rightarrow> np_error option \<times> 'w" where
  "SetLimits client w poolName cpu memory =
     (case client of None \<Rightarrow> (Some NoDynamicClient, w)
      | Some D \<Rightarrow>
        let limits = (if cpu \<noteq> [] then [(''cpu'', JStr cpu)] else []) @
                     (if memory \<noteq> [] then [(''memory'', JStr memory)] else [])
        in apply_patch D w poolName (JObj [(''spec'', JObj [(''limits'', JObj limits)])]))"

record DisruptionBudget =
  db_Nodes :: string
  db_Schedule :: string
  db_Reasons :: "string list"

fun read_budgets :: "'w dyn \<Rightarrow> json list \<Rightarrow> DisruptionBudget list" where
  "read_budgets D [] = []"
| "read_budgets D (b # bs) =
     (case b of
        JObj _ \<Rightarrow>
          \<lparr>db_Nodes = found_or [] (d_NestedString D b [''nodes'']),
           db_Schedule = found_or [] (d_NestedString D b [''schedule'']),
           db_Reasons = found_or [] (d_NestedStringSlice D b [''reasons''])\<rparr> # read_budgets D bs
      | _ \<Rightarrow> read_budgets D bs)"

definition GetDisruptionBudgets :: "'w dyn option \<Rightarrow> 'w \<Rightarrow> string \<Rightarrow> np_error + DisruptionBudget list" where
  "GetDisruptionBudgets client w poolName =
     (case client of None \<Rightarrow> Inl NoDynamicClient
      | Some D \<Rightarrow>
        (case d_get D w poolName of Inl e \<Rightarrow> Inl (GetFailed poolName e)
         | Inr nodePool \<Rightarrow>
           (case d_NestedSlice D nodePool [''spec'', ''disruption'', ''budgets''] of
              Inl e \<Rightarrow> Inl (ReadFailed poolName e)
            | Inr None \<Rightarrow> Inr []
            | Inr (Some budgets) \<Rightarrow> Inr (read_budgets D budgets))))"

definition parseNodeLimit :: "string \<Rightarrow> int \<Rightarrow> int" where
  "parseNodeLimit limit totalNodes =
     (if limit = [] then -1
      else if last limit = CHR ''%''
      then (case Sscanf_d (butlast limit) of
              None \<Rightarrow> -1
            | Some percent \<Rightarrow> if percent \<le> 0 then 0 else go_div (wrap 64 (totalNodes * percent)) 100)
      else (case Sscanf_d limit of None \<Rightarrow> -1 | Some parsed \<Rightarrow> parsed))"

text \<open>\<open>minLimit\<close> of the two loops over limits: \<open>-1\<close> stands for no limit so far.\<close>

definition tighten :: "int \<Rightarrow> int \<Rightarrow> int" where
  "tighten minLimit limit =
     (if limit \<ge> 0 then (if minLimit < 0 \<or> limit < minLimit then limit else minLimit) else minLimit)"

fun min_budget :: "int \<Rightarrow> int \<Rightarrow> DisruptionBudget list \<Rightarrow> int" where
  "min_budget totalNodes minLimit [] = minLimit"
| "min_budget totalNodes minLimit (b # bs) =
     (if db_Nodes b = [] then min_budget totalNodes minLimit bs
      else min_budget totalNodes (tighten minLimit (parseNodeLimit (db_Nodes b) totalNodes)) bs)"

definition GetEffectiveDisruptionLimit ::
  "'w dyn option \<Rightarrow> 'w \<Rightarrow> string \<Rightarrow> int \<Rightarrow> np_error + int" where
  "GetEffectiveDisruptionLimit client w poolName totalNodes =
     (case GetDisruptionBudgets client w poolName of
        Inl e \<Rightarrow> Inl e
      | Inr budgets \<Rightarrow> if budgets = [] then Inr (-1) else Inr (min_budget totalNodes (-1) budgets))"

section \<open>Limits\<close>

text \<open>The limits in force are the non-negative ones; the result is their minimum.\<close>

definition limits_of :: "int \<Rightarrow> DisruptionBudget list \<Rightarrow> int list" where
  "limits_of totalNodes budgets =
     filter (\<lambda>x. 0 \<le> x) (map (\<lambda>b. parseNodeLimit (db_Nodes b) totalNodes) (filter (\<lambda>b. db_Nodes b \<noteq> []) budgets))"

lemma tighten_range: "-1 \<le> m \<Longrightarrow> -1 \<le> tighten m x"
  by (simp add: tighten_def)

lemma foldl_tighten_least:
  "-1 \<le> m \<Longrightarrow> foldl tighten m xs = r \<Longrightarrow>
     (if m = -1 \<and> (\<forall>x \<in> set xs. x < 0) then r = -1
      else (r = m \<or> r \<in> set xs) \<and> 0 \<le> r \<and> (0 \<le> m \<longrightarrow> r \<le> m) \<and> (\<forall>x \<in> set xs. 0 \<le> x \<longrightarrow> r \<le> x))"
proof (induction xs arbitrary: m)
  case (Cons x xs)
  let ?m = "tighten m x"
  have "foldl tighten ?m xs = r" using Cons.prems(2) by simp
  note ih = Cons.IH [OF tighten_range [OF Cons.prems(1)] this]
  have "?m = m \<and> (0 \<le> x \<longrightarrow> 0 \<le> m \<and> m \<le> x) \<or> ?m = x \<and> 0 \<le> x \<and> (0 \<le> m \<longrightarrow> x \<le> m)"
    by (auto simp: tighten_def)
  then show ?case using ih Cons.prems(1) by (elim disjE) (auto split: if_splits)
qed auto

lemma foldl_tighten:
  "foldl tighten (-1) xs = (let ys = filter (\<lambda>x. 0 \<le> x) xs in if ys = [] then -1 else Min (set ys))"
proof (cases "\<forall>x \<in> set xs. x < 0")
  case True
  then show ?thesis using foldl_tighten_least [of "-1" xs] by (auto simp: Let_def filter_empty_conv)
next
  case False
  have "Min (set (filter (\<lambda>x. 0 \<le> x) xs)) = foldl tighten (-1) xs"
    using foldl_tighten_least [of "-1" xs] False by (intro Min_eqI) (auto split: if_splits)
  then show ?thesis using False by (auto simp: Let_def filter_empty_conv not_less)
qed

lemma min_budget_foldl:
  "min_budget n m bs = foldl tighten m (map (\<lambda>b. parseNodeLimit (db_Nodes b) n) (filter (\<lambda>b. db_Nodes b \<noteq> []) bs))"
  by (induction bs arbitrary: m) auto

lemma min_budget_Min:
  "min_budget n (-1) bs = (if limits_of n bs = [] then -1 else Min (set (limits_of n bs)))"
  by (simp add: min_budget_foldl foldl_tighten limits_of_def Let_def)

lemma parseNodeLimit_percent:
  assumes "Sscanf_d s = Some p" and "0 < p" and "0 \<le> n" and "n * p < 2 ^ 63"
  shows "parseNodeLimit (s @ ''%'') n = n * p div 100"
proof -
  have "wrap 64 (n * p) = n * p"
    using assms by (intro wrap_id) (auto intro: order_trans [of _ 0])
  then show ?thesis using assms by (simp add: parseNodeLimit_def go_div_nonneg)
qed

text \<open>
  The effective disruption limit of a NodePool is the smallest of the limits
  its budgets state, budgets with no usable limit ignored, and \<open>-1\<close> when none states one.
  A percentage counts against the given number of nodes, rounded down.
\<close>

theorem GetEffectiveDisruptionLimit_min:
  assumes "GetDisruptionBudgets client w poolName = Inr budgets"
  shows "GetEffectiveDisruptionLimit client w poolName totalNodes =
           Inr (if limits_of totalNodes budgets = [] then -1 else Min (set (limits_of totalNodes budgets))) \<and>
         (\<forall>s p. Sscanf_d s = Some p \<and> 0 < p \<and> 0 \<le> totalNodes \<and> totalNodes * p < 2 ^ 63 \<longrightarrow>
            parseNodeLimit (s @ ''%'') totalNodes = totalNodes * p div 100)"
  using assms parseNodeLimit_percent min_budget_Min [of totalNodes budgets]
  by (auto simp: GetEffectiveDisruptionLimit_def limits_of_def)

section \<open>Merge patches\<close>

text \<open>
  JSON merge patches (RFC 7386): what an API server does with a patch of type
  \<open>application/merge-patch+json\<close>.
\<close>

fun merge_patch :: "json \<Rightarrow> json \<Rightarrow> json"
  and merge_fields :: "(string \<times> json) list \<Rightarrow> (string \<times> json) list \<Rightarrow> (string \<times> json) list" where
  "merge_patch doc (JObj ps) = JObj (merge_fields (case doc of JObj fs \<Rightarrow> fs | _ \<Rightarrow> []) ps)"
| "merge_patch doc JNull = JNull"
| "merge_patch doc (JBool b) = JBool b"
| "merge_patch doc (JInt n) = JInt n"
| "merge_patch doc (JStr s) = JStr s"
| "merge_patch doc (JArr xs) = JArr xs"
| "merge_fields fs [] = fs"
| "merge_fields fs ((k, v) # ps) =
     merge_fields
       (if v = JNull then filter (\<lambda>x. fst x \<noteq> k) fs
        else (k, merge_patch (case map_of fs k of None \<Rightarrow> JNull | Some old \<Rightarrow> old) v) # filter (\<lambda>x. fst x \<noteq> k) fs) ps"

fun json_at :: "json \<Rightarrow> string list \<Rightarrow> json option" where
  "json_at doc [] = Some doc"
| "json_at doc (k # ks) =
     (case doc of
        JObj fs \<Rightarrow> (case map_of fs k of None \<Rightarrow> None | Some v \<Rightarrow> json_at v ks)
      | _ \<Rightarrow> None)"

definition merge_contract :: "'w dyn \<Rightarrow> bool" where
  "merge_contract D \<longleftrightarrow>
     (\<forall>w n doc p w'. d_get D w n = Inr doc \<longrightarrow> d_patch D w n p = (None, w') \<longrightarrow>
        d_get D w' n = Inr (merge_patch doc p))"

definition accessor_contract :: "'w dyn \<Rightarrow> bool" where
  "accessor_contract D \<longleftrightarrow>
     (\<forall>doc path n. json_at doc path = Some (JInt n) \<longrightarrow> d_NestedInt64 D doc path = Inr (Some n)) \<and>
     (\<forall>doc path s. json_at doc path = Some (JStr s) \<longrightarrow> d_NestedString D doc path = Inr (Some s)) \<and>
     (\<forall>doc path xs. json_at doc path = Some (JArr xs) \<longrightarrow> d_NestedSlice D doc path = Inr (Some xs)) \<and>
     (\<forall>doc path ss. json_at doc path = Some (JArr (map JStr ss)) \<longrightarrow>
        d_NestedStringSlice D doc path = Inr (Some ss))"

lemma apply_patch_None:
  "apply_patch D w n p = (None, w') \<longleftrightarrow> d_patch D w n p = (None, w')"
  by (auto simp: apply_patch_def split: prod.splits option.splits)

lemma json_at_weight: "json_at (merge_patch doc (buildWeightPatch x)) [''spec'', ''weight''] = Some (JInt x)"
  by (simp add: buildWeightPatch_def)

lemma json_at_requirements:
  "json_at (merge_patch doc (buildCapacityTypePatch ts)) [''spec'', ''template'', ''spec'', ''requirements''] =
     Some (JArr [JObj [(''key'', JStr ''karpenter.sh/capacity-type''), (''operator'', JStr ''In''),
        (''values'', JArr (map JStr ts))]])"
  by (simp add: buildCapacityTypePatch_def)

text \<open>
  A weight that was set is the weight that is read back: with a server that
  applies merge patches and accessors that return the fields they find, \<open>GetWeight\<close> after a
  successful \<open>SetWeight\<close> returns the 32-bit weight.
\<close>

theorem SetWeight_GetWeight:
  assumes "merge_contract D" and "accessor_contract D" and "d_get D w poolName = Inr doc"
    and "- (2 ^ 31) \<le> weight" and "weight < 2 ^ 31"
    and "SetWeight (Some D) w poolName weight = (None, w')"
  shows "GetWeight (Some D) w' poolName = Inr weight"
proof -
  have "d_get D w' poolName = Inr (merge_patch doc (buildWeightPatch weight))"
    using assms(1,3,6) by (simp add: merge_contract_def SetWeight_def apply_patch_None)
  moreover have "d_NestedInt64 D (merge_patch doc (buildWeightPatch weight)) [''spec'', ''weight''] = Inr (Some weight)"
    using assms(2) json_at_weight by (simp add: accessor_contract_def del: json_at.simps)
  moreover have "wrap 32 weight = weight" using assms(4,5) by (intro wrap_id) simp_all
  ultimately show ?thesis by (simp add: GetWeight_def)
qed

text \<open>
  C39 (roundtrip). The capacity types that were set are read back, and they are all that is
  left of the pool's requirements: the merge patch replaces the whole requirements array, so
  every other requirement of the NodePool (instance families, zones, architectures) is gone.
\<close>

theorem SetCapacityTypes_GetCapacityTypes:
  assumes "merge_contract D" and "accessor_contract D" and "d_get D w poolName = Inr doc"
    and "SetCapacityTypes (Some D) w poolName types = (None, w')"
  shows "GetCapacityTypes (Some D) w' poolName = Inr types \<and>
         (\<exists>doc' req. d_get D w' poolName = Inr doc' \<and>
            d_NestedSlice D doc' [''spec'', ''template'', ''spec'', ''requirements''] = Inr (Some [req]) \<and>
            d_NestedString D req [''key''] = Inr (Some ''karpenter.sh/capacity-type''))"
proof -
  let ?doc = "merge_patch doc (buildCapacityTypePatch types)"
  let ?req = "JObj [(''key'', JStr ''karpenter.sh/capacity-type''), (''operator'', JStr ''In''),
        (''values'', JArr (map JStr types))]"
  have g: "d_get D w' poolName = Inr ?doc"
    using assms(1,3,4) by (simp add: merge_contract_def SetCapacityTypes_def apply_patch_None)
  have s: "d_NestedSlice D ?doc [''spec'', ''template'', ''spec'', ''requirements''] = Inr (Some [?req])"
    using assms(2) json_at_requirements unfolding accessor_contract_def by blast
  have k: "d_NestedString D ?req [''key''] = Inr (Some ''karpenter.sh/capacity-type'')"
    using assms(2) by (simp add: accessor_contract_def)
  have v: "d_NestedStringSlice D ?req [''values''] = Inr (Some types)"
    using assms(2) by (simp add: accessor_contract_def)
  show ?thesis using g s k v by (simp add: GetCapacityTypes_def found_or_def)
qed

section \<open>An in-memory client\<close>

definition mem_dyn :: "(string \<Rightarrow> json option) dyn" where
  "mem_dyn = \<lparr>
     d_get = (\<lambda>w n. case w n of None \<Rightarrow> Inl NotFound | Some doc \<Rightarrow> Inr doc),
     d_list = (\<lambda>w. Inr []),
     d_patch = (\<lambda>w n p. case w n of None \<Rightarrow> (Some NotFound, w) | Some doc \<Rightarrow> (None, w(n \<mapsto> merge_patch doc p))),
     d_NestedSlice = (\<lambda>doc path. case json_at doc path of None \<Rightarrow> Inr None
        | Some (JArr xs) \<Rightarrow> Inr (Some xs) | Some _ \<Rightarrow> Inl (ApiError ''type'')),
     d_NestedString = (\<lambda>doc path. case json_at doc path of None \<Rightarrow> Inr None
        | Some (JStr s) \<Rightarrow> Inr (Some s) | Some _ \<Rightarrow> Inl (ApiError ''type'')),
     d_NestedInt64 = (\<lambda>doc path. case json_at doc path of None \<Rightarrow> Inr None
        | Some (JInt n) \<Rightarrow> Inr (Some n) | Some _ \<Rightarrow> Inl (ApiError ''type'')),
     d_NestedStringSlice = (\<lambda>doc path. case json_at doc path of None \<Rightarrow> Inr None
        | Some (JArr xs) \<Rightarrow> Inr (Some (map (\<lambda>x. case x of JStr s \<Rightarrow> s | _ \<Rightarrow> []) xs))
        | Some _ \<Rightarrow> Inl (ApiError ''type''))\<rparr>"

lemma mem_dyn_contracts: "merge_contract mem_dyn" "accessor_contract mem_dyn"
  by (auto simp: merge_contract_def accessor_contract_def mem_dyn_def o_def split: option.splits)

definition example_pools :: "string \<Rightarrow> json option" where
  "example_pools = [''core-spot'' \<mapsto> JObj [(''spec'', JObj
     [(''weight'', JInt 10),
      (''disruption'', JObj [(''budgets'', JArr [JObj [(''nodes'', JStr ''10%'')], JObj [(''nodes'', JStr ''5'')]])])])]]"

theorem GetEffectiveDisruptionLimit_min_witness:
  "\<exists>budgets. GetDisruptionBudgets (Some mem_dyn) example_pools ''core-spot'' = Inr budgets \<and>
     GetEffectiveDisruptionLimit (Some mem_dyn) example_pools ''core-spot'' 30 =
       Inr (if limits_of 30 budgets = [] then -1 else Min (set (limits_of 30 budgets)))"
proof -
  obtain budgets where "GetDisruptionBudgets (Some mem_dyn) example_pools ''core-spot'' = Inr budgets"
    by (simp add: GetDisruptionBudgets_def mem_dyn_def example_pools_def)
  from this GetEffectiveDisruptionLimit_min [OF this] show ?thesis by blast
qed

theorem SetWeight_GetWeight_witness:
  "\<exists>w'. SetWeight (Some mem_dyn) example_pools ''core-spot'' 100 = (None, w') \<and>
     GetWeight (Some mem_dyn) w' ''core-spot'' = Inr 100"
proof -
  obtain w' doc where "SetWeight (Some mem_dyn) example_pools ''core-spot'' 100 = (None, w')"
      "d_get mem_dyn example_pools ''core-spot'' = Inr doc"
    by (simp add: SetWeight_def apply_patch_def mem_dyn_def example_pools_def)
  from SetWeight_GetWeight [OF mem_dyn_contracts this(2) _ _ this(1)] this show ?thesis by auto
qed

theorem SetCapacityTypes_GetCapacityTypes_witness:
  "\<exists>w'. SetCapacityTypes (Some mem_dyn) example_pools ''core-spot'' [''on-demand''] = (None, w') \<and>
     GetCapacityTypes (Some mem_dyn) w' ''core-spot'' = Inr [''on-demand'']"
proof -
  obtain w' doc where "SetCapacityTypes (Some mem_dyn) example_pools ''core-spot'' [''on-demand''] = (None, w')"
      "d_get mem_dyn example_pools ''core-spot'' = Inr doc"
    by (simp add: SetCapacityTypes_def apply_patch_def mem_dyn_def example_pools_def)
  from SetCapacityTypes_GetCapacityTypes [OF mem_dyn_contracts this(2) this(1)] this show ?thesis by blast
qed

end
