(* ===== verification/Routing.thy ===== *)
theory Routing
  imports ASG NodePools Agent_Config
begin

text \<open>
  internal/capacity/karpenter_manager.go and router.go: weight steering with a cooldown, and
  the choice of the capacity manager for a node. The clock is a parameter: the time at a state
  of the world, in nanoseconds. A manager that is changed by a call is returned changed, in
  the place of the router's map it came from.
\<close>

section \<open>Karpenter manager\<close>

text \<open>\<open>nodePoolMgr\<close> is nil (\<open>None\<close>) or a NodePool manager, which is its dynamic client.\<close>

record 'w KarpenterManager =
  nodePoolMgr :: "'w dyn option option"
  spotSuffix :: string
  odSuffix :: string
  spotWeight :: int
  odWeight :: int
  lastWeightChange :: "string \<rightharpoonup> int"
  cooldown :: int

record 'w KarpenterManagerConfig =
  kmc_NodePoolManager :: "'w dyn option option"
  kmc_SpotNodePoolSuffix :: string
  kmc_OnDemandNodePoolSuffix :: string
  kmc_SpotWeight :: int
  kmc_OnDemandWeight :: int
  kmc_CooldownSeconds :: int

definition NewKarpenterManager :: "'w KarpenterManagerConfig \<Rightarrow> 'w KarpenterManager" where
  "NewKarpenterManager cfg =
     (let cd = wrap 64 (kmc_CooldownSeconds cfg * Second) in
      \<lparr>nodePoolMgr = kmc_NodePoolManager cfg,
       spotSuffix = (if kmc_SpotNodePoolSuffix cfg = [] then ''-spot'' else kmc_SpotNodePoolSuffix cfg),
       odSuffix = (if kmc_OnDemandNodePoolSuffix cfg = [] then ''-od'' else kmc_OnDemandNodePoolSuffix cfg),
       spotWeight = (if kmc_SpotWeight cfg = 0 then 100 else kmc_SpotWeight cfg),
       odWeight = (if kmc_OnDemandWeight cfg = 0 then 10 else kmc_OnDemandWeight cfg),
       lastWeightChange = Map.empty,
       cooldown = (if cd \<le> 0 then 60 * Second else cd)\<rparr>)"

definition within_cooldown :: "('w \<Rightarrow> int) \<Rightarrow> 'w \<Rightarrow> int option \<Rightarrow> int \<Rightarrow> bool" where
  "within_cooldown clock w lastChange cd =
     (case lastChange of None \<Rightarrow> False | Some t \<Rightarrow> clock w - t < cd)"

text \<open>The two \<open>SetWeight\<close> calls of a steering step, in the order of the code.\<close>

definition set_weights ::
  "'w dyn option \<Rightarrow> 'w \<Rightarrow> string \<Rightarrow> int \<Rightarrow> string \<Rightarrow> int \<Rightarrow> np_error option \<times> np_error option \<times> 'w" where
  "set_weights client w spotPool sw odPool ow =
     (case SetWeight client w spotPool sw of
        (spotErr, w1) \<Rightarrow> (case SetWeight client w1 odPool ow of (odErr, w2) \<Rightarrow> (spotErr, odErr, w2)))"

definition km_PrepareSwap :: "('w \<Rightarrow> int) \<Rightarrow> 'w KarpenterManager \<Rightarrow> 'w \<Rightarrow> PoolInfo \<Rightarrow> SwapDirection \<Rightarrow>
    (swap_error + SwapResult) \<times> 'w KarpenterManager \<times> 'w" where
  "km_PrepareSwap clock m w pool direction =
     (case nodePoolMgr m of
        None \<Rightarrow> (Inl NodePoolManagerMissing, m, w)
      | Some client \<Rightarrow>
          if within_cooldown clock w (lastWeightChange m (pool_Name pool)) (cooldown m)
          then (Inr \<lparr>sr_Ready = True, sr_ReplacementNodeName = []\<rparr>, m, w)
          else
            let sw = (case direction of SwapToOnDemand \<Rightarrow> odWeight m | SwapToSpot \<Rightarrow> spotWeight m);
                ow = (case direction of SwapToOnDemand \<Rightarrow> spotWeight m | SwapToSpot \<Rightarrow> odWeight m)
            in case set_weights client w (pool_Name pool @ spotSuffix m) sw (pool_Name pool @ odSuffix m) ow of
                 (spotErr, odErr, w') \<Rightarrow>
                   let ok = (spotErr = None \<or> odErr = None);
                       m' = (if ok then m\<lparr>lastWeightChange := (lastWeightChange m)(pool_Name pool \<mapsto> clock w')\<rparr> else m)
                   in (Inr \<lparr>sr_Ready = ok, sr_ReplacementNodeName = []\<rparr>, m', w'))"

definition km_IsAvailable :: "'w KarpenterManager \<Rightarrow> 'w \<Rightarrow> bool" where
  "km_IsAvailable m w = (case nodePoolMgr m of None \<Rightarrow> False | Some client \<Rightarrow> IsKarpenterAvailable client w)"

section \<open>The interface and the router\<close>

datatype 'w CapacityManager = KManager "'w KarpenterManager" | AManager "'w ASGManager"

fun Type :: "'w CapacityManager \<Rightarrow> ManagerType" where
  "Type (KManager m) = ManagerKarpenter"
| "Type (AManager m) = managerType m"

fun mgr_PrepareSwap :: "('w \<Rightarrow> int) \<Rightarrow> 'w CapacityManager \<Rightarrow> 'w \<Rightarrow> 'w wait_event list \<Rightarrow> PoolInfo \<Rightarrow> SwapDirection \<Rightarrow>
    ((swap_error + SwapResult) \<times> 'w CapacityManager \<times> 'w) option" where
  "mgr_PrepareSwap clock (KManager m) w events pool direction =
     (case km_PrepareSwap clock m w pool direction of (r, m', w') \<Rightarrow> Some (r, KManager m', w'))"
| "mgr_PrepareSwap clock (AManager m) w events pool direction =
     (case PrepareSwap m w events pool direction of
        None \<Rightarrow> None
      | Some (r, w') \<Rightarrow> Some (r, AManager m, w'))"

fun mgr_PostDrainCleanup :: "'w CapacityManager \<Rightarrow> 'w \<Rightarrow> string \<Rightarrow> PoolInfo \<Rightarrow> cleanup_error option \<times> 'w" where
  "mgr_PostDrainCleanup (KManager m) w nodeName pool = (None, w)"
| "mgr_PostDrainCleanup (AManager m) w nodeName pool = PostDrainCleanup m w nodeName pool"

record 'w Router =
  managers :: "ManagerType \<rightharpoonup> 'w CapacityManager"

definition NewRouter :: "'w CapacityManager list \<Rightarrow> 'w Router" where
  "NewRouter ms = \<lparr>managers = foldl (\<lambda>m mgr. m(Type mgr \<mapsto> mgr)) Map.empty ms\<rparr>"

definition DetectManagerType :: "'w Router \<Rightarrow> Node \<Rightarrow> ManagerType" where
  "DetectManagerType r node = DetectManager (Some node)"

definition ManagerForType :: "'w Router \<Rightarrow> ManagerType \<Rightarrow> 'w CapacityManager option" where
  "ManagerForType r mgrType = managers r mgrType"

text \<open>The key under which \<open>ManagerForNode\<close> finds its manager.\<close>

definition manager_key :: "'w Router \<Rightarrow> Node \<Rightarrow> ManagerType option" where
  "manager_key r node =
     (let mgrType = DetectManager (Some node) in
      if mgrType = ManagerUnknown then None
      else if managers r mgrType \<noteq> None then Some mgrType
      else if mgrType = ManagerManagedNodegroup \<and> managers r ManagerClusterAutoscaler \<noteq> None
      then Some ManagerClusterAutoscaler
      else if mgrType = ManagerClusterAutoscaler \<and> managers r ManagerManagedNodegroup \<noteq> None
      then Some ManagerManagedNodegroup
      else None)"

definition ManagerForNode :: "'w Router \<Rightarrow> Node \<Rightarrow> 'w CapacityManager option" where
  "ManagerForNode r node = (case manager_key r node of None \<Rightarrow> None | Some k \<Rightarrow> managers r k)"

definition PrepareSwapForNode :: "('w \<Rightarrow> int) \<Rightarrow> 'w Router \<Rightarrow> 'w \<Rightarrow> 'w wait_event list \<Rightarrow> Node \<Rightarrow> PoolInfo \<Rightarrow>
    SwapDirection \<Rightarrow> ((swap_error + SwapResult) \<times> 'w Router \<times> 'w) option" where
  "PrepareSwapForNode clock r w events node pool direction =
     (case manager_key r node of
        None \<Rightarrow> Some (Inl (NoManagerFor (node_Name node) (DetectManager (Some node))), r, w)
      | Some k \<Rightarrow>
          (case mgr_PrepareSwap clock (the (managers r k)) w events pool direction of
             None \<Rightarrow> None
           | Some (res, m', w') \<Rightarrow> Some (res, r\<lparr>managers := (managers r)(k \<mapsto> m')\<rparr>, w')))"

definition PostDrainCleanupForNode :: "'w Router \<Rightarrow> 'w \<Rightarrow> Node \<Rightarrow> PoolInfo \<Rightarrow> cleanup_error option \<times> 'w" where
  "PostDrainCleanupForNode r w node pool =
     (case ManagerForNode r node of
        None \<Rightarrow> (None, w)
      | Some m \<Rightarrow> mgr_PostDrainCleanup m w (node_Name node) pool)"

definition HasManager :: "'w Router \<Rightarrow> ManagerType \<Rightarrow> bool" where
  "HasManager r mgrType = (managers r mgrType \<noteq> None)"

section \<open>Routing\<close>

definition wf_router :: "'w Router \<Rightarrow> bool" where
  "wf_router r \<longleftrightarrow> (\<forall>k m. managers r k = Some m \<longrightarrow> Type m = k)"

lemma foldl_router:
  "foldl (\<lambda>m mgr. m(Type mgr \<mapsto> mgr)) m0 ms k = Some mgr \<Longrightarrow> (mgr \<in> set ms \<and> Type mgr = k) \<or> m0 k = Some mgr"
proof (induction ms arbitrary: m0)
  case (Cons a ms)
  from Cons.IH [of "m0(Type a \<mapsto> a)"] Cons.prems show ?case by (auto split: if_splits)
qed simp

lemma foldl_router_None:
  "foldl (\<lambda>m mgr. m(Type mgr \<mapsto> mgr)) m0 ms k = None \<longleftrightarrow> m0 k = None \<and> (\<forall>m \<in> set ms. Type m \<noteq> k)"
  by (induction ms arbitrary: m0) auto

lemma NewRouter_wf [wf_intros]: "wf_router (NewRouter ms)"
  by (auto simp: wf_router_def NewRouter_def dest: foldl_router)

lemma km_PrepareSwap_cases:
  assumes "km_PrepareSwap clock m w pool direction = (r, m', w')"
  shows "nodePoolMgr m' = nodePoolMgr m \<and> cooldown m' = cooldown m \<and> spotSuffix m' = spotSuffix m \<and>
         odSuffix m' = odSuffix m \<and> spotWeight m' = spotWeight m \<and> odWeight m' = odWeight m \<and>
         (lastWeightChange m' = lastWeightChange m \<or>
          lastWeightChange m' = (lastWeightChange m)(pool_Name pool \<mapsto> clock w'))"
  using assms by (auto simp: km_PrepareSwap_def Let_def split: option.splits if_splits prod.splits)

lemma mgr_PrepareSwap_Type:
  "mgr_PrepareSwap clock m w events pool direction = Some (r, m', w') \<Longrightarrow> Type m' = Type m"
  by (cases m) (auto split: prod.splits option.splits)

lemma PrepareSwapForNode_wf [wf_intros]:
  "wf_router r \<Longrightarrow> PrepareSwapForNode clock r w events node pool direction = Some (res, r', w') \<Longrightarrow> wf_router r'"
  by (auto simp: PrepareSwapForNode_def wf_router_def manager_key_def Let_def
      split: option.splits prod.splits if_splits dest!: mgr_PrepareSwap_Type)

text \<open>
  Nodes are routed to a manager of their own kind: a Karpenter node only ever to
  the Karpenter manager, a Cluster Autoscaler or managed-nodegroup node only to an ASG manager
  (the two stand in for each other when one is missing), an unknown node to none; and a manager
  of the node's kind is found whenever one is registered.
\<close>

theorem ManagerForNode_kind:
  "(case ManagerForNode (NewRouter ms) node of
      None \<Rightarrow> DetectManager (Some node) = ManagerUnknown \<or>
        (\<forall>m \<in> set ms. Type m \<noteq> DetectManager (Some node))
    | Some m \<Rightarrow> m \<in> set ms \<and>
        (if DetectManager (Some node) = ManagerKarpenter then Type m = ManagerKarpenter
         else Type m \<in> {ManagerClusterAutoscaler, ManagerManagedNodegroup} \<and>
              DetectManager (Some node) \<in> {ManagerClusterAutoscaler, ManagerManagedNodegroup}))"
proof -
  let ?r = "NewRouter ms"
  have some: "\<And>k m. managers ?r k = Some m \<Longrightarrow> m \<in> set ms \<and> Type m = k"
    by (auto simp: NewRouter_def dest: foldl_router)
  have none: "managers ?r k = None \<longleftrightarrow> (\<forall>m \<in> set ms. Type m \<noteq> k)" for k
    using foldl_router_None [of Map.empty ms k] by (auto simp: NewRouter_def)
  show ?thesis
    using none some
    by (cases "DetectManager (Some node)")
      (auto simp: ManagerForNode_def manager_key_def Let_def split: option.splits if_splits)
qed

theorem ManagerForNode_kind_witness:
  "ManagerForNode (NewRouter [AManager swap_manager]) asg_node = Some (AManager swap_manager) \<and>
   Type (AManager swap_manager) \<in> {ManagerClusterAutoscaler, ManagerManagedNodegroup}"
proof -
  have d: "DetectManager (Some asg_node) = ManagerClusterAutoscaler"
    by (simp add: DetectManager_def asg_node_def Let_def)
  have "ManagerForNode (NewRouter [AManager swap_manager]) asg_node = Some (AManager swap_manager)"
    by (simp add: ManagerForNode_def manager_key_def d NewRouter_def swap_manager_def Let_def)
  then show ?thesis
    using ManagerForNode_kind [of asg_node "[AManager swap_manager]"] d by (auto simp: swap_manager_def)
qed

text \<open>
  Weights are changed at most once per pool and cooldown: once a change of a
  pool's weights went through, every swap for that pool before the cooldown has passed reports
  ready without touching the cluster.
\<close>

lemma km_PrepareSwap_cooldown:
  assumes "km_PrepareSwap clock m w pool direction = (Inr r, m1, w1)"
    and "sr_Ready r" and "w1 \<noteq> w" and "clock w2 - clock w1 < cooldown m" and "pool_Name pool' = pool_Name pool"
  shows "km_PrepareSwap clock m1 w2 pool' direction' =
           (Inr \<lparr>sr_Ready = True, sr_ReplacementNodeName = []\<rparr>, m1, w2)"
  using assms
  by (auto simp: km_PrepareSwap_def within_cooldown_def Let_def split: option.splits if_splits prod.splits)

end
