(* ===== verification/Collector.thy ===== *)
theory Collector
  imports Runtime_Config Capacity_Types Agent_Config
begin

text \<open>
  internal/collector/collector.go: workload features of node pools. \<open>Collect\<close> lists nodes, pods,
  disruption budgets and replica sets, accumulates per pool, and turns each accumulator into
  features with a pool-safety vector. The lists come from the record \<open>'w collector_api\<close>; the
  scanner of \<open>fmt.Sscanf\<close> for floating-point numbers and the order \<open>sort.Slice\<close> gives to equal
  elements are parameters. Times are nanoseconds.
\<close>

section \<open>Data\<close>

record WorkloadFeatures =
  wf_PodStartupTime :: f64
  wf_OutagePenaltyHours :: f64
  wf_PriorityScore :: f64
  wf_ClusterUtilization :: f64
  wf_PoolSafety :: PoolSafetyVector
  wf_MaxOutagePenalty :: f64
  wf_MaxPriorityScore :: f64
  wf_HasCriticalPod :: bool

record weightedValue =
  wv_val :: f64
  wv_weight :: f64

record poolAccumulator =
  latencies :: "weightedValue list"
  penalties :: "weightedValue list"
  priorities :: "weightedValue list"
  maxPenalty :: f64
  maxPriority :: f64
  hasCriticalPod :: bool
  groupKey :: string
  utilizationKey :: string
  spotNodes :: int
  odNodes :: int
  workloadPods :: int
  statefulPods :: int
  evictablePods :: int
  criticalPods :: int
  criticalOnSpot :: int
  pdbNodeCounts :: "(string \<times> (string \<times> int) list) list"
  pdbSlack :: "string \<rightharpoonup> int"

text \<open>
  The objects the collector lists, with the fields it reads. A condition is its type, status and
  last transition; an owner its kind and name; a container its CPU request as a float. A selector
  is \<open>None\<close> when it cannot be converted, else its emptiness and the label sets it matches.
\<close>

record WorkloadPod =
  wp_Namespace :: string
  wp_NodeName :: string
  wp_Labels :: labels
  wp_Annotations :: labels
  wp_Owners :: "(string \<times> string) list"
  wp_PriorityClassName :: string
  wp_StartTime :: "int option"
  wp_Conditions :: "(string \<times> string \<times> int) list"
  wp_CPURequests :: "f64 list"

record WorkloadPDB =
  wb_Namespace :: string
  wb_Name :: string
  wb_CurrentHealthy :: int
  wb_DesiredHealthy :: int
  wb_DisruptionsAllowed :: int
  wb_Selector :: "(bool \<times> (labels \<Rightarrow> bool)) option"

record compiledPDB =
  cp_key :: string
  cp_disruptionsAllowed :: int
  cp_empty :: bool
  cp_Matches :: "labels \<Rightarrow> bool"

record 'w collector_api =
  q_listNodes :: "'w \<Rightarrow> api_error + Node list"
  q_listPods :: "'w \<Rightarrow> api_error + WorkloadPod list"
  q_listPDBs :: "'w \<Rightarrow> api_error + WorkloadPDB list"
  q_listReplicaSets :: "'w \<Rightarrow> api_error + (string \<times> int option) list"
  q_GetPoolUtilization :: "('w \<Rightarrow> api_error + (string \<rightharpoonup> f64)) option"
  q_Sscanf_f :: "string \<Rightarrow> f64 option"
  q_sort_Slice :: "weightedValue list \<Rightarrow> weightedValue list"

section \<open>Pool identifiers\<close>

definition LabelZone :: string where "LabelZone = ''topology.kubernetes.io/zone''"
definition LabelInstanceType :: string where "LabelInstanceType = ''node.kubernetes.io/instance-type''"
definition WorkloadPoolLabel :: string where "WorkloadPoolLabel = ''spotvortex.io/pool''"

definition or_unknown :: "string \<Rightarrow> string" where
  "or_unknown s = (if s = [] then ''unknown'' else s)"

definition GetNodePoolID :: "Node \<Rightarrow> string" where
  "GetNodePoolID node =
     (let zone = or_unknown (label_get (node_Labels node) LabelZone);
          it = or_unknown (label_get (node_Labels node) LabelInstanceType)
      in it @ '':'' @ zone)"

definition GetExtendedPoolID :: "Node \<Rightarrow> string" where
  "GetExtendedPoolID node =
     (let zone = or_unknown (label_get (node_Labels node) LabelZone);
          it = or_unknown (label_get (node_Labels node) LabelInstanceType);
          pool = label_get (node_Labels node) WorkloadPoolLabel
      in if pool \<noteq> [] then pool @ '':'' @ it @ '':'' @ zone else it @ '':'' @ zone)"

section \<open>Facts about one pod\<close>

definition sat64 :: "int \<Rightarrow> int" where
  "sat64 d = (if d < - (2 ^ 63) then - (2 ^ 63) else if 2 ^ 63 - 1 < d then 2 ^ 63 - 1 else d)"

definition Seconds :: "int \<Rightarrow> f64" where
  "Seconds d = f64_of_int (go_div d Second) + f64_of_int (go_rem d Second) / Fin 1000000000"

fun ready_latency :: "int \<Rightarrow> (string \<times> string \<times> int) list \<Rightarrow> f64" where
  "ready_latency start [] = Fin 0"
| "ready_latency start ((t, status, changed) # conds) =
     (if t = ''Ready'' \<and> status = ''True'' then Seconds (sat64 (changed - start)) else ready_latency start conds)"

definition getPodStartupLatency :: "WorkloadPod \<Rightarrow> f64" where
  "getPodStartupLatency pod =
     (case wp_StartTime pod of None \<Rightarrow> Fin 0 | Some start \<Rightarrow> ready_latency start (wp_Conditions pod))"

definition getPodWeight :: "WorkloadPod \<Rightarrow> f64" where
  "getPodWeight pod =
     (let cpu = foldl (+) (Fin 0) (wp_CPURequests pod) in if cpu \<le> Fin 0 then Fin 1 else cpu)"

definition parseHoursDuration :: "(string \<Rightarrow> f64 option) \<Rightarrow> string \<Rightarrow> f64" where
  "parseHoursDuration scan s =
     (let s = TrimSpace s;
          plain = (case scan s of Some hours \<Rightarrow> hours | None \<Rightarrow> Fin 0)
      in if s = [] then Fin 0
         else if HasSuffix s ''h''
         then (case scan (butlast s) of Some hours \<Rightarrow> hours | None \<Rightarrow> plain)
         else plain)"

fun owner_facts :: "(string \<rightharpoonup> int) \<Rightarrow> bool \<times> int \<Rightarrow> (string \<times> string) list \<Rightarrow> bool \<times> int" where
  "owner_facts rsReplicas (isStateful, replicas) [] = (isStateful, replicas)"
| "owner_facts rsReplicas (isStateful, replicas) ((kind, name) # owners) =
     owner_facts rsReplicas
       (isStateful \<or> kind = ''StatefulSet'',
        if kind = ''ReplicaSet'' then (case rsReplicas name of Some r \<Rightarrow> r | None \<Rightarrow> replicas) else replicas) owners"

definition calculateOutagePenalty :: "WorkloadPod \<Rightarrow> bool \<Rightarrow> (string \<rightharpoonup> int) \<Rightarrow> f64" where
  "calculateOutagePenalty pod restricted rsReplicas =
     (let pc = wp_PriorityClassName pod;
          base = (if str_Contains pc ''system-node-critical'' \<or> str_Contains pc ''system-cluster-critical'' then Fin 48
                  else if str_Contains pc ''high'' then Fin 12
                  else if str_Contains pc ''low'' then Fin 1
                  else Fin 4);
          base = (if restricted then base * Fin 2 else base);
          (isStateful, replicas) = owner_facts rsReplicas (False, 1) (wp_Owners pod)
      in if isStateful then base * Fin 2
         else if replicas \<ge> 2 \<and> \<not> restricted then base * Fin (1 / 2)
         else base)"

definition AnnotationOutagePenalty :: string where "AnnotationOutagePenalty = ''spotvortex.io/outage-penalty''"
definition AnnotationStartupTime :: string where "AnnotationStartupTime = ''spotvortex.io/startup-time''"
definition AnnotationMigrationTier :: string where "AnnotationMigrationTier = ''spotvortex.io/migration-tier''"

definition getOutagePenaltyWithOverride ::
  "(string \<Rightarrow> f64 option) \<Rightarrow> WorkloadPod \<Rightarrow> bool \<Rightarrow> (string \<rightharpoonup> int) \<Rightarrow> f64" where
  "getOutagePenaltyWithOverride scan pod restricted rsReplicas =
     (case wp_Annotations pod AnnotationOutagePenalty of
        Some penaltyStr \<Rightarrow>
          (let penalty = parseHoursDuration scan penaltyStr in
           if Fin 0 < penalty then penalty else calculateOutagePenalty pod restricted rsReplicas)
      | None \<Rightarrow> calculateOutagePenalty pod restricted rsReplicas)"

definition getStartupTimeWithOverride :: "(string \<Rightarrow> f64 option) \<Rightarrow> WorkloadPod \<Rightarrow> f64" where
  "getStartupTimeWithOverride scan pod =
     (case wp_Annotations pod AnnotationStartupTime of
        Some startupStr \<Rightarrow>
          (case scan startupStr of
             Some startup \<Rightarrow> if Fin 0 < startup then startup else getPodStartupLatency pod
           | None \<Rightarrow> getPodStartupLatency pod)
      | None \<Rightarrow> getPodStartupLatency pod)"

definition class_score :: "string \<Rightarrow> f64" where
  "class_score pc =
     (if str_Contains pc ''system'' then Fin 1
      else if str_Contains pc ''high'' then Fin (3 / 4)
      else if str_Contains pc ''low'' then Fin (1 / 4)
      else Fin (1 / 2))"

definition getPriorityScore :: "WorkloadPod \<Rightarrow> f64" where
  "getPriorityScore pod =
     (case wp_Annotations pod AnnotationMigrationTier of
        None \<Rightarrow> class_score (wp_PriorityClassName pod)
      | Some tier \<Rightarrow>
          if tier = ''0'' then Fin 1
          else if tier = ''1'' then Fin (1 / 2)
          else if tier = ''2'' then Fin (1 / 4)
          else class_score (wp_PriorityClassName pod))"

definition isStatefulPod :: "WorkloadPod \<Rightarrow> bool" where
  "isStatefulPod pod = list_ex (\<lambda>own. fst own = ''StatefulSet'') (wp_Owners pod)"

definition isCriticalServicePod :: "WorkloadPod \<Rightarrow> f64 \<Rightarrow> bool" where
  "isCriticalServicePod pod priorityScore =
     (if label_get (wp_Annotations pod) ''spotvortex.io/critical'' = ''true'' then True
      else Fin (3 / 4) \<le> priorityScore)"

definition isWorkloadPod :: "WorkloadPod \<Rightarrow> bool" where
  "isWorkloadPod pod =
     (if list_ex (\<lambda>own. fst own = ''DaemonSet'') (wp_Owners pod) then False else wp_NodeName pod \<noteq> [])"

fun matchPDBForPod :: "WorkloadPod \<Rightarrow> compiledPDB list \<Rightarrow> compiledPDB option" where
  "matchPDBForPod pod [] = None"
| "matchPDBForPod pod (pdb # pdbs) =
     (if cp_empty pdb then matchPDBForPod pod pdbs
      else if cp_Matches pdb (wp_Labels pod) then Some pdb
      else matchPDBForPod pod pdbs)"

section \<open>Weighted statistics\<close>

fun percentile_loop :: "f64 \<Rightarrow> f64 \<Rightarrow> weightedValue list \<Rightarrow> f64 option" where
  "percentile_loop target current [] = None"
| "percentile_loop target current (v # vs) =
     (let current = current + wv_weight v in
      if target \<le> current then Some (wv_val v) else percentile_loop target current vs)"

text \<open>The caller never passes an empty slice, on which the last index would panic.\<close>

definition calculateWeightedPercentile ::
  "(weightedValue list \<Rightarrow> weightedValue list) \<Rightarrow> weightedValue list \<Rightarrow> f64 \<Rightarrow> f64" where
  "calculateWeightedPercentile sort_Slice values p =
     (let values = sort_Slice values;
          totalWeight = foldl (\<lambda>s v. s + wv_weight v) (Fin 0) values;
          target = totalWeight * p
      in case percentile_loop target (Fin 0) values of
           Some x \<Rightarrow> x
         | None \<Rightarrow> wv_val (last values))"

definition calculateWeightedAverage :: "weightedValue list \<Rightarrow> f64" where
  "calculateWeightedAverage values =
     (if values = [] then Fin 0
      else
        let (weightedSum, totalWeight) =
              foldl (\<lambda>(s, t) v. (s + wv_val v * wv_weight v, t + wv_weight v)) (Fin 0, Fin 0) values
        in if feq totalWeight (Fin 0) then Fin 0 else weightedSum / totalWeight)"

section \<open>The pool-safety vector\<close>

definition clampUnit :: "f64 \<Rightarrow> f64" where
  "clampUnit v = (if v < Fin 0 then Fin 0 else if Fin 1 < v then Fin 1 else v)"

fun top_two :: "int \<times> int \<Rightarrow> (string \<times> int) list \<Rightarrow> int \<times> int" where
  "top_two (maxOne, maxTwo) [] = (maxOne, maxTwo)"
| "top_two (maxOne, maxTwo) ((node, n) # rest) =
     (if n \<ge> maxOne then top_two (n, maxOne) rest
      else if n > maxTwo then top_two (maxOne, n) rest
      else top_two (maxOne, maxTwo) rest)"

fun slack_loop :: "(string \<rightharpoonup> int) \<Rightarrow> f64 \<times> f64 \<Rightarrow> (string \<times> (string \<times> int) list) list \<Rightarrow> f64 \<times> f64" where
  "slack_loop slack (minOne, minTwo) [] = (minOne, minTwo)"
| "slack_loop slack (minOne, minTwo) ((pdbKey, nodeCounts) # rest) =
     (let allowed = f64_of_int (case slack pdbKey of None \<Rightarrow> 0 | Some a \<Rightarrow> a);
          (maxOne, maxTwo) = top_two (0, 0) nodeCounts;
          slackOne = allowed - f64_of_int maxOne;
          slackTwo = allowed - f64_of_int (maxOne + maxTwo)
      in slack_loop slack (if slackOne < minOne then slackOne else minOne, if slackTwo < minTwo then slackTwo else minTwo) rest)"

definition computePDBSlackBounds :: "poolAccumulator \<Rightarrow> f64 \<times> f64" where
  "computePDBSlackBounds acc =
     (if pdbNodeCounts acc = [] then (Fin 0, Fin 0)
      else
        let (minOne, minTwo) = slack_loop (pdbSlack acc) (PosInf, PosInf) (pdbNodeCounts acc)
        in (if minOne = PosInf then Fin 0 else minOne, if minTwo = PosInf then Fin 0 else minTwo))"

definition computeZoneDiversificationScore :: "int \<Rightarrow> f64" where
  "computeZoneDiversificationScore zoneCount =
     (if zoneCount \<ge> 3 then Fin 1 else if zoneCount = 2 then Fin (1 / 2)
      else if zoneCount = 1 then Fin 0 else Fin 0)"

definition computeRecoveryBudgetViolationRisk :: "PoolSafetyVector \<Rightarrow> f64" where
  "computeRecoveryBudgetViolationRisk v =
     (let risk = Fin 0;
          risk = (if MinPDBSlackIfOneNodeLost v < Fin 0 then math_Max risk (to_f64 (19 / 20))
                  else if MinPDBSlackIfOneNodeLost v < Fin 1 then math_Max risk (to_f64 (7 / 10)) else risk);
          risk = (if MinPDBSlackIfTwoNodesLost v < Fin 0 then math_Max risk (to_f64 (17 / 20))
                  else if MinPDBSlackIfTwoNodesLost v < Fin 1 then math_Max risk (to_f64 (11 / 20)) else risk);
          risk = (if Fin 0 < CriticalServiceSpotConcentration v
                  then math_Max risk (clampUnit (to_f64 (1 / 5) + to_f64 (4 / 5) * CriticalServiceSpotConcentration v)) else risk);
          risk = (if Fin 0 < StatefulPodFraction v
                  then math_Max risk (clampUnit (to_f64 (3 / 20) + to_f64 (13 / 20) * StatefulPodFraction v)) else risk);
          risk = (if Fin 600 \<le> RestartP95Seconds v then math_Max risk (Fin (3 / 4))
                  else if Fin 300 \<le> RestartP95Seconds v then math_Max risk (Fin (1 / 2))
                  else if Fin 120 \<le> RestartP95Seconds v then math_Max risk (to_f64 (3 / 10)) else risk);
          risk = (if SpareODHeadroomNodes v < Fin 1 then math_Max risk (to_f64 (11 / 20)) else risk);
          risk = math_Max risk (clampUnit ((Fin 1 - ZoneDiversificationScore v) * to_f64 (3 / 5)));
          risk = math_Max risk (clampUnit ((Fin 1 - EvictablePodFraction v) * to_f64 (17 / 20)))
      in clampUnit risk)"

definition computeSafeMaxSpotRatio :: "PoolSafetyVector \<Rightarrow> f64" where
  "computeSafeMaxSpotRatio v =
     (let cap = Fin 1;
          cap = (if to_f64 (4 / 5) \<le> CriticalServiceSpotConcentration v then math_Min cap (to_f64 (1 / 10))
                 else if Fin (1 / 2) \<le> CriticalServiceSpotConcentration v then math_Min cap (Fin (1 / 4))
                 else if Fin (1 / 4) \<le> CriticalServiceSpotConcentration v then math_Min cap (Fin (1 / 2)) else cap);
          cap = (if MinPDBSlackIfOneNodeLost v < Fin 0 then math_Min cap (to_f64 (1 / 10))
                 else if MinPDBSlackIfOneNodeLost v < Fin 1 then math_Min cap (to_f64 (7 / 20)) else cap);
          cap = (if MinPDBSlackIfTwoNodesLost v < Fin 0 then math_Min cap (Fin (1 / 4))
                 else if MinPDBSlackIfTwoNodesLost v < Fin 1 then math_Min cap (Fin (1 / 2)) else cap);
          cap = (if Fin (1 / 2) \<le> StatefulPodFraction v then math_Min cap (Fin (1 / 2))
                 else if Fin (1 / 4) \<le> StatefulPodFraction v then math_Min cap (to_f64 (7 / 10)) else cap);
          cap = (if Fin 600 \<le> RestartP95Seconds v then math_Min cap (Fin (1 / 4))
                 else if Fin 300 \<le> RestartP95Seconds v then math_Min cap (Fin (1 / 2)) else cap);
          cap = (if to_f64 (9 / 10) \<le> RecoveryBudgetViolationRisk v then math_Min cap (to_f64 (1 / 10))
                 else if Fin (3 / 4) \<le> RecoveryBudgetViolationRisk v then math_Min cap (Fin (1 / 4))
                 else if to_f64 (3 / 5) \<le> RecoveryBudgetViolationRisk v then math_Min cap (to_f64 (2 / 5)) else cap);
          cap = (if SpareODHeadroomNodes v < Fin 1 then math_Min cap (to_f64 (3 / 5)) else cap);
          cap = (if ZoneDiversificationScore v < Fin (1 / 2) then math_Min cap (to_f64 (3 / 5)) else cap);
          cap = (if EvictablePodFraction v < Fin (1 / 4) then math_Min cap (to_f64 (1 / 5))
                 else if EvictablePodFraction v < Fin (1 / 2) then math_Min cap (to_f64 (2 / 5)) else cap)
      in clampUnit cap)"

text \<open>A nil accumulator gives the default vector; \<open>Collect\<close> passes none.\<close>

definition computePoolSafetyVector :: "poolAccumulator \<Rightarrow> f64 \<Rightarrow> int \<Rightarrow> f64 \<Rightarrow> PoolSafetyVector" where
  "computePoolSafetyVector acc util zoneCount restartP95Seconds =
     (let util = clampUnit util;
          vector = DefaultPoolSafetyVector\<lparr>
            RestartP95Seconds := restartP95Seconds,
            SpareODHeadroomNodes := math_Max (Fin 0) (f64_of_int (odNodes acc) * (Fin 1 - util)),
            ZoneDiversificationScore := computeZoneDiversificationScore zoneCount\<rparr>
      in if workloadPods acc = 0 then NormalizePoolSafetyVector vector
         else
           let vector = (if criticalPods acc > 0
                 then vector\<lparr>CriticalServiceSpotConcentration := f64_of_int (criticalOnSpot acc) / f64_of_int (criticalPods acc)\<rparr>
                 else vector);
               vector = (if workloadPods acc > 0
                 then vector\<lparr>StatefulPodFraction := f64_of_int (statefulPods acc) / f64_of_int (workloadPods acc),
                             EvictablePodFraction := f64_of_int (evictablePods acc) / f64_of_int (workloadPods acc)\<rparr>
                 else vector);
               (slackOne, slackTwo) = computePDBSlackBounds acc;
               vector = vector\<lparr>MinPDBSlackIfOneNodeLost := slackOne, MinPDBSlackIfTwoNodesLost := slackTwo\<rparr>;
               vector = vector\<lparr>RecoveryBudgetViolationRisk := computeRecoveryBudgetViolationRisk vector\<rparr>;
               vector = vector\<lparr>SafeMaxSpotRatio := computeSafeMaxSpotRatio vector\<rparr>
           in NormalizePoolSafetyVector vector)"

section \<open>Collect\<close>

definition new_accumulator :: poolAccumulator where
  "new_accumulator = \<lparr>latencies = [], penalties = [], priorities = [], maxPenalty = Fin 0, maxPriority = Fin 0,
     hasCriticalPod = False, groupKey = [], utilizationKey = [], spotNodes = 0, odNodes = 0, workloadPods = 0,
     statefulPods = 0, evictablePods = 0, criticalPods = 0, criticalOnSpot = 0, pdbNodeCounts = [], pdbSlack = Map.empty\<rparr>"

text \<open>
  The state of the loop over the nodes. The zones of a group are a list without duplicates.
\<close>

record node_pass =
  np_nodeToPools :: "string \<rightharpoonup> string list"
  np_nodeIsSpot :: "string \<rightharpoonup> bool"
  np_groupZones :: "string \<rightharpoonup> string list"
  np_poolStats :: "string \<rightharpoonup> poolAccumulator"

definition add_zone :: "string \<Rightarrow> string \<Rightarrow> (string \<rightharpoonup> string list) \<Rightarrow> string \<rightharpoonup> string list" where
  "add_zone g zone m =
     m(g \<mapsto> (case m g of None \<Rightarrow> [zone] | Some zs \<Rightarrow> if zone \<in> set zs then zs else zs @ [zone]))"

definition acc_of :: "(string \<rightharpoonup> poolAccumulator) \<Rightarrow> string \<Rightarrow> poolAccumulator" where
  "acc_of stats poolID = (case stats poolID of None \<Rightarrow> new_accumulator | Some acc \<Rightarrow> acc)"

definition pool_keys :: "Node \<Rightarrow> string list" where
  "pool_keys node =
     (if GetExtendedPoolID node \<noteq> GetNodePoolID node then [GetNodePoolID node, GetExtendedPoolID node]
      else [GetNodePoolID node])"

definition node_in_pool :: "Node \<Rightarrow> node_pass \<Rightarrow> string \<Rightarrow> node_pass" where
  "node_in_pool node st poolID =
     (let zone = or_unknown (label_get (node_Labels node) LabelZone);
          simpleGroupKey = ''instance:'' @ or_unknown (label_get (node_Labels node) LabelInstanceType);
          workloadGroupKey = ''workload:'' @ label_get (node_Labels node) WorkloadPoolLabel;
          simple = (poolID = GetNodePoolID node);
          acc = (acc_of (np_poolStats st) poolID)\<lparr>
            utilizationKey := GetNodePoolID node,
            groupKey := (if simple then simpleGroupKey else workloadGroupKey)\<rparr>;
          acc = (if IsSpotNode (Some node) then acc\<lparr>spotNodes := spotNodes acc + 1\<rparr>
                 else acc\<lparr>odNodes := odNodes acc + 1\<rparr>)
      in st\<lparr>np_groupZones := (if simple then np_groupZones st else add_zone workloadGroupKey zone (np_groupZones st)),
            np_poolStats := (np_poolStats st)(poolID \<mapsto> acc)\<rparr>)"

definition pass_node :: "node_pass \<Rightarrow> Node \<Rightarrow> node_pass" where
  "pass_node st node =
     foldl (node_in_pool node)
       (st\<lparr>np_nodeToPools := (np_nodeToPools st)(node_Name node \<mapsto> pool_keys node),
           np_nodeIsSpot := (np_nodeIsSpot st)(node_Name node \<mapsto> IsSpotNode (Some node)),
           np_groupZones := add_zone (''instance:'' @ or_unknown (label_get (node_Labels node) LabelInstanceType))
             (or_unknown (label_get (node_Labels node) LabelZone)) (np_groupZones st)\<rparr>)
       (pool_keys node)"

definition pass_nodes :: "Node list \<Rightarrow> node_pass" where
  "pass_nodes nodes = foldl pass_node
     \<lparr>np_nodeToPools = Map.empty, np_nodeIsSpot = Map.empty, np_groupZones = Map.empty, np_poolStats = Map.empty\<rparr> nodes"

definition compiled_pdbs :: "WorkloadPDB list \<Rightarrow> string \<Rightarrow> compiledPDB list" where
  "compiled_pdbs pdbs ns = concat (map (\<lambda>pdb. case wb_Selector pdb of
       None \<Rightarrow> []
     | Some (empt, matches) \<Rightarrow> [\<lparr>cp_key = wb_Namespace pdb @ ''/'' @ wb_Name pdb,
         cp_disruptionsAllowed = wb_DisruptionsAllowed pdb, cp_empty = empt, cp_Matches = matches\<rparr>])
     (filter (\<lambda>pdb. wb_Namespace pdb = ns) pdbs))"

definition ns_restricted :: "WorkloadPDB list \<Rightarrow> string \<Rightarrow> bool" where
  "ns_restricted pdbs ns = list_ex (\<lambda>pdb. wb_Namespace pdb = ns \<and> wb_CurrentHealthy pdb \<le> wb_DesiredHealthy pdb) pdbs"

fun replica_map :: "(string \<rightharpoonup> int) \<Rightarrow> (string \<times> int option) list \<Rightarrow> string \<rightharpoonup> int" where
  "replica_map m [] = m"
| "replica_map m ((name, replicas) # rss) =
     replica_map (case replicas of None \<Rightarrow> m | Some r \<Rightarrow> m(name \<mapsto> r)) rss"

record pod_facts =
  pf_latency :: f64
  pf_weight :: f64
  pf_penalty :: f64
  pf_pScore :: f64
  pf_isCritical :: bool
  pf_isStateful :: bool
  pf_workloadRelevant :: bool
  pf_matchedPDB :: "compiledPDB option"
  pf_evictable :: bool

definition facts_of_pod :: "(string \<Rightarrow> f64 option) \<Rightarrow> WorkloadPDB list \<Rightarrow> (string \<rightharpoonup> int) \<Rightarrow> WorkloadPod \<Rightarrow> pod_facts" where
  "facts_of_pod scan pdbs rsReplicas pod =
     (let pScore = getPriorityScore pod;
          workloadRelevant = isWorkloadPod pod;
          matchedPDB = matchPDBForPod pod (compiled_pdbs pdbs (wp_Namespace pod))
      in \<lparr>pf_latency = getStartupTimeWithOverride scan pod, pf_weight = getPodWeight pod,
          pf_penalty = getOutagePenaltyWithOverride scan pod (ns_restricted pdbs (wp_Namespace pod)) rsReplicas,
          pf_pScore = pScore, pf_isCritical = isCriticalServicePod pod pScore, pf_isStateful = isStatefulPod pod,
          pf_workloadRelevant = workloadRelevant, pf_matchedPDB = matchedPDB,
          pf_evictable = (workloadRelevant \<and>
            (case matchedPDB of None \<Rightarrow> True | Some pdb \<Rightarrow> cp_disruptionsAllowed pdb > 0))\<rparr>)"

definition pod_in_pool :: "pod_facts \<Rightarrow> bool \<Rightarrow> string \<Rightarrow> poolAccumulator \<Rightarrow> poolAccumulator" where
  "pod_in_pool f onSpot nodeName acc =
     (let acc = (if Fin 0 < pf_latency f
                 then acc\<lparr>latencies := latencies acc @ [\<lparr>wv_val = pf_latency f, wv_weight = pf_weight f\<rparr>]\<rparr> else acc);
          acc = acc\<lparr>penalties := penalties acc @ [\<lparr>wv_val = pf_penalty f, wv_weight = pf_weight f\<rparr>]\<rparr>;
          acc = (if maxPenalty acc < pf_penalty f then acc\<lparr>maxPenalty := pf_penalty f\<rparr> else acc);
          acc = acc\<lparr>priorities := priorities acc @ [\<lparr>wv_val = pf_pScore f, wv_weight = pf_weight f\<rparr>]\<rparr>;
          acc = (if maxPriority acc < pf_pScore f then acc\<lparr>maxPriority := pf_pScore f\<rparr> else acc);
          acc = (if Fin 1 \<le> pf_pScore f then acc\<lparr>hasCriticalPod := True\<rparr> else acc);
          acc = (if pf_workloadRelevant f
                 then acc\<lparr>workloadPods := workloadPods acc + 1,
                          statefulPods := statefulPods acc + (if pf_isStateful f then 1 else 0),
                          evictablePods := evictablePods acc + (if pf_evictable f then 1 else 0),
                          criticalPods := criticalPods acc + (if pf_isCritical f then 1 else 0),
                          criticalOnSpot := criticalOnSpot acc + (if pf_isCritical f \<and> onSpot then 1 else 0)\<rparr>
                 else acc)
      in case pf_matchedPDB f of
           None \<Rightarrow> acc
         | Some pdb \<Rightarrow> acc\<lparr>
             pdbNodeCounts := alist_upd (cp_key pdb) (alist_upd nodeName (\<lambda>n. n + 1) 0) [] (pdbNodeCounts acc),
             pdbSlack := (pdbSlack acc)(cp_key pdb \<mapsto> cp_disruptionsAllowed pdb)\<rparr>)"

definition pass_pod :: "(WorkloadPod \<Rightarrow> pod_facts) \<Rightarrow> node_pass \<Rightarrow> (string \<rightharpoonup> poolAccumulator) \<Rightarrow> WorkloadPod \<Rightarrow>
    string \<rightharpoonup> poolAccumulator" where
  "pass_pod facts st stats pod =
     (if wp_NodeName pod = [] then stats
      else case np_nodeToPools st (wp_NodeName pod) of
        None \<Rightarrow> stats
      | Some poolIDs \<Rightarrow>
          foldl (\<lambda>stats poolID. stats(poolID \<mapsto> pod_in_pool (facts pod) (np_nodeIsSpot st (wp_NodeName pod) = Some True)
                   (wp_NodeName pod) (acc_of stats poolID))) stats poolIDs)"

definition finalize_pool :: "(weightedValue list \<Rightarrow> weightedValue list) \<Rightarrow> (string \<rightharpoonup> f64) \<Rightarrow>
    (string \<rightharpoonup> string list) \<Rightarrow> poolAccumulator \<Rightarrow> WorkloadFeatures" where
  "finalize_pool sort_Slice poolUtilization groupZones acc =
     (let p95 = (if latencies acc \<noteq> [] then calculateWeightedPercentile sort_Slice (latencies acc) (to_f64 (19 / 20)) else Fin 60);
          avgPenalty = (if penalties acc \<noteq> [] then calculateWeightedAverage (penalties acc) else Fin 4);
          avgPriority = (if priorities acc \<noteq> [] then calculateWeightedAverage (priorities acc) else Fin (1 / 2));
          maxPenalty' = (if feq (maxPenalty acc) (Fin 0) then Fin 4 else maxPenalty acc);
          maxPriority' = (if feq (maxPriority acc) (Fin 0) then Fin (1 / 2) else maxPriority acc);
          util = (case poolUtilization (utilizationKey acc) of
                    Some u \<Rightarrow> u
                  | None \<Rightarrow> (case poolUtilization ''default'' of Some u \<Rightarrow> u | None \<Rightarrow> Fin (1 / 2)));
          zones = (case groupZones (groupKey acc) of None \<Rightarrow> 0 | Some zs \<Rightarrow> int (length zs))
      in \<lparr>wf_PodStartupTime = p95, wf_OutagePenaltyHours = avgPenalty, wf_PriorityScore = avgPriority,
          wf_ClusterUtilization = util, wf_PoolSafety = computePoolSafetyVector acc util zones p95,
          wf_MaxOutagePenalty = maxPenalty', wf_MaxPriorityScore = maxPriority', wf_HasCriticalPod = hasCriticalPod acc\<rparr>)"

text \<open>
  The state of a collector is the map of features. A listing of nodes or pods that fails leaves it
  as it was; the other listings fall back to nothing.
\<close>

definition poolStats_of :: "'w collector_api \<Rightarrow> 'w \<Rightarrow> Node list \<Rightarrow> WorkloadPod list \<Rightarrow> string \<rightharpoonup> poolAccumulator" where
  "poolStats_of Q w nodes pods =
     (let st = pass_nodes nodes;
          pdbs = (case q_listPDBs Q w of Inl _ \<Rightarrow> [] | Inr pdbs \<Rightarrow> pdbs);
          rsReplicas = (case q_listReplicaSets Q w of Inl _ \<Rightarrow> Map.empty | Inr rss \<Rightarrow> replica_map Map.empty rss)
      in foldl (pass_pod (facts_of_pod (q_Sscanf_f Q) pdbs rsReplicas) st) (np_poolStats st) pods)"

definition Collect :: "'w collector_api \<Rightarrow> 'w \<Rightarrow> (string \<rightharpoonup> WorkloadFeatures) \<Rightarrow>
    api_error option \<times> (string \<rightharpoonup> WorkloadFeatures)" where
  "Collect Q w features =
     (case q_listNodes Q w of
        Inl e \<Rightarrow> (Some e, features)
      | Inr nodes \<Rightarrow>
        (case q_listPods Q w of
           Inl e \<Rightarrow> (Some e, features)
         | Inr pods \<Rightarrow>
             let utils = (case q_GetPoolUtilization Q of
                   None \<Rightarrow> Map.empty
                 | Some get \<Rightarrow> (case get w of Inl _ \<Rightarrow> Map.empty | Inr u \<Rightarrow> u))
             in (None, \<lambda>poolID. map_option (finalize_pool (q_sort_Slice Q) utils (np_groupZones (pass_nodes nodes)))
                                  (poolStats_of Q w nodes pods poolID))))"

definition GetPoolFeatures :: "(string \<rightharpoonup> WorkloadFeatures) \<Rightarrow> string \<Rightarrow> WorkloadFeatures" where
  "GetPoolFeatures features poolID =
     (case features poolID of
        Some f \<Rightarrow> f
      | None \<Rightarrow> \<lparr>wf_PodStartupTime = Fin 300, wf_OutagePenaltyHours = Fin 5, wf_PriorityScore = Fin (1 / 2),
          wf_ClusterUtilization = Fin 0, wf_PoolSafety = DefaultPoolSafetyVector, wf_MaxOutagePenalty = Fin 5,
          wf_MaxPriorityScore = Fin (1 / 2), wf_HasCriticalPod = False\<rparr>)"

end
