(* ===== verification/Controller_State.thy ===== *)
theory Controller_State
  imports Guardrails Drain Routing Collector
begin

text \<open>
  internal/controller/controller.go, the state of the controller and the operations on it that
  do not touch the cluster: construction, start and stop, target Spot ratios, drain counts,
  pool identifiers, price histories.
\<close>

section \<open>State\<close>

record poolCount =
  pc_total :: int
  pc_spot :: int

text \<open>
  Clients are parameters held in the state, \<open>None\<close> when nil; a drainer is its configuration
  and uses the controller's Kubernetes client, as \<open>New\<close> builds it. \<open>c_stopClosed\<close> says that
  \<open>stopCh\<close> has been closed; times are nanoseconds. Maps from pools default to zero when read.
\<close>

record 'w Controller =
  c_dryRun :: bool
  c_k8s :: "'w k8s option"
  c_drain :: "DrainConfig option"
  c_nodePoolMgr :: "'w dyn option option"
  c_karpenterCfg :: KarpenterConfig
  c_capacityRouter :: "'w Router"
  c_riskThreshold :: f64
  c_maxDrainRatio :: f64
  c_reconcileInterval :: int
  c_confidenceThreshold :: f64
  c_useSyntheticMetrics :: bool
  c_running :: bool
  c_stopClosed :: bool
  c_priceHistory :: "string \<rightharpoonup> f64 list"
  c_lastMigration :: "string \<rightharpoonup> int"
  c_targetSpotRatio :: "string \<rightharpoonup> f64"
  c_currentSpotRatio :: "string \<rightharpoonup> f64"
  c_poolNodeCounts :: "string \<rightharpoonup> poolCount"
  c_lastWeightChange :: "string \<rightharpoonup> int"

definition get_or :: "'b \<Rightarrow> ('a \<rightharpoonup> 'b) \<Rightarrow> 'a \<Rightarrow> 'b" where
  "get_or zero m k = (case m k of None \<Rightarrow> zero | Some v \<Rightarrow> v)"

section \<open>Construction, start and stop\<close>

text \<open>The booleans say which of the required clients are present.\<close>

record 'w Config_in =
  in_Prometheus :: bool
  in_Inference :: bool
  in_Cloud :: "bool option"
  in_PriceProvider :: bool
  in_K8sClient :: "'w k8s option"
  in_DynamicClient :: "'w dyn option"
  in_RiskThreshold :: f64
  in_MaxDrainRatio :: f64
  in_ReconcileInterval :: int
  in_ConfidenceThreshold :: f64
  in_DrainGracePeriodSeconds :: int
  in_Karpenter :: KarpenterConfig
  in_Autoscaling :: AutoscalingConfig
  in_ASGClient :: "'w asg_client option"

datatype new_error = NeedsPrometheus | NeedsInference | NeedsCloud | NeedsPriceProvider
  | NewBadRiskThreshold | NewBadMaxDrainRatio | NewBadReconcileInterval | NewBadConfidenceThreshold
  | SyntheticPrices | SyntheticMetricsBlocked

text \<open>The managers the router is built from, in the order they are appended.\<close>

definition capacity_managers :: "'w Config_in \<Rightarrow> 'w dyn option option \<Rightarrow> 'w CapacityManager list" where
  "capacity_managers cfg npm =
     (case npm of None \<Rightarrow> []
      | Some _ \<Rightarrow> [KManager (NewKarpenterManager
          \<lparr>kmc_NodePoolManager = npm,
           kmc_SpotNodePoolSuffix = SpotNodePoolSuffix (in_Karpenter cfg),
           kmc_OnDemandNodePoolSuffix = OnDemandNodePoolSuffix (in_Karpenter cfg),
           kmc_SpotWeight = SpotWeight (in_Karpenter cfg),
           kmc_OnDemandWeight = OnDemandWeight (in_Karpenter cfg),
           kmc_CooldownSeconds = WeightChangeCooldownSeconds (in_Karpenter cfg)\<rparr>)]) @
     (if as_Enabled (in_Autoscaling cfg) \<and> in_ASGClient cfg \<noteq> None
      then map (\<lambda>t. AManager (NewASGManager
             \<lparr>asgClient = in_ASGClient cfg, k8sClient = in_K8sClient cfg, managerType = t,
              nodeReadyTimeout = NodeReadyTimeout (in_Autoscaling cfg),
              pollInterval = PollInterval (in_Autoscaling cfg)\<rparr>))
             [ManagerClusterAutoscaler, ManagerManagedNodegroup]
      else [])"

definition New :: "string \<Rightarrow> string \<Rightarrow> 'w Config_in \<Rightarrow> new_error + 'w Controller" where
  "New priceMode metricsMode cfg =
     (if \<not> in_Prometheus cfg then Inl NeedsPrometheus
      else if \<not> in_Inference cfg then Inl NeedsInference
      else case in_Cloud cfg of None \<Rightarrow> Inl NeedsCloud | Some dryRun \<Rightarrow>
      if \<not> in_PriceProvider cfg then Inl NeedsPriceProvider
      else if in_RiskThreshold cfg \<le> Fin 0 \<or> Fin 1 < in_RiskThreshold cfg then Inl NewBadRiskThreshold
      else if in_MaxDrainRatio cfg \<le> Fin 0 \<or> Fin 1 < in_MaxDrainRatio cfg then Inl NewBadMaxDrainRatio
      else if in_ReconcileInterval cfg < 10 * Second then Inl NewBadReconcileInterval
      else if in_ConfidenceThreshold cfg \<le> Fin 0 \<or> Fin 1 < in_ConfidenceThreshold cfg then Inl NewBadConfidenceThreshold
      else if EqualFold priceMode ''synthetic'' then Inl SyntheticPrices
      else
        let useSyntheticMetrics = EqualFold metricsMode ''synthetic'' in
        if useSyntheticMetrics \<and> \<not> dryRun then Inl SyntheticMetricsBlocked
        else
          let drainer = (case in_K8sClient cfg of None \<Rightarrow> None
                | Some _ \<Rightarrow> Some \<lparr>GracePeriodSeconds = in_DrainGracePeriodSeconds cfg, dc_DryRun = dryRun,
                                  IgnoreDaemonSets = True, Force = False\<rparr>);
              npm = (if kc_Enabled (in_Karpenter cfg) \<and> in_DynamicClient cfg \<noteq> None
                     then Some (in_DynamicClient cfg) else None)
          in Inr \<lparr>c_dryRun = dryRun, c_k8s = in_K8sClient cfg, c_drain = drainer, c_nodePoolMgr = npm,
                c_karpenterCfg = in_Karpenter cfg, c_capacityRouter = NewRouter (capacity_managers cfg npm),
                c_riskThreshold = in_RiskThreshold cfg, c_maxDrainRatio = in_MaxDrainRatio cfg,
                c_reconcileInterval = in_ReconcileInterval cfg, c_confidenceThreshold = in_ConfidenceThreshold cfg,
                c_useSyntheticMetrics = useSyntheticMetrics, c_running = False, c_stopClosed = False,
                c_priceHistory = Map.empty, c_lastMigration = Map.empty, c_targetSpotRatio = Map.empty,
                c_currentSpotRatio = Map.empty, c_poolNodeCounts = Map.empty, c_lastWeightChange = Map.empty\<rparr>)"

text \<open>
  The main loop: \<open>reconcile\<close> is one cycle on the controller and the world, its error only
  logged. The events are what \<open>select\<close> finds ready; the loop is still running at the end of
  the list when the result says \<open>None\<close>.
\<close>

datatype loop_event = CtxDone | StopSignal | TickerFired

datatype loop_end = EndedByContext | EndedByStop | AlreadyRunning

fun start_loop :: "('w Controller \<Rightarrow> 'w \<Rightarrow> 'w Controller \<times> 'w) \<Rightarrow> 'w Controller \<Rightarrow> 'w \<Rightarrow> loop_event list \<Rightarrow>
    loop_end option \<times> 'w Controller \<times> 'w" where
  "start_loop reconcile c w [] = (None, c, w)"
| "start_loop reconcile c w (CtxDone # es) = (Some EndedByContext, c, w)"
| "start_loop reconcile c w (StopSignal # es) = (Some EndedByStop, c, w)"
| "start_loop reconcile c w (TickerFired # es) =
     (case reconcile c w of (c', w') \<Rightarrow> start_loop reconcile c' w' es)"

definition Start :: "('w Controller \<Rightarrow> 'w \<Rightarrow> 'w Controller \<times> 'w) \<Rightarrow> 'w Controller \<Rightarrow> 'w \<Rightarrow> loop_event list \<Rightarrow>
    loop_end option \<times> 'w Controller \<times> 'w" where
  "Start reconcile c w events =
     (if c_running c then (Some AlreadyRunning, c, w)
      else case reconcile (c\<lparr>c_running := True\<rparr>) w of
             (c', w') \<Rightarrow> start_loop reconcile c' w' events)"

text \<open>Closing a closed channel panics: \<open>None\<close>.\<close>

definition Stop :: "'w Controller \<Rightarrow> 'w Controller option" where
  "Stop c =
     (if c_running c
      then (if c_stopClosed c then None else Some (c\<lparr>c_stopClosed := True, c_running := False\<rparr>))
      else Some c)"

section \<open>Ratios and counts\<close>

definition lerp :: "f64 \<Rightarrow> f64 \<Rightarrow> f64 \<Rightarrow> f64" where
  "lerp a b t = a + t * (b - a)"

fun action_delta :: "Action \<Rightarrow> (f64 \<times> f64) option" where
  "action_delta ActionHold = Some (Fin 0, Fin (-1))"
| "action_delta ActionIncrease10 = Some (to_f64 (1 / 10), Fin (-1))"
| "action_delta ActionIncrease30 = Some (to_f64 (3 / 10), Fin (-1))"
| "action_delta ActionDecrease10 = Some (- to_f64 (1 / 10), Fin (-1))"
| "action_delta ActionDecrease30 = Some (- to_f64 (3 / 10), Fin (-1))"
| "action_delta ActionEmergencyExit = Some (Fin 0, Fin 0)"
| "action_delta (ActionUnknown _) = None"

definition unit_clamp :: "f64 \<Rightarrow> f64" where
  "unit_clamp x = (if x < Fin 0 then Fin 0 else if Fin 1 < x then Fin 1 else x)"

definition next_spot_ratio :: "f64 \<Rightarrow> f64 \<Rightarrow> f64 \<Rightarrow> Action \<Rightarrow> RuntimeConfig option \<Rightarrow> bool \<Rightarrow> f64" where
  "next_spot_ratio current delta setValue action runtimeCfg riskLow =
     (let updated = (if Fin 0 \<le> setValue then setValue else current + delta);
          updated = unit_clamp updated
      in case runtimeCfg of
           None \<Rightarrow> updated
         | Some cfg \<Rightarrow>
             let updated = ClampSpotRatio cfg updated
             in if riskLow \<and> action = ActionHold
                then ClampSpotRatio cfg (lerp updated (TargetSpotRatio cfg)
                       (ResolvedTargetSpotRatioDriftAlpha (DeterministicPolicy cfg)))
                else updated)"

definition applyTargetSpotRatioWithConfig ::
  "'w Controller \<Rightarrow> string \<Rightarrow> Action \<Rightarrow> RuntimeConfig option \<Rightarrow> bool \<Rightarrow> 'w Controller" where
  "applyTargetSpotRatioWithConfig c poolID action runtimeCfg riskLow =
     (if poolID = [] then c
      else case action_delta action of
        None \<Rightarrow> c
      | Some (delta, setValue) \<Rightarrow>
          let current = get_or (Fin 0) (c_targetSpotRatio c) poolID
          in c\<lparr>c_targetSpotRatio := (c_targetSpotRatio c)
                (poolID \<mapsto> next_spot_ratio current delta setValue action runtimeCfg riskLow)\<rparr>)"

fun drain_delta :: "Action \<Rightarrow> f64 option" where
  "drain_delta ActionIncrease10 = Some (to_f64 (1 / 10))"
| "drain_delta ActionIncrease30 = Some (to_f64 (3 / 10))"
| "drain_delta ActionDecrease10 = Some (- to_f64 (1 / 10))"
| "drain_delta ActionDecrease30 = Some (- to_f64 (3 / 10))"
| "drain_delta _ = None"

definition max_drain :: "int \<Rightarrow> f64 \<Rightarrow> int" where
  "max_drain totalNodes ratio =
     (let m = int_of_f64 (f64_of_int totalNodes * ratio) in if m < 1 then 1 else m)"

definition calculatePoolDrainCount :: "'w Controller \<Rightarrow> string \<Rightarrow> Action \<Rightarrow> int" where
  "calculatePoolDrainCount c poolID action =
     (case c_poolNodeCounts c poolID of
        None \<Rightarrow> 0
      | Some counts \<Rightarrow>
          if pc_total counts = 0 then 0
          else if action = ActionEmergencyExit then pc_spot counts
          else case drain_delta action of
            None \<Rightarrow> 0
          | Some delta \<Rightarrow>
              let currentRatio = get_or (Fin 0) (c_currentSpotRatio c) poolID;
                  targetRatio = get_or (Fin 0) (c_targetSpotRatio c) poolID;
                  newTargetRatio = unit_clamp (targetRatio + delta);
                  ratioDiff = newTargetRatio - currentRatio;
                  need = int_of_f64 (math_Ceil (math_Abs ratioDiff * f64_of_int (pc_total counts)));
                  maxDrain = max_drain (pc_total counts) (c_maxDrainRatio c)
              in if need > maxDrain then maxDrain else need)"

section \<open>Pool identifiers and histories\<close>

definition getWorkloadPoolFromPoolID :: "string \<Rightarrow> string" where
  "getWorkloadPoolFromPoolID poolID =
     (let parts = Split CHR '':'' poolID in if length parts = 3 then parts ! 0 else [])"

definition getPoolIDWithExtendedFormat :: "'w Controller \<Rightarrow> string \<Rightarrow> string \<Rightarrow> string \<Rightarrow> string" where
  "getPoolIDWithExtendedFormat c instanceType zone workloadPool =
     (if UseExtendedPoolID (c_karpenterCfg c) \<and> workloadPool \<noteq> []
      then workloadPool @ '':'' @ instanceType @ '':'' @ zone
      else instanceType @ '':'' @ zone)"

definition TFTHistorySteps :: nat where "TFTHistorySteps = 12"

fun every_second :: "'a list \<Rightarrow> 'a list" where
  "every_second (x # y # xs) = y # every_second xs"
| "every_second _ = []"

definition last_n :: "nat \<Rightarrow> 'a list \<Rightarrow> 'a list" where
  "last_n n xs = drop (length xs - n) xs"

definition normalizePriceHistory :: "f64 list \<Rightarrow> f64 \<Rightarrow> f64 list" where
  "normalizePriceHistory history currentPrice =
     (if history = [] then (if Fin 0 < currentPrice then [currentPrice] else history)
      else
        let downsampled = every_second (last_n (TFTHistorySteps * 2) history) in
        if length history \<ge> TFTHistorySteps * 2 \<and> length downsampled = TFTHistorySteps then downsampled
        else if length history > TFTHistorySteps then last_n TFTHistorySteps history
        else history)"

definition Minutes :: "int \<Rightarrow> f64" where
  "Minutes d = f64_of_int (go_div d (60 * Second)) + f64_of_int (go_rem d (60 * Second)) / Fin 60000000000"

definition stepsSinceMigration :: "int \<Rightarrow> int \<Rightarrow> int \<Rightarrow> int" where
  "stepsSinceMigration now lastTime stepMinutes =
     (let stepMinutes = (if stepMinutes \<le> 0 then 10 else stepMinutes);
          steps = int_of_f64 (Minutes (now - lastTime) / f64_of_int stepMinutes)
      in if steps < 0 then 0 else steps)"

section \<open>Target ratios stay in their bounds\<close>

definition in_unit :: "f64 \<Rightarrow> bool" where
  "in_unit x \<longleftrightarrow> (\<exists>r. x = Fin r \<and> 0 \<le> r \<and> r \<le> 1)"

lemma in_unit_iff: "in_unit x \<longleftrightarrow> Fin 0 \<le> x \<and> x \<le> Fin 1"
  by (auto simp: in_unit_def dest: f_between_finite)

lemma in_unit_minus:
  assumes "in_unit a" "in_unit b"
  shows "\<exists>d. b - a = Fin d \<and> -1 \<le> d \<and> d \<le> 1"
proof -
  obtain x y where "a = Fin x" "b = Fin y" "0 \<le> x" "x \<le> 1" "0 \<le> y" "y \<le> 1"
    using assms by (auto simp: in_unit_def)
  then show ?thesis
    using rnd64.rd_ge_int [of "-1" "y - x"] rnd64.rd_le_int [of "y - x" 1]
    by (intro f_between_finite) (simp_all add: minus_f64_def)
qed

lemma lerp_not_NaN:
  assumes "in_unit a" "in_unit b" "in_unit t"
  shows "lerp a b t \<noteq> NaN"
proof -
  obtain d where d: "b - a = Fin d" using in_unit_minus [OF assms(1,2)] by blast
  obtain r s where rs: "a = Fin r" "t = Fin s" using assms by (auto simp: in_unit_def)
  have "Fin r + to_f64 (s * d) \<noteq> NaN"
    using rnd64.rd_not_NaN [of "s * d"] by (cases "to_f64 (s * d)") simp_all
  then show ?thesis using d by (simp add: lerp_def rs)
qed

lemma unit_clamp_in_unit: "x \<noteq> NaN \<Longrightarrow> in_unit (unit_clamp x)"
  by (cases x) (auto simp: unit_clamp_def in_unit_def)

lemma plus_not_NaN: "in_unit x \<Longrightarrow> x + Fin d \<noteq> NaN"
  by (auto simp: in_unit_def)

lemma ClampSpotRatio_bounds:
  assumes "wf_ratios cfg" "x \<noteq> NaN"
  shows "MinSpotRatio cfg \<le> ClampSpotRatio cfg x \<and> ClampSpotRatio cfg x \<le> MaxSpotRatio cfg \<and> in_unit (ClampSpotRatio cfg x)"
proof -
  have b: "Fin 0 \<le> MinSpotRatio cfg" "MinSpotRatio cfg \<le> MaxSpotRatio cfg" "MaxSpotRatio cfg \<le> Fin 1"
    using assms(1) unfolding wf_ratios_def by (blast intro: f_le_trans)+
  have n: "MinSpotRatio cfg \<noteq> NaN" "MaxSpotRatio cfg \<noteq> NaN" using b f_leD by blast+
  have c: "MinSpotRatio cfg \<le> ClampSpotRatio cfg x" "ClampSpotRatio cfg x \<le> MaxSpotRatio cfg"
    using b n assms(2) by (auto simp: ClampSpotRatio_def clampFloat_def f_not_less)
  then show ?thesis using b unfolding in_unit_iff by (blast intro: f_le_trans)
qed

lemma action_delta_finite: "action_delta a = Some (d, v) \<Longrightarrow> \<exists>x y. d = Fin x \<and> v = Fin y \<and> y \<le> 1"
  by (cases a) (auto simp: f64_lit)

lemma next_spot_ratio_bounds:
  assumes "in_unit current" and "action_delta action = Some (delta, setValue)"
    and "wf_ratios cfg" and "in_unit (ResolvedTargetSpotRatioDriftAlpha (DeterministicPolicy cfg))"
  shows "MinSpotRatio cfg \<le> next_spot_ratio current delta setValue action (Some cfg) riskLow \<and>
         next_spot_ratio current delta setValue action (Some cfg) riskLow \<le> MaxSpotRatio cfg \<and>
         in_unit (next_spot_ratio current delta setValue action (Some cfg) riskLow)"
proof -
  obtain x y where dv: "delta = Fin x" "setValue = Fin y" using action_delta_finite [OF assms(2)] by blast
  let ?u = "unit_clamp (if Fin 0 \<le> setValue then setValue else current + delta)"
  have "(if Fin 0 \<le> setValue then setValue else current + delta) \<noteq> NaN"
    using plus_not_NaN [OF assms(1)] by (simp add: dv)
  then have u: "in_unit ?u" by (rule unit_clamp_in_unit)
  then have "?u \<noteq> NaN" by (auto simp: in_unit_def)
  note 1 = ClampSpotRatio_bounds [OF assms(3) this]
  have "in_unit (TargetSpotRatio cfg)"
    using assms(3) unfolding wf_ratios_def in_unit_iff by (blast intro: f_le_trans)
  then have "lerp (ClampSpotRatio cfg ?u) (TargetSpotRatio cfg)
      (ResolvedTargetSpotRatioDriftAlpha (DeterministicPolicy cfg)) \<noteq> NaN"
    using 1 assms(4) by (intro lerp_not_NaN) simp_all
  note 2 = ClampSpotRatio_bounds [OF assms(3) this]
  show ?thesis using 1 2 by (simp add: next_spot_ratio_def Let_def)
qed

lemma drift_alpha_unit:
  "nan_free_policy dp \<Longrightarrow> in_unit (ResolvedTargetSpotRatioDriftAlpha dp)"
  by (auto simp: ResolvedTargetSpotRatioDriftAlpha_def defaultTargetSpotRatioDriftAlpha_def nan_free_policy_def
      in_unit_iff clampFloat_def f_not_less f64_lit split: option.splits)

definition ratios_ok :: "'w Controller \<Rightarrow> bool" where
  "ratios_ok c \<longleftrightarrow> (\<forall>p r. c_targetSpotRatio c p = Some r \<longrightarrow> in_unit r)"

lemma applyTarget_bounds:
  assumes "ratios_ok c" and "wf_ratios cfg" and "nan_free_policy (DeterministicPolicy cfg)"
    and "c' = applyTargetSpotRatioWithConfig c poolID action (Some cfg) riskLow"
  shows "ratios_ok c' \<and>
         (poolID \<noteq> [] \<and> (\<forall>n. action \<noteq> ActionUnknown n) \<longrightarrow>
            (\<exists>r. c_targetSpotRatio c' poolID = Some r \<and> MinSpotRatio cfg \<le> r \<and> r \<le> MaxSpotRatio cfg))"
proof -
  have cur: "in_unit (get_or (Fin 0) (c_targetSpotRatio c) poolID)"
    using assms(1) by (auto simp: get_or_def ratios_ok_def in_unit_def split: option.splits)
  show ?thesis
    using next_spot_ratio_bounds [OF cur _ assms(2) drift_alpha_unit [OF assms(3)]] assms(1,4)
    by (cases action) (auto simp: applyTargetSpotRatioWithConfig_def ratios_ok_def Let_def)
qed

lemmas ratios_ok_applyTarget = applyTarget_bounds [OF _ _ _ refl, THEN conjunct1]

text \<open>
  C31 (invariant). Target Spot ratios never leave the unit interval, whatever the action, and
  the ratio an action sets lies between the minimum and maximum of the runtime configuration,
  the drift towards the target of a hold included.
\<close>

theorem applyTargetSpotRatio_bounds:
  assumes "ratios_ok c" and "wf_ratios cfg" and "nan_free_policy (DeterministicPolicy cfg)"
    and "c' = applyTargetSpotRatioWithConfig c poolID action (Some cfg) riskLow"
  shows "ratios_ok c' \<and>
         (poolID \<noteq> [] \<and> (\<forall>n. action \<noteq> ActionUnknown n) \<longrightarrow>
            (\<exists>r. c_targetSpotRatio c' poolID = Some r \<and> MinSpotRatio cfg \<le> r \<and> r \<le> MaxSpotRatio cfg))"
  using assms by (rule applyTarget_bounds)

section \<open>Pool identifiers\<close>

text \<open>
  The workload pool is read back from the extended pool identifier, and no
  workload pool is read from a simple one, as long as the parts hold no colon; under the same
  condition extended identifiers of different pools differ.
\<close>

theorem pool_id_roundtrip:
  assumes "CHR '':'' \<notin> set it \<union> set zone \<union> set wp"
  shows "getWorkloadPoolFromPoolID (getPoolIDWithExtendedFormat c it zone wp) =
           (if UseExtendedPoolID (c_karpenterCfg c) then wp else []) \<and>
         (CHR '':'' \<notin> set it' \<union> set zone' \<union> set wp' \<and>
          getPoolIDWithExtendedFormat c it zone wp = getPoolIDWithExtendedFormat c it' zone' wp' \<longrightarrow>
            it = it' \<and> zone = zone' \<and> (UseExtendedPoolID (c_karpenterCfg c) \<longrightarrow> wp = wp'))"
proof -
  have split3: "Split CHR '':'' (a @ '':'' @ b @ '':'' @ d) = [a, b, d]"
    and split2: "Split CHR '':'' (b @ '':'' @ d) = [b, d]"
    if "CHR '':'' \<notin> set a \<union> set b \<union> set d" for a b d
    using that by (simp_all add: Split_append Split_plain)
  have parts: "Split CHR '':'' (getPoolIDWithExtendedFormat c i z p) =
      (if UseExtendedPoolID (c_karpenterCfg c) \<and> p \<noteq> [] then [p, i, z] else [i, z])"
    if "CHR '':'' \<notin> set i \<union> set z \<union> set p" for i z p
    using that split3 [of p i z] split2 [of "[]" i z] by (simp add: getPoolIDWithExtendedFormat_def)
  show ?thesis
    using parts [of it zone wp, OF assms] parts [of it' zone' wp']
    by (auto simp: getWorkloadPoolFromPoolID_def split: if_splits)
qed

section \<open>Price histories\<close>

lemma every_second_subset: "set (every_second xs) \<subseteq> set xs"
  by (induction xs rule: every_second.induct) auto

lemma every_second_last: "even (length xs) \<Longrightarrow> xs \<noteq> [] \<Longrightarrow> every_second xs \<noteq> [] \<and> last (every_second xs) = last xs"
  by (induction xs rule: every_second.induct) auto

lemma last_n_props:
  "set (last_n n xs) \<subseteq> set xs" "length (last_n n xs) = min n (length xs)"
  "0 < n \<Longrightarrow> xs \<noteq> [] \<Longrightarrow> last_n n xs \<noteq> [] \<and> last (last_n n xs) = last xs"
  by (auto simp: last_n_def last_drop not_le diff_less dest: in_set_dropD)

text \<open>
  A normalised price history is never longer than the model's window, holds
  only observed prices, keeps the most recent one at the end, and is empty only when there is
  neither a history nor a current price.
\<close>

theorem normalizePriceHistory_spec:
  "length (normalizePriceHistory h p) \<le> TFTHistorySteps \<and>
   set (normalizePriceHistory h p) \<subseteq> set h \<union> {p} \<and>
   (normalizePriceHistory h p = [] \<longleftrightarrow> h = [] \<and> \<not> Fin 0 < p) \<and>
   (h \<noteq> [] \<longrightarrow> last (normalizePriceHistory h p) = last h)"
proof (cases "h = []")
  case False
  let ?r = "last_n (TFTHistorySteps * 2) h"
  have n: "0 < TFTHistorySteps * 2" "0 < TFTHistorySteps" by (simp_all add: TFTHistorySteps_def)
  have d: "set (every_second ?r) \<subseteq> set h" by (rule subset_trans [OF every_second_subset last_n_props(1)])
  show ?thesis
  proof (cases "length h \<ge> TFTHistorySteps * 2 \<and> length (every_second ?r) = TFTHistorySteps")
    case True
    have "even (length ?r)"
      using conjunct1 [OF True] last_n_props(2) [of "TFTHistorySteps * 2" h] by simp
    moreover have "normalizePriceHistory h p = every_second ?r"
      unfolding normalizePriceHistory_def Let_def using True False by meson
    ultimately show ?thesis
      using conjunct2 [OF True] d False every_second_last [of ?r] last_n_props(3) [OF n(1) False]
      by (metis Un_upper1 order_refl order_trans)
  next
    case nd: False
    show ?thesis
    proof (cases "length h > TFTHistorySteps")
      case True
      then have "normalizePriceHistory h p = last_n TFTHistorySteps h"
        using nd False by (auto simp: normalizePriceHistory_def Let_def)
      then show ?thesis
        using last_n_props(1,2) [of TFTHistorySteps h] last_n_props(3) [OF n(2) False] False by auto
    next
      case short: False
      then have "normalizePriceHistory h p = h"
        using nd False by (auto simp: normalizePriceHistory_def Let_def)
      then show ?thesis using short False by auto
    qed
  qed
qed (auto simp: normalizePriceHistory_def TFTHistorySteps_def)

section \<open>Drain counts\<close>

lemma times_le_int:
  assumes "0 \<le> n" "n \<le> 2 ^ 24" "Fin 0 < r" "r \<le> Fin 1"
  shows "int_of_f64 (f64_of_int n * r) \<le> n"
proof -
  obtain q where q: "r = Fin q" "0 < q" "q \<le> 1" using assms(3,4) by (cases r) auto
  have "of_int n * q \<le> of_int n" using q assms(1) by (simp add: mult_left_le)
  then have "to_f64 (of_int n * q) \<le> Fin (of_int n)" "Fin 0 \<le> to_f64 (of_int n * q)"
    using assms q rnd64.rd_le_int [of "of_int n * q" n] rnd64.rd_nonneg [of "of_int n * q"] by simp_all
  then obtain z where "to_f64 (of_int n * q) = Fin z" "0 \<le> z" "z \<le> of_int n"
    by (metis f_between_finite)
  then show ?thesis
    using assms(1,2) q by (auto simp: f64_of_int_small floor_le_iff Let_def intro: order_trans [of _ 0])
qed

lemma max_drain_bounds:
  assumes "0 \<le> n" "n \<le> 2 ^ 24" "Fin 0 < r" "r \<le> Fin 1"
  shows "1 \<le> max_drain n r \<and> max_drain n r \<le> max 1 n"
  using times_le_int [OF assms] by (auto simp: max_drain_def Let_def)

text \<open>
  A pool is asked to drain at most the share of its nodes that the drain ratio
  allows, and at least one node may always go; only an emergency exit asks for all Spot nodes.
\<close>

theorem calculatePoolDrainCount_bounds:
  assumes "c_poolNodeCounts c poolID = Some counts" and "0 \<le> pc_total counts" "pc_total counts \<le> 2 ^ 24"
    and "Fin 0 < c_maxDrainRatio c" "c_maxDrainRatio c \<le> Fin 1"
  shows "if action = ActionEmergencyExit \<and> pc_total counts \<noteq> 0
         then calculatePoolDrainCount c poolID action = pc_spot counts
         else calculatePoolDrainCount c poolID action \<le> max_drain (pc_total counts) (c_maxDrainRatio c) \<and>
              calculatePoolDrainCount c poolID action \<le> max 1 (pc_total counts)"
  using assms max_drain_bounds [OF assms(2-5)]
  by (auto simp: calculatePoolDrainCount_def Let_def split: option.splits)

section \<open>Life cycle\<close>

text \<open>
  A controller that \<open>New\<close> returns is safe to run: synthetic metrics only in
  dry-run mode, a drainer whose dry-run flag is the cloud provider's and that never forces,
  a router whose managers are registered under their own type, no pool state yet.
\<close>

theorem New_safe:
  assumes "New priceMode metricsMode cfg = Inr c"
  shows "ratios_ok c \<and> wf_router (c_capacityRouter c) \<and> \<not> c_running c \<and> \<not> c_stopClosed c \<and>
         (c_useSyntheticMetrics c \<longrightarrow> c_dryRun c) \<and> in_Cloud cfg = Some (c_dryRun c) \<and>
         (\<forall>d. c_drain c = Some d \<longrightarrow> dc_DryRun d = c_dryRun c \<and> \<not> Force d \<and> IgnoreDaemonSets d \<and> c_k8s c \<noteq> None) \<and>
         \<not> c_maxDrainRatio c \<le> Fin 0 \<and> \<not> Fin 1 < c_maxDrainRatio c"
  using assms
  by (auto simp: New_def Let_def ratios_ok_def intro: NewRouter_wf split: if_splits option.splits)

definition example_new :: "mem_server Config_in" where
  "example_new =
     \<lparr>in_Prometheus = True, in_Inference = True, in_Cloud = Some True, in_PriceProvider = True,
      in_K8sClient = Some mem_k8s, in_DynamicClient = None, in_RiskThreshold = Fin (3 / 4),
      in_MaxDrainRatio = Fin (1 / 4), in_ReconcileInterval = 30 * Second, in_ConfidenceThreshold = Fin (1 / 2),
      in_DrainGracePeriodSeconds = 30, in_Karpenter = cfg_Karpenter example_yaml,
      in_Autoscaling = cfg_Autoscaling example_yaml, in_ASGClient = None\<rparr>"

lemma example_controller:
  "\<exists>c. New [] ''synthetic'' example_new = Inr c \<and> c_useSyntheticMetrics c \<and> c_maxDrainRatio c = Fin (1 / 4) \<and>
     c_targetSpotRatio c = Map.empty"
proof -
  have "\<not> EqualFold [] ''synthetic''" "EqualFold ''synthetic'' ''synthetic''" by code_simp+
  then show ?thesis by (simp add: New_def example_new_def Second_def)
qed

theorem New_safe_witness:
  "\<exists>c. New [] ''synthetic'' example_new = Inr c \<and> c_dryRun c \<and> ratios_ok c"
  using example_controller New_safe [of "[]" "''synthetic''" example_new] by blast

lemma start_loop_flags:
  assumes "\<And>c w. c_running (fst (reconcile c w)) = c_running c \<and> c_stopClosed (fst (reconcile c w)) = c_stopClosed c"
  shows "start_loop reconcile c w events = (r, c', w') \<Longrightarrow> c_running c' = c_running c \<and> c_stopClosed c' = c_stopClosed c"
proof (induction events arbitrary: c w)
  case (Cons e es)
  show ?case
  proof (cases e)
    case TickerFired
    with Cons.prems Cons.IH [of "fst (reconcile c w)" "snd (reconcile c w)"] assms [of c w] show ?thesis
      by (auto split: prod.splits)
  qed (use Cons.prems in auto)
qed simp

lemma Start_flags:
  assumes "\<And>c w. c_running (fst (reconcile c w)) = c_running c \<and> c_stopClosed (fst (reconcile c w)) = c_stopClosed c"
    and "Start reconcile c w events = (r, c', w')"
  shows "c_running c' \<and> c_stopClosed c' = c_stopClosed c"
  using assms(2) start_loop_flags [OF assms(1)] assms(1) [of "c\<lparr>c_running := True\<rparr>" w]
  by (fastforce simp: Start_def split: if_splits prod.splits)

text \<open>
  The life cycle of a controller is one-way. Stopping it once is safe and stopping
  it again does nothing; but starting a stopped controller and stopping it once more closes
  the stop channel a second time, which panics.
\<close>

theorem Start_Stop_once:
  assumes "\<And>c w. c_running (fst (reconcile c w)) = c_running c \<and> c_stopClosed (fst (reconcile c w)) = c_stopClosed c"
    and "\<not> c_stopClosed c"
    and "Start reconcile c w events = (r1, c1, w1)"
  shows "\<exists>c2. Stop c1 = Some c2 \<and> \<not> c_running c2 \<and> Stop c2 = Some c2 \<and>
           (\<forall>w' events' r3 c3 w3. Start reconcile c2 w' events' = (r3, c3, w3) \<longrightarrow> Stop c3 = None)"
proof -
  have 1: "c_running c1" "\<not> c_stopClosed c1" using Start_flags [OF assms(1,3)] assms(2) by simp_all
  let ?c2 = "c1\<lparr>c_stopClosed := True, c_running := False\<rparr>"
  have "Stop c3 = None" if "Start reconcile ?c2 w' events' = (r3, c3, w3)" for w' events' r3 c3 w3
    using Start_flags [OF assms(1) that] by (simp add: Stop_def)
  moreover have "Stop c1 = Some ?c2" "\<not> c_running ?c2" "Stop ?c2 = Some ?c2"
    using 1 by (simp_all add: Stop_def)
  ultimately show ?thesis by blast
qed

theorem Start_Stop_once_witness:
  "\<exists>c c1 c2. New [] ''synthetic'' example_new = Inr c \<and>
     Start (\<lambda>c w. (c, w)) c (drain_server []) [TickerFired] = (None, c1, drain_server []) \<and>
     Stop c1 = Some c2 \<and> Stop c2 = Some c2"
proof -
  obtain c where c: "New [] ''synthetic'' example_new = Inr c" using example_controller by blast
  then have "\<not> c_running c" "\<not> c_stopClosed c"
    by (auto simp: New_def Let_def split: if_splits option.splits)
  moreover from this have "Start (\<lambda>c w. (c, w)) c (drain_server []) [TickerFired] =
      (None, c\<lparr>c_running := True\<rparr>, drain_server [])"
    by (simp add: Start_def)
  ultimately show ?thesis
    using Start_Stop_once [of "\<lambda>c w. (c, w)" c "drain_server []" "[TickerFired]"] c by auto
qed

section \<open>Examples\<close>

lemma example_policy_nan_free: "nan_free_policy (DeterministicPolicy example_config)"
  by (simp add: nan_free_policy_def nan_free_rules_def nan_free_buckets_def example_defs)

theorem applyTargetSpotRatio_bounds_witness:
  "\<exists>c r. ratios_ok (c :: mem_server Controller) \<and>
     c_targetSpotRatio (applyTargetSpotRatioWithConfig c ''m5.large:a'' ActionEmergencyExit (Some example_config) False)
       ''m5.large:a'' = Some r \<and> MinSpotRatio example_config \<le> r \<and> r \<le> MaxSpotRatio example_config"
proof -
  obtain c where c: "New [] ''synthetic'' example_new = Inr c" and "c_targetSpotRatio c = Map.empty"
    using example_controller by blast
  then have r: "ratios_ok c" by (simp add: ratios_ok_def)
  have "wf_ratios example_config" using wf_example_config by (simp add: wf_runtime_config_def)
  from applyTargetSpotRatio_bounds [OF r this example_policy_nan_free refl, of "''m5.large:a''" ActionEmergencyExit False] r
  show ?thesis by auto
qed

theorem pool_id_roundtrip_witness:
  "\<exists>c. UseExtendedPoolID (c_karpenterCfg (c :: mem_server Controller)) \<and>
     getWorkloadPoolFromPoolID (getPoolIDWithExtendedFormat c ''m5.large'' ''us-east-1a'' ''core'') = ''core''"
proof -
  obtain c where "New [] ''synthetic'' example_new = Inr c" using example_controller by blast
  then have "UseExtendedPoolID (c_karpenterCfg c)"
    by (auto simp: New_def Let_def example_new_def example_yaml_def split: if_splits option.splits)
  then show ?thesis using pool_id_roundtrip [of "''m5.large''" "''us-east-1a''" "''core''" c] by auto
qed

theorem normalizePriceHistory_spec_witness:
  "length (normalizePriceHistory [Fin 1, Fin 2] (Fin 3)) \<le> TFTHistorySteps \<and>
   last (normalizePriceHistory [Fin 1, Fin 2] (Fin 3)) = Fin 2"
  using normalizePriceHistory_spec [of "[Fin 1, Fin 2]" "Fin 3"] by simp

theorem calculatePoolDrainCount_bounds_witness:
  "\<exists>c. c_poolNodeCounts (c :: mem_server Controller) ''p'' = Some \<lparr>pc_total = 8, pc_spot = 6\<rparr> \<and>
     calculatePoolDrainCount c ''p'' ActionDecrease30 \<le> max_drain 8 (c_maxDrainRatio c) \<and>
     calculatePoolDrainCount c ''p'' ActionDecrease30 \<le> max 1 8"
proof -
  obtain c0 where "New [] ''synthetic'' example_new = Inr c0" "c_maxDrainRatio c0 = Fin (1 / 4)"
    using example_controller by blast
  then have r: "Fin 0 < c_maxDrainRatio (c0\<lparr>c_poolNodeCounts := [''p'' \<mapsto> \<lparr>pc_total = 8, pc_spot = 6\<rparr>]\<rparr>)"
      "c_maxDrainRatio (c0\<lparr>c_poolNodeCounts := [''p'' \<mapsto> \<lparr>pc_total = 8, pc_spot = 6\<rparr>]\<rparr>) \<le> Fin 1"
    by simp_all
  from calculatePoolDrainCount_bounds [OF _ _ _ r, of "''p''" "\<lparr>pc_total = 8, pc_spot = 6\<rparr>" ActionDecrease30]
  show ?thesis by (intro exI [of _ "c0\<lparr>c_poolNodeCounts := [''p'' \<mapsto> \<lparr>pc_total = 8, pc_spot = 6\<rparr>]\<rparr>"]) simp
qed

end
