(* ===== verification/Selection.thy ===== *)
theory Selection
  imports Controller_State
begin

text \<open>
  internal/controller/controller.go and synthetic.go, from assessments to the nodes that will
  be acted on: node metadata, the actionable and executable filters, the drain limit with its
  exchange sort and the Karpenter disruption budgets.
\<close>

section \<open>Data\<close>

text \<open>The scores are \<open>float32\<close> values.\<close>

record NodeAssessment =
  na_NodeID :: string
  na_Action :: Action
  na_CapacityScore :: f64
  na_RuntimeScore :: f64
  na_Confidence :: f64
  na_ClusterUtilization :: f64
  na_ShadowAction :: Action
  na_HasShadow :: bool
  na_ResponseMode :: PolicyResponseMode
  na_Urgency :: PolicyUrgency

record nodeInfo =
  ni_name :: string
  ni_isSpot :: bool
  ni_isFake :: bool
  ni_isManaged :: bool
  ni_isControl :: bool
  ni_zone :: string
  ni_instanceType :: string
  ni_workloadPool :: string

definition labelValue :: "labels \<Rightarrow> string \<Rightarrow> string \<Rightarrow> string" where
  "labelValue m key fallback =
     (case m key of None \<Rightarrow> fallback | Some value \<Rightarrow> if value \<noteq> [] then value else fallback)"

definition LabelManaged :: string where "LabelManaged = ''spotvortex.io/managed''"

fun has_fake_taint :: "Taint list \<Rightarrow> bool" where
  "has_fake_taint [] = False"
| "has_fake_taint (t # ts) = (if taint_Key t = ''spotvortex.io/fake'' then True else has_fake_taint ts)"

definition is_control_plane :: "labels \<Rightarrow> bool" where
  "is_control_plane m \<longleftrightarrow> m ''node-role.kubernetes.io/control-plane'' \<noteq> None \<or> m ''node-role.kubernetes.io/master'' \<noteq> None"

definition node_info :: "Node \<Rightarrow> nodeInfo" where
  "node_info node =
     \<lparr>ni_name = node_Name node, ni_isSpot = IsSpotLabels (node_Labels node),
      ni_isFake = has_fake_taint (node_Taints node),
      ni_isManaged = (label_get (node_Labels node) LabelManaged = ''true''),
      ni_isControl = is_control_plane (node_Labels node),
      ni_zone = labelValue (node_Labels node) LabelZone ''unknown'',
      ni_instanceType = labelValue (node_Labels node) LabelInstanceType ''unknown'',
      ni_workloadPool = labelValue (node_Labels node) WorkloadPoolLabel []\<rparr>"

fun add_addresses :: "nodeInfo \<Rightarrow> (string \<rightharpoonup> nodeInfo) \<Rightarrow> string list \<Rightarrow> string \<rightharpoonup> nodeInfo" where
  "add_addresses base info [] = info"
| "add_addresses base info (addr # addrs) =
     (let address = TrimSpace addr in
      if address = [] then add_addresses base info addrs
      else add_addresses base (info(address \<mapsto> base, address @ '':9100'' \<mapsto> base)) addrs)"

definition add_node :: "(string \<rightharpoonup> nodeInfo) \<Rightarrow> Node \<Rightarrow> string \<rightharpoonup> nodeInfo" where
  "add_node info node =
     add_addresses (node_info node) (info(node_Name node \<mapsto> node_info node)) (node_Addresses node)"

definition nodeInfoMap :: "'w Controller \<Rightarrow> 'w \<Rightarrow> (string \<rightharpoonup> nodeInfo) option" where
  "nodeInfoMap c w =
     (case c_k8s c of None \<Rightarrow> None
      | Some K \<Rightarrow> (case k_listNodes K w of Inl _ \<Rightarrow> None | Inr nodes \<Rightarrow> Some (foldl add_node Map.empty nodes)))"

section \<open>Filters\<close>

fun filterActionableNodes :: "'w Controller \<Rightarrow> NodeAssessment list \<Rightarrow> NodeAssessment list" where
  "filterActionableNodes c [] = []"
| "filterActionableNodes c (a # as) =
     (if na_Confidence a < c_confidenceThreshold c then filterActionableNodes c as
      else if f32_of_f64 (c_riskThreshold c) < na_CapacityScore a
      then a\<lparr>na_Action := ActionEmergencyExit\<rparr> # filterActionableNodes c as
      else if na_Action a \<noteq> ActionHold then a # filterActionableNodes c as
      else if na_ResponseMode a = ResponseModeFreezeSpot then a # filterActionableNodes c as
      else filterActionableNodes c as)"

definition executable :: "nodeInfo \<Rightarrow> Action \<Rightarrow> bool" where
  "executable meta action =
     (if \<not> ni_isManaged meta then False
      else if ni_isControl meta then False
      else if ni_isFake meta then False
      else if action \<in> {ActionIncrease10, ActionIncrease30} then \<not> ni_isSpot meta
      else if action \<in> {ActionDecrease10, ActionDecrease30, ActionEmergencyExit} then ni_isSpot meta
      else True)"

definition filterExecutableNodes :: "'w Controller \<Rightarrow> 'w \<Rightarrow> NodeAssessment list \<Rightarrow> NodeAssessment list" where
  "filterExecutableNodes c w assessments =
     (case nodeInfoMap c w of
        None \<Rightarrow> assessments
      | Some info \<Rightarrow>
          filter (\<lambda>a. case info (na_NodeID a) of None \<Rightarrow> True | Some meta \<Rightarrow> executable meta (na_Action a)) assessments)"

section \<open>The drain limit\<close>

text \<open>The in-place exchange sort; \<open>lt x y\<close> says that \<open>x\<close> must come before \<open>y\<close>.\<close>

definition exchange :: "'a list \<Rightarrow> nat \<Rightarrow> nat \<Rightarrow> 'a list" where
  "exchange xs i j = xs[i := xs ! j, j := xs ! i]"

function sort_inner :: "('a \<Rightarrow> 'a \<Rightarrow> bool) \<Rightarrow> nat \<Rightarrow> nat \<Rightarrow> 'a list \<Rightarrow> 'a list" where
  "sort_inner lt i j xs =
     (if j < length xs
      then sort_inner lt i (j + 1) (if lt (xs ! j) (xs ! i) then exchange xs i j else xs)
      else xs)"
  by auto
termination
  by (relation "measure (\<lambda>(lt, i, j, xs). length xs - j)") (auto simp: exchange_def)

declare sort_inner.simps [simp del]

lemma length_exchange [simp]: "length (exchange xs i j) = length xs"
  by (simp add: exchange_def)

lemma length_sort_inner [simp]: "length (sort_inner lt i j xs) = length xs"
proof (induction lt i j xs rule: sort_inner.induct)
  case (1 lt i j xs)
  then show ?case by (subst sort_inner.simps) simp
qed

function sort_outer :: "('a \<Rightarrow> 'a \<Rightarrow> bool) \<Rightarrow> nat \<Rightarrow> 'a list \<Rightarrow> 'a list" where
  "sort_outer lt i xs =
     (if i < length xs - 1 then sort_outer lt (i + 1) (sort_inner lt i (i + 1) xs) else xs)"
  by auto
termination
  by (relation "measure (\<lambda>(lt, i, xs). length xs - i)") auto

declare sort_outer.simps [simp del]

definition drain_before :: "NodeAssessment \<Rightarrow> NodeAssessment \<Rightarrow> bool" where
  "drain_before j i =
     (let iEmergency = (na_Action i = ActionEmergencyExit);
          jEmergency = (na_Action j = ActionEmergencyExit)
      in if jEmergency \<and> \<not> iEmergency then True
         else iEmergency = jEmergency \<and> na_CapacityScore i < na_CapacityScore j)"

fun workload_pools :: "'w k8s \<Rightarrow> 'w \<Rightarrow> NodeAssessment list \<Rightarrow> string list" where
  "workload_pools K w [] = []"
| "workload_pools K w (a # as) =
     (case k_getNode K w (na_NodeID a) of
        Inl _ \<Rightarrow> workload_pools K w as
      | Inr node \<Rightarrow>
          (let pool = label_get (node_Labels node) WorkloadPoolLabel
           in if pool \<noteq> [] then pool # workload_pools K w as else workload_pools K w as))"

definition limit_or_none :: "np_error + int \<Rightarrow> int" where
  "limit_or_none r = (case r of Inl _ \<Rightarrow> -1 | Inr limit \<Rightarrow> limit)"

text \<open>
  The loop runs over the keys of a map, in no particular order; here each pool once, in the
  order of its first node.
\<close>

definition getKarpenterDisruptionLimit :: "'w Controller \<Rightarrow> 'w \<Rightarrow> NodeAssessment list \<Rightarrow> int \<Rightarrow> int" where
  "getKarpenterDisruptionLimit c w nodes totalNodes =
     (case (c_nodePoolMgr c, c_k8s c) of
        (Some client, Some K) \<Rightarrow>
          let pools = remdups (workload_pools K w nodes) in
          if pools = [] then -1
          else foldl (\<lambda>minLimit pool.
                 let spotLimit = limit_or_none (GetEffectiveDisruptionLimit client w
                       (pool @ SpotNodePoolSuffix (c_karpenterCfg c)) totalNodes);
                     odLimit = limit_or_none (GetEffectiveDisruptionLimit client w
                       (pool @ OnDemandNodePoolSuffix (c_karpenterCfg c)) totalNodes)
                 in tighten (tighten minLimit spotLimit) odLimit) (-1) pools
      | _ \<Rightarrow> -1)"

definition applyDrainLimit :: "'w Controller \<Rightarrow> 'w \<Rightarrow> NodeAssessment list \<Rightarrow> int \<Rightarrow> NodeAssessment list" where
  "applyDrainLimit c w nodes totalNodes =
     (let capacityOnly = filter (\<lambda>n. na_Action n = ActionHold) nodes;
          drainNodes = filter (\<lambda>n. na_Action n \<noteq> ActionHold) nodes;
          maxDrain = max_drain totalNodes (c_maxDrainRatio c)
      in if drainNodes = [] then capacityOnly
         else
           let sortedNodes = sort_outer drain_before 0 drainNodes;
               maxDrain =
                 (if c_nodePoolMgr c \<noteq> None \<and> kc_Enabled (c_karpenterCfg c)
                  then (let karpenterLimit = getKarpenterDisruptionLimit c w sortedNodes totalNodes
                        in if karpenterLimit \<ge> 0 \<and> karpenterLimit < maxDrain then karpenterLimit else maxDrain)
                  else maxDrain)
           in capacityOnly @ (if int (length sortedNodes) > maxDrain then take (nat maxDrain) sortedNodes else sortedNodes))"

section \<open>Exchange sort\<close>

lemma mset_exchange: "i < length xs \<Longrightarrow> j < length xs \<Longrightarrow> mset (exchange xs i j) = mset xs"
  by (simp add: exchange_def mset_swap)

lemma mset_sort_inner: "i < length xs \<Longrightarrow> mset (sort_inner lt i j xs) = mset xs"
proof (induction lt i j xs rule: sort_inner.induct)
  case (1 lt i j xs)
  then show ?case
    by (subst sort_inner.simps) (auto simp: mset_exchange)
qed

lemma take_sort_inner: "i < j \<Longrightarrow> take i (sort_inner lt i j xs) = take i xs"
proof (induction lt i j xs rule: sort_inner.induct)
  case (1 lt i j xs)
  then show ?case by (subst sort_inner.simps) (auto simp: exchange_def)
qed

lemma mset_sort_outer [simp]: "mset (sort_outer lt i xs) = mset xs"
proof (induction lt i xs rule: sort_outer.induct)
  case (1 lt i xs)
  then show ?case by (subst sort_outer.simps) (simp add: mset_sort_inner)
qed

lemma set_sort_outer [simp]: "set (sort_outer lt i xs) = set xs"
  by (metis mset_sort_outer set_mset_mset)

lemma length_sort_outer [simp]: "length (sort_outer lt i xs) = length xs"
  by (metis mset_sort_outer size_mset)

lemma in_set_drop: "x \<in> set (drop i xs) \<Longrightarrow> \<exists>b. i \<le> b \<and> b < length xs \<and> xs ! b = x"
proof -
  assume "x \<in> set (drop i xs)"
  then obtain n where "n < length (drop i xs)" "drop i xs ! n = x" unfolding in_set_conv_nth by blast
  then show ?thesis by (intro exI [of _ "i + n"]) auto
qed

text \<open>With a strict weak order the exchange sort sorts.\<close>

context strict_weak
begin

lemma trans_lt: "x \<in> S \<Longrightarrow> y \<in> S \<Longrightarrow> z \<in> S \<Longrightarrow> lt x y \<Longrightarrow> lt y z \<Longrightarrow> lt x z"
  using asym negtrans by blast

lemma sort_inner_min:
  assumes "set xs \<subseteq> S" "i < j" "j \<le> length xs"
    and "\<And>k. i < k \<Longrightarrow> k < j \<Longrightarrow> \<not> lt (xs ! k) (xs ! i)" and "i < k" "k < length xs"
  shows "\<not> lt (sort_inner lt i j xs ! k) (sort_inner lt i j xs ! i)"
  using assms
proof (induction "length xs - j" arbitrary: j xs)
  case 0
  then show ?case by (subst (1 2) sort_inner.simps) simp
next
  case (Suc n)
  then have j: "j < length xs" by simp
  let ?ys = "if lt (xs ! j) (xs ! i) then exchange xs i j else xs"
  have in_S: "xs ! k \<in> S" if "k < length xs" for k
    using Suc.prems(1) that by (auto dest: nth_mem)
  have "mset ?ys = mset xs" using j Suc.prems(2) by (simp add: mset_exchange)
  then have "set ?ys \<subseteq> S" using Suc.prems(1) by (metis set_mset_mset)
  moreover have "\<not> lt (?ys ! k) (?ys ! i)" if "i < k" "k < j + 1" for k
  proof (cases "lt (xs ! j) (xs ! i)")
    case True
    show ?thesis
    proof (cases "k = j")
      case True
      then show ?thesis
        using asym [OF in_S in_S \<open>lt (xs ! j) (xs ! i)\<close>] \<open>lt (xs ! j) (xs ! i)\<close> j Suc.prems(2)
        by (simp add: exchange_def)
    next
      case False
      then have "\<not> lt (xs ! k) (xs ! i)" using that Suc.prems(4) by simp
      then have "\<not> lt (xs ! k) (xs ! j)"
        using trans_lt [of "xs ! k" "xs ! j" "xs ! i"] in_S j that Suc.prems(2) \<open>lt (xs ! j) (xs ! i)\<close> by auto
      then show ?thesis using False that j \<open>lt (xs ! j) (xs ! i)\<close> Suc.prems(2) by (simp add: exchange_def)
    qed
  next
    case False
    then show ?thesis using that Suc.prems(4) by (cases "k = j") simp_all
  qed
  ultimately have "\<not> lt (sort_inner lt i (j + 1) ?ys ! k) (sort_inner lt i (j + 1) ?ys ! i)"
    using Suc.hyps(2) Suc.prems(2,5,6) j by (intro Suc.hyps(1)) auto
  moreover have "sort_inner lt i j xs = sort_inner lt i (j + 1) ?ys"
    using j by (subst sort_inner.simps) simp
  ultimately show ?case by (simp only: not_False_eq_True)
qed

lemma sort_outer_sorted:
  assumes "set xs \<subseteq> S"
    and "\<And>a b. a < i \<Longrightarrow> a < b \<Longrightarrow> b < length xs \<Longrightarrow> \<not> lt (xs ! b) (xs ! a)"
  shows "sorted_wrt (\<lambda>x y. \<not> lt y x) (sort_outer lt i xs)"
  using assms
proof (induction "length xs - i" arbitrary: i xs)
  case 0
  then have "\<not> i < length xs - 1" by linarith
  then have "sort_outer lt i xs = xs" by (subst sort_outer.simps) simp
  then show ?case using 0 by (simp add: sorted_wrt_iff_nth_less)
next
  case (Suc n)
  show ?case
  proof (cases "i < length xs - 1")
    case False
    then have "sort_outer lt i xs = xs" by (subst sort_outer.simps) simp
    then show ?thesis using Suc.prems Suc.hyps(2) False by (simp add: sorted_wrt_iff_nth_less)
  next
    case True
    let ?ys = "sort_inner lt i (i + 1) xs"
    have ms: "mset ?ys = mset xs" and tk: "take i ?ys = take i xs"
      using True by (auto intro: mset_sort_inner take_sort_inner)
    have "mset (drop i ?ys) = mset (drop i xs)"
      using ms tk by (metis append_take_drop_id mset_append add_left_cancel)
    then have dr: "set (drop i ?ys) = set (drop i xs)" by (metis set_mset_mset)
    have S: "set ?ys \<subseteq> S" using ms Suc.prems(1) by (metis set_mset_mset)
    have "\<not> lt (?ys ! b) (?ys ! a)" if ab: "a < i + 1" "a < b" "b < length ?ys" for a b
    proof (cases "a = i")
      case True
      then show ?thesis using sort_inner_min [of xs i "i + 1" b] Suc.prems(1) ab by simp
    next
      case False
      then have a: "a < i" using ab by simp
      have ya: "?ys ! a = xs ! a" using tk a by (metis nth_take)
      show ?thesis
      proof (cases "b < i")
        case True
        then have "?ys ! b = xs ! b" using tk by (metis nth_take)
        then show ?thesis using Suc.prems(2) [of a b] a ab ya by simp
      next
        case False
        then have "drop i ?ys ! (b - i) = ?ys ! b" "b - i < length (drop i ?ys)" using ab(3) by simp_all
        then have "?ys ! b \<in> set (drop i ?ys)" by (metis nth_mem)
        then obtain b' where "i \<le> b'" "b' < length xs" "xs ! b' = ?ys ! b"
          unfolding dr by (auto dest: in_set_drop)
        then show ?thesis using Suc.prems(2) [of a b'] a ya by (metis less_le_trans)
      qed
    qed
    then have "sorted_wrt (\<lambda>x y. \<not> lt y x) (sort_outer lt (i + 1) ?ys)"
      using Suc.hyps(2) S by (intro Suc.hyps(1)) auto
    then show ?thesis using True by (subst sort_outer.simps) simp
  qed
qed

end

lemma drain_before_strict_weak: "strict_weak drain_before {a. na_CapacityScore a \<noteq> NaN}"
proof
  fix x y z :: NodeAssessment
  assume n: "x \<in> {a. na_CapacityScore a \<noteq> NaN}" "y \<in> {a. na_CapacityScore a \<noteq> NaN}"
  show "drain_before x y \<Longrightarrow> \<not> drain_before y x"
    by (auto simp: drain_before_def Let_def dest: f_less_imp_le f_less_not_le split: if_splits)
  assume "z \<in> {a. na_CapacityScore a \<noteq> NaN}"
  then show "\<not> drain_before x y \<Longrightarrow> \<not> drain_before y z \<Longrightarrow> \<not> drain_before x z"
    using n f_le_trans [of "na_CapacityScore x" "na_CapacityScore y" "na_CapacityScore z"]
    by (auto simp: drain_before_def Let_def f_not_less split: if_splits)
qed

interpretation drain_order: strict_weak drain_before "{a. na_CapacityScore a \<noteq> NaN}"
  by (rule drain_before_strict_weak)

section \<open>What is selected\<close>

text \<open>
  Only confident assessments are acted on, and the risk threshold overrides the
  policy: an assessment comes through exactly when its confidence is not below the threshold
  and it is above the risk threshold (then as an emergency exit), or asks for an action, or
  for freezing Spot (then unchanged). Order and identity of the nodes are kept.
\<close>

theorem filterActionableNodes_exact:
  "b \<in> set (filterActionableNodes c assessments) \<longleftrightarrow>
     (\<exists>a \<in> set assessments. \<not> na_Confidence a < c_confidenceThreshold c \<and>
        (if f32_of_f64 (c_riskThreshold c) < na_CapacityScore a then b = a\<lparr>na_Action := ActionEmergencyExit\<rparr>
         else b = a \<and> (na_Action a \<noteq> ActionHold \<or> na_ResponseMode a = ResponseModeFreezeSpot)))"
  by (induction assessments) (auto split: if_splits)

lemma filter_neg_append: "filter P (filter P xs @ take n ys) = filter P xs"
  if "\<forall>y \<in> set ys. \<not> P y"
  using that by (auto simp: filter_empty_conv dest: in_set_takeD)

definition drain_cap :: "'w Controller \<Rightarrow> 'w \<Rightarrow> NodeAssessment list \<Rightarrow> int \<Rightarrow> int" where
  "drain_cap c w nodes totalNodes =
     (let sorted = sort_outer drain_before 0 (filter (\<lambda>n. na_Action n \<noteq> ActionHold) nodes);
          m = max_drain totalNodes (c_maxDrainRatio c);
          L = getKarpenterDisruptionLimit c w sorted totalNodes
      in if c_nodePoolMgr c \<noteq> None \<and> kc_Enabled (c_karpenterCfg c) \<and> 0 \<le> L \<and> L < m then L else m)"

lemma applyDrainLimit_eq:
  "applyDrainLimit c w nodes totalNodes =
     filter (\<lambda>n. na_Action n = ActionHold) nodes @
     take (nat (drain_cap c w nodes totalNodes)) (sort_outer drain_before 0 (filter (\<lambda>n. na_Action n \<noteq> ActionHold) nodes))"
proof -
  have nil: "sort_outer drain_before 0 [] = []" by (subst sort_outer.simps) simp
  let ?s = "sort_outer drain_before 0 (filter (\<lambda>n. na_Action n \<noteq> ActionHold) nodes)"
  have "(if int (length ?s) > m then take (nat m) ?s else ?s) = take (nat m) ?s" for m
    by auto
  then show ?thesis
    by (auto simp: applyDrainLimit_def drain_cap_def Let_def nil)
qed

text \<open>
  C5 (safety). The drain limit keeps every hold and no more drains than the configured share
  of the nodes and, with Karpenter enabled, than the tightest disruption budget; it invents
  no node, and what it drops never has priority over what it keeps: an emergency exit is
  never dropped in favour of another action, nor a riskier node in favour of a safer one.
\<close>

theorem applyDrainLimit_spec:
  assumes "\<forall>n \<in> set nodes. na_CapacityScore n \<noteq> NaN"
    and "r = applyDrainLimit c w nodes totalNodes"
  shows "filter (\<lambda>n. na_Action n = ActionHold) r = filter (\<lambda>n. na_Action n = ActionHold) nodes \<and>
         mset r \<subseteq># mset nodes \<and>
         length (filter (\<lambda>n. na_Action n \<noteq> ActionHold) r) \<le> nat (drain_cap c w nodes totalNodes) \<and>
         drain_cap c w nodes totalNodes \<le> max_drain totalNodes (c_maxDrainRatio c) \<and>
         (\<forall>x \<in> set (filter (\<lambda>n. na_Action n \<noteq> ActionHold) r). \<forall>y \<in># mset nodes - mset r. \<not> drain_before y x)"
proof -
  let ?d = "filter (\<lambda>n. na_Action n \<noteq> ActionHold) nodes"
  let ?h = "filter (\<lambda>n. na_Action n = ActionHold) nodes"
  let ?s = "sort_outer drain_before 0 ?d"
  define k where "k = nat (drain_cap c w nodes totalNodes)"
  have r: "r = ?h @ take k ?s" unfolding k_def assms(2) by (rule applyDrainLimit_eq)
  have holds: "filter (\<lambda>n. na_Action n = ActionHold) r = ?h"
    unfolding r by (rule filter_neg_append) simp
  have drains: "filter (\<lambda>n. na_Action n \<noteq> ActionHold) r = take k ?s"
    unfolding r by (auto simp: filter_empty_conv filter_id_conv dest: in_set_takeD)
  have split: "mset nodes = mset ?h + mset ?s" using multiset_partition [of "mset nodes" "\<lambda>n. na_Action n = ActionHold"] by (simp add: mset_filter)
  have parts: "mset ?s = mset (take k ?s) + mset (drop k ?s)" by (metis append_take_drop_id mset_append)
  have "mset nodes = mset r + mset (drop k ?s)"
    unfolding split r mset_append using parts by (simp only: add.assoc)
  then have sub: "mset r \<subseteq># mset nodes" and rest: "mset nodes - mset r = mset (drop k ?s)"
    by simp_all
  have "sorted_wrt (\<lambda>x y. \<not> drain_before y x) ?s"
    using assms(1) by (intro drain_order.sort_outer_sorted) auto
  then have "sorted_wrt (\<lambda>x y. \<not> drain_before y x) (take k ?s @ drop k ?s)" by simp
  then have "\<forall>x \<in> set (take k ?s). \<forall>y \<in> set (drop k ?s). \<not> drain_before y x"
    unfolding sorted_wrt_append by blast
  moreover have "drain_cap c w nodes totalNodes \<le> max_drain totalNodes (c_maxDrainRatio c)"
    by (simp add: drain_cap_def Let_def)
  ultimately show ?thesis using holds drains sub rest by (simp add: k_def)
qed

definition drain_assessment :: "string \<Rightarrow> Action \<Rightarrow> rat \<Rightarrow> NodeAssessment" where
  "drain_assessment n a score =
     \<lparr>na_NodeID = n, na_Action = a, na_CapacityScore = Fin score, na_RuntimeScore = Fin score,
      na_Confidence = Fin 1, na_ClusterUtilization = Fin (1 / 2), na_ShadowAction = ActionHold,
      na_HasShadow = False, na_ResponseMode = ResponseModeReduceSpotFast, na_Urgency = PolicyUrgencyMedium\<rparr>"

theorem filterActionableNodes_exact_witness:
  "\<exists>c. c_confidenceThreshold (c :: mem_server Controller) = Fin (1 / 2) \<and>
     drain_assessment ''n1'' ActionDecrease30 0 \<in> set (filterActionableNodes c [drain_assessment ''n1'' ActionDecrease30 0])"
proof -
  obtain c where c: "New [] ''synthetic'' example_new = Inr c" using example_controller by blast
  then have "c_confidenceThreshold c = Fin (1 / 2)" "c_riskThreshold c = Fin (3 / 4)"
    by (auto simp: New_def Let_def example_new_def split: if_splits option.splits)
  moreover have "\<not> to_f32 (3 / 4) < Fin 0" by code_simp
  ultimately show ?thesis
    using filterActionableNodes_exact [of "drain_assessment ''n1'' ActionDecrease30 0" c
        "[drain_assessment ''n1'' ActionDecrease30 0]"]
    by (intro exI [of _ c]) (simp add: drain_assessment_def)
qed

theorem applyDrainLimit_spec_witness:
  "\<exists>c r. r = applyDrainLimit (c :: mem_server Controller) (drain_server [])
         [drain_assessment ''a'' ActionDecrease30 (1 / 2), drain_assessment ''b'' ActionEmergencyExit (3 / 4)] 2 \<and>
     mset r \<subseteq># mset [drain_assessment ''a'' ActionDecrease30 (1 / 2), drain_assessment ''b'' ActionEmergencyExit (3 / 4)]"
proof -
  obtain c where "New [] ''synthetic'' example_new = Inr c" using example_controller by blast
  have "\<forall>n \<in> set [drain_assessment ''a'' ActionDecrease30 (1 / 2), drain_assessment ''b'' ActionEmergencyExit (3 / 4)].
      na_CapacityScore n \<noteq> NaN"
    by (simp add: drain_assessment_def)
  from applyDrainLimit_spec [OF this refl, of c "drain_server []" 2] show ?thesis by blast
qed

end
