(* ===== verification/Actuation.thy ===== *)
theory Actuation
  imports Selection
begin

text \<open>
  internal/controller/controller.go, from selected nodes to actions: the guardrail pre-check,
  Karpenter weight steering, capacity swaps, the execution of one action, and the reconcile
  cycle that ties them together. What the controller reads from outside, per call, is the
  environment record.
\<close>

section \<open>Environment\<close>

text \<open>
  The clock; the order in which a map's keys are visited; the test hook for the runtime
  configuration (\<open>None\<close> in production), the workload distribution files and what decoding
  config/runtime.json gives; the value of SPOTVORTEX_ALLOW_MONITORING_DRAIN; the events a
  capacity swap sees while it waits, from the state where it starts.
\<close>

record 'w env =
  e_clock :: "'w \<Rightarrow> int"
  e_order :: "string list \<Rightarrow> string list"
  e_runtimeConfigLoader :: "RuntimeConfig option"
  e_files :: yaml_files
  e_decoded :: "Runtime_Config.config_error + RuntimeConfig"
  e_allowMonitoringDrain :: string
  e_wait :: "'w \<Rightarrow> 'w wait_event list"

definition loadRuntimeConfig :: "'w env \<Rightarrow> RuntimeConfig" where
  "loadRuntimeConfig E =
     (case LoadRuntimeConfig (e_files E) (e_decoded E) of
        Inl _ \<Rightarrow> DefaultRuntimeConfig (e_files E)
      | Inr cfg \<Rightarrow> cfg)"

definition runtimeConfigForTick :: "'w env \<Rightarrow> RuntimeConfig" where
  "runtimeConfigForTick E =
     (case e_runtimeConfigLoader E of Some cfg \<Rightarrow> cfg | None \<Rightarrow> loadRuntimeConfig E)"

section \<open>Guardrails\<close>

definition applyActiveGuardrails ::
  "'w Controller \<Rightarrow> 'w k8s \<Rightarrow> 'w \<Rightarrow> Node \<Rightarrow> NodeAssessment \<Rightarrow> api_error + (Action \<times> bool)" where
  "applyActiveGuardrails c K w nodeObj assessment =
     (case toExecutorAction (na_Action assessment) of
        (_, False) \<Rightarrow> Inr (na_Action assessment, False)
      | (action, True) \<Rightarrow>
          (case Check K w (NewGuardrailChecker (c_maxDrainRatio c)) nodeObj action
             \<lparr>es_NodeName = node_Name nodeObj,
              es_InstanceType = label_get (node_Labels nodeObj) LabelInstanceType,
              es_Zone = label_get (node_Labels nodeObj) LabelZone,
              es_CapacityScore = na_CapacityScore assessment, es_SpotPrice = Fin 0, es_OnDemandPrice = Fin 0,
              es_PodStartupTime = Fin 0, es_OutagePenalty = Fin 0, es_Confidence = na_Confidence assessment,
              es_ClusterUtilization = na_ClusterUtilization assessment\<rparr> of
             Inl e \<Rightarrow> Inl e
           | Inr result \<Rightarrow>
               if \<not> Approved result then Inr (na_Action assessment, True)
               else if ModifiedAction result = action then Inr (na_Action assessment, False)
               else case fromExecutorAction (ModifiedAction result) of
                      (modified, ok) \<Rightarrow> if \<not> ok then Inr (na_Action assessment, False) else Inr (modified, False)))"

fun guardrails_loop :: "'w Controller \<Rightarrow> 'w k8s \<Rightarrow> 'w \<Rightarrow> NodeAssessment list \<Rightarrow> NodeAssessment list" where
  "guardrails_loop c K w [] = []"
| "guardrails_loop c K w (n # ns) =
     (case k_getNode K w (na_NodeID n) of
        Inl _ \<Rightarrow> guardrails_loop c K w ns
      | Inr nodeObj \<Rightarrow>
          (case applyActiveGuardrails c K w nodeObj n of
             Inl _ \<Rightarrow> guardrails_loop c K w ns
           | Inr (guardedAction, blocked) \<Rightarrow>
               if blocked then guardrails_loop c K w ns
               else n\<lparr>na_Action := guardedAction\<rparr> # guardrails_loop c K w ns))"

definition applyGuardrailsBeforePrep :: "'w Controller \<Rightarrow> 'w \<Rightarrow> NodeAssessment list \<Rightarrow> NodeAssessment list" where
  "applyGuardrailsBeforePrep c w nodes =
     (if nodes = [] then nodes
      else case c_k8s c of None \<Rightarrow> nodes | Some K \<Rightarrow> guardrails_loop c K w nodes)"

section \<open>Weight steering\<close>

definition steerKarpenterWeights :: "'w env \<Rightarrow> 'w Controller \<Rightarrow> 'w \<Rightarrow> string \<Rightarrow> bool \<Rightarrow> 'w Controller \<times> 'w" where
  "steerKarpenterWeights E c w workloadPool favorSpot =
     (let k = c_karpenterCfg c in
      case c_nodePoolMgr c of
        None \<Rightarrow> (c, w)
      | Some client \<Rightarrow>
          if \<not> kc_Enabled k then (c, w)
          else if \<not> IsWorkloadPoolManaged k workloadPool then (c, w)
          else if within_cooldown (e_clock E) w (c_lastWeightChange c workloadPool) (WeightChangeCooldown k) then (c, w)
          else
            let sw = (if favorSpot then SpotWeight k else OnDemandWeight k);
                ow = (if favorSpot then OnDemandWeight k else SpotWeight k)
            in case set_weights client w (workloadPool @ SpotNodePoolSuffix k) sw
                      (workloadPool @ OnDemandNodePoolSuffix k) ow of
                 (spotErr, odErr, w') \<Rightarrow>
                   if spotErr = None \<or> odErr = None
                   then (c\<lparr>c_lastWeightChange := (c_lastWeightChange c)(workloadPool \<mapsto> e_clock E w')\<rparr>, w')
                   else (c, w'))"

record poolDecision =
  favorSpot :: int
  favorOD :: int

definition cast_vote :: "NodeAssessment \<Rightarrow> poolDecision \<Rightarrow> poolDecision" where
  "cast_vote n d =
     (if na_ResponseMode n = ResponseModeFreezeSpot then d\<lparr>favorOD := favorOD d + 1\<rparr>
      else if na_Action n \<in> {ActionIncrease10, ActionIncrease30} then d\<lparr>favorSpot := favorSpot d + 1\<rparr>
      else if na_Action n \<in> {ActionDecrease10, ActionDecrease30, ActionEmergencyExit} then d\<lparr>favorOD := favorOD d + 1\<rparr>
      else d)"

text \<open>The decisions as an association list, one entry per pool in the order of first vote.\<close>

fun vote_in :: "string \<Rightarrow> NodeAssessment \<Rightarrow> (string \<times> poolDecision) list \<Rightarrow> (string \<times> poolDecision) list" where
  "vote_in pool n [] = [(pool, cast_vote n \<lparr>favorSpot = 0, favorOD = 0\<rparr>)]"
| "vote_in pool n ((p, d) # ds) = (if p = pool then (p, cast_vote n d) # ds else (p, d) # vote_in pool n ds)"

fun pool_decisions :: "'w k8s \<Rightarrow> 'w \<Rightarrow> (string \<times> poolDecision) list \<Rightarrow> NodeAssessment list \<Rightarrow> (string \<times> poolDecision) list" where
  "pool_decisions K w ds [] = ds"
| "pool_decisions K w ds (n # ns) =
     (case k_getNode K w (na_NodeID n) of
        Inl _ \<Rightarrow> pool_decisions K w ds ns
      | Inr nodeObj \<Rightarrow>
          (let pool = label_get (node_Labels nodeObj) WorkloadPoolLabel
           in if pool = [] then pool_decisions K w ds ns
              else pool_decisions K w (vote_in pool n ds) ns))"

fun steer_pools :: "'w env \<Rightarrow> (string \<times> poolDecision) list \<Rightarrow> 'w Controller \<Rightarrow> 'w \<Rightarrow> string list \<Rightarrow> 'w Controller \<times> 'w" where
  "steer_pools E ds c w [] = (c, w)"
| "steer_pools E ds c w (pool # pools) =
     (case map_of ds pool of
        None \<Rightarrow> steer_pools E ds c w pools
      | Some d \<Rightarrow>
          (case steerKarpenterWeights E c w pool (favorSpot d > favorOD d) of
             (c', w') \<Rightarrow> steer_pools E ds c' w' pools))"

definition batchSteerKarpenterWeights :: "'w env \<Rightarrow> 'w Controller \<Rightarrow> 'w \<Rightarrow> NodeAssessment list \<Rightarrow> 'w Controller \<times> 'w" where
  "batchSteerKarpenterWeights E c w nodes =
     (if c_nodePoolMgr c = None \<or> \<not> kc_Enabled (c_karpenterCfg c) then (c, w)
      else case c_k8s c of
        None \<Rightarrow> (c, w)
      | Some K \<Rightarrow>
          let ds = pool_decisions K w [] nodes
          in steer_pools E ds c w (e_order E (map fst ds)))"

section \<open>Capacity swaps\<close>

record swapRequest =
  sq_pool :: PoolInfo
  sq_direction :: SwapDirection
  sq_mgrType :: ManagerType

fun swap_direction :: "Action \<Rightarrow> SwapDirection option" where
  "swap_direction ActionDecrease10 = Some SwapToOnDemand"
| "swap_direction ActionDecrease30 = Some SwapToOnDemand"
| "swap_direction ActionEmergencyExit = Some SwapToOnDemand"
| "swap_direction ActionIncrease10 = Some SwapToSpot"
| "swap_direction ActionIncrease30 = Some SwapToSpot"
| "swap_direction _ = None"

fun pool_swaps :: "'w k8s \<Rightarrow> 'w \<Rightarrow> 'w Router \<Rightarrow> (string \<times> swapRequest) list \<Rightarrow> NodeAssessment list \<Rightarrow>
    (string \<times> swapRequest) list" where
  "pool_swaps K w r qs [] = qs"
| "pool_swaps K w r qs (n # ns) =
     (case k_getNode K w (na_NodeID n) of
        Inl _ \<Rightarrow> pool_swaps K w r qs ns
      | Inr nodeObj \<Rightarrow>
          (let mgrType = DetectManagerType r nodeObj;
               pool = label_get (node_Labels nodeObj) WorkloadPoolLabel
           in if mgrType \<in> {ManagerKarpenter, ManagerUnknown} then pool_swaps K w r qs ns
              else if pool = [] then pool_swaps K w r qs ns
              else case swap_direction (na_Action n) of
                     None \<Rightarrow> pool_swaps K w r qs ns
                   | Some direction \<Rightarrow>
                       if map_of qs pool \<noteq> None then pool_swaps K w r qs ns
                       else pool_swaps K w r (qs @ [(pool,
                              \<lparr>sq_pool = \<lparr>pool_Name = pool, pool_Zone = label_get (node_Labels nodeObj) LabelZone,
                                         pool_InstanceType = label_get (node_Labels nodeObj) LabelInstanceType\<rparr>,
                               sq_direction = direction, sq_mgrType = mgrType\<rparr>)]) ns))"

text \<open>
  The result of each swap is only logged. \<open>None\<close> while a swap is still waiting.
\<close>

fun run_swaps :: "'w env \<Rightarrow> (string \<times> swapRequest) list \<Rightarrow> 'w Router \<Rightarrow> 'w \<Rightarrow> string list \<Rightarrow> ('w Router \<times> 'w) option" where
  "run_swaps E qs r w [] = Some (r, w)"
| "run_swaps E qs r w (p # ps) =
     (case map_of qs p of
        None \<Rightarrow> run_swaps E qs r w ps
      | Some q \<Rightarrow>
          (case ManagerForType r (sq_mgrType q) of
             None \<Rightarrow> run_swaps E qs r w ps
           | Some mgr \<Rightarrow>
               (case mgr_PrepareSwap (e_clock E) mgr w (e_wait E w) (sq_pool q) (sq_direction q) of
                  None \<Rightarrow> None
                | Some (result, mgr', w') \<Rightarrow>
                    run_swaps E qs (r\<lparr>managers := (managers r)(sq_mgrType q \<mapsto> mgr')\<rparr>) w' ps)))"

definition prepareCapacitySwaps :: "'w env \<Rightarrow> 'w Controller \<Rightarrow> 'w \<Rightarrow> NodeAssessment list \<Rightarrow> ('w Controller \<times> 'w) option" where
  "prepareCapacitySwaps E c w nodes =
     (case c_k8s c of
        None \<Rightarrow> Some (c, w)
      | Some K \<Rightarrow>
          let qs = pool_swaps K w (c_capacityRouter c) [] nodes
          in case run_swaps E qs (c_capacityRouter c) w (e_order E (map fst qs)) of
               None \<Rightarrow> None
             | Some (r, w') \<Rightarrow> Some (c\<lparr>c_capacityRouter := r\<rparr>, w'))"

section \<open>Executing one action\<close>

fun namespace_loop :: "string \<Rightarrow> string \<Rightarrow> Pod list \<Rightarrow> bool" where
  "namespace_loop nodeName ns [] = False"
| "namespace_loop nodeName ns (pod # pods) =
     (if pod_NodeName pod \<noteq> nodeName then namespace_loop nodeName ns pods
      else if pod_Namespace pod \<noteq> ns then namespace_loop nodeName ns pods
      else if owned_by_daemonset (pod_OwnerKinds pod) then namespace_loop nodeName ns pods
      else True)"

definition nodeHasNamespace :: "'w Controller \<Rightarrow> 'w \<Rightarrow> string \<Rightarrow> string \<Rightarrow> bool" where
  "nodeHasNamespace c w nodeName ns =
     (case c_k8s c of None \<Rightarrow> False
      | Some K \<Rightarrow> (case k_listPodsOnNode K w nodeName of Inl _ \<Rightarrow> False | Inr pods \<Rightarrow> namespace_loop nodeName ns pods))"

datatype exec_error = NoK8sClient | FetchNodeFailed string api_error | GuardrailCheckFailed api_error
  | DrainFailed drain_error | CleanupFailed string cleanup_error

text \<open>The label, taint and capacity-type guards in front of a drain.\<close>

definition may_drain :: "Node \<Rightarrow> Action \<Rightarrow> bool" where
  "may_drain nodeObj action =
     (if label_get (node_Labels nodeObj) LabelManaged \<noteq> ''true'' then False
      else if node_Labels nodeObj ''node-role.kubernetes.io/control-plane'' \<noteq> None then False
      else if node_Labels nodeObj ''node-role.kubernetes.io/master'' \<noteq> None then False
      else if has_fake_taint (node_Taints nodeObj) then False
      else
        let isSpot = (CapacityTypeFromLabels (node_Labels nodeObj) = ''spot'')
        in if action \<in> {ActionIncrease10, ActionIncrease30} then \<not> isSpot
           else if action \<in> {ActionDecrease10, ActionDecrease30, ActionEmergencyExit} then isSpot
           else False)"

definition finish_drain :: "'w env \<Rightarrow> 'w Controller \<Rightarrow> 'w k8s \<Rightarrow> 'w \<Rightarrow> Node \<Rightarrow> string \<Rightarrow> DrainResult \<Rightarrow>
    exec_error option \<times> 'w Controller \<times> 'w" where
  "finish_drain E c K w nodeObj nodeID result =
     (if \<not> dr_Success result then (None, c, w)
      else
        let pool = \<lparr>pool_Name = label_get (node_Labels nodeObj) WorkloadPoolLabel,
                    pool_Zone = label_get (node_Labels nodeObj) LabelZone,
                    pool_InstanceType = label_get (node_Labels nodeObj) LabelInstanceType\<rparr>
        in case (if \<not> dr_DryRun result then PostDrainCleanupForNode (c_capacityRouter c) w nodeObj pool else (None, w)) of
             (Some e, w') \<Rightarrow> (Some (CleanupFailed nodeID e), c, w')
           | (None, w') \<Rightarrow>
               (case k_getNode K w' nodeID of
                  Inl _ \<Rightarrow> (None, c, w')
                | Inr n \<Rightarrow> (None, c\<lparr>c_lastMigration := (c_lastMigration c)(GetNodePoolID n \<mapsto> e_clock E w')\<rparr>, w')))"

definition executeAction :: "'w env \<Rightarrow> 'w Controller \<Rightarrow> 'w \<Rightarrow> NodeAssessment \<Rightarrow> exec_error option \<times> 'w Controller \<times> 'w" where
  "executeAction E c w node =
     (case c_k8s c of
        None \<Rightarrow> (Some NoK8sClient, c, w)
      | Some K \<Rightarrow>
        (case k_getNode K w (na_NodeID node) of
           Inl e \<Rightarrow> (Some (FetchNodeFailed (na_NodeID node) e), c, w)
         | Inr nodeObj \<Rightarrow>
           if \<not> may_drain nodeObj (na_Action node) then (None, c, w)
           else case applyActiveGuardrails c K w nodeObj node of
             Inl e \<Rightarrow> (Some (GuardrailCheckFailed e), c, w)
           | Inr (guardedAction, blocked) \<Rightarrow>
             if blocked then (None, c, w)
             else
               let poolID = getPoolIDWithExtendedFormat c
                     (label_get (node_Labels nodeObj) LabelInstanceType) (label_get (node_Labels nodeObj) LabelZone)
                     (label_get (node_Labels nodeObj) WorkloadPoolLabel);
                   runtimeCfg = runtimeConfigForTick E;
                   riskLow = (na_CapacityScore node < f32_of_f64 (f32_of_f64 (c_riskThreshold c) * Fin (1 / 2)));
                   c = applyTargetSpotRatioWithConfig c poolID guardedAction (Some runtimeCfg) riskLow;
                   allowMonitoringDrain = (EqualFold (e_allowMonitoringDrain E) ''true'' \<or> e_allowMonitoringDrain E = ''1'')
               in case c_drain c of
                    None \<Rightarrow> (None, c, w)
                  | Some d \<Rightarrow>
                      if \<not> allowMonitoringDrain \<and> nodeHasNamespace c w (na_NodeID node) ''monitoring''
                      then (None, c, w)
                      else case Drain K d w (na_NodeID node) of
                             (result, w') \<Rightarrow>
                               (case dr_Error result of
                                  Some e \<Rightarrow> (Some (DrainFailed e), c, w')
                                | None \<Rightarrow> finish_drain E c K w' nodeObj (na_NodeID node) result)))"

section \<open>Reconcile\<close>

text \<open>Errors of single actions are logged and the loop goes on.\<close>

fun execute_all :: "'w env \<Rightarrow> 'w Controller \<Rightarrow> 'w \<Rightarrow> NodeAssessment list \<Rightarrow> 'w Controller \<times> 'w" where
  "execute_all E c w [] = (c, w)"
| "execute_all E c w (n # ns) = (case executeAction E c w n of (_, c', w') \<Rightarrow> execute_all E c' w' ns)"

text \<open>
  The cycle from assessments on. \<open>None\<close> while a capacity swap is still waiting.
\<close>

definition actuate :: "'w env \<Rightarrow> 'w Controller \<Rightarrow> 'w \<Rightarrow> NodeAssessment list \<Rightarrow> int \<Rightarrow> ('w Controller \<times> 'w) option" where
  "actuate E c w assessments totalNodes =
     (let actionable = filterExecutableNodes c w (filterActionableNodes c assessments) in
      if actionable = [] then Some (c, w)
      else
        let nodesToDrain = applyGuardrailsBeforePrep c w (applyDrainLimit c w actionable totalNodes) in
        if nodesToDrain = [] then Some (c, w)
        else case batchSteerKarpenterWeights E c w nodesToDrain of
          (c1, w1) \<Rightarrow>
            (case prepareCapacitySwaps E c1 w1 nodesToDrain of
               None \<Rightarrow> None
             | Some (c2, w2) \<Rightarrow> Some (execute_all E c2 w2 nodesToDrain)))"

section \<open>Frames\<close>

text \<open>What a cycle never changes of the controller: its clients, configuration and life-cycle flags.\<close>

definition same_setup :: "'w Controller \<Rightarrow> 'w Controller \<Rightarrow> bool" where
  "same_setup c c' \<longleftrightarrow>
     c_dryRun c' = c_dryRun c \<and> c_k8s c' = c_k8s c \<and> c_drain c' = c_drain c \<and> c_nodePoolMgr c' = c_nodePoolMgr c \<and>
     c_karpenterCfg c' = c_karpenterCfg c \<and> c_riskThreshold c' = c_riskThreshold c \<and>
     c_maxDrainRatio c' = c_maxDrainRatio c \<and> c_confidenceThreshold c' = c_confidenceThreshold c \<and>
     c_running c' = c_running c \<and> c_stopClosed c' = c_stopClosed c \<and> c_useSyntheticMetrics c' = c_useSyntheticMetrics c"

lemma same_setup_refl [simp]: "same_setup c c"
  by (simp add: same_setup_def)

lemma same_setup_trans: "same_setup a b \<Longrightarrow> same_setup b c \<Longrightarrow> same_setup a c"
  by (simp add: same_setup_def)

lemma steer_setup:
  "steerKarpenterWeights E c w pool fs = (c', w') \<Longrightarrow>
     same_setup c c' \<and> c_targetSpotRatio c' = c_targetSpotRatio c \<and> c_capacityRouter c' = c_capacityRouter c"
  by (auto simp: steerKarpenterWeights_def same_setup_def Let_def split: option.splits if_splits prod.splits)

lemma steer_pools_setup:
  "steer_pools E ds c w pools = (c', w') \<Longrightarrow>
     same_setup c c' \<and> c_targetSpotRatio c' = c_targetSpotRatio c \<and> c_capacityRouter c' = c_capacityRouter c"
proof (induction pools arbitrary: c w)
  case (Cons p ps)
  then show ?case
    by (auto split: option.splits prod.splits dest!: steer_setup intro: same_setup_trans)
qed simp

lemma batchSteer_setup:
  "batchSteerKarpenterWeights E c w nodes = (c', w') \<Longrightarrow>
     same_setup c c' \<and> c_targetSpotRatio c' = c_targetSpotRatio c \<and> c_capacityRouter c' = c_capacityRouter c"
  by (auto simp: batchSteerKarpenterWeights_def Let_def split: option.splits if_splits dest: steer_pools_setup)

lemma wf_router_upd:
  "wf_router r \<Longrightarrow> managers r k = Some m \<Longrightarrow> Type m' = Type m \<Longrightarrow> wf_router (r\<lparr>managers := (managers r)(k \<mapsto> m')\<rparr>)"
  by (auto simp: wf_router_def)

lemma run_swaps_wf:
  "run_swaps E qs r w ps = Some (r', w') \<Longrightarrow> wf_router r \<Longrightarrow> wf_router r'"
proof (induction ps arbitrary: r w)
  case (Cons p ps)
  show ?case
    using Cons.prems
    by (auto split: option.splits prod.splits intro: Cons.IH wf_router_upd dest: mgr_PrepareSwap_Type
        simp: ManagerForType_def)
qed simp

lemma prepareCapacitySwaps_setup:
  "prepareCapacitySwaps E c w nodes = Some (c', w') \<Longrightarrow>
     same_setup c c' \<and> c_targetSpotRatio c' = c_targetSpotRatio c \<and>
     (wf_router (c_capacityRouter c) \<longrightarrow> wf_router (c_capacityRouter c'))"
  by (auto simp: prepareCapacitySwaps_def same_setup_def Let_def split: option.splits prod.splits dest: run_swaps_wf)

lemma applyTarget_setup: "same_setup c (applyTargetSpotRatioWithConfig c p a cfg low)"
  "c_capacityRouter (applyTargetSpotRatioWithConfig c p a cfg low) = c_capacityRouter c"
  "c_lastMigration (applyTargetSpotRatioWithConfig c p a cfg low) = c_lastMigration c"
  by (auto simp: applyTargetSpotRatioWithConfig_def same_setup_def Let_def split: option.splits prod.splits)

lemma finish_drain_setup:
  "finish_drain E c K w nodeObj i result = (e, c', w') \<Longrightarrow>
     same_setup c c' \<and> c_targetSpotRatio c' = c_targetSpotRatio c \<and> c_capacityRouter c' = c_capacityRouter c"
  by (auto simp: finish_drain_def same_setup_def Let_def split: if_splits option.splits prod.splits sum.splits)

lemma executeAction_setup:
  assumes "executeAction E c w n = (e, c', w')"
  shows "same_setup c c' \<and> c_capacityRouter c' = c_capacityRouter c \<and>
         (c_targetSpotRatio c' = c_targetSpotRatio c \<or>
          (\<exists>p a low. c_targetSpotRatio c' =
             c_targetSpotRatio (applyTargetSpotRatioWithConfig c p a (Some (runtimeConfigForTick E)) low)))"
proof -
  note frame = applyTarget_setup [of c] same_setup_trans finish_drain_setup
  show ?thesis
    using assms unfolding executeAction_def Let_def
    by (auto split: option.splits sum.splits if_splits prod.splits simp: frame
        dest!: finish_drain_setup intro: same_setup_trans [OF applyTarget_setup(1)])
qed

section \<open>Guardrails before preparation\<close>

lemma fromExecutorAction_cases:
  "toExecutorAction a = (x, True) \<Longrightarrow>
     (y = x \<longrightarrow> fst (fromExecutorAction y) = a) \<and> (y = ExDecrease30 \<longrightarrow> fst (fromExecutorAction y) = ActionDecrease30)"
  by (cases a) auto

lemma applyActiveGuardrails_cases:
  assumes "applyActiveGuardrails c K w nodeObj n = Inr (a, False)"
  shows "a = na_Action n \<or> (na_Action n = ActionEmergencyExit \<and> a = ActionDecrease30)"
proof -
  obtain x ok where x: "toExecutorAction (na_Action n) = (x, ok)" by fastforce
  show ?thesis
  proof (cases ok)
    case False
    with assms x show ?thesis by (simp add: applyActiveGuardrails_def)
  next
    case True
    have esc: "x = ExEmergencyExit \<Longrightarrow> na_Action n = ActionEmergencyExit"
      using x True by (cases "na_Action n") auto
    show ?thesis
      using assms x True esc
      by (auto simp: applyActiveGuardrails_def split: sum.splits if_splits prod.splits
          dest!: Check_cases)
  qed
qed

lemma guardrails_loop_spec:
  "m \<in> set (guardrails_loop c K w nodes) \<Longrightarrow>
     \<exists>n nodeObj a. n \<in> set nodes \<and> m = n\<lparr>na_Action := a\<rparr> \<and> k_getNode K w (na_NodeID n) = Inr nodeObj \<and>
       applyActiveGuardrails c K w nodeObj n = Inr (a, False)"
  by (induction nodes) (auto split: sum.splits prod.splits if_splits)

text \<open>
  C9 (safety). No capacity is prepared and no node is drained for an action the guardrails
  have not let through: every node that passes the pre-check could be read, its check came
  back approved, and its action is the one that was asked for, an emergency exit possibly
  softened to a 30 percent decrease.
\<close>

theorem applyGuardrailsBeforePrep_sound:
  assumes "c_k8s c = Some K" and "m \<in> set (applyGuardrailsBeforePrep c w nodes)"
  shows "\<exists>n nodeObj. n \<in> set nodes \<and> na_NodeID m = na_NodeID n \<and> k_getNode K w (na_NodeID n) = Inr nodeObj \<and>
           applyActiveGuardrails c K w nodeObj n = Inr (na_Action m, False) \<and>
           (na_Action m = na_Action n \<or> (na_Action n = ActionEmergencyExit \<and> na_Action m = ActionDecrease30))"
proof -
  have "m \<in> set (guardrails_loop c K w nodes)"
    using assms by (auto simp: applyGuardrailsBeforePrep_def split: if_splits)
  from guardrails_loop_spec [OF this] obtain n nodeObj a where
    n: "n \<in> set nodes" "m = n\<lparr>na_Action := a\<rparr>" "k_getNode K w (na_NodeID n) = Inr nodeObj"
      "applyActiveGuardrails c K w nodeObj n = Inr (a, False)" by blast
  with applyActiveGuardrails_cases [OF n(4)] show ?thesis by auto
qed

section \<open>Executing\<close>

text \<open>
  C1 (safety). Only nodes the agent owns are touched: if executing an action changed the
  cluster, the node was labelled as managed, is no control-plane node and carries no fake
  taint, its capacity type is the one the action moves away from, the guardrails had let the
  action through, and unless monitoring drains are allowed no pod of the monitoring namespace
  (daemons aside) runs on it.
\<close>

theorem executeAction_touches_only_owned:
  assumes "executeAction E c w n = (e, c', w')" and "w' \<noteq> w"
  shows "\<exists>K node a. c_k8s c = Some K \<and> k_getNode K w (na_NodeID n) = Inr node \<and>
           label_get (node_Labels node) LabelManaged = ''true'' \<and> \<not> is_control_plane (node_Labels node) \<and>
           \<not> has_fake_taint (node_Taints node) \<and>
           (if na_Action n \<in> {ActionIncrease10, ActionIncrease30} then CapacityTypeFromLabels (node_Labels node) \<noteq> ''spot''
            else na_Action n \<in> {ActionDecrease10, ActionDecrease30, ActionEmergencyExit} \<and>
                 CapacityTypeFromLabels (node_Labels node) = ''spot'') \<and>
           applyActiveGuardrails c K w node n = Inr (a, False) \<and>
           (EqualFold (e_allowMonitoringDrain E) ''true'' \<or> e_allowMonitoringDrain E = ''1'' \<or>
            \<not> nodeHasNamespace c w (na_NodeID n) ''monitoring'')"
proof -
  have ns: "nodeHasNamespace (applyTargetSpotRatioWithConfig c p x cfg low) = nodeHasNamespace c" for p x cfg low
    using applyTarget_setup(1) [of c p x cfg low] by (simp add: fun_eq_iff nodeHasNamespace_def same_setup_def)
  obtain K node where k: "c_k8s c = Some K" "k_getNode K w (na_NodeID n) = Inr node" "may_drain node (na_Action n)"
    using assms by (auto simp: executeAction_def split: option.splits sum.splits if_splits)
  obtain a where g: "applyActiveGuardrails c K w node n = Inr (a, False)"
    using assms k by (auto simp: executeAction_def split: sum.splits prod.splits if_splits)
  have "EqualFold (e_allowMonitoringDrain E) ''true'' \<or> e_allowMonitoringDrain E = ''1'' \<or>
      \<not> nodeHasNamespace c w (na_NodeID n) ''monitoring''"
    using assms k g by (auto simp: executeAction_def Let_def ns split: option.splits if_splits)
  then show ?thesis
    using k g by (auto simp: may_drain_def is_control_plane_def Let_def split: if_splits)
qed

lemma Drain_dry_world: "dc_DryRun d \<Longrightarrow> snd (Drain K d w n) = w \<and> dr_DryRun (fst (Drain K d w n))"
  by (auto simp: Drain_def cordonNode_def new_drain_result_def drain_loop_dry_run Let_def split: sum.splits)

lemma finish_drain_dry:
  "dr_DryRun result \<Longrightarrow> finish_drain E c K w nodeObj i result = (e, c', w') \<Longrightarrow> w' = w"
  by (auto simp: finish_drain_def Let_def split: if_splits sum.splits)

lemma executeAction_dry:
  assumes "c_drain c = None \<or> (\<exists>d. c_drain c = Some d \<and> dc_DryRun d)"
    and "executeAction E c w n = (e, c', w')"
  shows "w' = w"
proof -
  have d: "c_drain (applyTargetSpotRatioWithConfig c p x cfg low) = c_drain c" for p x cfg low
    using applyTarget_setup(1) [of c p x cfg low] by (simp add: same_setup_def)
  show ?thesis
  proof (cases "c_drain c")
    case None
    then show ?thesis
      using assms(2) by (auto simp: executeAction_def Let_def d split: option.splits sum.splits if_splits prod.splits)
  next
    case (Some dr)
    then have "dc_DryRun dr" using assms(1) by auto
    then have "snd (Drain K dr w i) = w \<and> dr_DryRun (fst (Drain K dr w i))" for K i
      by (rule Drain_dry_world)
    then show ?thesis
      using assms(2) Some
      by (auto simp: executeAction_def Let_def d split: option.splits sum.splits if_splits prod.splits
          dest!: finish_drain_dry) (metis fst_conv snd_conv finish_drain_dry)+
  qed
qed

lemma execute_all_dry:
  assumes "c_drain c = None \<or> (\<exists>d. c_drain c = Some d \<and> dc_DryRun d)"
  shows "snd (execute_all E c w nodes) = w"
  using assms
proof (induction nodes arbitrary: c)
  case (Cons n ns)
  obtain e c' w' where x: "executeAction E c w n = (e, c', w')" by (metis prod_cases3)
  have "w' = w" by (rule executeAction_dry [OF Cons.prems x])
  moreover have "c_drain c' = c_drain c"
    using executeAction_setup [OF x] by (simp add: same_setup_def)
  ultimately show ?case using Cons.IH [of c'] Cons.prems x by simp
qed simp

section \<open>Steering\<close>

definition pool_of :: "'w k8s \<Rightarrow> 'w \<Rightarrow> NodeAssessment \<Rightarrow> string" where
  "pool_of K w n =
     (case k_getNode K w (na_NodeID n) of Inl _ \<Rightarrow> [] | Inr node \<Rightarrow> label_get (node_Labels node) WorkloadPoolLabel)"

definition votes_spot :: "NodeAssessment \<Rightarrow> bool" where
  "votes_spot n \<longleftrightarrow> na_ResponseMode n \<noteq> ResponseModeFreezeSpot \<and> na_Action n \<in> {ActionIncrease10, ActionIncrease30}"

definition votes_od :: "NodeAssessment \<Rightarrow> bool" where
  "votes_od n \<longleftrightarrow> na_ResponseMode n = ResponseModeFreezeSpot \<or>
     na_Action n \<in> {ActionDecrease10, ActionDecrease30, ActionEmergencyExit}"

lemma cast_vote_count:
  "favorSpot (cast_vote n d) = favorSpot d + (if votes_spot n then 1 else 0)"
  "favorOD (cast_vote n d) = favorOD d + (if votes_od n then 1 else 0)"
  by (auto simp: cast_vote_def votes_spot_def votes_od_def)

lemma map_of_vote_in:
  "map_of (vote_in pool n ds) p =
     (if p = pool then Some (cast_vote n (case map_of ds pool of None \<Rightarrow> \<lparr>favorSpot = 0, favorOD = 0\<rparr> | Some d \<Rightarrow> d))
      else map_of ds p)"
  by (induction ds) auto

lemma fst_vote_in: "map fst (vote_in pool n ds) = (if pool \<in> fst ` set ds then map fst ds else map fst ds @ [pool])"
proof (induction pool n ds rule: vote_in.induct)
  case (2 pool n p d ds)
  then show ?case by (cases "p = pool") simp_all
qed simp

lemma distinct_pool_decisions:
  "distinct (map fst ds) \<Longrightarrow> distinct (map fst (pool_decisions K w ds nodes))"
  by (induction nodes arbitrary: ds) (auto simp: fst_vote_in Let_def split: sum.splits)

definition tally :: "poolDecision option \<Rightarrow> NodeAssessment list \<Rightarrow> int \<times> int" where
  "tally d ns =
     ((case d of None \<Rightarrow> 0 | Some d \<Rightarrow> favorSpot d) + int (length (filter votes_spot ns)),
      (case d of None \<Rightarrow> 0 | Some d \<Rightarrow> favorOD d) + int (length (filter votes_od ns)))"

lemma pool_decisions_tally:
  "pool \<noteq> [] \<Longrightarrow>
   (case map_of (pool_decisions K w ds nodes) pool of
      None \<Rightarrow> map_of ds pool = None \<and> filter (\<lambda>n. pool_of K w n = pool) nodes = []
    | Some d \<Rightarrow> (favorSpot d, favorOD d) = tally (map_of ds pool) (filter (\<lambda>n. pool_of K w n = pool) nodes))"
proof (induction nodes arbitrary: ds)
  case Nil
  then show ?case by (auto simp: tally_def split: option.splits)
next
  case (Cons n ns)
  show ?case
  proof (cases "k_getNode K w (na_NodeID n)")
    case (Inl e)
    then have "pool_of K w n \<noteq> pool" using Cons.prems by (simp add: pool_of_def)
    then show ?thesis using Cons.IH [of ds] Cons.prems Inl by (auto split: option.splits)
  next
    case (Inr node)
    let ?p = "label_get (node_Labels node) WorkloadPoolLabel"
    have p: "pool_of K w n = ?p" using Inr by (simp add: pool_of_def)
    show ?thesis
    proof (cases "?p = []")
      case True
      then show ?thesis using Cons.IH [of ds] Cons.prems Inr p by (auto split: option.splits)
    next
      case False
      then show ?thesis
        using Cons.IH [of "vote_in ?p n ds"] Cons.prems Inr p
        by (auto simp: map_of_vote_in tally_def cast_vote_count split: option.splits if_splits)
    qed
  qed
qed

text \<open>
  Weight steering follows a majority per workload pool: the votes counted for
  a pool are exactly those of its nodes, a freeze counting for on-demand whatever its action,
  and every pool is decided on once; a tie goes to on-demand.
\<close>

theorem pool_decisions_majority:
  assumes "pool \<noteq> []"
  shows "distinct (map fst (pool_decisions K w [] nodes)) \<and>
         (case map_of (pool_decisions K w [] nodes) pool of
            None \<Rightarrow> \<forall>n \<in> set nodes. pool_of K w n \<noteq> pool
          | Some d \<Rightarrow>
              (favorSpot d > favorOD d \<longleftrightarrow>
                 length (filter votes_spot (filter (\<lambda>n. pool_of K w n = pool) nodes)) >
                 length (filter votes_od (filter (\<lambda>n. pool_of K w n = pool) nodes))))"
  using pool_decisions_tally [OF assms, where ds = "[]" and K = K and w = w and nodes = nodes] distinct_pool_decisions [where ds = "[]" and K = K and w = w and nodes = nodes]
  by (cases "map_of (pool_decisions K w [] nodes) pool") (auto simp: tally_def filter_empty_conv)


section \<open>The cycle\<close>

lemma execute_all_invariant:
  assumes "wf_ratios (runtimeConfigForTick E)" "nan_free_policy (DeterministicPolicy (runtimeConfigForTick E))"
  shows "ratios_ok c \<Longrightarrow> execute_all E c w nodes = (c', w') \<Longrightarrow>
    ratios_ok c' \<and> same_setup c c' \<and> c_capacityRouter c' = c_capacityRouter c"
proof (induction nodes arbitrary: c w)
  case (Cons n ns)
  obtain e c1 w1 where x: "executeAction E c w n = (e, c1, w1)" by (metis prod_cases3)
  have "ratios_ok c1"
    using executeAction_setup [OF x] ratios_ok_applyTarget [OF Cons.prems(1) assms] Cons.prems(1)
    by (auto simp: ratios_ok_def)
  with Cons.IH [of c1 w1] Cons.prems(2) x executeAction_setup [OF x] show ?case
    by (auto intro: same_setup_trans)
qed simp

text \<open>A cycle from assessments on keeps the invariants of the controller.\<close>

lemma actuate_invariant:
  assumes "wf_ratios (runtimeConfigForTick E)" "nan_free_policy (DeterministicPolicy (runtimeConfigForTick E))"
    and "ratios_ok c" "wf_router (c_capacityRouter c)"
    and "actuate E c w assessments totalNodes = Some (c', w')"
  shows "ratios_ok c' \<and> wf_router (c_capacityRouter c') \<and> same_setup c c'"
proof (cases "actuate E c w assessments totalNodes = Some (c, w) \<and> c' = c")
  case True
  then show ?thesis using assms by simp
next
  case False
  then obtain nodes c1 w1 c2 w2 where
      b: "batchSteerKarpenterWeights E c w nodes = (c1, w1)"
      and p: "prepareCapacitySwaps E c1 w1 nodes = Some (c2, w2)"
      and x: "execute_all E c2 w2 nodes = (c', w')"
    using assms(5) by (auto simp: actuate_def Let_def split: if_splits option.splits prod.splits)
  have "ratios_ok c2"
    using assms(3) batchSteer_setup [OF b] prepareCapacitySwaps_setup [OF p] by (simp add: ratios_ok_def)
  from execute_all_invariant [OF assms(1,2) this x] show ?thesis
    using assms(4) batchSteer_setup [OF b] prepareCapacitySwaps_setup [OF p]
    by (auto intro: same_setup_trans)
qed

lemma mgr_PrepareSwap_returns:
  assumes "\<exists>w'. Deadline w' \<in> set events \<or> Cancelled w' \<in> set events"
  shows "\<exists>r m' w'. mgr_PrepareSwap clock m w events pool direction = Some (r, m', w')"
proof (cases m)
  case (AManager a)
  then show ?thesis using PrepareSwap_ends [OF assms, of a w pool direction] by auto
qed (simp split: prod.splits)

lemma run_swaps_returns:
  assumes "\<And>w. \<exists>w'. Deadline w' \<in> set (e_wait E w) \<or> Cancelled w' \<in> set (e_wait E w)"
  shows "\<exists>r' w'. run_swaps E qs r w ps = Some (r', w')"
proof (induction ps arbitrary: r w)
  case (Cons p ps)
  show ?case
  proof (cases "\<exists>q mgr. map_of qs p = Some q \<and> ManagerForType r (sq_mgrType q) = Some mgr")
    case True
    then obtain q mgr where q: "map_of qs p = Some q" "ManagerForType r (sq_mgrType q) = Some mgr" by blast
    obtain x m' w' where "mgr_PrepareSwap (e_clock E) mgr w (e_wait E w) (sq_pool q) (sq_direction q) = Some (x, m', w')"
      using mgr_PrepareSwap_returns [OF assms] by blast
    then show ?thesis using Cons.IH q by simp
  next
    case False
    then show ?thesis using Cons.IH by (auto split: option.splits)
  qed
qed simp

lemma prepareCapacitySwaps_returns:
  assumes "\<And>w. \<exists>w'. Deadline w' \<in> set (e_wait E w) \<or> Cancelled w' \<in> set (e_wait E w)"
  shows "\<exists>c' w'. prepareCapacitySwaps E c w nodes = Some (c', w')"
proof (cases "c_k8s c")
  case (Some K)
  let ?qs = "pool_swaps K w (c_capacityRouter c) [] nodes"
  obtain r' w' where "run_swaps E ?qs (c_capacityRouter c) w (e_order E (map fst ?qs)) = Some (r', w')"
    using run_swaps_returns [OF assms] by blast
  then show ?thesis by (simp add: prepareCapacitySwaps_def Some)
qed (simp add: prepareCapacitySwaps_def)

lemma cycle_returns:
  assumes "\<And>w. \<exists>w'. Deadline w' \<in> set (e_wait E w) \<or> Cancelled w' \<in> set (e_wait E w)"
  shows "\<exists>c' w'. actuate E c w assessments totalNodes = Some (c', w')"
proof -
  let ?nodes = "applyGuardrailsBeforePrep c w (applyDrainLimit c w
      (filterExecutableNodes c w (filterActionableNodes c assessments)) totalNodes)"
  obtain c1 w1 where b: "batchSteerKarpenterWeights E c w ?nodes = (c1, w1)" by fastforce
  obtain c2 w2 where "prepareCapacitySwaps E c1 w1 ?nodes = Some (c2, w2)"
    using prepareCapacitySwaps_returns [OF assms] by blast
  moreover obtain c' w' where "execute_all E c2 w2 ?nodes = (c', w')" by fastforce
  ultimately show ?thesis using b by (simp add: actuate_def Let_def)
qed

section \<open>A concrete cycle\<close>

definition act_node :: Node where
  "act_node = \<lparr>node_Name = ''n1'',
     node_Labels = [''spotvortex.io/managed'' \<mapsto> ''true'', ''karpenter.sh/capacity-type'' \<mapsto> ''spot'',
       ''spotvortex.io/pool'' \<mapsto> ''core'', ''spotvortex.io/manager'' \<mapsto> ''cluster-autoscaler''],
     node_Taints = [], node_Unschedulable = False, node_ProviderID = ''aws:///us-east-1a/i-1'',
     node_Addresses = [], node_Conditions = []\<rparr>"

definition act_server :: mem_server where
  "act_server = \<lparr>ms_nodes = [act_node], ms_pods = [drain_pod ''a'' ''ReplicaSet''], ms_pdbs = (\<lambda>_. []), ms_protected = []\<rparr>"

definition act_env :: "'w env" where
  "act_env = \<lparr>e_clock = (\<lambda>_. 0), e_order = (\<lambda>ks. ks), e_runtimeConfigLoader = Some example_config, e_files = (\<lambda>_. None),
     e_decoded = Inr zero_config, e_allowMonitoringDrain = [], e_wait = (\<lambda>w. [Deadline w])\<rparr>"

definition failing_asg :: "mem_server asg_client" where
  "failing_asg = \<lparr>a_DiscoverTwinASGs = (\<lambda>w p. Inl (AsgApiError ''AccessDenied'')),
     a_SetDesiredCapacity = (\<lambda>w i n. (Some (AsgApiError ''AccessDenied''), w)),
     a_TerminateInstance = (\<lambda>w i x b. (Some (AsgApiError ''AccessDenied''), w)),
     a_GetInstanceASG = (\<lambda>w i. Inl (AsgApiError ''AccessDenied''))\<rparr>"

definition failing_manager :: "mem_server CapacityManager" where
  "failing_manager = AManager \<lparr>asgClient = Some failing_asg, k8sClient = Some mem_k8s,
     managerType = ManagerClusterAutoscaler, nodeReadyTimeout = 300000000000, pollInterval = 10000000000\<rparr>"

definition act_controller :: "bool \<Rightarrow> mem_server Controller" where
  "act_controller dry =
     \<lparr>c_dryRun = dry, c_k8s = Some mem_k8s, c_drain = Some (drain_config dry), c_nodePoolMgr = None,
      c_karpenterCfg = cfg_Karpenter example_yaml, c_capacityRouter = NewRouter [failing_manager],
      c_riskThreshold = Fin (3 / 4), c_maxDrainRatio = Fin 1, c_reconcileInterval = 30 * Second,
      c_confidenceThreshold = Fin (1 / 2), c_useSyntheticMetrics = False, c_running = True, c_stopClosed = False,
      c_priceHistory = Map.empty, c_lastMigration = Map.empty, c_targetSpotRatio = Map.empty,
      c_currentSpotRatio = Map.empty, c_poolNodeCounts = Map.empty, c_lastWeightChange = Map.empty\<rparr>"

definition act_assessment :: NodeAssessment where
  "act_assessment = drain_assessment ''n1'' ActionDecrease30 (1 / 2)"

text \<open>A server whose nodes never change, for any state of the rest of the world.\<close>

definition steer_node :: Node where
  "steer_node = act_node\<lparr>node_Labels := [''spotvortex.io/managed'' \<mapsto> ''true'', ''karpenter.sh/capacity-type'' \<mapsto> ''on-demand'',
     ''spotvortex.io/pool'' \<mapsto> ''core'', ''karpenter.sh/nodepool'' \<mapsto> ''core-od'']\<rparr>"

definition steer_k8s :: "(string \<Rightarrow> json option) k8s" where
  "steer_k8s = \<lparr>k_getNode = (\<lambda>w n. Inr steer_node), k_listNodes = (\<lambda>w. Inr [steer_node]),
     k_listPodsOnNode = (\<lambda>w n. Inr []), k_listPDBs = (\<lambda>w n. Inr []),
     k_updateNode = (\<lambda>w n. (None, w)), k_evict = (\<lambda>w a b d. (None, w))\<rparr>"

definition steer_controller :: "(string \<Rightarrow> json option) Controller" where
  "steer_controller =
     \<lparr>c_dryRun = True, c_k8s = Some steer_k8s, c_drain = Some (drain_config True), c_nodePoolMgr = Some (Some mem_dyn),
      c_karpenterCfg = karpenter_defaults (cfg_Karpenter example_yaml), c_capacityRouter = NewRouter [],
      c_riskThreshold = Fin (3 / 4), c_maxDrainRatio = Fin 1, c_reconcileInterval = 30 * Second,
      c_confidenceThreshold = Fin (1 / 2), c_useSyntheticMetrics = False, c_running = True, c_stopClosed = False,
      c_priceHistory = Map.empty, c_lastMigration = Map.empty, c_targetSpotRatio = Map.empty,
      c_currentSpotRatio = Map.empty, c_poolNodeCounts = Map.empty, c_lastWeightChange = Map.empty\<rparr>"

definition steer_assessment :: NodeAssessment where
  "steer_assessment = (drain_assessment ''n1'' ActionIncrease30 (1 / 8))\<lparr>na_ResponseMode := ResponseModeAllowGrowth\<rparr>"

section \<open>Dry-run mode and failed swaps\<close>

lemma run_swaps_no_managers: "managers r = Map.empty \<Longrightarrow> run_swaps E qs r w ps = Some (r, w)"
  by (induction ps) (auto simp: ManagerForType_def split: option.splits)

text \<open>
  In dry-run mode a cycle of a controller with neither a NodePool manager nor a
  registered capacity manager leaves the cluster as it was; with them, whatever a dry-run
  cycle changes in the cluster is the work of weight steering and of the capacity swaps.
\<close>

theorem actuate_dry_run_effects:
  assumes "c_drain c = None \<or> (\<exists>d. c_drain c = Some d \<and> dc_DryRun d)"
    and "actuate E c w assessments totalNodes = Some (c', w')"
  shows "(c_nodePoolMgr c = None \<and> managers (c_capacityRouter c) = Map.empty \<longrightarrow> w' = w) \<and>
         (w' = w \<or> (\<exists>nodes c1 w1 c2. batchSteerKarpenterWeights E c w nodes = (c1, w1) \<and>
            prepareCapacitySwaps E c1 w1 nodes = Some (c2, w')))"
proof (cases "w' = w")
  case False
  then obtain nodes c1 w1 c2 w2 where
      b: "batchSteerKarpenterWeights E c w nodes = (c1, w1)"
      and p: "prepareCapacitySwaps E c1 w1 nodes = Some (c2, w2)"
      and x: "execute_all E c2 w2 nodes = (c', w')"
    using assms(2) by (auto simp: actuate_def Let_def split: if_splits option.splits prod.splits)
  have "c_drain c2 = c_drain c"
    using batchSteer_setup [OF b] prepareCapacitySwaps_setup [OF p] by (simp add: same_setup_def)
  then have w2: "w' = w2" using execute_all_dry [of c2 E w2 nodes] assms(1) x by simp
  have "w' = w" if "c_nodePoolMgr c = None" "managers (c_capacityRouter c) = Map.empty"
  proof -
    have "c1 = c" "w1 = w" using b that(1) by (auto simp: batchSteerKarpenterWeights_def)
    then show ?thesis
      using p w2
      by (auto simp: prepareCapacitySwaps_def Let_def run_swaps_no_managers [OF that(2)] split: option.splits)
  qed
  then show ?thesis using b p w2 by blast
qed simp

text \<open>
  Dry-run mode is not read-only: a dry-run controller with Karpenter enabled
  patches the weights of the NodePools. In this cycle the weight of the pool's Spot NodePool
  goes from 10 to 100.
\<close>

theorem dry_run_still_steers:
  "c_dryRun steer_controller \<and> c_drain steer_controller = Some (drain_config True) \<and>
   GetWeight (Some mem_dyn) example_pools ''core-spot'' = Inr 10 \<and>
   GetWeight (Some mem_dyn) (snd (the (actuate act_env steer_controller example_pools [steer_assessment] 30))) ''core-spot'' = Inr 100"
  by code_simp

text \<open>
  C32 (error). A failed capacity swap does not hold back the drain it was meant to prepare:
  when every swap of a cycle fails and changes nothing, the cycle goes on to execute exactly
  the same actions, on the same cluster, as if no replacement had been asked for.
\<close>

theorem failed_swaps_still_drain:
  assumes "c_nodePoolMgr c = None"
    and "\<And>k mgr w p d. managers (c_capacityRouter c) k = Some mgr \<Longrightarrow>
           \<exists>e. mgr_PrepareSwap (e_clock E) mgr w (e_wait E w) p d = Some (Inl e, mgr, w)"
    and "nodes = applyGuardrailsBeforePrep c w (applyDrainLimit c w
           (filterExecutableNodes c w (filterActionableNodes c assessments)) totalNodes)"
    and "filterExecutableNodes c w (filterActionableNodes c assessments) \<noteq> []"
  shows "actuate E c w assessments totalNodes = Some (execute_all E c w nodes)"
proof -
  have "run_swaps E qs (c_capacityRouter c) w ps = Some (c_capacityRouter c, w)" for qs ps
  proof (induction ps)
    case (Cons p ps)
    show ?case
    proof (cases "\<exists>q mgr. map_of qs p = Some q \<and> managers (c_capacityRouter c) (sq_mgrType q) = Some mgr")
      case True
      then obtain q mgr where q: "map_of qs p = Some q" "managers (c_capacityRouter c) (sq_mgrType q) = Some mgr" by blast
      obtain e where "mgr_PrepareSwap (e_clock E) mgr w (e_wait E w) (sq_pool q) (sq_direction q) = Some (Inl e, mgr, w)"
        using assms(2) [OF q(2)] by blast
      moreover have "(c_capacityRouter c)\<lparr>managers := (managers (c_capacityRouter c))(sq_mgrType q \<mapsto> mgr)\<rparr> = c_capacityRouter c"
        using q(2) by (simp add: map_upd_triv)
      ultimately show ?thesis using Cons.IH q by (simp add: ManagerForType_def)
    next
      case False
      then show ?thesis using Cons.IH by (auto simp: ManagerForType_def split: option.splits)
    qed
  qed simp
  then have p: "prepareCapacitySwaps E c w ns = Some (c, w)" for ns
    by (auto simp: prepareCapacitySwaps_def Let_def split: option.splits)
  have b: "batchSteerKarpenterWeights E c w ns = (c, w)" for ns
    using assms(1) by (simp add: batchSteerKarpenterWeights_def)
  show ?thesis
    using assms(3,4) p b by (cases "nodes = []") (simp_all add: actuate_def Let_def)
qed

lemma failing_manager_fails:
  "mgr_PrepareSwap clock failing_manager w es p d = Some (Inl (DiscoverFailed (pool_Name p) (AsgApiError ''AccessDenied'')), failing_manager, w)"
  by (simp add: failing_manager_def PrepareSwap_def failing_asg_def)

theorem failed_swaps_still_drain_witness:
  "\<exists>c' w'. actuate act_env (act_controller False) act_server [act_assessment] 1 = Some (c', w') \<and>
     ms_pods act_server \<noteq> [] \<and> ms_pods w' = []"
proof -
  let ?c = "act_controller False"
  have 1: "c_nodePoolMgr ?c = None" by (simp add: act_controller_def)
  have 2: "\<exists>e. mgr_PrepareSwap (e_clock act_env) mgr w (e_wait act_env w) p d = Some (Inl e, mgr, w)"
    if "managers (c_capacityRouter ?c) k = Some mgr" for k mgr w p d
    using that failing_manager_fails by (auto simp: act_controller_def NewRouter_def split: if_splits)
  have 3: "filterExecutableNodes ?c act_server (filterActionableNodes ?c [act_assessment]) \<noteq> []"
    by code_simp
  let ?ns = "applyGuardrailsBeforePrep ?c act_server (applyDrainLimit ?c act_server
      (filterExecutableNodes ?c act_server (filterActionableNodes ?c [act_assessment])) 1)"
  have a: "actuate act_env ?c act_server [act_assessment] 1 = Some (execute_all act_env ?c act_server ?ns)"
    by (rule failed_swaps_still_drain [OF 1 2 refl 3])
  have b: "ms_pods (snd (execute_all act_env ?c act_server ?ns)) = []" "ms_pods act_server \<noteq> []"
    by code_simp+
  obtain c' w' where "execute_all act_env ?c act_server ?ns = (c', w')" by fastforce
  then show ?thesis using a b by simp
qed

section \<open>Further closed instances\<close>

theorem applyGuardrailsBeforePrep_sound_witness:
  "\<exists>n nodeObj. n \<in> set [act_assessment] \<and> k_getNode mem_k8s act_server (na_NodeID n) = Inr nodeObj \<and>
     applyActiveGuardrails (act_controller False) mem_k8s act_server nodeObj n = Inr (ActionDecrease30, False)"
proof -
  have "applyActiveGuardrails (act_controller False) mem_k8s act_server act_node act_assessment = Inr (ActionDecrease30, False)"
    by code_simp
  then have "act_assessment\<lparr>na_Action := ActionDecrease30\<rparr> \<in> set (applyGuardrailsBeforePrep (act_controller False) act_server [act_assessment])"
    by (simp add: applyGuardrailsBeforePrep_def act_controller_def mem_k8s_def act_server_def act_assessment_def
        drain_assessment_def act_node_def)
  moreover have "c_k8s (act_controller False) = Some mem_k8s" by (simp add: act_controller_def)
  ultimately show ?thesis
    using applyGuardrailsBeforePrep_sound by fastforce
qed

lemma act_execute: "ms_pods (snd (snd (executeAction act_env (act_controller False) act_server act_assessment))) = []"
  by code_simp

theorem executeAction_touches_only_owned_witness:
  "\<exists>e c' w' node. executeAction act_env (act_controller False) act_server act_assessment = (e, c', w') \<and> w' \<noteq> act_server \<and>
     k_getNode mem_k8s act_server (na_NodeID act_assessment) = Inr node \<and> label_get (node_Labels node) LabelManaged = ''true''"
proof -
  obtain e c' w' where x: "executeAction act_env (act_controller False) act_server act_assessment = (e, c', w')"
    by (metis prod_cases3)
  then have "w' \<noteq> act_server" using act_execute by (auto simp: act_server_def)
  moreover have "c_k8s (act_controller False) = Some mem_k8s" by (simp add: act_controller_def)
  ultimately show ?thesis using x executeAction_touches_only_owned [OF x] by auto
qed

theorem pool_decisions_majority_witness:
  "''core'' \<noteq> [] \<and> distinct (map fst (pool_decisions mem_k8s act_server [] [act_assessment]))"
  using pool_decisions_majority [of "''core''" mem_k8s act_server "[act_assessment]"] by simp

lemma steer_example:
  "\<exists>c1 w1. steerKarpenterWeights act_env steer_controller example_pools ''core'' True = (c1, w1) \<and>
     w1 \<noteq> example_pools \<and> c_lastWeightChange c1 ''core'' \<noteq> c_lastWeightChange steer_controller ''core''"
proof -
  have "GetWeight (Some mem_dyn) (snd (steerKarpenterWeights act_env steer_controller example_pools ''core'' True)) ''core-spot'' \<noteq>
      GetWeight (Some mem_dyn) example_pools ''core-spot''"
    "c_lastWeightChange (fst (steerKarpenterWeights act_env steer_controller example_pools ''core'' True)) ''core'' \<noteq>
      c_lastWeightChange steer_controller ''core''"
    by code_simp+
  then show ?thesis by (metis prod.collapse)
qed


lemma act_config: "wf_ratios (runtimeConfigForTick act_env)" "nan_free_policy (DeterministicPolicy (runtimeConfigForTick act_env))"
  using wf_example_config example_policy_nan_free
  by (simp_all add: runtimeConfigForTick_def act_env_def wf_runtime_config_def)

lemma act_env_ends: "\<exists>w'. Deadline w' \<in> set (e_wait act_env w) \<or> Cancelled w' \<in> set (e_wait act_env w)"
  by (simp add: act_env_def)

theorem actuate_dry_run_effects_witness:
  "\<exists>c' w'. actuate act_env ((act_controller True)\<lparr>c_capacityRouter := NewRouter []\<rparr>) act_server [act_assessment] 1 = Some (c', w') \<and>
     w' = act_server"
proof -
  let ?c = "(act_controller True)\<lparr>c_capacityRouter := NewRouter []\<rparr>"
  have d: "c_drain ?c = None \<or> (\<exists>d. c_drain ?c = Some d \<and> dc_DryRun d)"
    by (simp add: act_controller_def drain_config_def)
  have n: "c_nodePoolMgr ?c = None" "managers (c_capacityRouter ?c) = Map.empty"
    by (simp_all add: act_controller_def NewRouter_def)
  obtain c' w' where a: "actuate act_env ?c act_server [act_assessment] 1 = Some (c', w')"
    using cycle_returns [OF act_env_ends, of ?c act_server "[act_assessment]" 1] by blast
  show ?thesis using actuate_dry_run_effects [OF d a] n a by blast
qed

end
