(* ===== verification/Collector_Safety.thy ===== *)
theory Collector_Safety
  imports Collector
begin

text \<open>
  What the collector guarantees: the slack of the disruption budgets is the declarative one, caps
  and risk are monotone in every signal, the accumulators count the pods on the nodes of a pool,
  and a collection caps the pools whose budgets a single node can break.
\<close>

section \<open>Slack of the disruption budgets\<close>

text \<open>What the loss of one node, or of two nodes, takes from a budget.\<close>

definition node_losses :: "(string \<times> int) list \<Rightarrow> int set" where
  "node_losses cs = insert 0 (snd ` set cs)"

definition pair_losses :: "(string \<times> int) list \<Rightarrow> int set" where
  "pair_losses cs = node_losses cs \<union> {snd p + snd q | p q. p \<in> set cs \<and> q \<in> set cs \<and> fst p \<noteq> fst q}"

lemma top_two_bound:
  assumes "top_two (a, b) cs = (x, y)" and "0 \<le> b" and "b \<le> a"
  shows "0 \<le> y \<and> y \<le> x \<and> a \<le> x \<and> a + b \<le> x + y \<and> (\<forall>p \<in> set cs. snd p \<le> x \<and> a + snd p \<le> x + y) \<and>
         sorted_wrt (\<lambda>p q. snd p + snd q \<le> x + y) cs"
  using assms
proof (induction cs arbitrary: a b)
  case (Cons p cs)
  obtain node n where p: "p = (node, n)" by fastforce
  consider "a \<le> n" | "n < a" "b < n" | "n < a" "n \<le> b" by linarith
  then show ?case
  proof cases
    case 1
    with Cons.prems p have "top_two (n, a) cs = (x, y)" by simp
    from Cons.IH [OF this] 1 Cons.prems p show ?thesis by force
  next
    case 2
    with Cons.prems p have "top_two (a, n) cs = (x, y)" by simp
    from Cons.IH [OF this] 2 Cons.prems p show ?thesis by force
  next
    case 3
    with Cons.prems p have "top_two (a, b) cs = (x, y)" by simp
    from Cons.IH [OF this] 3 Cons.prems p show ?thesis by force
  qed
qed simp

definition two_sums :: "int \<Rightarrow> int \<Rightarrow> (string \<times> int) list \<Rightarrow> int \<Rightarrow> bool" where
  "two_sums a b cs s \<longleftrightarrow> s = a + b \<or> (\<exists>q \<in> set cs. s = a + snd q) \<or> (\<exists>q \<in> set cs. s = b + snd q) \<or>
     (\<exists>p \<in> set cs. \<exists>q \<in> set cs. fst p \<noteq> fst q \<and> s = snd p + snd q)"

lemma two_sums_Cons:
  assumes "node \<notin> fst ` set cs"
  shows "two_sums n a cs s \<Longrightarrow> two_sums a b ((node, n) # cs) s"
    and "two_sums a n cs s \<Longrightarrow> two_sums a b ((node, n) # cs) s"
    and "two_sums a b cs s \<Longrightarrow> two_sums a b ((node, n) # cs) s"
proof -
  have pair: "two_sums a b ((node, n) # cs) (n + snd q)" if "q \<in> set cs" for q
  proof -
    have "fst q \<noteq> node" using that assms by auto
    with that show ?thesis unfolding two_sums_def by force
  qed
  have head: "two_sums a b ((node, n) # cs) (a + n)" by (simp add: two_sums_def)
  have tl: "two_sums a b cs s \<Longrightarrow> two_sums a b ((node, n) # cs) s" for s
    unfolding two_sums_def by (metis list.set_intros(2))
  show "two_sums a b cs s \<Longrightarrow> two_sums a b ((node, n) # cs) s" by (rule tl)
  have old: "two_sums a b ((node, n) # cs) (a + snd q)" if "q \<in> set cs" for q
    using that by (auto simp: two_sums_def)
  have pq: "two_sums a b ((node, n) # cs) (snd p + snd q)" if "p \<in> set cs" "q \<in> set cs" "fst p \<noteq> fst q" for p q
    using that by (auto simp: two_sums_def)
  show "two_sums n a cs s \<Longrightarrow> two_sums a b ((node, n) # cs) s"
    unfolding two_sums_def [of n a] using head old pair pq by (metis add.commute)
  show "two_sums a n cs s \<Longrightarrow> two_sums a b ((node, n) # cs) s"
    unfolding two_sums_def [of a n] using head old pair pq by metis
qed

lemma top_two_attained:
  assumes "top_two (a, b) cs = (x, y)" and "distinct (map fst cs)"
  shows "x \<in> insert a (snd ` set cs) \<and> two_sums a b cs (x + y)"
  using assms
proof (induction cs arbitrary: a b)
  case (Cons p cs)
  obtain node n where p: "p = (node, n)" by fastforce
  have d: "distinct (map fst cs)" "node \<notin> fst ` set cs" using Cons.prems(2) p by simp_all
  consider "a \<le> n" | "n < a" "b < n" | "n < a" "n \<le> b" by linarith
  then show ?case
  proof cases
    case 1
    with Cons.prems p have "top_two (n, a) cs = (x, y)" by simp
    from Cons.IH [OF this d(1)] two_sums_Cons(1) [OF d(2)] p show ?thesis by auto
  next
    case 2
    with Cons.prems p have "top_two (a, n) cs = (x, y)" by simp
    from Cons.IH [OF this d(1)] two_sums_Cons(2) [OF d(2)] p show ?thesis by auto
  next
    case 3
    with Cons.prems p have "top_two (a, b) cs = (x, y)" by simp
    from Cons.IH [OF this d(1)] two_sums_Cons(3) [OF d(2)] p show ?thesis by auto
  qed
qed (simp add: two_sums_def)

lemma finite_losses [simp]: "finite (node_losses cs)" "finite (pair_losses cs)"
proof -
  have "{snd p + snd q | p q. p \<in> set cs \<and> q \<in> set cs \<and> fst p \<noteq> fst q} \<subseteq>
      (\<lambda>(p, q). snd p + snd q) ` (set cs \<times> set cs)" by force
  then have "finite {snd p + snd q | p q. p \<in> set cs \<and> q \<in> set cs \<and> fst p \<noteq> fst q}"
    by (rule finite_subset) simp
  then show "finite (node_losses cs)" "finite (pair_losses cs)"
    unfolding pair_losses_def node_losses_def by (simp_all only: finite_Un finite_insert finite_imageI finite_set)
qed

lemma losses_subset: "node_losses cs \<subseteq> pair_losses cs" "node_losses cs \<noteq> {}" "0 \<in> node_losses cs"
  by (auto simp: pair_losses_def node_losses_def)

lemma sorted_wrt_pair:
  assumes "sorted_wrt R cs" "p \<in> set cs" "q \<in> set cs" "p \<noteq> q" "\<And>p q. R p q \<Longrightarrow> R q p"
  shows "R p q"
  using assms(1-4) by (induction cs) (auto intro: assms(5))

lemma top_two_spec:
  assumes "distinct (map fst cs)" and "\<forall>p \<in> set cs. 0 \<le> snd p"
  shows "top_two (0, 0) cs = (Max (node_losses cs), Max (pair_losses cs) - Max (node_losses cs))"
proof -
  obtain x y where t: "top_two (0, 0) cs = (x, y)" by fastforce
  note b = top_two_bound [OF t] and a = top_two_attained [OF t assms(1)]
  have x: "Max (node_losses cs) = x"
    by (rule Max_eqI) (use a b in \<open>auto simp: node_losses_def\<close>)
  have two: "snd p + snd q \<le> x + y" if "p \<in> set cs" "q \<in> set cs" "fst p \<noteq> fst q" for p q
    by (rule sorted_wrt_pair [of "\<lambda>p q. snd p + snd q \<le> x + y" cs]) (use that b in auto)
  have "Max (pair_losses cs) = x + y"
  proof (rule Max_eqI)
    show "z \<le> x + y" if "z \<in> pair_losses cs" for z
      using that two b unfolding pair_losses_def node_losses_def by auto
    show "x + y \<in> pair_losses cs"
      using a unfolding two_sums_def pair_losses_def node_losses_def by auto
  qed simp
  with t x show ?thesis by simp
qed

text \<open>The bookkeeping of \<open>Collect\<close>: one entry per budget and node, counts far below \<open>2 ^ 52\<close>.\<close>

definition wf_pdb_counts :: "poolAccumulator \<Rightarrow> bool" where
  "wf_pdb_counts acc \<longleftrightarrow> distinct (map fst (pdbNodeCounts acc)) \<and>
     (\<forall>(k, cs) \<in> set (pdbNodeCounts acc). distinct (map fst cs) \<and> (\<forall>p \<in> set cs. 0 \<le> snd p) \<and>
        Max (pair_losses cs) \<le> 2 ^ 52) \<and>
     (\<forall>k a. pdbSlack acc k = Some a \<longrightarrow> \<bar>a\<bar> \<le> 2 ^ 31)"

definition allowed_of :: "(string \<rightharpoonup> int) \<Rightarrow> string \<Rightarrow> int" where
  "allowed_of slack k = (case slack k of None \<Rightarrow> 0 | Some a \<Rightarrow> a)"

definition slacks :: "((string \<times> int) list \<Rightarrow> int set) \<Rightarrow> poolAccumulator \<Rightarrow> int list" where
  "slacks losses acc = map (\<lambda>(k, cs). allowed_of (pdbSlack acc) k - Max (losses cs)) (pdbNodeCounts acc)"

definition fmin :: "f64 \<Rightarrow> int \<Rightarrow> f64" where
  "fmin m x = (if Fin (of_int x) < m then Fin (of_int x) else m)"

lemma foldl_fmin_Fin: "foldl fmin (Fin (of_int m)) xs = Fin (of_int (Min (insert m (set xs))))"
proof (induction xs arbitrary: m)
  case (Cons x xs)
  have "fmin (Fin (of_int m)) x = Fin (of_int (min m x))" by (auto simp: fmin_def min_def)
  moreover have "Min (insert (min m x) (set xs)) = Min (insert m (insert x (set xs)))"
    by (cases "xs = []") (simp_all add: min.assoc)
  ultimately show ?case using Cons.IH [of "min m x"] by simp
qed simp

lemma foldl_fmin: "xs \<noteq> [] \<Longrightarrow> foldl fmin PosInf xs = Fin (of_int (Min (set xs)))"
  using foldl_fmin_Fin by (cases xs) (simp_all add: fmin_def)

lemma slack_loop_fmin:
  assumes "\<forall>(k, cs) \<in> set L. distinct (map fst cs) \<and> (\<forall>p \<in> set cs. 0 \<le> snd p) \<and> Max (pair_losses cs) \<le> 2 ^ 52"
    and "\<forall>k a. slack k = Some a \<longrightarrow> \<bar>a\<bar> \<le> 2 ^ 31"
  shows "slack_loop slack (a, b) L =
     (foldl fmin a (map (\<lambda>(k, cs). allowed_of slack k - Max (node_losses cs)) L),
      foldl fmin b (map (\<lambda>(k, cs). allowed_of slack k - Max (pair_losses cs)) L))"
  using assms(1)
proof (induction L arbitrary: a b)
  case (Cons x L)
  obtain k cs where x: "x = (k, cs)" by fastforce
  let ?one = "Max (node_losses cs)" and ?two = "Max (pair_losses cs)"
  have cs: "top_two (0, 0) cs = (?one, ?two - ?one)" using Cons.prems x by (intro top_two_spec) auto
  have "?one \<le> ?two" by (intro Max_mono losses_subset finite_losses)
  moreover have "0 \<le> ?one" by (intro Max_ge losses_subset finite_losses)
  moreover have "\<bar>allowed_of slack k\<bar> \<le> 2 ^ 31" using assms(2) by (auto simp: allowed_of_def split: option.splits)
  moreover have "?two \<le> 2 ^ 52" using Cons.prems x by auto
  ultimately have e: "f64_of_int (allowed_of slack k) - f64_of_int ?one = Fin (of_int (allowed_of slack k - ?one))"
    "f64_of_int (allowed_of slack k) - f64_of_int ?two = Fin (of_int (allowed_of slack k - ?two))"
    by (intro f_minus_int; simp)+
  show ?case
    using Cons.IH Cons.prems x cs e by (simp add: allowed_of_def [symmetric] Let_def fmin_def del: of_int_diff)
qed simp

lemma computePDBSlackBounds_eq:
  assumes "wf_pdb_counts acc" and "pdbNodeCounts acc \<noteq> []"
  shows "computePDBSlackBounds acc =
           (Fin (of_int (Min (set (slacks node_losses acc)))), Fin (of_int (Min (set (slacks pair_losses acc)))))"
proof -
  have ne: "slacks losses acc \<noteq> []" for losses using assms(2) by (simp add: slacks_def)
  have "slack_loop (pdbSlack acc) (PosInf, PosInf) (pdbNodeCounts acc) =
      (foldl fmin PosInf (slacks node_losses acc), foldl fmin PosInf (slacks pair_losses acc))"
    unfolding slacks_def by (rule slack_loop_fmin) (use assms(1) in \<open>auto simp: wf_pdb_counts_def\<close>)
  then show ?thesis
    using foldl_fmin [OF ne] assms(2) by (simp add: computePDBSlackBounds_def)
qed

section \<open>Caps and risk are monotone\<close>

text \<open>The branches of the two roll-ups as factors; \<open>PosInf\<close> and \<open>NegInf\<close> stand for no contribution.\<close>

definition cap_steps :: "PoolSafetyVector \<Rightarrow> f64 list" where
  "cap_steps v =
    [if to_f64 (4 / 5) \<le> CriticalServiceSpotConcentration v then to_f64 (1 / 10)
     else if Fin (1 / 2) \<le> CriticalServiceSpotConcentration v then Fin (1 / 4)
     else if Fin (1 / 4) \<le> CriticalServiceSpotConcentration v then Fin (1 / 2) else PosInf,
     if MinPDBSlackIfOneNodeLost v < Fin 0 then to_f64 (1 / 10)
     else if MinPDBSlackIfOneNodeLost v < Fin 1 then to_f64 (7 / 20) else PosInf,
     if MinPDBSlackIfTwoNodesLost v < Fin 0 then Fin (1 / 4)
     else if MinPDBSlackIfTwoNodesLost v < Fin 1 then Fin (1 / 2) else PosInf,
     if Fin (1 / 2) \<le> StatefulPodFraction v then Fin (1 / 2)
     else if Fin (1 / 4) \<le> StatefulPodFraction v then to_f64 (7 / 10) else PosInf,
     if Fin 600 \<le> RestartP95Seconds v then Fin (1 / 4)
     else if Fin 300 \<le> RestartP95Seconds v then Fin (1 / 2) else PosInf,
     if to_f64 (9 / 10) \<le> RecoveryBudgetViolationRisk v then to_f64 (1 / 10)
     else if Fin (3 / 4) \<le> RecoveryBudgetViolationRisk v then Fin (1 / 4)
     else if to_f64 (3 / 5) \<le> RecoveryBudgetViolationRisk v then to_f64 (2 / 5) else PosInf,
     if SpareODHeadroomNodes v < Fin 1 then to_f64 (3 / 5) else PosInf,
     if ZoneDiversificationScore v < Fin (1 / 2) then to_f64 (3 / 5) else PosInf,
     if EvictablePodFraction v < Fin (1 / 4) then to_f64 (1 / 5)
     else if EvictablePodFraction v < Fin (1 / 2) then to_f64 (2 / 5) else PosInf]"

definition risk_steps :: "PoolSafetyVector \<Rightarrow> f64 list" where
  "risk_steps v =
    [if MinPDBSlackIfOneNodeLost v < Fin 0 then to_f64 (19 / 20)
     else if MinPDBSlackIfOneNodeLost v < Fin 1 then to_f64 (7 / 10) else NegInf,
     if MinPDBSlackIfTwoNodesLost v < Fin 0 then to_f64 (17 / 20)
     else if MinPDBSlackIfTwoNodesLost v < Fin 1 then to_f64 (11 / 20) else NegInf,
     if Fin 0 < CriticalServiceSpotConcentration v
     then clampUnit (to_f64 (1 / 5) + to_f64 (4 / 5) * CriticalServiceSpotConcentration v) else NegInf,
     if Fin 0 < StatefulPodFraction v
     then clampUnit (to_f64 (3 / 20) + to_f64 (13 / 20) * StatefulPodFraction v) else NegInf,
     if Fin 600 \<le> RestartP95Seconds v then Fin (3 / 4)
     else if Fin 300 \<le> RestartP95Seconds v then Fin (1 / 2)
     else if Fin 120 \<le> RestartP95Seconds v then to_f64 (3 / 10) else NegInf,
     if SpareODHeadroomNodes v < Fin 1 then to_f64 (11 / 20) else NegInf,
     clampUnit ((Fin 1 - ZoneDiversificationScore v) * to_f64 (3 / 5)),
     clampUnit ((Fin 1 - EvictablePodFraction v) * to_f64 (17 / 20))]"

lemma math_Min_not_NaN: "x \<noteq> NaN \<Longrightarrow> y \<noteq> NaN \<Longrightarrow> math_Min x y \<noteq> NaN"
  by (simp add: math_Min_NaN_iff)

lemma math_Max_not_NaN: "x \<noteq> NaN \<Longrightarrow> y \<noteq> NaN \<Longrightarrow> math_Max x y \<noteq> NaN"
  by (simp add: math_Max_NaN_iff)

lemma clampUnit_clampFloat: "clampUnit v = clampFloat v (Fin 0) (Fin 1)"
  by (simp add: clampUnit_def clampFloat_def)

lemma Min_steps:
  assumes "x \<noteq> NaN" and "\<And>y. y \<noteq> NaN \<Longrightarrow> F y = clampUnit (foldl math_Min y rest)"
  shows "k \<noteq> NaN \<Longrightarrow> (let y = (if b then math_Min x k else x) in F y) =
      clampUnit (foldl math_Min x ((if b then k else PosInf) # rest))"
    and "k \<noteq> NaN \<Longrightarrow> k' \<noteq> NaN \<Longrightarrow>
      (let y = (if b then math_Min x k else if b' then math_Min x k' else x) in F y) =
      clampUnit (foldl math_Min x ((if b then k else if b' then k' else PosInf) # rest))"
    and "k \<noteq> NaN \<Longrightarrow> k' \<noteq> NaN \<Longrightarrow> k'' \<noteq> NaN \<Longrightarrow>
      (let y = (if b then math_Min x k else if b' then math_Min x k' else if b'' then math_Min x k'' else x) in F y) =
      clampUnit (foldl math_Min x ((if b then k else if b' then k' else if b'' then k'' else PosInf) # rest))"
  using assms by (simp_all add: Let_def math_Min_PosInf math_Min_not_NaN)

lemma Max_steps:
  assumes "x \<noteq> NaN" and "\<And>y. y \<noteq> NaN \<Longrightarrow> F y = clampUnit (foldl math_Max y rest)"
  shows "k \<noteq> NaN \<Longrightarrow> (let y = (if b then math_Max x k else x) in F y) =
      clampUnit (foldl math_Max x ((if b then k else NegInf) # rest))"
    and "k \<noteq> NaN \<Longrightarrow> k' \<noteq> NaN \<Longrightarrow>
      (let y = (if b then math_Max x k else if b' then math_Max x k' else x) in F y) =
      clampUnit (foldl math_Max x ((if b then k else if b' then k' else NegInf) # rest))"
    and "k \<noteq> NaN \<Longrightarrow> k' \<noteq> NaN \<Longrightarrow> k'' \<noteq> NaN \<Longrightarrow>
      (let y = (if b then math_Max x k else if b' then math_Max x k' else if b'' then math_Max x k'' else x) in F y) =
      clampUnit (foldl math_Max x ((if b then k else if b' then k' else if b'' then k'' else NegInf) # rest))"
    and "k \<noteq> NaN \<Longrightarrow> (let y = math_Max x k in F y) = clampUnit (foldl math_Max x (k # rest))"
  using assms by (simp_all add: Let_def math_Max_NegInf math_Max_not_NaN)

lemma computeSafeMaxSpotRatio_steps:
  "computeSafeMaxSpotRatio v = clampUnit (foldl math_Min (Fin 1) (cap_steps v))"
  unfolding computeSafeMaxSpotRatio_def cap_steps_def Let_def [of "Fin 1"]
  by (rule Min_steps, simp, (rule Min_steps, assumption)+, simp_all)

text \<open>The fractions and the zone score of a vector lie in the unit interval.\<close>

definition wf_safety :: "PoolSafetyVector \<Rightarrow> bool" where
  "wf_safety v \<longleftrightarrow> unit01 (CriticalServiceSpotConcentration v) \<and> unit01 (StatefulPodFraction v) \<and>
     unit01 (ZoneDiversificationScore v) \<and> unit01 (EvictablePodFraction v)"

lemma unit01_Fin: "unit01 x \<longleftrightarrow> (\<exists>r. x = Fin r \<and> 0 \<le> r \<and> r \<le> 1)"
  by (auto simp: unit01_def dest: f_between_finite)

lemma rising_term:
  assumes "0 \<le> b" "b \<le> 1" "unit01 x" "unit01 y" "x \<le> y"
  shows "Fin a + Fin b * x \<le> Fin a + Fin b * y"
proof -
  obtain r s where "x = Fin r" "y = Fin s" "0 \<le> r" "r \<le> 1" "0 \<le> s" "s \<le> 1"
    using assms by (auto simp: unit01_Fin)
  moreover then obtain r' s' where "Fin b * x = Fin r'" "Fin b * y = Fin s'"
    using rnd64.rd_unit [of "b * r"] rnd64.rd_unit [of "b * s"] assms(1,2) by (auto simp: mult_le_one)
  moreover have "Fin b * x \<le> Fin b * y" using assms(1,5) calculation by (intro f_times_mono) auto
  ultimately show ?thesis by (auto intro: rnd64.rd_mono)
qed

lemma falling_term:
  assumes "0 \<le> b" "unit01 x" "unit01 y" "x \<le> y"
  shows "(Fin 1 - y) * Fin b \<le> (Fin 1 - x) * Fin b"
proof -
  obtain r s where rs: "x = Fin r" "y = Fin s" "0 \<le> r" "r \<le> 1" "0 \<le> s" "s \<le> 1"
    using assms by (auto simp: unit01_Fin)
  then obtain r' s' where "Fin 1 - x = Fin r'" "Fin 1 - y = Fin s'"
    using rnd64.rd_unit [of "1 - r"] rnd64.rd_unit [of "1 - s"] by (auto simp: minus_f64_def)
  moreover have "Fin 1 - y \<le> Fin 1 - x"
    using rs assms(4) by (intro f_minus_antimono) (auto simp: minus_f64_def)
  ultimately show ?thesis using assms(1) by (simp add: rnd64.rd_mono mult_right_mono)
qed

lemma rising_not_NaN: "0 \<le> b \<Longrightarrow> b \<le> 1 \<Longrightarrow> unit01 x \<Longrightarrow> Fin a + Fin b * x \<noteq> NaN"
  using rising_term [of b x x a] unit01_not_NaN by fastforce

lemma falling_not_NaN: "0 \<le> b \<Longrightarrow> unit01 x \<Longrightarrow> (Fin 1 - x) * Fin b \<noteq> NaN"
  using falling_term [of b x x] unit01_not_NaN by fastforce

lemma clampUnit_not_NaN: "x \<noteq> NaN \<Longrightarrow> clampUnit x \<noteq> NaN"
  by (simp add: clampUnit_def)

lemma clampUnit_mono: "x \<le> y \<Longrightarrow> clampUnit x \<le> clampUnit y"
  by (simp add: clampUnit_clampFloat clampFloat_mono)

lemma unit01_clampUnit: "x \<noteq> NaN \<Longrightarrow> unit01 (clampUnit x)"
  by (simp add: clampUnit_clampFloat)

lemma wf_safety_terms:
  assumes "wf_safety v"
  shows "clampUnit (to_f64 (1 / 5) + to_f64 (4 / 5) * CriticalServiceSpotConcentration v) \<noteq> NaN"
    "clampUnit (to_f64 (3 / 20) + to_f64 (13 / 20) * StatefulPodFraction v) \<noteq> NaN"
    "clampUnit ((Fin 1 - ZoneDiversificationScore v) * to_f64 (3 / 5)) \<noteq> NaN"
    "clampUnit ((Fin 1 - EvictablePodFraction v) * to_f64 (17 / 20)) \<noteq> NaN"
  unfolding f64_lit using assms unfolding wf_safety_def
  by (intro clampUnit_not_NaN rising_not_NaN falling_not_NaN; simp)+

lemma computeRecoveryBudgetViolationRisk_steps:
  assumes "wf_safety v"
  shows "computeRecoveryBudgetViolationRisk v = clampUnit (foldl math_Max (Fin 0) (risk_steps v))"
  unfolding computeRecoveryBudgetViolationRisk_def risk_steps_def Let_def [of "Fin 0"]
  by (rule Max_steps, simp, (rule Max_steps, assumption)+, simp_all add: wf_safety_terms [OF assms])

text \<open>Threshold tables are monotone in any relation their entries respect.\<close>

lemma below_table:
  fixes x y t1 t2 :: f64
  assumes "x \<le> y"
  shows "P k1 k1 \<Longrightarrow> P k1 k2 \<Longrightarrow> P k2 k2 \<Longrightarrow> P (if x < t1 then k1 else k2) (if y < t1 then k1 else k2)"
    and "P k1 k1 \<Longrightarrow> P k1 k2 \<Longrightarrow> P k1 k3 \<Longrightarrow> P k2 k2 \<Longrightarrow> P k2 k3 \<Longrightarrow> P k3 k3 \<Longrightarrow>
      P (if x < t1 then k1 else if x < t2 then k2 else k3) (if y < t1 then k1 else if y < t2 then k2 else k3)"
  using f_le_less_trans [OF assms] by (auto split: if_split)

lemma above_table:
  fixes x y t1 t2 t3 :: f64
  assumes "x \<le> y"
  shows "P k1 k1 \<Longrightarrow> P k1 k2 \<Longrightarrow> P k1 k3 \<Longrightarrow> P k2 k2 \<Longrightarrow> P k2 k3 \<Longrightarrow> P k3 k3 \<Longrightarrow>
      P (if t1 \<le> y then k1 else if t2 \<le> y then k2 else k3) (if t1 \<le> x then k1 else if t2 \<le> x then k2 else k3)"
    and "P k1 k1 \<Longrightarrow> P k1 k2 \<Longrightarrow> P k1 k3 \<Longrightarrow> P k1 k4 \<Longrightarrow> P k2 k2 \<Longrightarrow> P k2 k3 \<Longrightarrow> P k2 k4 \<Longrightarrow>
      P k3 k3 \<Longrightarrow> P k3 k4 \<Longrightarrow> P k4 k4 \<Longrightarrow>
      P (if t1 \<le> y then k1 else if t2 \<le> y then k2 else if t3 \<le> y then k3 else k4)
        (if t1 \<le> x then k1 else if t2 \<le> x then k2 else if t3 \<le> x then k3 else k4)"
  using f_le_trans [OF _ assms] by (auto split: if_split)

definition no_more_exposed :: "PoolSafetyVector \<Rightarrow> PoolSafetyVector \<Rightarrow> bool" where
  "no_more_exposed v u \<longleftrightarrow>
     CriticalServiceSpotConcentration v \<le> CriticalServiceSpotConcentration u \<and>
     MinPDBSlackIfOneNodeLost u \<le> MinPDBSlackIfOneNodeLost v \<and>
     MinPDBSlackIfTwoNodesLost u \<le> MinPDBSlackIfTwoNodesLost v \<and>
     StatefulPodFraction v \<le> StatefulPodFraction u \<and> RestartP95Seconds v \<le> RestartP95Seconds u \<and>
     SpareODHeadroomNodes u \<le> SpareODHeadroomNodes v \<and>
     ZoneDiversificationScore u \<le> ZoneDiversificationScore v \<and> EvictablePodFraction u \<le> EvictablePodFraction v"

lemma foldl_Min_mono: "list_all2 (\<le>) xs ys \<Longrightarrow> x \<le> y \<Longrightarrow> foldl math_Min x xs \<le> foldl math_Min y ys"
  by (induction arbitrary: x y rule: list_all2_induct) (auto intro: math_Min_mono)

lemma foldl_Max_mono: "list_all2 (\<le>) xs ys \<Longrightarrow> x \<le> y \<Longrightarrow> foldl math_Max x xs \<le> foldl math_Max y ys"
  by (induction arbitrary: x y rule: list_all2_induct) (auto intro: math_Max_mono)

lemma positive_term_mono:
  assumes "0 \<le> a" "0 \<le> b" "b \<le> 1" "unit01 x" "unit01 y" "x \<le> y"
  shows "(if Fin 0 < x then clampUnit (Fin a + Fin b * x) else NegInf) \<le>
         (if Fin 0 < y then clampUnit (Fin a + Fin b * y) else NegInf)"
  using assms clampUnit_mono [OF rising_term] clampUnit_not_NaN [OF rising_not_NaN] f_less_le_trans
  by (auto simp: f_NegInf_le)

lemma risk_steps_mono:
  assumes "wf_safety v" "wf_safety u" "no_more_exposed v u"
  shows "list_all2 (\<le>) (risk_steps v) (risk_steps u)"
  unfolding risk_steps_def f64_lit list.rel_inject
  using assms unfolding wf_safety_def no_more_exposed_def
  by (intro conjI list.rel_intros below_table [where P = "\<lambda>a b. b \<le> a"] above_table [where P = "\<lambda>a b. b \<le> a"]
      positive_term_mono clampUnit_mono falling_term) simp_all

lemma cap_steps_antimono:
  assumes "no_more_exposed v u" and "RecoveryBudgetViolationRisk v \<le> RecoveryBudgetViolationRisk u"
  shows "list_all2 (\<le>) (cap_steps u) (cap_steps v)"
  unfolding cap_steps_def f64_lit
  using assms unfolding no_more_exposed_def
  by (intro list.rel_intros below_table [where P = "(\<le>)"] above_table [where P = "(\<le>)"]) simp_all

lemma foldl_Min_le: "\<forall>x \<in> set xs. x \<noteq> NaN \<Longrightarrow> z \<noteq> NaN \<Longrightarrow> x \<in> insert z (set xs) \<Longrightarrow> foldl math_Min z xs \<le> x"
proof (induction xs arbitrary: z x)
  case (Cons y ys)
  then have "foldl math_Min (math_Min z y) ys \<le> x" if "x \<in> insert (math_Min z y) (set ys)"
    using that by (simp add: math_Min_not_NaN)
  moreover have "foldl math_Min (math_Min z y) ys \<le> math_Min z y"
    using Cons by (simp add: math_Min_not_NaN)
  ultimately show ?case using Cons.prems math_Min_le [of z y] f_le_trans by auto
qed simp

lemma foldl_Max_ge: "\<forall>x \<in> set xs. x \<noteq> NaN \<Longrightarrow> z \<noteq> NaN \<Longrightarrow> x \<in> insert z (set xs) \<Longrightarrow> x \<le> foldl math_Max z xs"
proof (induction xs arbitrary: z x)
  case (Cons y ys)
  then have "x \<le> foldl math_Max (math_Max z y) ys" if "x \<in> insert (math_Max z y) (set ys)"
    using that by (simp add: math_Max_not_NaN)
  moreover have "math_Max z y \<le> foldl math_Max (math_Max z y) ys"
    using Cons by (simp add: math_Max_not_NaN)
  ultimately show ?case using Cons.prems math_Max_ge [of z y] f_le_trans by auto
qed simp

lemma cap_steps_not_NaN: "\<forall>x \<in> set (cap_steps v). x \<noteq> NaN"
  by (simp add: cap_steps_def)

lemma risk_steps_not_NaN: "wf_safety v \<Longrightarrow> \<forall>x \<in> set (risk_steps v). x \<noteq> NaN"
  by (simp add: risk_steps_def wf_safety_terms del: plus_f64.simps times_f64.simps)

lemma safe_ratio_le_step: "x \<in> set (cap_steps v) \<Longrightarrow> Fin 0 \<le> x \<Longrightarrow> computeSafeMaxSpotRatio v \<le> x"
  using foldl_Min_le [OF cap_steps_not_NaN, of "Fin 1" x] foldl_Min_le [OF cap_steps_not_NaN, of "Fin 1" "Fin 1" v]
  by (auto simp: computeSafeMaxSpotRatio_steps clampUnit_def dest: f_less_not_le)

lemma risk_ge_step:
  assumes "wf_safety v" "x \<in> set (risk_steps v)" "x \<le> Fin 1"
  shows "x \<le> computeRecoveryBudgetViolationRisk v"
proof -
  have "x \<le> foldl math_Max (Fin 0) (risk_steps v)" "Fin 0 \<le> foldl math_Max (Fin 0) (risk_steps v)"
    using foldl_Max_ge [OF risk_steps_not_NaN [OF assms(1)], of "Fin 0"] assms(2) by simp_all
  with assms(3) show ?thesis
    by (auto simp: computeRecoveryBudgetViolationRisk_steps [OF assms(1)] clampUnit_def dest: f_less_not_le intro: f_le_trans)
qed

lemma rolled_up_unit:
  "unit01 (computeSafeMaxSpotRatio v)" "wf_safety v \<Longrightarrow> unit01 (computeRecoveryBudgetViolationRisk v)"
proof -
  show "unit01 (computeSafeMaxSpotRatio v)"
    using foldl_Min_le [OF cap_steps_not_NaN, of "Fin 1" "Fin 1" v]
    by (auto simp: computeSafeMaxSpotRatio_steps intro!: unit01_clampUnit)
  show "wf_safety v \<Longrightarrow> unit01 (computeRecoveryBudgetViolationRisk v)"
    using foldl_Max_ge [OF risk_steps_not_NaN, of v "Fin 0" "Fin 0"]
    by (auto simp: computeRecoveryBudgetViolationRisk_steps intro!: unit01_clampUnit)
qed

section \<open>What the accumulators count\<close>

text \<open>An invariant of every accumulator, from its three ways to arise.\<close>

locale node_invariant =
  fixes I :: "poolAccumulator \<Rightarrow> bool"
  assumes new: "I new_accumulator"
    and spot: "I acc \<Longrightarrow> I (acc\<lparr>utilizationKey := u, groupKey := g, spotNodes := spotNodes acc + 1\<rparr>)"
    and od: "I acc \<Longrightarrow> I (acc\<lparr>utilizationKey := u, groupKey := g, odNodes := odNodes acc + 1\<rparr>)"
begin

definition all_ok :: "(string \<rightharpoonup> poolAccumulator) \<Rightarrow> bool" where
  "all_ok stats \<longleftrightarrow> (\<forall>p acc. stats p = Some acc \<longrightarrow> I acc)"

lemma acc_of_ok: "all_ok stats \<Longrightarrow> I (acc_of stats p)"
  using new by (auto simp: all_ok_def acc_of_def split: option.splits)

lemma upd_ok: "all_ok stats \<Longrightarrow> I acc \<Longrightarrow> all_ok (stats(p \<mapsto> acc))"
  by (auto simp: all_ok_def)

lemma node_in_pool_ok: "all_ok (np_poolStats st) \<Longrightarrow> all_ok (np_poolStats (node_in_pool node st p))"
  using acc_of_ok [of "np_poolStats st" p] by (simp add: node_in_pool_def Let_def upd_ok spot od)

lemma pass_nodes_ok: "all_ok (np_poolStats (pass_nodes nodes))"
proof -
  have inner: "all_ok (np_poolStats st) \<Longrightarrow> all_ok (np_poolStats (foldl (node_in_pool node) st ps))" for st node ps
    by (induction ps arbitrary: st) (simp_all add: node_in_pool_ok)
  have "all_ok (np_poolStats st) \<Longrightarrow> all_ok (np_poolStats (foldl pass_node st ns))" for st ns
    by (induction ns arbitrary: st) (simp_all add: pass_node_def inner)
  moreover have "all_ok Map.empty" by (simp add: all_ok_def)
  ultimately show ?thesis by (simp add: pass_nodes_def)
qed

end

locale acc_invariant = node_invariant +
  assumes pod: "I acc \<Longrightarrow> I (pod_in_pool f s n acc)"
begin

lemma pass_pod_ok:
  assumes "all_ok stats"
  shows "all_ok (pass_pod facts st stats pod)"
proof -
  have "all_ok stats \<Longrightarrow> all_ok (foldl (\<lambda>stats poolID. stats(poolID \<mapsto> pod_in_pool (facts pod)
      (np_nodeIsSpot st (wp_NodeName pod) = Some True) (wp_NodeName pod) (acc_of stats poolID))) stats ps)" for stats ps
    by (induction ps arbitrary: stats) (simp_all add: upd_ok pod acc_of_ok)
  with assms show ?thesis by (simp add: pass_pod_def split: option.splits)
qed

lemma poolStats_ok: "all_ok (poolStats_of Q w nodes pods)"
proof -
  have "all_ok stats \<Longrightarrow> all_ok (foldl (pass_pod (facts_of_pod scan pdbs rs) st) stats pods)" for stats scan pdbs rs st
    by (induction pods arbitrary: stats) (simp_all add: pass_pod_ok)
  then show ?thesis by (simp add: poolStats_of_def Let_def pass_nodes_ok)
qed

end

text \<open>The counters of pods are ordered as their meanings say.\<close>

definition counts_ok :: "poolAccumulator \<Rightarrow> bool" where
  "counts_ok acc \<longleftrightarrow> 0 \<le> criticalOnSpot acc \<and> criticalOnSpot acc \<le> criticalPods acc \<and>
     criticalPods acc \<le> workloadPods acc \<and> 0 \<le> statefulPods acc \<and> statefulPods acc \<le> workloadPods acc \<and>
     0 \<le> evictablePods acc \<and> evictablePods acc \<le> workloadPods acc \<and> 0 \<le> spotNodes acc \<and> 0 \<le> odNodes acc"

lemma pod_in_pool_fields [simp]:
  "workloadPods (pod_in_pool f s n acc) = workloadPods acc + (if pf_workloadRelevant f then 1 else 0)"
  "statefulPods (pod_in_pool f s n acc) = statefulPods acc + (if pf_workloadRelevant f \<and> pf_isStateful f then 1 else 0)"
  "evictablePods (pod_in_pool f s n acc) = evictablePods acc + (if pf_workloadRelevant f \<and> pf_evictable f then 1 else 0)"
  "criticalPods (pod_in_pool f s n acc) = criticalPods acc + (if pf_workloadRelevant f \<and> pf_isCritical f then 1 else 0)"
  "criticalOnSpot (pod_in_pool f s n acc) =
     criticalOnSpot acc + (if pf_workloadRelevant f \<and> pf_isCritical f \<and> s then 1 else 0)"
  "spotNodes (pod_in_pool f s n acc) = spotNodes acc" "odNodes (pod_in_pool f s n acc) = odNodes acc"
  "pdbNodeCounts (pod_in_pool f s n acc) = (case pf_matchedPDB f of None \<Rightarrow> pdbNodeCounts acc
     | Some pdb \<Rightarrow> alist_upd (cp_key pdb) (alist_upd n (\<lambda>m. m + 1) 0) [] (pdbNodeCounts acc))"
  "pdbSlack (pod_in_pool f s n acc) = (case pf_matchedPDB f of None \<Rightarrow> pdbSlack acc
     | Some pdb \<Rightarrow> (pdbSlack acc)(cp_key pdb \<mapsto> cp_disruptionsAllowed pdb))"
  by (cases "pf_matchedPDB f"; simp add: pod_in_pool_def Let_def)+

interpretation counts: acc_invariant counts_ok
  by unfold_locales (auto simp: counts_ok_def new_accumulator_def)

text \<open>After the nodes and before the pods, nothing has been counted.\<close>

definition no_pods :: "poolAccumulator \<Rightarrow> bool" where
  "no_pods acc \<longleftrightarrow> workloadPods acc = 0 \<and> pdbNodeCounts acc = [] \<and> pdbSlack acc = Map.empty"

interpretation fresh: node_invariant no_pods
  by unfold_locales (auto simp: no_pods_def new_accumulator_def)

definition on_pool :: "node_pass \<Rightarrow> string \<Rightarrow> WorkloadPod \<Rightarrow> bool" where
  "on_pool st p pod \<longleftrightarrow> wp_NodeName pod \<noteq> [] \<and>
     (case np_nodeToPools st (wp_NodeName pod) of None \<Rightarrow> False | Some ps \<Rightarrow> p \<in> set ps)"

definition count_pod :: "(WorkloadPod \<Rightarrow> pod_facts) \<Rightarrow> node_pass \<Rightarrow> poolAccumulator \<Rightarrow> WorkloadPod \<Rightarrow> poolAccumulator" where
  "count_pod facts st acc pod =
     pod_in_pool (facts pod) (np_nodeIsSpot st (wp_NodeName pod) = Some True) (wp_NodeName pod) acc"

lemma foldl_pool_upd:
  "distinct ps \<Longrightarrow> acc_of (foldl (\<lambda>s q. s(q \<mapsto> g (acc_of s q))) stats ps) p =
     (if p \<in> set ps then g (acc_of stats p) else acc_of stats p)"
proof (induction ps arbitrary: stats)
  case (Cons q ps)
  have "acc_of (stats(q \<mapsto> a)) p = (if p = q then a else acc_of stats p)" for a
    by (simp add: acc_of_def)
  with Cons show ?case by (simp del: fun_upd_apply) auto
qed simp

lemma pass_pod_acc:
  assumes "\<And>n ps. np_nodeToPools st n = Some ps \<Longrightarrow> distinct ps"
  shows "acc_of (pass_pod facts st stats pod) p =
     (if on_pool st p pod then count_pod facts st (acc_of stats p) pod else acc_of stats p)"
  using assms foldl_pool_upd
  by (auto simp: pass_pod_def on_pool_def count_pod_def split: option.splits)

lemma pass_pods_acc:
  assumes "\<And>n ps. np_nodeToPools st n = Some ps \<Longrightarrow> distinct ps"
  shows "acc_of (foldl (pass_pod facts st) stats pods) p =
     foldl (count_pod facts st) (acc_of stats p) (filter (on_pool st p) pods)"
  by (induction pods arbitrary: stats) (simp_all add: pass_pod_acc [OF assms])

lemma distinct_pool_keys: "distinct (pool_keys node)"
  by (simp add: pool_keys_def)

lemma np_nodeToPools_foldl [simp]: "np_nodeToPools (foldl (node_in_pool node) st ps) = np_nodeToPools st"
  by (induction ps arbitrary: st) (simp_all add: node_in_pool_def Let_def)

lemma nodeToPools_foldl:
  "np_nodeToPools (foldl pass_node st nodes) n =
     (case find (\<lambda>node. node_Name node = n) (rev nodes) of Some node \<Rightarrow> Some (pool_keys node) | None \<Rightarrow> np_nodeToPools st n)"
proof (induction nodes rule: rev_induct)
  case (snoc node nodes)
  have "np_nodeToPools (pass_node s node) n = (if node_Name node = n then Some (pool_keys node) else np_nodeToPools s n)" for s
    by (simp add: pass_node_def)
  with snoc show ?case by simp
qed simp

lemma find_rev_in: "find P (rev xs) = Some x \<Longrightarrow> x \<in> set xs \<and> P x"
  by (metis find_Some_iff length_rev nth_mem set_rev)

lemma nodeToPools_Some: "np_nodeToPools (pass_nodes nodes) n = Some ps \<Longrightarrow> \<exists>node \<in> set nodes. node_Name node = n \<and> ps = pool_keys node"
  by (auto simp: pass_nodes_def nodeToPools_foldl split: option.splits dest!: find_rev_in)

lemma nodeToPools_distinct:
  assumes "distinct (map node_Name nodes)" "node \<in> set nodes"
  shows "np_nodeToPools (pass_nodes nodes) (node_Name node) = Some (pool_keys node)"
proof -
  obtain node' where "find (\<lambda>x. node_Name x = node_Name node) (rev nodes) = Some node'"
    using assms(2) by (cases "find (\<lambda>x. node_Name x = node_Name node) (rev nodes)") (auto simp: find_None_iff)
  moreover then have "node' \<in> set nodes" "node_Name node' = node_Name node"
    using find_rev_in by fastforce+
  then have "node' = node" using assms by (metis distinct_map inj_onD)
  ultimately show ?thesis by (simp add: pass_nodes_def nodeToPools_foldl)
qed

text \<open>The table of budgets and nodes: one entry per key, positive counts, a slack for every budget in it.\<close>

definition budgets_ok :: "poolAccumulator \<Rightarrow> bool" where
  "budgets_ok acc \<longleftrightarrow> distinct (map fst (pdbNodeCounts acc)) \<and>
     dom (pdbSlack acc) = fst ` set (pdbNodeCounts acc) \<and>
     (\<forall>k cs. map_of (pdbNodeCounts acc) k = Some cs \<longrightarrow> distinct (map fst cs) \<and> (\<forall>n c. map_of cs n = Some c \<longrightarrow> 0 < c))"

definition good_counts :: "(string \<times> int) list \<Rightarrow> bool" where
  "good_counts cs \<longleftrightarrow> distinct (map fst cs) \<and> (\<forall>n c. map_of cs n = Some c \<longrightarrow> 0 < c)"

lemma good_counts_bump:
  assumes "good_counts cs"
  shows "good_counts (alist_upd n (\<lambda>m. m + 1) 0 cs)"
proof -
  have "0 < c" if "map_of (alist_upd n (\<lambda>m. m + 1) 0 cs) n' = Some c" for n' c
  proof (cases "n' = n")
    case True
    with that assms show ?thesis
      unfolding map_of_alist_upd good_counts_def by (cases "map_of cs n") fastforce+
  next
    case False
    with that assms show ?thesis unfolding map_of_alist_upd good_counts_def by auto
  qed
  with assms show ?thesis by (simp only: good_counts_def) (blast intro: distinct_alist_upd)
qed

lemma budgets_ok_pod:
  assumes "budgets_ok acc"
  shows "budgets_ok (pod_in_pool f s n acc)"
proof (cases "pf_matchedPDB f")
  case None
  with assms show ?thesis by (simp add: budgets_ok_def)
next
  case (Some pdb)
  let ?t = "alist_upd (cp_key pdb) (alist_upd n (\<lambda>m. m + 1) 0) [] (pdbNodeCounts acc)"
  have "good_counts cs" if "map_of ?t k = Some cs" for k cs
  proof (cases "k = cp_key pdb")
    case True
    have "good_counts (case map_of (pdbNodeCounts acc) k of None \<Rightarrow> [] | Some cs \<Rightarrow> cs)"
      using assms by (cases "map_of (pdbNodeCounts acc) k") (simp_all only: budgets_ok_def good_counts_def, auto)
    with that True show ?thesis unfolding map_of_alist_upd by (auto intro: good_counts_bump)
  next
    case False
    with that assms show ?thesis unfolding map_of_alist_upd budgets_ok_def good_counts_def by auto
  qed
  then show ?thesis
    using assms Some unfolding budgets_ok_def good_counts_def
    by (simp only: pod_in_pool_fields option.case dom_fun_upd option.distinct if_False set_fst_alist_upd distinct_alist_upd)
      (blast intro: distinct_alist_upd)
qed

interpretation budgets: acc_invariant budgets_ok
  by unfold_locales (auto simp: budgets_ok_pod, simp_all add: budgets_ok_def new_accumulator_def)

definition pdb_count :: "poolAccumulator \<Rightarrow> string \<Rightarrow> string \<Rightarrow> int" where
  "pdb_count acc k n = (case map_of (pdbNodeCounts acc) k of None \<Rightarrow> 0
     | Some cs \<Rightarrow> (case map_of cs n of None \<Rightarrow> 0 | Some c \<Rightarrow> c))"

definition under_budget :: "(WorkloadPod \<Rightarrow> pod_facts) \<Rightarrow> string \<Rightarrow> string \<Rightarrow> WorkloadPod \<Rightarrow> bool" where
  "under_budget facts k n pod \<longleftrightarrow> wp_NodeName pod = n \<and>
     (case pf_matchedPDB (facts pod) of None \<Rightarrow> False | Some pdb \<Rightarrow> cp_key pdb = k)"

lemma pdb_count_pod:
  "pdb_count (count_pod facts st acc pod) k n = pdb_count acc k n + (if under_budget facts k n pod then 1 else 0)"
  by (auto simp: pdb_count_def under_budget_def count_pod_def map_of_alist_upd split: option.splits)

lemma pdb_count_pods:
  "pdb_count (foldl (count_pod facts st) acc pods) k n =
     pdb_count acc k n + int (length (filter (under_budget facts k n) pods))"
  by (induction pods arbitrary: acc) (simp_all add: pdb_count_pod)

lemma workloadPods_pods:
  "workloadPods (foldl (count_pod facts st) acc pods) =
     workloadPods acc + int (length (filter (\<lambda>pod. pf_workloadRelevant (facts pod)) pods))"
  by (induction pods arbitrary: acc) (simp_all add: count_pod_def)

abbreviation pdb_key :: "WorkloadPDB \<Rightarrow> string" where
  "pdb_key b \<equiv> wb_Namespace b @ ''/'' @ wb_Name b"

lemma matchPDB_in: "matchPDBForPod pod L = Some pdb \<Longrightarrow> pdb \<in> set L \<and> \<not> cp_empty pdb \<and> cp_Matches pdb (wp_Labels pod)"
  by (induction L) (auto split: if_splits)

lemma compiled_in:
  "pdb \<in> set (compiled_pdbs pdbs ns) \<Longrightarrow>
     \<exists>b \<in> set pdbs. cp_key pdb = pdb_key b \<and> cp_disruptionsAllowed pdb = wb_DisruptionsAllowed b"
  by (force simp: compiled_pdbs_def split: option.splits)

lemma pdbSlack_pods:
  assumes "pdbSlack (foldl (count_pod (facts_of_pod scan pdbs rs) st) acc pods) k = Some a"
    and "\<And>a. pdbSlack acc k = Some a \<Longrightarrow> \<exists>b \<in> set pdbs. pdb_key b = k \<and> wb_DisruptionsAllowed b = a"
  shows "\<exists>b \<in> set pdbs. pdb_key b = k \<and> wb_DisruptionsAllowed b = a"
  using assms
proof (induction pods arbitrary: acc)
  case (Cons pod pods)
  have "\<exists>b \<in> set pdbs. pdb_key b = k \<and> wb_DisruptionsAllowed b = a'"
    if "pdbSlack (count_pod (facts_of_pod scan pdbs rs) st acc pod) k = Some a'" for a'
    using that Cons.prems(2) compiled_in [OF conjunct1 [OF matchPDB_in]]
    by (fastforce simp: count_pod_def facts_of_pod_def Let_def split: option.splits if_splits)
  with Cons show ?case by simp
qed simp

lemma budgets_wf:
  assumes "budgets_ok acc" and "\<And>k n. pdb_count acc k n \<le> N" and "2 * N \<le> 2 ^ 52" and "0 \<le> N"
    and "\<And>k a. pdbSlack acc k = Some a \<Longrightarrow> \<bar>a\<bar> \<le> 2 ^ 31"
  shows "wf_pdb_counts acc"
proof -
  have "distinct (map fst cs) \<and> (\<forall>p \<in> set cs. 0 \<le> snd p) \<and> Max (pair_losses cs) \<le> 2 ^ 52"
    if "(k, cs) \<in> set (pdbNodeCounts acc)" for k cs
  proof -
    have k: "map_of (pdbNodeCounts acc) k = Some cs" using assms(1) that by (simp add: budgets_ok_def)
    then have d: "distinct (map fst cs)" using assms(1) by (simp add: budgets_ok_def)
    have c: "0 \<le> c \<and> c \<le> N" if "(n, c) \<in> set cs" for n c
    proof -
      have m: "map_of cs n = Some c" using d that by simp
      then have "0 < c" using assms(1) k by (auto simp: budgets_ok_def)
      moreover have "c \<le> N" using assms(2) [of k n] k m by (simp add: pdb_count_def)
      ultimately show ?thesis by simp
    qed
    have c': "snd p \<le> N" if "p \<in> set cs" for p using that c [of "fst p" "snd p"] by simp
    have "z \<le> 2 * N" if "z \<in> pair_losses cs" for z
      using that assms(4) unfolding pair_losses_def node_losses_def
      by (elim UnE insertE imageE CollectE exE conjE) (use c' in \<open>fastforce dest: c'\<close>)+
    then have "Max (pair_losses cs) \<le> 2 * N"
      using losses_subset [of cs] by (intro Max.boundedI) auto
    then show ?thesis using d c assms(3) by fastforce
  qed
  then show ?thesis using assms(1,5) by (auto simp: wf_pdb_counts_def budgets_ok_def)
qed

lemma dom_node_pools: "dom (np_poolStats (foldl (node_in_pool node) st ps)) = dom (np_poolStats st) \<union> set ps"
  by (induction ps arbitrary: st) (auto simp: node_in_pool_def Let_def split: if_splits)

lemma dom_pass_nodes: "dom (np_poolStats (pass_nodes nodes)) = (\<Union>node \<in> set nodes. set (pool_keys node))"
proof -
  have "dom (np_poolStats (foldl pass_node st ns)) = dom (np_poolStats st) \<union> (\<Union>node \<in> set ns. set (pool_keys node))" for st ns
    by (induction ns arbitrary: st) (auto simp: pass_node_def dom_node_pools)
  then show ?thesis by (simp add: pass_nodes_def)
qed

lemma dom_pass_pod:
  assumes "\<And>n ps. np_nodeToPools st n = Some ps \<Longrightarrow> set ps \<subseteq> dom stats"
  shows "dom (pass_pod facts st stats pod) = dom stats"
proof -
  have "dom (foldl (\<lambda>s q. s(q \<mapsto> g s q)) stats ps) = dom stats \<union> set ps" for g ps
    by (induction ps arbitrary: stats) auto
  with assms show ?thesis by (auto simp: pass_pod_def split: option.splits)
qed

lemma dom_poolStats: "dom (poolStats_of Q w nodes pods) = (\<Union>node \<in> set nodes. set (pool_keys node))"
proof -
  let ?st = "pass_nodes nodes"
  have "dom (foldl (pass_pod facts ?st) stats pods) = dom stats" if "dom stats = dom (np_poolStats ?st)" for facts stats
    using that
  proof (induction pods arbitrary: stats)
    case (Cons pod pods)
    have "set ps \<subseteq> dom stats" if "np_nodeToPools ?st n = Some ps" for n ps
      using nodeToPools_Some [OF that] Cons.prems dom_pass_nodes by auto
    then have "dom (pass_pod facts ?st stats pod) = dom stats" by (rule dom_pass_pod)
    with Cons show ?case by simp
  qed simp
  then show ?thesis by (simp add: poolStats_of_def Let_def dom_pass_nodes)
qed

text \<open>The accumulator of a pool is the fold of the pods on its nodes.\<close>

definition listed :: "(api_error + 'a list) \<Rightarrow> 'a list" where
  "listed r = (case r of Inl _ \<Rightarrow> [] | Inr xs \<Rightarrow> xs)"

lemma poolStats_acc:
  "\<exists>rs. acc_of (poolStats_of Q w nodes pods) p =
     foldl (count_pod (facts_of_pod (q_Sscanf_f Q) (listed (q_listPDBs Q w)) rs) (pass_nodes nodes))
       (acc_of (np_poolStats (pass_nodes nodes)) p) (filter (on_pool (pass_nodes nodes) p) pods)"
proof -
  have "acc_of (foldl (pass_pod facts (pass_nodes nodes)) stats pods) p =
      foldl (count_pod facts (pass_nodes nodes)) (acc_of stats p) (filter (on_pool (pass_nodes nodes) p) pods)" for facts stats
    by (rule pass_pods_acc) (use nodeToPools_Some distinct_pool_keys in blast)
  then show ?thesis unfolding poolStats_of_def Let_def listed_def by blast
qed

lemma unit01_fraction: "0 \<le> a \<Longrightarrow> a \<le> b \<Longrightarrow> 0 < b \<Longrightarrow> b \<le> 2 ^ 53 \<Longrightarrow> unit01 (f64_of_int a / f64_of_int b)"
  using fdiv_unit [of "of_int a" "of_int b"] by (auto simp: f64_of_int_exact unit01_Fin)

lemma pool_safety_rolled_up:
  assumes "counts_ok acc" and "0 < workloadPods acc" and "workloadPods acc \<le> 2 ^ 53"
  obtains v where "wf_safety v"
    and "MinPDBSlackIfOneNodeLost v = fst (computePDBSlackBounds acc)"
    and "MinPDBSlackIfTwoNodesLost v = snd (computePDBSlackBounds acc)"
    and "MinPDBSlackIfOneNodeLost (computePoolSafetyVector acc util zones p95) = MinPDBSlackIfOneNodeLost v"
    and "RecoveryBudgetViolationRisk (computePoolSafetyVector acc util zones p95) = computeRecoveryBudgetViolationRisk v"
    and "SafeMaxSpotRatio (computePoolSafetyVector acc util zones p95) =
           computeSafeMaxSpotRatio (v\<lparr>RecoveryBudgetViolationRisk := computeRecoveryBudgetViolationRisk v\<rparr>)"
proof -
  define v where "v = DefaultPoolSafetyVector\<lparr>
      RestartP95Seconds := p95,
      SpareODHeadroomNodes := math_Max (Fin 0) (f64_of_int (odNodes acc) * (Fin 1 - clampUnit util)),
      ZoneDiversificationScore := computeZoneDiversificationScore zones,
      CriticalServiceSpotConcentration :=
        (if criticalPods acc > 0 then f64_of_int (criticalOnSpot acc) / f64_of_int (criticalPods acc) else Fin 0),
      StatefulPodFraction := f64_of_int (statefulPods acc) / f64_of_int (workloadPods acc),
      EvictablePodFraction := f64_of_int (evictablePods acc) / f64_of_int (workloadPods acc),
      MinPDBSlackIfOneNodeLost := fst (computePDBSlackBounds acc),
      MinPDBSlackIfTwoNodesLost := snd (computePDBSlackBounds acc)\<rparr>"
  have wf: "wf_safety v"
    using assms by (auto simp: wf_safety_def v_def counts_ok_def computeZoneDiversificationScore_def unit01_def [of "Fin _"]
        intro!: unit01_fraction)
  have e: "computePoolSafetyVector acc util zones p95 = NormalizePoolSafetyVector
      ((v\<lparr>RecoveryBudgetViolationRisk := computeRecoveryBudgetViolationRisk v\<rparr>)
        \<lparr>SafeMaxSpotRatio := computeSafeMaxSpotRatio (v\<lparr>RecoveryBudgetViolationRisk := computeRecoveryBudgetViolationRisk v\<rparr>)\<rparr>)"
    using assms(2) by (simp add: computePoolSafetyVector_def Let_def v_def DefaultPoolSafetyVector_def case_prod_beta)
  have s: "MinPDBSlackIfOneNodeLost v = fst (computePDBSlackBounds acc)"
      "MinPDBSlackIfTwoNodesLost v = snd (computePDBSlackBounds acc)"
    by (simp_all add: v_def)
  show thesis
    by (rule that [OF wf s]) (simp_all add: e NormalizePoolSafetyVector_def rolled_up_unit(1) rolled_up_unit(2) [OF wf]
        unit01_clamp_id)
qed

text \<open>
  C16 (equivalence). The two slack values are the declarative ones: over all budgets with pods in
  the pool, the least of the allowed disruptions minus the most that the loss of one node, or of
  any two nodes, takes away. The order in which budgets and nodes are visited does not matter.
\<close>

theorem computePDBSlackBounds_worst:
  assumes "wf_pdb_counts acc" and "pdbNodeCounts acc \<noteq> []"
  shows "computePDBSlackBounds acc =
           (Fin (of_int (Min (set (slacks node_losses acc)))), Fin (of_int (Min (set (slacks pair_losses acc)))))"
  using assms by (rule computePDBSlackBounds_eq)

text \<open>
  The pool-safety roll-up is monotone: a pool that is at least as exposed in every
  signal gets at least the recovery risk and at most the safe Spot ratio of the other one. Both
  results lie in the unit interval.
\<close>

theorem pool_safety_monotone:
  assumes "wf_safety v" and "wf_safety u" and "no_more_exposed v u"
  shows "computeRecoveryBudgetViolationRisk v \<le> computeRecoveryBudgetViolationRisk u \<and>
         computeSafeMaxSpotRatio (u\<lparr>RecoveryBudgetViolationRisk := computeRecoveryBudgetViolationRisk u\<rparr>)
           \<le> computeSafeMaxSpotRatio (v\<lparr>RecoveryBudgetViolationRisk := computeRecoveryBudgetViolationRisk v\<rparr>) \<and>
         unit01 (computeRecoveryBudgetViolationRisk v) \<and> unit01 (computeSafeMaxSpotRatio v)"
proof -
  have r: "computeRecoveryBudgetViolationRisk v \<le> computeRecoveryBudgetViolationRisk u"
    unfolding computeRecoveryBudgetViolationRisk_steps [OF assms(1)] computeRecoveryBudgetViolationRisk_steps [OF assms(2)]
    by (intro clampUnit_mono foldl_Max_mono risk_steps_mono assms) simp
  then have "computeSafeMaxSpotRatio (u\<lparr>RecoveryBudgetViolationRisk := computeRecoveryBudgetViolationRisk u\<rparr>)
      \<le> computeSafeMaxSpotRatio (v\<lparr>RecoveryBudgetViolationRisk := computeRecoveryBudgetViolationRisk v\<rparr>)"
    unfolding computeSafeMaxSpotRatio_steps
    by (intro clampUnit_mono foldl_Min_mono cap_steps_antimono) (use assms(3) in \<open>simp_all add: no_more_exposed_def\<close>)
  with r show ?thesis using rolled_up_unit assms(1) by blast
qed

lemma collected_acc:
  assumes "q_listPDBs Q w = Inr pdbs" and "int (length pods) \<le> 2 ^ 50"
    and "\<forall>b \<in> set pdbs. 0 \<le> wb_DisruptionsAllowed b \<and> wb_DisruptionsAllowed b \<le> 2 ^ 31"
  shows "wf_pdb_counts (acc_of (poolStats_of Q w nodes pods) p)"
    and "\<exists>rs. let acc = acc_of (poolStats_of Q w nodes pods) p; facts = facts_of_pod (q_Sscanf_f Q) pdbs rs;
             here = filter (on_pool (pass_nodes nodes) p) pods
         in (\<forall>k n. pdb_count acc k n = int (length (filter (under_budget facts k n) here))) \<and>
            workloadPods acc = int (length (filter isWorkloadPod here)) \<and>
            (\<forall>k a. pdbSlack acc k = Some a \<longrightarrow> (\<exists>b \<in> set pdbs. pdb_key b = k \<and> wb_DisruptionsAllowed b = a))"
proof -
  let ?acc = "acc_of (poolStats_of Q w nodes pods) p" and ?here = "filter (on_pool (pass_nodes nodes) p) pods"
  have l: "listed (q_listPDBs Q w) = pdbs" using assms(1) by (simp add: listed_def)
  obtain rs where rs: "?acc = foldl (count_pod (facts_of_pod (q_Sscanf_f Q) pdbs rs) (pass_nodes nodes))
      (acc_of (np_poolStats (pass_nodes nodes)) p) ?here"
    using poolStats_acc [of Q w nodes pods p] unfolding l by blast
  have np: "no_pods (acc_of (np_poolStats (pass_nodes nodes)) p)"
    by (intro fresh.acc_of_ok fresh.pass_nodes_ok)
  have c: "pdb_count ?acc k n = int (length (filter (under_budget (facts_of_pod (q_Sscanf_f Q) pdbs rs) k n) ?here))" for k n
    using np by (simp add: rs pdb_count_pods) (simp add: pdb_count_def no_pods_def)
  have w: "workloadPods ?acc = int (length (filter isWorkloadPod ?here))"
    using np by (simp add: rs workloadPods_pods no_pods_def facts_of_pod_def Let_def)
  have s: "\<exists>b \<in> set pdbs. pdb_key b = k \<and> wb_DisruptionsAllowed b = a" if "pdbSlack ?acc k = Some a" for k a
    by (rule pdbSlack_pods [OF that [unfolded rs]]) (use np in \<open>simp add: no_pods_def\<close>)
  show "\<exists>rs. let acc = ?acc; facts = facts_of_pod (q_Sscanf_f Q) pdbs rs; here = ?here
         in (\<forall>k n. pdb_count acc k n = int (length (filter (under_budget facts k n) here))) \<and>
            workloadPods acc = int (length (filter isWorkloadPod here)) \<and>
            (\<forall>k a. pdbSlack acc k = Some a \<longrightarrow> (\<exists>b \<in> set pdbs. pdb_key b = k \<and> wb_DisruptionsAllowed b = a))"
    using c w s by (auto simp: Let_def)
  show "wf_pdb_counts ?acc"
  proof (rule budgets_wf)
    show "budgets_ok ?acc" by (intro budgets.acc_of_ok budgets.poolStats_ok)
    show "pdb_count ?acc k n \<le> int (length pods)" for k n
      unfolding c using length_filter_le [of _ ?here] length_filter_le [of _ pods] by (meson le_trans of_nat_mono)
    show "\<bar>a\<bar> \<le> 2 ^ 31" if "pdbSlack ?acc k = Some a" for k a
      using s [OF that] assms(3) by auto
  qed (use assms(2) in simp_all)
qed

definition guarded_on :: "WorkloadPDB list \<Rightarrow> WorkloadPDB \<Rightarrow> string \<Rightarrow> WorkloadPod \<Rightarrow> bool" where
  "guarded_on pdbs b n pod \<longleftrightarrow> wp_NodeName pod = n \<and>
     (case matchPDBForPod pod (compiled_pdbs pdbs (wp_Namespace pod)) of None \<Rightarrow> False | Some pdb \<Rightarrow> cp_key pdb = pdb_key b)"

lemma filter_on_node:
  assumes "distinct (map node_Name nodes)" "node \<in> set nodes" "node_Name node \<noteq> []" "p \<in> set (pool_keys node)"
    and "\<And>pod. P pod \<Longrightarrow> wp_NodeName pod = node_Name node"
  shows "filter P (filter (on_pool (pass_nodes nodes) p) pods) = filter P pods"
proof -
  have "on_pool (pass_nodes nodes) p pod" if "P pod" for pod
    using assms(5) [OF that] nodeToPools_distinct [OF assms(1,2)] assms(3,4) by (simp add: on_pool_def)
  then show ?thesis by (simp add: conj_commute cong: conj_cong)
qed

lemma Collect_listed:
  assumes "q_listNodes Q w = Inr nodes" "q_listPods Q w = Inr pods"
    and "node \<in> set nodes" "p \<in> set (pool_keys node)"
  shows "\<exists>util zones p95 f. snd (Collect Q w F) p = Some f \<and>
     wf_PoolSafety f = computePoolSafetyVector (acc_of (poolStats_of Q w nodes pods) p) util zones p95"
proof -
  have "p \<in> dom (poolStats_of Q w nodes pods)" using assms(3,4) by (auto simp: dom_poolStats)
  then obtain acc where "poolStats_of Q w nodes pods p = Some acc" by blast
  with assms(1,2) show ?thesis
    by (auto simp: Collect_def acc_of_def finalize_pool_def Let_def)
qed

lemma exhausted_vector:
  assumes "wf_safety v" and "MinPDBSlackIfOneNodeLost v < Fin 0"
  shows "to_f64 (19 / 20) \<le> computeRecoveryBudgetViolationRisk v \<and>
         computeSafeMaxSpotRatio (v\<lparr>RecoveryBudgetViolationRisk := r\<rparr>) \<le> to_f64 (1 / 10)"
proof -
  have "to_f64 (19 / 20) \<in> set (risk_steps v)" using assms(2) by (simp add: risk_steps_def)
  moreover have "to_f64 (1 / 10) \<in> set (cap_steps (v\<lparr>RecoveryBudgetViolationRisk := r\<rparr>))"
    using assms(2) by (simp add: cap_steps_def)
  ultimately show ?thesis
    using risk_ge_step [OF assms(1)] safe_ratio_le_step by (simp add: f64_lit)
qed

lemma over_budget_slack:
  assumes "wf_pdb_counts acc" and "budgets_ok acc" and "0 \<le> allowed" and "allowed < pdb_count acc k n"
    and "k \<in> dom (pdbSlack acc) \<Longrightarrow> allowed_of (pdbSlack acc) k = allowed"
  shows "fst (computePDBSlackBounds acc) < Fin 0"
proof -
  obtain cs c where cs: "map_of (pdbNodeCounts acc) k = Some cs" "map_of cs n = Some c" "allowed < c"
    using assms(3,4) by (auto simp: pdb_count_def split: option.splits)
  note in_cs = map_of_SomeD [OF cs(1)] map_of_SomeD [OF cs(2)]
  have "k \<in> dom (pdbSlack acc)" using assms(2) in_cs(1) by (force simp: budgets_ok_def)
  note a = assms(5) [OF this]
  have "c \<in> node_losses cs" using in_cs(2) by (force simp: node_losses_def)
  then have m: "c \<le> Max (node_losses cs)" by simp
  have "Min (set (slacks node_losses acc)) \<le> allowed_of (pdbSlack acc) k - Max (node_losses cs)"
    using in_cs(1) by (intro Min_le) (force simp: slacks_def)+
  also have "\<dots> < 0" using m cs(3) a by simp
  finally show ?thesis using computePDBSlackBounds_eq [OF assms(1)] in_cs(1) by fastforce
qed

text \<open>
  C8 (safety). A budget that one node can break caps its pools: when more pods under one
  disruption budget run on a node than the budget allows to be disrupted, and the node runs any
  workload, then after a collection every pool of the node reports a negative one-node slack, a
  recovery risk of at least 0.95 and a safe Spot ratio of at most 0.10. Node names are unique, and
  so are the names of the budgets.
\<close>

theorem Collect_exhausted_budget:
  assumes "q_listNodes Q w = Inr nodes" and "q_listPods Q w = Inr pods" and "q_listPDBs Q w = Inr pdbs"
    and "distinct (map node_Name nodes)" and "inj_on pdb_key (set pdbs)"
    and "int (length pods) \<le> 2 ^ 50"
    and "\<forall>b \<in> set pdbs. 0 \<le> wb_DisruptionsAllowed b \<and> wb_DisruptionsAllowed b \<le> 2 ^ 31"
    and "node \<in> set nodes" and "node_Name node \<noteq> []" and "p \<in> set (pool_keys node)"
    and "b \<in> set pdbs"
    and over: "wb_DisruptionsAllowed b < int (length (filter (guarded_on pdbs b (node_Name node)) pods))"
    and "pod \<in> set pods" and "wp_NodeName pod = node_Name node" and "isWorkloadPod pod"
  shows "\<exists>f. snd (Collect Q w F) p = Some f \<and> MinPDBSlackIfOneNodeLost (wf_PoolSafety f) < Fin 0 \<and>
           to_f64 (19 / 20) \<le> RecoveryBudgetViolationRisk (wf_PoolSafety f) \<and>
           SafeMaxSpotRatio (wf_PoolSafety f) \<le> to_f64 (1 / 10)"
proof -
  let ?acc = "acc_of (poolStats_of Q w nodes pods) p" and ?n = "node_Name node"
  let ?here = "filter (on_pool (pass_nodes nodes) p) pods"
  note wf = collected_acc(1) [OF assms(3,6,7), of nodes p]
  obtain rs where rs: "\<And>k n. pdb_count ?acc k n = int (length (filter (under_budget (facts_of_pod (q_Sscanf_f Q) pdbs rs) k n) ?here))"
      "workloadPods ?acc = int (length (filter isWorkloadPod ?here))"
      "\<And>k a. pdbSlack ?acc k = Some a \<Longrightarrow> \<exists>b \<in> set pdbs. pdb_key b = k \<and> wb_DisruptionsAllowed b = a"
    using collected_acc(2) [OF assms(3,6,7), of nodes p] by (auto simp: Let_def)
  have on: "on_pool (pass_nodes nodes) p pod"
    using assms(9,10,14) nodeToPools_distinct [OF assms(4,8)] by (simp add: on_pool_def)
  have "length (filter isWorkloadPod ?here) \<le> length pods" by (meson le_trans length_filter_le)
  moreover have "(2::int) ^ 50 \<le> 2 ^ 53" by simp
  ultimately have pods: "workloadPods ?acc \<le> 2 ^ 53" using assms(6) unfolding rs(2) by linarith
  have some: "0 < workloadPods ?acc" using on assms(13,15) unfolding rs(2) by (auto simp: filter_empty_conv)
  have g: "under_budget (facts_of_pod (q_Sscanf_f Q) pdbs rs) (pdb_key b) ?n = guarded_on pdbs b ?n"
    by (auto simp: fun_eq_iff under_budget_def guarded_on_def facts_of_pod_def Let_def split: option.splits)
  have "filter (guarded_on pdbs b ?n) ?here = filter (guarded_on pdbs b ?n) pods"
    by (rule filter_on_node) (use assms(4,8,9,10) in \<open>auto simp: guarded_on_def\<close>)
  then have c: "wb_DisruptionsAllowed b < pdb_count ?acc (pdb_key b) ?n" using over rs(1) g by simp
  have "0 \<le> wb_DisruptionsAllowed b" using assms(7,11) by blast
  moreover have "allowed_of (pdbSlack ?acc) (pdb_key b) = wb_DisruptionsAllowed b"
    if "pdb_key b \<in> dom (pdbSlack ?acc)"
    using that rs(3) assms(5,11) by (fastforce simp: allowed_of_def dest: inj_onD)
  ultimately have "fst (computePDBSlackBounds ?acc) < Fin 0"
    by (rule over_budget_slack [OF wf budgets.acc_of_ok [OF budgets.poolStats_ok] _ c])
  moreover have "counts_ok ?acc" by (intro counts.acc_of_ok counts.poolStats_ok)
  ultimately show ?thesis
    using Collect_listed [OF assms(1,2,8,10), of F] pool_safety_rolled_up [of ?acc] exhausted_vector pods some by (metis (no_types))
qed

text \<open>
  A collection fails exactly when the nodes or the pods cannot be listed, and then
  keeps the features it had; otherwise it reports the pools of the listed nodes, whatever happens
  to the budgets, the replica sets and the utilisation.
\<close>

theorem Collect_outcome:
  "(case (q_listNodes Q w, q_listPods Q w) of
      (Inr nodes, Inr pods) \<Rightarrow> fst (Collect Q w F) = None \<and>
        dom (snd (Collect Q w F)) = (\<Union>node \<in> set nodes. set (pool_keys node))
    | (Inl e, _) \<Rightarrow> Collect Q w F = (Some e, F)
    | (_, Inl e) \<Rightarrow> Collect Q w F = (Some e, F))"
proof -
  have "dom (\<lambda>p. map_option f (m p)) = dom m" for f :: "poolAccumulator \<Rightarrow> WorkloadFeatures" and m :: "string \<rightharpoonup> poolAccumulator" by auto
  then show ?thesis by (simp add: Collect_def Let_def dom_poolStats split: sum.splits)
qed

section \<open>A cluster\<close>

definition pool_node :: Node where
  "pool_node = \<lparr>node_Name = ''n1'', node_Labels = [WorkloadPoolLabel \<mapsto> ''web''], node_Taints = [],
     node_Unschedulable = False, node_ProviderID = [], node_Addresses = [], node_Conditions = []\<rparr>"

definition web_pod :: WorkloadPod where
  "web_pod = \<lparr>wp_Namespace = ''shop'', wp_NodeName = ''n1'', wp_Labels = [''app'' \<mapsto> ''web''], wp_Annotations = Map.empty,
     wp_Owners = [(''ReplicaSet'', ''web'')], wp_PriorityClassName = [], wp_StartTime = None, wp_Conditions = [],
     wp_CPURequests = []\<rparr>"

definition web_budget :: WorkloadPDB where
  "web_budget = \<lparr>wb_Namespace = ''shop'', wb_Name = ''web'', wb_CurrentHealthy = 2, wb_DesiredHealthy = 1,
     wb_DisruptionsAllowed = 1, wb_Selector = Some (False, \<lambda>m. m ''app'' = Some ''web'')\<rparr>"

definition shop :: "unit collector_api" where
  "shop = \<lparr>q_listNodes = \<lambda>_. Inr [pool_node], q_listPods = \<lambda>_. Inr [web_pod, web_pod], q_listPDBs = \<lambda>_. Inr [web_budget],
     q_listReplicaSets = \<lambda>_. Inr [], q_GetPoolUtilization = None, q_Sscanf_f = \<lambda>_. None, q_sort_Slice = id\<rparr>"

lemmas shop_defs = shop_def web_budget_def web_pod_def pool_node_def

lemma web_guarded: "guarded_on [web_budget] web_budget ''n1'' web_pod"
  by (simp add: guarded_on_def shop_defs compiled_pdbs_def)

lemma web_keys: "pool_keys pool_node = [''unknown:unknown'', ''web:unknown:unknown'']"
  by (simp add: pool_keys_def GetNodePoolID_def GetExtendedPoolID_def pool_node_def or_unknown_def label_get_def
      LabelZone_def LabelInstanceType_def WorkloadPoolLabel_def)

theorem Collect_exhausted_budget_witness:
  "wb_DisruptionsAllowed web_budget < int (length (filter (guarded_on [web_budget] web_budget ''n1'') [web_pod, web_pod])) \<and>
   (\<exists>f. snd (Collect shop () Map.empty) ''web:unknown:unknown'' = Some f \<and>
      MinPDBSlackIfOneNodeLost (wf_PoolSafety f) < Fin 0 \<and>
      to_f64 (19 / 20) \<le> RecoveryBudgetViolationRisk (wf_PoolSafety f) \<and>
      SafeMaxSpotRatio (wf_PoolSafety f) \<le> to_f64 (1 / 10))"
proof
  show o: "wb_DisruptionsAllowed web_budget < int (length (filter (guarded_on [web_budget] web_budget ''n1'') [web_pod, web_pod]))"
    by (simp add: web_guarded) (simp add: web_budget_def)
  have n: "node_Name pool_node = ''n1''" by (simp add: pool_node_def)
  show "\<exists>f. snd (Collect shop () Map.empty) ''web:unknown:unknown'' = Some f \<and>
      MinPDBSlackIfOneNodeLost (wf_PoolSafety f) < Fin 0 \<and>
      to_f64 (19 / 20) \<le> RecoveryBudgetViolationRisk (wf_PoolSafety f) \<and>
      SafeMaxSpotRatio (wf_PoolSafety f) \<le> to_f64 (1 / 10)"
    by (rule Collect_exhausted_budget [where nodes = "[pool_node]" and pods = "[web_pod, web_pod]" and pdbs = "[web_budget]"
          and node = pool_node and b = web_budget and pod = web_pod])
      (use o n in \<open>simp_all add: web_keys\<close>, simp_all add: shop_defs isWorkloadPod_def)
qed

definition two_budgets :: poolAccumulator where
  "two_budgets = new_accumulator\<lparr>pdbNodeCounts := [(''a'', [(''n1'', 2), (''n2'', 1), (''n3'', 2)]), (''b'', [(''n1'', 1)])],
     pdbSlack := [''a'' \<mapsto> 3, ''b'' \<mapsto> 2]\<rparr>"

theorem computePDBSlackBounds_worst_witness:
  "wf_pdb_counts two_budgets \<and> pdbNodeCounts two_budgets \<noteq> [] \<and>
   computePDBSlackBounds two_budgets =
     (Fin (of_int (Min (set (slacks node_losses two_budgets)))), Fin (of_int (Min (set (slacks pair_losses two_budgets)))))"
proof -
  have p: "pair_losses [(''n1'', 2), (''n2'', 1), (''n3'', 2)] \<subseteq> {0, 1, 2, 3, 4}" "pair_losses [(''n1'', 1)] \<subseteq> {0, 1}"
    by (auto simp: pair_losses_def node_losses_def)
  have m: "Max (pair_losses cs) \<le> 4" if "pair_losses cs \<subseteq> {0, 1, 2, 3, 4}" for cs
    using that losses_subset [of cs] by (subst Max_le_iff) auto
  have "Max (pair_losses [(''n1'', 1)]) \<le> 4" using m p(2) by blast
  moreover have "wf_pdb_counts two_budgets" if "Max (pair_losses [(''n1'', 1)]) \<le> 4"
    using m [OF p(1)] that by (simp add: wf_pdb_counts_def two_budgets_def)
  moreover have "pdbNodeCounts two_budgets \<noteq> []" by (simp add: two_budgets_def)
  ultimately show ?thesis using computePDBSlackBounds_worst by blast
qed

theorem pool_safety_monotone_witness:
  "no_more_exposed DefaultPoolSafetyVector (DefaultPoolSafetyVector\<lparr>RestartP95Seconds := Fin 600\<rparr>) \<and>
   computeRecoveryBudgetViolationRisk DefaultPoolSafetyVector \<le>
     computeRecoveryBudgetViolationRisk (DefaultPoolSafetyVector\<lparr>RestartP95Seconds := Fin 600\<rparr>)"
proof -
  let ?v = DefaultPoolSafetyVector and ?u = "DefaultPoolSafetyVector\<lparr>RestartP95Seconds := Fin 600\<rparr>"
  have "wf_safety ?v" "wf_safety ?u" "no_more_exposed ?v ?u"
    by (simp_all add: wf_safety_def no_more_exposed_def DefaultPoolSafetyVector_def unit01_def)
  from pool_safety_monotone [OF this] this(3) show ?thesis by blast
qed

section \<open>Pools without budgets\<close>

lemma unmatched_counts:
  "\<forall>pod \<in> set pods. pf_matchedPDB (facts pod) = None \<Longrightarrow>
     pdbNodeCounts (foldl (count_pod facts st) acc pods) = pdbNodeCounts acc"
  by (induction pods arbitrary: acc) (simp_all add: count_pod_def)

lemma unbudgeted_vector:
  assumes "counts_ok acc" "0 < workloadPods acc" "workloadPods acc \<le> 2 ^ 53" "pdbNodeCounts acc = []"
  shows "to_f64 (7 / 10) \<le> RecoveryBudgetViolationRisk (computePoolSafetyVector acc util zones p95)"
    and "SafeMaxSpotRatio (computePoolSafetyVector acc util zones p95) \<le> to_f64 (7 / 20)"
    and "RecoveryBudgetViolationRisk (computePoolSafetyVector acc util zones p95) \<le> Fin 1"
proof -
  obtain v where v: "wf_safety v" "MinPDBSlackIfOneNodeLost v = Fin 0"
      "RecoveryBudgetViolationRisk (computePoolSafetyVector acc util zones p95) = computeRecoveryBudgetViolationRisk v"
      "SafeMaxSpotRatio (computePoolSafetyVector acc util zones p95) =
         computeSafeMaxSpotRatio (v\<lparr>RecoveryBudgetViolationRisk := computeRecoveryBudgetViolationRisk v\<rparr>)"
    using pool_safety_rolled_up [OF assms(1-3)] assms(4) by (metis computePDBSlackBounds_def fst_conv)
  have "to_f64 (7 / 10) \<in> set (risk_steps v)" using v(2) by (simp add: risk_steps_def)
  moreover have "to_f64 (7 / 20) \<in> set (cap_steps (v\<lparr>RecoveryBudgetViolationRisk := r\<rparr>))" for r
    using v(2) by (simp add: cap_steps_def)
  ultimately show "to_f64 (7 / 10) \<le> RecoveryBudgetViolationRisk (computePoolSafetyVector acc util zones p95)"
    "SafeMaxSpotRatio (computePoolSafetyVector acc util zones p95) \<le> to_f64 (7 / 20)"
    using risk_ge_step [OF v(1)] safe_ratio_le_step by (simp_all add: v(3,4) f64_lit)
  show "RecoveryBudgetViolationRisk (computePoolSafetyVector acc util zones p95) \<le> Fin 1"
    using rolled_up_unit(2) [OF v(1)] by (simp add: v(3) unit01_def)
qed

lemma Collect_unbudgeted:
  assumes "q_listNodes Q w = Inr nodes" and "q_listPods Q w = Inr pods"
    and "distinct (map node_Name nodes)" and "int (length pods) \<le> 2 ^ 50"
    and "node \<in> set nodes" "node_Name node \<noteq> []" "p \<in> set (pool_keys node)"
    and "\<forall>pod \<in> set pods. matchPDBForPod pod (compiled_pdbs (listed (q_listPDBs Q w)) (wp_Namespace pod)) = None"
    and "pod \<in> set pods" "wp_NodeName pod = node_Name node" "isWorkloadPod pod"
  shows "\<exists>f. snd (Collect Q w F) p = Some f \<and> to_f64 (7 / 10) \<le> RecoveryBudgetViolationRisk (wf_PoolSafety f) \<and>
           RecoveryBudgetViolationRisk (wf_PoolSafety f) \<le> Fin 1 \<and> SafeMaxSpotRatio (wf_PoolSafety f) \<le> to_f64 (7 / 20)"
proof -
  let ?acc = "acc_of (poolStats_of Q w nodes pods) p" and ?here = "filter (on_pool (pass_nodes nodes) p) pods"
  obtain rs where rs: "?acc = foldl (count_pod (facts_of_pod (q_Sscanf_f Q) (listed (q_listPDBs Q w)) rs) (pass_nodes nodes))
      (acc_of (np_poolStats (pass_nodes nodes)) p) ?here"
    using poolStats_acc [of Q w nodes pods p] by blast
  have np: "no_pods (acc_of (np_poolStats (pass_nodes nodes)) p)"
    by (intro fresh.acc_of_ok fresh.pass_nodes_ok)
  have "pdbNodeCounts ?acc = []"
    unfolding rs using np assms(8) by (subst unmatched_counts) (auto simp: facts_of_pod_def Let_def no_pods_def)
  moreover have w: "workloadPods ?acc = int (length (filter isWorkloadPod ?here))"
    unfolding rs using np by (simp add: workloadPods_pods no_pods_def facts_of_pod_def Let_def)
  have "on_pool (pass_nodes nodes) p pod"
    using assms(6,7,10) nodeToPools_distinct [OF assms(3,5)] by (simp add: on_pool_def)
  then have "0 < workloadPods ?acc" using assms(9,11) unfolding w by (auto simp: filter_empty_conv)
  moreover have "length (filter isWorkloadPod ?here) \<le> length pods" by (meson le_trans length_filter_le)
  then have "workloadPods ?acc \<le> 2 ^ 50" using assms(4) unfolding w by linarith
  then have "workloadPods ?acc \<le> 2 ^ 53" by (rule order_trans) simp
  ultimately show ?thesis
    using Collect_listed [OF assms(1,2,5,7), of F] unbudgeted_vector [OF counts.acc_of_ok [OF counts.poolStats_ok]]
    by (metis (no_types))
qed

end
