(* ===== verification/Features.thy ===== *)
theory Features
  imports Controller_State
begin

text \<open>
  internal/inference/features.go: the ring buffer of prices, the feature builder, and the two
  input tensors. A slice index out of range is \<open>None\<close>, Go's panic. Features are float32 values.
\<close>

section \<open>Square root\<close>

text \<open>
  \<open>math.Sqrt\<close> is correctly rounded. The root is cut two bits below the last place of the result
  and a remainder is kept as half a unit there, which rounds like the exact root.
\<close>

function isqrt_loop :: "int \<Rightarrow> int \<Rightarrow> int \<Rightarrow> int" where
  "isqrt_loop n lo hi =
     (if hi - lo \<le> 1 then lo
      else let m = (lo + hi) div 2 in if m * m \<le> n then isqrt_loop n m hi else isqrt_loop n lo m)"
  by auto
termination
  by (relation "measure (\<lambda>(n, lo, hi). nat (hi - lo))") auto

declare isqrt_loop.simps [simp del]

definition isqrt :: "int \<Rightarrow> int" where
  "isqrt n = isqrt_loop n 0 (n + 1)"

definition cut_root :: "rat \<Rightarrow> rat" where
  "cut_root x =
     (let e = max (ilog2 x div 2 - 52) (- 1074) - 2;
          s = isqrt \<lfloor>x / pow2 (2 * e)\<rfloor>
      in (if of_int (s * s) * pow2 (2 * e) = x then of_int s else of_int s + 1 / 2) * pow2 e)"

fun math_Sqrt :: "f64 \<Rightarrow> f64" where
  "math_Sqrt NaN = NaN"
| "math_Sqrt PosInf = PosInf"
| "math_Sqrt NegInf = NaN"
| "math_Sqrt (Fin x) = (if x < 0 then NaN else if x = 0 then Fin 0 else to_f64 (cut_root x))"

lemma isqrt_loop_spec:
  "0 \<le> lo \<Longrightarrow> lo * lo \<le> n \<Longrightarrow> n < hi * hi \<Longrightarrow> lo < hi \<Longrightarrow>
     0 \<le> isqrt_loop n lo hi \<and> isqrt_loop n lo hi * isqrt_loop n lo hi \<le> n \<and> n < (isqrt_loop n lo hi + 1) * (isqrt_loop n lo hi + 1)"
proof (induction n lo hi rule: isqrt_loop.induct)
  case (1 n lo hi)
  show ?case
  proof (cases "hi - lo \<le> 1")
    case True
    with 1 have "hi = lo + 1" by simp
    with 1 True show ?thesis by (simp add: isqrt_loop.simps)
  next
    case False
    with 1 show ?thesis by (subst (1 2 3 4 5) isqrt_loop.simps) (auto simp: Let_def not_le)
  qed
qed

lemma isqrt_spec: "0 \<le> n \<Longrightarrow> 0 \<le> isqrt n \<and> isqrt n * isqrt n \<le> n \<and> n < (isqrt n + 1) * (isqrt n + 1)"
  unfolding isqrt_def by (rule isqrt_loop_spec) (auto simp: algebra_simps add_pos_nonneg)

text \<open>The cut root lies within its last place of the exact root, and is exact when it can be.\<close>

lemma cut_root_spec:
  fixes x :: rat
  assumes "0 < x"
  defines "e \<equiv> max (ilog2 x div 2 - 52) (- 1074) - 2"
  shows "\<exists>s \<ge> 0. of_int s * pow2 e * (of_int s * pow2 e) \<le> x \<and>
           x < of_int (s + 1) * pow2 e * (of_int (s + 1) * pow2 e) \<and>
           cut_root x = (if of_int s * pow2 e * (of_int s * pow2 e) = x then of_int s * pow2 e else (of_int s + 1 / 2) * pow2 e)"
proof -
  let ?c = "pow2 (2 * e)"
  define s where "s = isqrt \<lfloor>x / ?c\<rfloor>"
  have c: "of_int k * pow2 e * (of_int k * pow2 e) = of_int (k * k) * ?c" for k
    by (simp add: pow2_add [symmetric] mult.assoc mult.left_commute [of "pow2 e"])
  have s: "0 \<le> s" "s * s \<le> \<lfloor>x / ?c\<rfloor>" "\<lfloor>x / ?c\<rfloor> < (s + 1) * (s + 1)"
    using isqrt_spec [of "\<lfloor>x / ?c\<rfloor>"] assms(1) by (simp_all add: less_imp_le s_def)
  have "of_int (s * s) * ?c \<le> x" using s(2) by (simp add: le_floor_iff pos_le_divide_eq)
  moreover have "x < of_int ((s + 1) * (s + 1)) * ?c" using s(3) by (simp add: floor_less_iff pos_divide_less_eq)
  moreover have "cut_root x = (if of_int (s * s) * ?c = x then of_int s * pow2 e else (of_int s + 1 / 2) * pow2 e)"
    unfolding cut_root_def e_def [symmetric] s_def by (simp add: Let_def)
  ultimately show ?thesis using s(1) unfolding c by blast
qed

lemma math_Sqrt_nonneg: "Fin 0 \<le> v \<Longrightarrow> Fin 0 \<le> math_Sqrt v"
proof (cases v)
  case (Fin x)
  assume "Fin 0 \<le> v"
  show ?thesis
  proof (cases "x = 0")
    case False
    with \<open>Fin 0 \<le> v\<close> Fin have x: "0 < x" by simp
    from cut_root_spec [OF x] have "0 \<le> cut_root x" by (auto simp: algebra_simps)
    with x Fin show ?thesis by (simp add: rnd64.rd_nonneg)
  qed (use Fin in simp)
qed simp_all

section \<open>Ring buffer\<close>

record RingBuffer =
  rb_data :: "f64 list"
  rb_size :: nat
  rb_pos :: nat
  rb_count :: nat

definition NewRingBuffer :: "nat \<Rightarrow> RingBuffer" where
  "NewRingBuffer n = \<lparr>rb_data = replicate n (Fin 0), rb_size = n, rb_pos = 0, rb_count = 0\<rparr>"

definition Push :: "RingBuffer \<Rightarrow> f64 \<Rightarrow> RingBuffer option" where
  "Push r value =
     (if rb_pos r < length (rb_data r) \<and> rb_size r \<noteq> 0
      then Some (r\<lparr>rb_data := (rb_data r)[rb_pos r := value],
                   rb_pos := (rb_pos r + 1) mod rb_size r,
                   rb_count := (if rb_count r < rb_size r then rb_count r + 1 else rb_count r)\<rparr>)
      else None)"

definition ToSlice :: "RingBuffer \<Rightarrow> f64 list" where
  "ToSlice r =
     (if rb_count r = 0 then []
      else if rb_count r < rb_size r then take (rb_count r) (rb_data r)
      else drop (rb_pos r) (rb_data r) @ take (rb_pos r) (rb_data r))"

definition Len :: "RingBuffer \<Rightarrow> nat" where
  "Len r = rb_count r"

section \<open>Feature builder\<close>

definition TFTFeatureCount :: nat where "TFTFeatureCount = 10"
definition RLFeatureCount :: nat where "RLFeatureCount = 13"
definition PriceVolatilityWindow :: nat where "PriceVolatilityWindow = 12"

type_synonym FeatureBuilder = "string \<rightharpoonup> RingBuffer"

definition NewFeatureBuilder :: FeatureBuilder where
  "NewFeatureBuilder = Map.empty"

definition UpdatePriceHistory :: "FeatureBuilder \<Rightarrow> string \<Rightarrow> f64 \<Rightarrow> FeatureBuilder option" where
  "UpdatePriceHistory f nodeID price =
     (let r = (case f nodeID of None \<Rightarrow> NewRingBuffer TFTHistorySteps | Some r \<Rightarrow> r)
      in map_option (\<lambda>r'. f(nodeID \<mapsto> r')) (Push r price))"

definition calculateStdDev :: "f64 list \<Rightarrow> f64" where
  "calculateStdDev values =
     (if length values < 2 then Fin 0
      else
        let mean = foldl (+) (Fin 0) values / f64_of_int (int (length values));
            variance = foldl (\<lambda>variance v. let diff = v - mean in variance + diff * diff) (Fin 0) values
                         / f64_of_int (int (length values) - 1)
        in math_Sqrt variance)"

definition calculateRollingStd :: "f64 list \<Rightarrow> f64 list" where
  "calculateRollingStd prices =
     map (\<lambda>i. let start = (if i + 1 < PriceVolatilityWindow then 0 else i + 1 - PriceVolatilityWindow)
              in calculateStdDev (drop start (take (i + 1) prices))) [0..<length prices]"

definition padded_history :: "NodeState \<Rightarrow> f64 list" where
  "padded_history state =
     (let history = ns_PriceHistory state in
      if length history < TFTHistorySteps
      then replicate (TFTHistorySteps - length history) (ns_SpotPrice state) @ history
      else if length history > TFTHistorySteps then drop (length history - TFTHistorySteps) history
      else history)"

definition tft_row :: "NodeState \<Rightarrow> f64 list \<Rightarrow> f64 list \<Rightarrow> nat \<Rightarrow> f64 list" where
  "tft_row state history volatility t =
     [f32_of_f64 (history ! t),
      f32_of_f64 (ns_OnDemandPrice state),
      f32_of_f64 (if t > 0 then history ! (t - 1) else history ! t),
      f32_of_f64 (if t \<ge> 3 then history ! (t - 3) else history ! t),
      f32_of_f64 (volatility ! t),
      f32_of_f64 (f64_of_int (ns_Hour state) / Fin 24),
      f32_of_f64 (f64_of_int (ns_Weekday state) / Fin 7),
      f32_of_f64 (if ns_Weekday state = 6 \<or> ns_Weekday state = 0 then Fin 1 else Fin 0),
      f32_of_f64 (Fin (of_int (int t - (int TFTHistorySteps - 1)))),
      f32_of_f64 (Fin (of_nat TFTHistorySteps))]"

definition BuildTFTInput :: "NodeState \<Rightarrow> f64 list" where
  "BuildTFTInput state =
     (let history = padded_history state; volatility = calculateRollingStd history
      in concat (map (tft_row state history volatility) [0..<TFTHistorySteps]))"

definition norm_feature :: "f64 \<Rightarrow> f64 \<Rightarrow> f64" where
  "norm_feature val divisor =
     (let v = val / divisor in if v < Fin 0 then Fin 0 else if Fin 1 < v then Fin 1 else f32_of_f64 v)"

definition rl_volatility :: "NodeState \<Rightarrow> f64" where
  "rl_volatility state =
     (if length (ns_PriceHistory state) > 1
      then calculateStdDev (if length (ns_PriceHistory state) > PriceVolatilityWindow
             then drop (length (ns_PriceHistory state) - PriceVolatilityWindow) (ns_PriceHistory state)
             else ns_PriceHistory state)
      else Fin 0)"

definition BuildRLInput :: "NodeState \<Rightarrow> f64 \<Rightarrow> f64 list" where
  "BuildRLInput state capacityScore =
     [norm_feature (ns_SpotPrice state) (Fin 100),
      norm_feature (ns_OnDemandPrice state) (Fin 100),
      norm_feature (rl_volatility state) (Fin 1),
      norm_feature capacityScore (Fin 1),
      norm_feature (ns_RuntimeScore state) (Fin 1),
      norm_feature (ns_PodStartupTime state) (Fin 300),
      norm_feature (ns_MigrationCost state) (Fin 10),
      norm_feature (ns_ClusterUtilization state) (Fin 1),
      norm_feature (f64_of_int (ns_TimeSinceMigration state)) (Fin 100),
      norm_feature (ns_OutagePenaltyHours state) (Fin 10),
      (if ns_IsSpot state then Fin 1 else Fin 0),
      norm_feature (ns_CurrentSpotRatio state) (Fin 1),
      norm_feature (ns_TargetSpotRatio state) (Fin 1)]"

section \<open>A bounded history\<close>

text \<open>
  The contract of a buffer that keeps the last \<open>n\<close> values: \<open>contents\<close> is the abstraction,
  \<open>inv\<close> the invariant of the representation.
\<close>

locale bounded_history =
  fixes fresh :: 'h and push :: "'h \<Rightarrow> 'a \<Rightarrow> 'h option" and contents :: "'h \<Rightarrow> 'a list" and inv :: "'h \<Rightarrow> bool"
    and n :: nat
  assumes fresh_inv: "inv fresh" and fresh_contents: "contents fresh = []"
    and bounded: "inv h \<Longrightarrow> length (contents h) \<le> n"
    and push_step: "inv h \<Longrightarrow> \<exists>h'. push h x = Some h' \<and> inv h' \<and> contents h' = last_n n (contents h @ [x])"
begin

lemma last_n_snoc: "last_n n (last_n n xs @ ys) = last_n n (xs @ ys)"
  by (cases "length xs \<le> n") (simp_all add: last_n_def add.commute)

lemma pushes_refine: "inv h \<Longrightarrow> \<exists>h'. fold_opt push h xs = Some h' \<and> inv h' \<and> contents h' = last_n n (contents h @ xs)"
proof (induction xs arbitrary: h)
  case Nil
  then show ?case using bounded by (simp add: last_n_def)
next
  case (Cons x xs)
  obtain h' where h': "push h x = Some h'" "inv h'" "contents h' = last_n n (contents h @ [x])"
    using push_step Cons.prems by blast
  from Cons.IH [OF this(2)] h' show ?case by (auto simp: last_n_snoc)
qed

lemma history_of_pushes: "\<exists>h. fold_opt push fresh xs = Some h \<and> inv h \<and> contents h = last_n n xs"
  using pushes_refine [OF fresh_inv] fresh_contents by simp

end

text \<open>The ring buffer keeps the contract.\<close>

definition rb_inv :: "nat \<Rightarrow> RingBuffer \<Rightarrow> bool" where
  "rb_inv n r \<longleftrightarrow> 0 < n \<and> length (rb_data r) = n \<and> rb_size r = n \<and> rb_pos r < n \<and> rb_count r \<le> n \<and>
     (rb_count r < n \<longrightarrow> rb_pos r = rb_count r)"

lemma length_ToSlice: "rb_inv n r \<Longrightarrow> length (ToSlice r) = rb_count r"
  by (auto simp: rb_inv_def ToSlice_def)

lemma last_n_short: "length xs \<le> n \<Longrightarrow> last_n n xs = xs"
  by (simp add: last_n_def)

lemma last_n_full: "length xs = n \<Longrightarrow> 0 < n \<Longrightarrow> last_n n (xs @ [x]) = tl xs @ [x]"
  by (cases xs) (simp_all add: last_n_def)

lemma take_Suc_upd: "i < length xs \<Longrightarrow> take (Suc i) (xs[i := x]) = take i xs @ [x]"
  by (simp add: take_Suc_conv_app_nth)

lemma Push_partial:
  assumes "rb_inv n r" "rb_count r < n" "Push r x = Some r'"
  shows "ToSlice r' = ToSlice r @ [x]"
proof -
  let ?c = "rb_count r"
  have r: "rb_pos r = ?c" "length (rb_data r) = n" "rb_size r = n" using assms(1,2) by (auto simp: rb_inv_def)
  have t: "ToSlice r = take ?c (rb_data r)" using assms(2) r by (simp add: ToSlice_def)
  have "take (Suc ?c) ((rb_data r)[?c := x]) = ToSlice r @ [x]" using assms(2) r t by (simp add: take_Suc_upd)
  moreover have "r' = r\<lparr>rb_data := (rb_data r)[?c := x], rb_pos := (?c + 1) mod n, rb_count := ?c + 1\<rparr>"
    using assms(2,3) r by (simp add: Push_def split: if_splits)
  ultimately show ?thesis using assms(2) r by (cases "Suc ?c = n") (auto simp: ToSlice_def)
qed

lemma Push_full:
  assumes "rb_inv n r" "rb_count r = n" "Push r x = Some r'"
  shows "ToSlice r' = tl (ToSlice r) @ [x]"
proof -
  let ?p = "rb_pos r" and ?d = "rb_data r"
  have r: "?p < n" "length ?d = n" "rb_size r = n" "0 < n" using assms(1) by (auto simp: rb_inv_def)
  have "ToSlice r = drop ?p ?d @ take ?p ?d" using assms(2) r by (simp add: ToSlice_def)
  then have "tl (ToSlice r) = drop (Suc ?p) ?d @ take ?p ?d" using r tl_append2 [of "drop ?p ?d"] by (simp add: drop_Suc tl_drop)
  moreover have "r' = r\<lparr>rb_data := ?d[?p := x], rb_pos := (?p + 1) mod n, rb_count := n\<rparr>"
    using assms(2,3) r by (simp add: Push_def split: if_splits)
  ultimately show ?thesis
    using assms(2) r take_Suc_upd [of ?p ?d x] by (cases "Suc ?p = n") (auto simp: ToSlice_def)
qed

lemma Push_step:
  assumes "rb_inv n r"
  shows "\<exists>r'. Push r x = Some r' \<and> rb_inv n r' \<and> ToSlice r' = last_n n (ToSlice r @ [x])"
proof -
  obtain r' where p: "Push r x = Some r'" and i: "rb_inv n r'"
    using assms by (auto simp: Push_def rb_inv_def mod_Suc)
  have "ToSlice r' = last_n n (ToSlice r @ [x])"
  proof (cases "rb_count r < n")
    case True
    then show ?thesis using Push_partial [OF assms True p] length_ToSlice [OF assms] by (simp add: last_n_short)
  next
    case False
    then have "rb_count r = n" "0 < n" using assms by (auto simp: rb_inv_def)
    then show ?thesis using Push_full [OF assms _ p] length_ToSlice [OF assms] by (simp add: last_n_full)
  qed
  with p i show ?thesis by blast
qed

interpretation prices: bounded_history "NewRingBuffer TFTHistorySteps" Push ToSlice "rb_inv TFTHistorySteps" TFTHistorySteps
proof
  show "rb_inv TFTHistorySteps (NewRingBuffer TFTHistorySteps)"
    by (simp add: rb_inv_def NewRingBuffer_def TFTHistorySteps_def)
  show "ToSlice (NewRingBuffer TFTHistorySteps) = []" by (simp add: ToSlice_def NewRingBuffer_def)
  show "length (ToSlice h) \<le> TFTHistorySteps" if "rb_inv TFTHistorySteps h" for h
    using length_ToSlice [OF that] that by (simp add: rb_inv_def)
  show "\<exists>h'. Push h x = Some h' \<and> rb_inv TFTHistorySteps h' \<and> ToSlice h' = last_n TFTHistorySteps (ToSlice h @ [x])"
    if "rb_inv TFTHistorySteps h" for h x
    using Push_step [OF that] .
qed

section \<open>Properties\<close>

text \<open>
  C23 (refinement). The ring buffer refines the list of the last \<open>TFTHistorySteps\<close> prices: pushing
  any sequence of prices succeeds, without an index out of range, and leaves exactly its last
  prices, in the order they came.
\<close>

theorem ring_buffer_refines:
  "\<exists>r. fold_opt Push (NewRingBuffer TFTHistorySteps) prices = Some r \<and>
       ToSlice r = last_n TFTHistorySteps prices \<and> Len r = min (length prices) TFTHistorySteps"
proof -
  obtain r where r: "fold_opt Push (NewRingBuffer TFTHistorySteps) prices = Some r"
      "rb_inv TFTHistorySteps r" "ToSlice r = last_n TFTHistorySteps prices"
    using prices.history_of_pushes by blast
  then have "Len r = length (last_n TFTHistorySteps prices)"
    using length_ToSlice [OF r(2)] by (simp add: Len_def)
  with r show ?thesis by (auto simp: last_n_def)
qed

definition rl_raw :: "NodeState \<Rightarrow> f64 \<Rightarrow> f64 list" where
  "rl_raw state capacityScore =
     [ns_SpotPrice state, ns_OnDemandPrice state, rl_volatility state, capacityScore, ns_RuntimeScore state,
      ns_PodStartupTime state, ns_MigrationCost state, ns_ClusterUtilization state,
      f64_of_int (ns_TimeSinceMigration state), ns_OutagePenaltyHours state,
      (if ns_IsSpot state then Fin 1 else Fin 0), ns_CurrentSpotRatio state, ns_TargetSpotRatio state]"

lemma norm_feature_unit:
  assumes "val \<noteq> NaN" "0 < d"
  shows "unit01 (norm_feature val (Fin d))"
proof -
  have v: "val / Fin d \<noteq> NaN" using assms by (cases val) auto
  show ?thesis
  proof (cases "val / Fin d < Fin 0 \<or> Fin 1 < val / Fin d")
    case True
    then show ?thesis by (auto simp: norm_feature_def unit01_def Let_def)
  next
    case False
    with v have "Fin 0 \<le> val / Fin d" "val / Fin d \<le> Fin 1" by (simp_all add: f_not_less)
    then obtain r where "val / Fin d = Fin r" "0 \<le> r" "r \<le> 1" using f_between_finite by blast
    then show ?thesis
      using rnd32.rd_unit [of r] False by (auto simp: norm_feature_def unit01_def Let_def)
  qed
qed

text \<open>
  The RL input has the thirteen features the model expects, and every feature is in
  the unit interval unless the value it is made from is NaN, whatever the telemetry holds.
\<close>

theorem BuildRLInput_bounds:
  "length (BuildRLInput state capacityScore) = RLFeatureCount \<and>
   list_all2 (\<lambda>raw x. unit01 x \<or> raw = NaN) (rl_raw state capacityScore) (BuildRLInput state capacityScore)"
  by (auto simp: BuildRLInput_def rl_raw_def RLFeatureCount_def unit01_def [of "Fin _"] intro: norm_feature_unit)

lemma padded_history_last_n:
  "padded_history state = last_n TFTHistorySteps (replicate TFTHistorySteps (ns_SpotPrice state) @ ns_PriceHistory state)"
  by (auto simp: padded_history_def last_n_def Let_def)

lemma nth_concat_rows:
  "(\<And>x. x \<in> set xs \<Longrightarrow> length (f x) = k) \<Longrightarrow> i < length xs \<Longrightarrow> j < k \<Longrightarrow> concat (map f xs) ! (i * k + j) = f (xs ! i) ! j"
proof (induction xs arbitrary: i)
  case (Cons x xs)
  then show ?case by (cases i) (auto simp: nth_append)
qed simp

lemma length_concat_rows: "(\<And>x. x \<in> set xs \<Longrightarrow> length (f x) = k) \<Longrightarrow> length (concat (map f xs)) = length xs * k"
  by (induction xs) auto

lemma length_tft_row: "length (tft_row state h v t) = TFTFeatureCount"
  by (simp add: tft_row_def TFTFeatureCount_def)

text \<open>
  The TFT input is twelve rows of ten features, oldest first. The first feature
  of the rows are the last twelve prices of the history, padded in front with the current price
  when it is short.
\<close>

theorem BuildTFTInput_layout:
  "length (BuildTFTInput state) = TFTHistorySteps * TFTFeatureCount \<and>
   map (\<lambda>t. BuildTFTInput state ! (t * TFTFeatureCount)) [0..<TFTHistorySteps] =
     map f32_of_f64 (last_n TFTHistorySteps (replicate TFTHistorySteps (ns_SpotPrice state) @ ns_PriceHistory state))"
proof -
  let ?h = "padded_history state"
  let ?row = "tft_row state ?h (calculateRollingStd ?h)"
  have h: "length ?h = TFTHistorySteps" by (auto simp: padded_history_def Let_def)
  have "BuildTFTInput state ! (t * TFTFeatureCount) = f32_of_f64 (?h ! t)" if "t < TFTHistorySteps" for t
    using nth_concat_rows [of "[0..<TFTHistorySteps]" ?row TFTFeatureCount t 0] that
    by (simp add: BuildTFTInput_def Let_def length_tft_row) (simp add: tft_row_def TFTFeatureCount_def)
  then show ?thesis
    using h by (auto simp: padded_history_last_n [symmetric] list_eq_iff_nth_eq BuildTFTInput_def Let_def length_concat_rows [OF length_tft_row])
qed

end
