(* ===== verification/Model_Contract.thy ===== *)
theory Model_Contract
  imports Prelude
begin

text \<open>
  internal/inference/model_contract.go: the contract a model bundle ships with, the checksums of
  its artifacts, and the instance families it may be used for. File contents and their decoding
  are parameters. A Go map is the list of its entries in the order the iteration visits them.
\<close>

section \<open>Package path/filepath\<close>

text \<open>
  On Unix. \<open>Clean\<close> resolves the elements from the left; \<open>clean_elems\<close> keeps what is kept of
  them in reverse.
\<close>

fun clean_elems :: "bool \<Rightarrow> string list \<Rightarrow> string list \<Rightarrow> string list" where
  "clean_elems rooted out [] = rev out"
| "clean_elems rooted out (e # es) =
     (if e = '''' \<or> e = ''.'' then clean_elems rooted out es
      else if e = ''..''
      then (case out of
              [] \<Rightarrow> clean_elems rooted (if rooted then [] else [e]) es
            | o1 # out1 \<Rightarrow> clean_elems rooted (if o1 = ''..'' then e # out else out1) es)
      else clean_elems rooted (e # out) es)"

fun join_slash :: "string list \<Rightarrow> string" where
  "join_slash [] = []"
| "join_slash [e] = e"
| "join_slash (e # es) = e @ ''/'' @ join_slash es"

definition Clean :: "string \<Rightarrow> string" where
  "Clean path =
     (let rooted = HasPrefix path ''/'';
          p = (if rooted then ''/'' else []) @ join_slash (clean_elems rooted [] (Split CHR ''/'' path))
      in if p = [] then ''.'' else p)"

definition Join2 :: "string \<Rightarrow> string \<Rightarrow> string" where
  "Join2 a b = (let es = filter (\<lambda>e. e \<noteq> []) [a, b] in if es = [] then [] else Clean (join_slash es))"

definition Dir :: "string \<Rightarrow> string" where
  "Dir path = Clean (rev (dropWhile (\<lambda>c. c \<noteq> CHR ''/'') (rev path)))"

definition Base :: "string \<Rightarrow> string" where
  "Base path =
     (if path = [] then ''.''
      else let p = dropWhile (\<lambda>c. c = CHR ''/'') (rev path);
               b = rev (takeWhile (\<lambda>c. c \<noteq> CHR ''/'') p)
           in if b = [] then ''/'' else b)"

section \<open>The contract\<close>

record ModelContract =
  Cloud :: string
  SupportedInstanceFamilies :: "string list"
  ArtifactChecksums :: "(string \<times> string) list"

record manifestArtifact =
  art_Path :: string
  art_SHA256 :: string

record modelManifest =
  mm_Cloud :: string
  mm_SupportedInstanceFamilies :: "string list"
  mm_Artifacts :: "(string \<times> manifestArtifact) list"
  mm_Models :: "(string \<times> manifestArtifact) list"
  mm_ScopeCloud :: string
  mm_ScopeFamilies :: "string list"

text \<open>
  What the functions see of the outside: \<open>mf_ReadFile\<close> and \<open>mf_Getenv\<close> of package os,
  \<open>mf_Unmarshal\<close> of encoding/json, \<open>mf_sha256\<close> the hexadecimal SHA-256 of a file's bytes.
  A file that does not exist is told from one that cannot be read.
\<close>

datatype 'b read_result = ReadOk 'b | NotExist | ReadError

record 'b model_files =
  mf_ReadFile :: "string \<Rightarrow> 'b read_result"
  mf_Stat :: "string \<Rightarrow> bool"
  mf_Unmarshal :: "'b \<Rightarrow> modelManifest option"
  mf_sha256 :: "'b \<Rightarrow> string"
  mf_Getenv :: "string \<Rightarrow> string"

datatype contract_error = ManifestPathRequired | ManifestUnreadable string | ManifestUnparsable string
  | NoArtifactChecksums string | MissingChecksum string | HashFailed string | ChecksumMismatch string

definition normalizeArtifactPath :: "string \<Rightarrow> string" where
  "normalizeArtifactPath path =
     (let path = TrimSpace (ToLower path) in if path = [] then [] else TrimPrefix path ''./'')"

fun normalize_loop :: "string list \<Rightarrow> string list \<Rightarrow> string list" where
  "normalize_loop out [] = out"
| "normalize_loop out (raw # rest) =
     (let value = TrimSpace (ToLower raw)
      in normalize_loop (if value = [] \<or> value \<in> set out then out else out @ [value]) rest)"

definition normalizeFamilies :: "string list \<Rightarrow> string list" where
  "normalizeFamilies xs = normalize_loop [] xs"

fun collectArtifactChecksums :: "(string \<times> string) list \<Rightarrow> (string \<times> manifestArtifact) list \<Rightarrow> (string \<times> string) list" where
  "collectArtifactChecksums dst [] = dst"
| "collectArtifactChecksums dst ((key, art) # rest) =
     (let path = TrimSpace (art_Path art);
          path = (if path = [] then key else path);
          checksum = TrimSpace (ToLower (art_SHA256 art))
      in collectArtifactChecksums
           (if path = [] \<or> checksum = [] then dst else alist_upd (normalizeArtifactPath path) (\<lambda>_. checksum) [] dst) rest)"

definition manifest_contract :: "modelManifest \<Rightarrow> ModelContract" where
  "manifest_contract m =
     (let cloud = TrimSpace (ToLower (mm_Cloud m))
      in \<lparr>Cloud = (if cloud = [] then TrimSpace (ToLower (mm_ScopeCloud m)) else cloud),
          SupportedInstanceFamilies = normalizeFamilies
            (if mm_SupportedInstanceFamilies m = [] then mm_ScopeFamilies m else mm_SupportedInstanceFamilies m),
          ArtifactChecksums = collectArtifactChecksums (collectArtifactChecksums [] (mm_Artifacts m)) (mm_Models m)\<rparr>)"

text \<open>The first result is \<open>found\<close>.\<close>

definition read_manifest :: "'b model_files \<Rightarrow> string \<Rightarrow> contract_error + bool \<times> ModelContract" where
  "read_manifest fs manifestPath =
     (let none = (False, \<lparr>Cloud = [], SupportedInstanceFamilies = [], ArtifactChecksums = []\<rparr>) in
      if TrimSpace manifestPath = [] then Inr none
      else case mf_ReadFile fs manifestPath of
             NotExist \<Rightarrow> Inr none
           | ReadError \<Rightarrow> Inl (ManifestUnreadable manifestPath)
           | ReadOk payload \<Rightarrow>
               (case mf_Unmarshal fs payload of
                  None \<Rightarrow> Inl (ManifestUnparsable manifestPath)
                | Some m \<Rightarrow> Inr (True, manifest_contract m)))"

definition LoadModelContract :: "'b model_files \<Rightarrow> string \<Rightarrow> contract_error + ModelContract option" where
  "LoadModelContract fs manifestPath =
     (case read_manifest fs manifestPath of
        Inl e \<Rightarrow> Inl e
      | Inr (found, contract) \<Rightarrow>
          let envCloud = TrimSpace (ToLower (mf_Getenv fs ''SPOTVORTEX_MODEL_CLOUD''));
              contract = (if envCloud \<noteq> [] then contract\<lparr>Cloud := envCloud\<rparr> else contract);
              envFamilies = TrimSpace (mf_Getenv fs ''SPOTVORTEX_SUPPORTED_INSTANCE_FAMILIES'');
              contract = (if envFamilies \<noteq> []
                          then contract\<lparr>SupportedInstanceFamilies := normalizeFamilies (Split CHR '','' envFamilies)\<rparr>
                          else contract)
          in Inr (if found \<or> envCloud \<noteq> [] \<or> envFamilies \<noteq> [] then Some contract else None))"

definition manifestChecksumKey :: "(string \<times> string) list \<Rightarrow> string \<Rightarrow> string" where
  "manifestChecksumKey expected artifactPath =
     (let k1 = normalizeArtifactPath artifactPath; k2 = normalizeArtifactPath (Base artifactPath) in
      if map_of expected k1 \<noteq> None then k1 else if map_of expected k2 \<noteq> None then k2 else [])"

definition hashFileSHA256 :: "'b model_files \<Rightarrow> string \<Rightarrow> string option" where
  "hashFileSHA256 fs path =
     (case mf_ReadFile fs path of ReadOk b \<Rightarrow> Some (mf_sha256 fs b) | _ \<Rightarrow> None)"

definition add_new :: "string \<Rightarrow> string list \<Rightarrow> string list" where
  "add_new p xs = (if p \<in> set xs then xs else xs @ [p])"

fun required_artifacts :: "'b model_files \<Rightarrow> string list \<Rightarrow> string list \<Rightarrow> string list" where
  "required_artifacts fs artifacts [] = artifacts"
| "required_artifacts fs artifacts (raw # rest) =
     (let path = TrimSpace raw in
      if path = [] then required_artifacts fs artifacts rest
      else let artifacts = add_new path artifacts
           in required_artifacts fs
                (if mf_Stat fs (path @ ''.data'') then add_new (path @ ''.data'') artifacts else artifacts) rest)"

fun verify_artifacts :: "'b model_files \<Rightarrow> (string \<times> string) list \<Rightarrow> string list \<Rightarrow> contract_error option" where
  "verify_artifacts fs expected [] = None"
| "verify_artifacts fs expected (artifactPath # rest) =
     (let key = manifestChecksumKey expected artifactPath in
      if key = [] then Some (MissingChecksum artifactPath)
      else case hashFileSHA256 fs artifactPath of
             None \<Rightarrow> Some (HashFailed artifactPath)
           | Some actual \<Rightarrow>
               if \<not> EqualFold actual (case map_of expected key of None \<Rightarrow> [] | Some s \<Rightarrow> s)
               then Some (ChecksumMismatch artifactPath)
               else verify_artifacts fs expected rest)"

text \<open>\<open>None\<close> is the nil error.\<close>

definition VerifyManifestArtifacts :: "'b model_files \<Rightarrow> string \<Rightarrow> string list \<Rightarrow> contract_error option" where
  "VerifyManifestArtifacts fs manifestPath requiredPaths =
     (let manifestPath = TrimSpace manifestPath in
      if manifestPath = [] then Some ManifestPathRequired
      else case mf_ReadFile fs manifestPath of
             ReadOk payload \<Rightarrow>
               (case mf_Unmarshal fs payload of
                  None \<Rightarrow> Some (ManifestUnparsable manifestPath)
                | Some m \<Rightarrow>
                    let expected = collectArtifactChecksums (collectArtifactChecksums [] (mm_Artifacts m)) (mm_Models m) in
                    if expected = [] then Some (NoArtifactChecksums manifestPath)
                    else verify_artifacts fs expected (required_artifacts fs [] requiredPaths))
           | _ \<Rightarrow> Some (ManifestUnreadable manifestPath))"

definition defaultManifestPath :: "string \<Rightarrow> string" where
  "defaultManifestPath tftModelPath =
     (if TrimSpace tftModelPath = [] then ''models/MODEL_MANIFEST.json''
      else Join2 (Dir tftModelPath) ''MODEL_MANIFEST.json'')"

section \<open>Instance families\<close>

definition InstanceFamilyLabel :: "string \<Rightarrow> string" where
  "InstanceFamilyLabel instanceType =
     (let instanceType = TrimSpace (ToLower instanceType) in
      if instanceType = [] \<or> instanceType = ''unknown'' then ''unknown''
      else let family = Cut_before CHR ''.'' instanceType in if family = [] then ''unknown'' else family)"

definition token_supports :: "string \<Rightarrow> string \<Rightarrow> string \<Rightarrow> bool" where
  "token_supports instanceType family token =
     (if \<not> str_Contains token ''.'' \<and> \<not> HasSuffix token ''*'' then token = family
      else if HasSuffix token ''.*'' \<or> HasSuffix token ''*''
      then let prefix = TrimSuffix (TrimSuffix token ''.*'') ''*''
           in HasPrefix instanceType (prefix @ ''.'') \<or> family = prefix
      else token = instanceType)"

text \<open>The reason for a refusal is \<open>Some\<close>; nil for the contract is \<open>None\<close>.\<close>

datatype scope_reason = UnknownInstanceType | FamilyNotSupported string

definition SupportsInstanceType :: "ModelContract option \<Rightarrow> string \<Rightarrow> scope_reason option" where
  "SupportsInstanceType m instanceType =
     (case m of None \<Rightarrow> None
      | Some m \<Rightarrow>
          if SupportedInstanceFamilies m = [] then None
          else
            let instanceType = TrimSpace (ToLower instanceType) in
            if instanceType = [] \<or> instanceType = ''unknown'' then Some UnknownInstanceType
            else
              let family = InstanceFamilyLabel instanceType in
              if list_ex (token_supports instanceType family) (SupportedInstanceFamilies m) then None
              else Some (FamilyNotSupported family))"

section \<open>Lemmas\<close>

lemma normalize_loop_spec:
  "set (normalize_loop out xs) = set out \<union> ((\<lambda>x. TrimSpace (ToLower x)) ` set xs - {[]})"
  by (induction xs arbitrary: out) (auto simp: Let_def)

lemma normalize_loop_distinct: "distinct out \<Longrightarrow> distinct (normalize_loop out xs)"
  by (induction xs arbitrary: out) (auto simp: Let_def)

lemma set_normalizeFamilies: "set (normalizeFamilies xs) = (\<lambda>x. TrimSpace (ToLower x)) ` set xs - {[]}"
  by (simp add: normalizeFamilies_def normalize_loop_spec)

lemma distinct_normalizeFamilies: "distinct (normalizeFamilies xs)"
  by (simp add: normalizeFamilies_def normalize_loop_distinct)

lemma set_required_artifacts:
  "set (required_artifacts fs artifacts raws) = set artifacts \<union>
     (\<Union>raw \<in> set raws. let p = TrimSpace raw in
        if p = [] then {} else insert p (if mf_Stat fs (p @ ''.data'') then {p @ ''.data''} else {}))"
  by (induction raws arbitrary: artifacts) (auto simp: Let_def add_new_def)

text \<open>An artifact is verified when the manifest has a checksum for it that its content has.\<close>

definition artifact_verified :: "'b model_files \<Rightarrow> (string \<times> string) list \<Rightarrow> string \<Rightarrow> bool" where
  "artifact_verified fs expected p \<longleftrightarrow>
     (case mf_ReadFile fs p of
        ReadOk b \<Rightarrow>
          (case (map_of expected (normalizeArtifactPath p), map_of expected (normalizeArtifactPath (Base p))) of
             (Some cs, _) \<Rightarrow> normalizeArtifactPath p \<noteq> [] \<and> EqualFold (mf_sha256 fs b) cs
           | (None, Some cs) \<Rightarrow> normalizeArtifactPath (Base p) \<noteq> [] \<and> EqualFold (mf_sha256 fs b) cs
           | _ \<Rightarrow> False)
      | _ \<Rightarrow> False)"

lemma verify_artifacts_None:
  "verify_artifacts fs expected ps = None \<longleftrightarrow> (\<forall>p \<in> set ps. artifact_verified fs expected p)"
  by (induction ps)
    (auto simp: artifact_verified_def manifestChecksumKey_def hashFileSHA256_def Let_def split: option.splits read_result.splits)

lemma str_Contains_dot: "str_Contains s [c] \<longleftrightarrow> c \<in> set s"
  by (induction s) auto

lemma HasSuffix_snoc: "HasSuffix s [c] \<longleftrightarrow> (\<exists>t. s = t @ [c])"
  by (cases s rule: rev_cases) (auto simp: HasSuffix_def)

lemma TrimSuffix_snoc [simp]: "TrimSuffix (t @ [c]) [c] = t"
  by (simp add: TrimSuffix_def HasSuffix_def)

lemma HasPrefix_append: "HasPrefix s p \<longleftrightarrow> (\<exists>t. s = p @ t)"
  by (auto simp: HasPrefix_def) (metis append_take_drop_id)

lemma Cut_before_append: "c \<notin> set p \<Longrightarrow> Cut_before c (p @ c # t) = p"
  by (induction p) (auto simp: Cut_before_def)

lemma collect_entry:
  assumes "map_of (collectArtifactChecksums dst arts) k = Some cs"
  shows "map_of dst k = Some cs \<or>
    (\<exists>(key, art) \<in> set arts.
       normalizeArtifactPath (if TrimSpace (art_Path art) = [] then key else TrimSpace (art_Path art)) = k \<and>
       TrimSpace (ToLower (art_SHA256 art)) = cs)"
  using assms
proof (induction dst arts rule: collectArtifactChecksums.induct)
  case (2 dst key art rest)
  show ?case using "2.IH" [OF refl refl refl] "2.prems" by (auto simp: Let_def map_of_alist_upd split: if_splits)
qed simp

lemma EqualFold_ToLower [simp]: "EqualFold s (ToLower t) \<longleftrightarrow> EqualFold s t"
  by (simp add: EqualFold_def)

lemma token_supports_family:
  assumes "CHR ''.'' \<notin> set token" "family \<noteq> []" "Cut_before CHR ''.'' i = family"
  shows "token_supports i family token \<longleftrightarrow> TrimSuffix token ''*'' = family"
proof (cases "HasSuffix token ''*''")
  case True
  then obtain p where p: "token = p @ ''*''" by (auto simp: HasSuffix_snoc)
  have nd: "\<not> HasSuffix token ''.*''"
  proof
    assume "HasSuffix token ''.*''"
    then have "set ''.*'' \<subseteq> set token" unfolding HasSuffix_def by (metis set_drop_subset)
    with assms(1) show False by simp
  qed
  have "HasPrefix i (p @ ''.'') \<longrightarrow> family = p"
    using assms p by (auto simp: HasPrefix_append Cut_before_append)
  moreover have "TrimSuffix (TrimSuffix token ''.*'') ''*'' = p"
    unfolding TrimSuffix_def [of token "''.*''"] using nd p by simp
  ultimately show ?thesis using True p by (auto simp: token_supports_def Let_def simp del: append_assoc)
next
  case False
  then show ?thesis using assms(1) by (simp add: token_supports_def str_Contains_dot TrimSuffix_def)
qed

section \<open>Properties\<close>

text \<open>
  C21 (safety). When the artifacts are verified, every required model file, and its .data file if
  there is one, has been read, and the manifest lists for its path, or for its base name, the
  SHA-256 of exactly that content.
\<close>

theorem VerifyManifestArtifacts_sound:
  assumes "VerifyManifestArtifacts fs manifestPath requiredPaths = None"
    and "raw \<in> set requiredPaths" "TrimSpace raw \<noteq> []"
    and "p = TrimSpace raw \<or> p = TrimSpace raw @ ''.data'' \<and> mf_Stat fs p"
  shows "\<exists>payload m b key art.
    mf_ReadFile fs (TrimSpace manifestPath) = ReadOk payload \<and> mf_Unmarshal fs payload = Some m \<and>
    mf_ReadFile fs p = ReadOk b \<and> (key, art) \<in> set (mm_Artifacts m @ mm_Models m) \<and>
    normalizeArtifactPath (if TrimSpace (art_Path art) = [] then key else TrimSpace (art_Path art))
      \<in> {normalizeArtifactPath p, normalizeArtifactPath (Base p)} \<and>
    EqualFold (mf_sha256 fs b) (TrimSpace (art_SHA256 art))"
proof -
  obtain payload m where m: "mf_ReadFile fs (TrimSpace manifestPath) = ReadOk payload" "mf_Unmarshal fs payload = Some m"
      "verify_artifacts fs (collectArtifactChecksums (collectArtifactChecksums [] (mm_Artifacts m)) (mm_Models m))
         (required_artifacts fs [] requiredPaths) = None"
    using assms(1) by (auto simp: VerifyManifestArtifacts_def Let_def split: if_splits read_result.splits option.splits)
  let ?exp = "collectArtifactChecksums (collectArtifactChecksums [] (mm_Artifacts m)) (mm_Models m)"
  have "p \<in> set (required_artifacts fs [] requiredPaths)"
    using assms(2-4) by (force simp: set_required_artifacts Let_def)
  with m(3) have "artifact_verified fs ?exp p" by (simp add: verify_artifacts_None)
  then obtain b k cs where v: "mf_ReadFile fs p = ReadOk b" "map_of ?exp k = Some cs"
      "k \<in> {normalizeArtifactPath p, normalizeArtifactPath (Base p)}" "EqualFold (mf_sha256 fs b) cs"
    unfolding artifact_verified_def by (auto split: read_result.splits option.splits)
  from collect_entry [OF v(2)] obtain key art where e: "(key, art) \<in> set (mm_Artifacts m @ mm_Models m)"
      "normalizeArtifactPath (if TrimSpace (art_Path art) = [] then key else TrimSpace (art_Path art)) = k"
      "TrimSpace (ToLower (art_SHA256 art)) = cs"
    using collect_entry [of "[]" "mm_Artifacts m" k cs] by fastforce
  have "EqualFold (mf_sha256 fs b) (TrimSpace (art_SHA256 art))" using v(4) e(3) by (auto simp: TrimSpace_ToLower)
  with m(1,2) v(1,3) e(1,2) show ?thesis by blast
qed

definition example_bundle :: "string model_files" where
  "example_bundle = \<lparr>mf_ReadFile = (\<lambda>p. if p = ''models/M.json'' then ReadOk ''m'' else if p = ''models/tft.onnx'' then ReadOk ''t'' else NotExist),
     mf_Stat = (\<lambda>p. False),
     mf_Unmarshal = (\<lambda>b. Some \<lparr>mm_Cloud = ''AWS'', mm_SupportedInstanceFamilies = ['' C6i '', ''m5*''],
        mm_Artifacts = [(''tft.onnx'', \<lparr>art_Path = [], art_SHA256 = ''AB''\<rparr>)], mm_Models = [],
        mm_ScopeCloud = [], mm_ScopeFamilies = []\<rparr>),
     mf_sha256 = (\<lambda>b. if b = ''t'' then ''ab'' else ''cd''), mf_Getenv = (\<lambda>k. [])\<rparr>"

theorem VerifyManifestArtifacts_sound_witness:
  "\<exists>payload m b key art.
    mf_ReadFile example_bundle (TrimSpace ''models/M.json'') = ReadOk payload \<and> mf_Unmarshal example_bundle payload = Some m \<and>
    mf_ReadFile example_bundle ''models/tft.onnx'' = ReadOk b \<and> (key, art) \<in> set (mm_Artifacts m @ mm_Models m) \<and>
    normalizeArtifactPath (if TrimSpace (art_Path art) = [] then key else TrimSpace (art_Path art))
      \<in> {normalizeArtifactPath ''models/tft.onnx'', normalizeArtifactPath (Base ''models/tft.onnx'')} \<and>
    EqualFold (mf_sha256 example_bundle b) (TrimSpace (art_SHA256 art))"
proof (rule VerifyManifestArtifacts_sound [of example_bundle "''models/M.json''" "['' models/tft.onnx'']" "'' models/tft.onnx''"])
  show "VerifyManifestArtifacts example_bundle ''models/M.json'' ['' models/tft.onnx''] = None" by code_simp
  show "'' models/tft.onnx'' \<in> set ['' models/tft.onnx'']" "TrimSpace '' models/tft.onnx'' \<noteq> []"
    "''models/tft.onnx'' = TrimSpace '' models/tft.onnx'' \<or>
     ''models/tft.onnx'' = TrimSpace '' models/tft.onnx'' @ ''.data'' \<and> mf_Stat example_bundle ''models/tft.onnx''"
    by code_simp+
qed

text \<open>
  Every contract that is loaded is normal: the families are distinct, not empty,
  trimmed and in lower case, and so is the cloud, wherever they came from.
\<close>

theorem LoadModelContract_normal:
  assumes "LoadModelContract fs manifestPath = Inr (Some m)"
  shows "distinct (SupportedInstanceFamilies m) \<and> [] \<notin> set (SupportedInstanceFamilies m) \<and>
    map (\<lambda>t. TrimSpace (ToLower t)) (Cloud m # SupportedInstanceFamilies m) = Cloud m # SupportedInstanceFamilies m"
proof -
  have n: "distinct (normalizeFamilies xs) \<and> [] \<notin> set (normalizeFamilies xs) \<and>
      map (\<lambda>t. TrimSpace (ToLower t)) (normalizeFamilies xs) = normalizeFamilies xs" for xs
    by (auto simp: set_normalizeFamilies distinct_normalizeFamilies TrimSpace_ToLower intro!: map_idI)
  obtain found c where r: "read_manifest fs manifestPath = Inr (found, c)" using assms
    by (auto simp: LoadModelContract_def split: sum.splits)
  have "\<exists>xs. SupportedInstanceFamilies c = normalizeFamilies xs" "TrimSpace (ToLower (Cloud c)) = Cloud c"
    using r by (auto simp: read_manifest_def manifest_contract_def Let_def TrimSpace_ToLower
        split: if_splits read_result.splits option.splits intro: exI [of _ "[]"] simp: normalizeFamilies_def [of "[]"] TrimSpace_def [of "[]"])
  moreover have "SupportedInstanceFamilies m \<in> insert (SupportedInstanceFamilies c) (range normalizeFamilies)"
    "TrimSpace (ToLower (Cloud m)) = Cloud m"
    using assms r calculation(2) by (auto simp: LoadModelContract_def Let_def TrimSpace_ToLower split: if_splits)
  ultimately show ?thesis using n by auto
qed

theorem LoadModelContract_normal_witness:
  "distinct [''c6i'', ''m5*''] \<and> [] \<notin> set [''c6i'', ''m5*''] \<and>
   map (\<lambda>t. TrimSpace (ToLower t)) (''aws'' # [''c6i'', ''m5*'']) = ''aws'' # [''c6i'', ''m5*'']"
proof -
  have "LoadModelContract example_bundle ''models/M.json'' =
    Inr (Some \<lparr>Cloud = ''aws'', SupportedInstanceFamilies = [''c6i'', ''m5*''], ArtifactChecksums = [(''tft.onnx'', ''ab'')]\<rparr>)"
    by code_simp
  from LoadModelContract_normal [OF this] show ?thesis by simp
qed

text \<open>
  When the scope is given by families, with or without a star, an instance type
  is in scope exactly when its family is one of them: the star adds nothing, and a bare star
  allows no family.
\<close>

theorem SupportsInstanceType_by_family:
  assumes "SupportedInstanceFamilies m \<noteq> []" "\<forall>t \<in> set (SupportedInstanceFamilies m). CHR ''.'' \<notin> set t"
    and "TrimSpace (ToLower i) \<notin> {[], ''unknown''}" "Cut_before CHR ''.'' (TrimSpace (ToLower i)) \<noteq> []"
  shows "SupportsInstanceType (Some m) i = None \<longleftrightarrow>
    InstanceFamilyLabel i \<in> (\<lambda>t. TrimSuffix t ''*'') ` set (SupportedInstanceFamilies m)"
proof -
  let ?i = "TrimSpace (ToLower i)"
  have f: "InstanceFamilyLabel ?i = InstanceFamilyLabel i" "InstanceFamilyLabel i = Cut_before CHR ''.'' ?i"
    using assms(3,4) by (simp_all add: InstanceFamilyLabel_def Let_def TrimSpace_ToLower)
  have "SupportsInstanceType (Some m) i = None \<longleftrightarrow>
      (\<exists>t \<in> set (SupportedInstanceFamilies m). token_supports ?i (InstanceFamilyLabel i) t)"
    using assms(1,3) f(1) by (auto simp: SupportsInstanceType_def Let_def list_ex_iff)
  also have "\<dots> \<longleftrightarrow> (\<exists>t \<in> set (SupportedInstanceFamilies m). TrimSuffix t ''*'' = InstanceFamilyLabel i)"
    using assms(2,4) f(2) by (metis token_supports_family)
  finally show ?thesis by (simp add: image_iff eq_commute)
qed

theorem SupportsInstanceType_by_family_witness:
  "SupportsInstanceType (Some \<lparr>Cloud = [], SupportedInstanceFamilies = [''c6i'', ''m5*'', ''r*''], ArtifactChecksums = []\<rparr>) ''R6i.large'' = None \<longleftrightarrow>
    InstanceFamilyLabel ''R6i.large'' \<in> (\<lambda>t. TrimSuffix t ''*'') ` set [''c6i'', ''m5*'', ''r*'']"
  using SupportsInstanceType_by_family [of "\<lparr>Cloud = [], SupportedInstanceFamilies = [''c6i'', ''m5*'', ''r*''], ArtifactChecksums = []\<rparr>" "''R6i.large''"]
  by (simp del: set_simps)  (code_simp)

end
