(* ===== verification/Engine.thy ===== *)
theory Engine
  imports Features Model_Contract
begin

text \<open>
  internal/inference/engine.go, model.go and pysr.go: the pipeline from a node state to a risk
  score and an action, and the checks a bundle of models passes before it is used. The ONNX
  runtime, the expression evaluator and the transcendental functions of package math are
  parameters. Tensors hold float32 values; releasing them is not modelled.
\<close>

section \<open>Models\<close>

record tensor =
  t_shape :: "int list"
  t_data :: "f64 list"

text \<open>
  \<open>Run\<close> gives the value at each output, \<open>None\<close> where it is not a float32 tensor, or fails.
\<close>

type_synonym session = "tensor list \<Rightarrow> (nat \<Rightarrow> tensor option) option"

record ort =
  ort_NewTensor :: "int list \<Rightarrow> f64 list \<Rightarrow> tensor option"
  ort_NewSession :: "string \<Rightarrow> string list \<Rightarrow> string list \<Rightarrow> session option"

record Model =
  m_session :: session
  m_inputs :: "string list"
  m_outputs :: "string list"

definition NewModel :: "ort \<Rightarrow> string \<Rightarrow> string list \<Rightarrow> string list \<Rightarrow> Model option" where
  "NewModel rt path inputNames outputNames =
     map_option (\<lambda>s. \<lparr>m_session = s, m_inputs = inputNames, m_outputs = outputNames\<rparr>)
       (ort_NewSession rt path inputNames outputNames)"

datatype predict_error = MissingInput string | RunFailed | UnexpectedOutputType string

fun gather_inputs :: "(string \<rightharpoonup> tensor) \<Rightarrow> string list \<Rightarrow> predict_error + tensor list" where
  "gather_inputs input [] = Inr []"
| "gather_inputs input (name # names) =
     (case input name of
        None \<Rightarrow> Inl (MissingInput name)
      | Some t \<Rightarrow> (case gather_inputs input names of Inl e \<Rightarrow> Inl e | Inr ts \<Rightarrow> Inr (t # ts)))"

fun gather_outputs :: "(nat \<Rightarrow> tensor option) \<Rightarrow> nat \<Rightarrow> string list \<Rightarrow> (string \<rightharpoonup> tensor) \<Rightarrow> predict_error + (string \<rightharpoonup> tensor)" where
  "gather_outputs values i [] result = Inr result"
| "gather_outputs values i (name # names) result =
     (case values i of
        None \<Rightarrow> Inl (UnexpectedOutputType name)
      | Some t \<Rightarrow> gather_outputs values (Suc i) names (result(name \<mapsto> t)))"

definition Model_Predict :: "Model \<Rightarrow> (string \<rightharpoonup> tensor) \<Rightarrow> predict_error + (string \<rightharpoonup> tensor)" where
  "Model_Predict m input =
     (case gather_inputs input (m_inputs m) of
        Inl e \<Rightarrow> Inl e
      | Inr inputValues \<Rightarrow>
          (case m_session m inputValues of
             None \<Rightarrow> Inl RunFailed
           | Some values \<Rightarrow> gather_outputs values 0 (m_outputs m) Map.empty))"

section \<open>Symbolic regression\<close>

text \<open>A value of type \<open>interface{}\<close>, as far as \<open>toFloatAny\<close> tells types apart.\<close>

datatype any = AnyFloat64 f64 | AnyFloat32 f64 | AnyInt int | AnyInt64 int | AnyInt32 int
  | AnyUint int | AnyUint64 int | AnyUint32 int | AnyOther

type_synonym any_fun = "any list \<Rightarrow> any option"

record mathlib =
  math_Pow :: "f64 \<Rightarrow> f64 \<Rightarrow> f64"
  math_Exp :: "f64 \<Rightarrow> f64"
  math_Log :: "f64 \<Rightarrow> f64"
  math_Sin :: "f64 \<Rightarrow> f64"
  math_Cos :: "f64 \<Rightarrow> f64"
  math_Tan :: "f64 \<Rightarrow> f64"

record expression =
  ex_vars :: "string list"
  ex_eval :: "(string \<rightharpoonup> any) \<Rightarrow> any option"

type_synonym govaluate = "string \<Rightarrow> (string \<rightharpoonup> any_fun) \<Rightarrow> expression option"

fun toFloatAny :: "any \<Rightarrow> f64 option" where
  "toFloatAny (AnyFloat64 v) = Some v"
| "toFloatAny (AnyFloat32 v) = Some v"
| "toFloatAny (AnyInt v) = Some (f64_of_int v)"
| "toFloatAny (AnyInt64 v) = Some (f64_of_int v)"
| "toFloatAny (AnyInt32 v) = Some (f64_of_int v)"
| "toFloatAny (AnyUint v) = Some (f64_of_int v)"
| "toFloatAny (AnyUint64 v) = Some (f64_of_int v)"
| "toFloatAny (AnyUint32 v) = Some (f64_of_int v)"
| "toFloatAny AnyOther = None"

definition toFloat :: "any list \<Rightarrow> nat \<Rightarrow> f64 option" where
  "toFloat args idx = (if length args \<le> idx then None else toFloatAny (args ! idx))"

definition unary :: "(f64 \<Rightarrow> f64) \<Rightarrow> any_fun" where
  "unary f = (\<lambda>args. map_option (\<lambda>v. AnyFloat64 (f v)) (toFloat args 0))"

definition limit_to :: "f64 \<Rightarrow> f64 \<Rightarrow> f64" where
  "limit_to b v = (if v < - b then - b else if b < v then b else v)"

definition pysr_functions :: "mathlib \<Rightarrow> string \<rightharpoonup> any_fun" where
  "pysr_functions ml =
     [''sqrt'' \<mapsto> unary (\<lambda>v. math_Sqrt (if v < Fin 0 then Fin 0 else v)),
      ''square'' \<mapsto> unary (\<lambda>v. v * v),
      ''exp'' \<mapsto> unary (math_Exp ml),
      ''log'' \<mapsto> unary (\<lambda>v. math_Log ml (if v \<le> Fin 0 then to_f64 (1 / 1000000) else v)),
      ''sin'' \<mapsto> unary (\<lambda>v. math_Sin ml (limit_to (Fin 20) v)),
      ''cos'' \<mapsto> unary (\<lambda>v. math_Cos ml (limit_to (Fin 20) v)),
      ''tan'' \<mapsto> unary (\<lambda>v. math_Tan ml (limit_to (to_f64 (7 / 5)) v))]"

record PySREquation =
  eq_expression :: expression
  eq_vars :: "string list"
  eq_outputMin :: f64
  eq_outputMax :: f64

definition loadEquation :: "mathlib \<Rightarrow> govaluate \<Rightarrow> string model_files \<Rightarrow> string \<Rightarrow> f64 \<Rightarrow> f64 \<Rightarrow> PySREquation option" where
  "loadEquation ml gov fs path outputMin outputMax =
     (case mf_ReadFile fs path of
        ReadOk payload \<Rightarrow>
          let expr = TrimSpace payload in
          if expr = [] then None
          else map_option (\<lambda>ev. \<lparr>eq_expression = ev, eq_vars = ex_vars ev, eq_outputMin = outputMin, eq_outputMax = outputMax\<rparr>)
                 (gov expr (pysr_functions ml))
      | _ \<Rightarrow> None)"

fun gather_params :: "(string \<rightharpoonup> f64) \<Rightarrow> string list \<Rightarrow> (string \<rightharpoonup> any) option" where
  "gather_params features [] = Some Map.empty"
| "gather_params features (key # keys) =
     (case features key of
        None \<Rightarrow> None
      | Some value \<Rightarrow> map_option (\<lambda>params. params(key \<mapsto> AnyFloat64 value)) (gather_params features keys))"

definition Equation_Evaluate :: "PySREquation \<Rightarrow> (string \<rightharpoonup> f64) \<Rightarrow> f64 option" where
  "Equation_Evaluate e features =
     (case gather_params features (eq_vars e) of
        None \<Rightarrow> None
      | Some params \<Rightarrow>
          (case ex_eval (eq_expression e) params of
             None \<Rightarrow> None
           | Some result \<Rightarrow>
               map_option (\<lambda>value. if value < eq_outputMin e then eq_outputMin e
                                    else if eq_outputMax e < value then eq_outputMax e else value)
                 (toFloatAny result)))"

record PySREngine =
  calibration :: "PySREquation option"
  fusion :: "PySREquation option"

text \<open>\<open>lookupEnv\<close> is \<open>os.LookupEnv\<close>. The flags are read once; the environment does not change.\<close>

definition envFlag :: "(string \<rightharpoonup> string) \<Rightarrow> string \<Rightarrow> bool \<Rightarrow> bool" where
  "envFlag lookupEnv name defaultValue =
     (case lookupEnv name of
        None \<Rightarrow> defaultValue
      | Some raw \<Rightarrow>
          let v = ToLower (TrimSpace raw) in
          if v \<in> {''1'', ''true'', ''yes'', ''on''} then True
          else if v \<in> {''0'', ''false'', ''no'', ''off''} then False
          else defaultValue)"

definition calibrationEnabled :: "(string \<rightharpoonup> string) \<Rightarrow> bool" where
  "calibrationEnabled lookupEnv = envFlag lookupEnv ''VORTEX_ENABLE_PYSR_FEATURES'' True"

definition fusionEnabled :: "(string \<rightharpoonup> string) \<Rightarrow> bool" where
  "fusionEnabled lookupEnv = envFlag lookupEnv ''VORTEX_ENABLE_PYSR_FUSION'' True"

definition NewPySREngine :: "mathlib \<Rightarrow> govaluate \<Rightarrow> string model_files \<Rightarrow> (string \<rightharpoonup> string) \<Rightarrow> string \<Rightarrow> string \<Rightarrow> PySREngine" where
  "NewPySREngine ml gov fs lookupEnv calibrationPath fusionPath =
     \<lparr>calibration = (if calibrationEnabled lookupEnv then loadEquation ml gov fs calibrationPath (Fin 0) (Fin 1) else None),
      fusion = (if fusionEnabled lookupEnv then loadEquation ml gov fs fusionPath (Fin 0) (Fin 1) else None)\<rparr>"

text \<open>A nil engine is \<open>None\<close>; so is the answer that the equation does not apply.\<close>

definition ApplyCalibration :: "PySREngine option \<Rightarrow> (string \<rightharpoonup> f64) \<Rightarrow> f64 option" where
  "ApplyCalibration p features =
     (case p of None \<Rightarrow> None
      | Some p \<Rightarrow> (case calibration p of None \<Rightarrow> None | Some e \<Rightarrow> Equation_Evaluate e features))"

definition ApplyFusion :: "PySREngine option \<Rightarrow> (string \<rightharpoonup> f64) \<Rightarrow> f64 option" where
  "ApplyFusion p features =
     (case p of None \<Rightarrow> None
      | Some p \<Rightarrow> (case fusion p of None \<Rightarrow> None | Some e \<Rightarrow> Equation_Evaluate e features))"

definition PySR_Enabled :: "PySREngine option \<Rightarrow> bool" where
  "PySR_Enabled p = (case p of None \<Rightarrow> False | Some p \<Rightarrow> calibration p \<noteq> None \<or> fusion p \<noteq> None)"

section \<open>Scores\<close>

datatype score_error = TensorEmpty | InvalidOffset "int list" int

definition data_at :: "tensor \<Rightarrow> int \<Rightarrow> score_error + f64" where
  "data_at t i =
     (if 0 \<le> i \<and> i < int (length (t_data t)) then Inr (t_data t ! nat i) else Inl (InvalidOffset (t_shape t) i))"

definition extractRiskScoreValue :: "tensor \<Rightarrow> score_error + f64" where
  "extractRiskScoreValue t =
     (let shape = t_shape t in
      if t_data t = [] then Inl TensorEmpty
      else if length shape = 3 \<and> shape ! 1 > 0 \<and> shape ! 2 > 0
      then let horizon = shape ! 1; quantiles = shape ! 2;
               leadSteps = (if 6 \<ge> horizon then horizon - 1 else 6)
           in data_at t (wrap 64 (leadSteps * quantiles + go_div quantiles 2))
      else if length shape = 2 \<and> shape ! 1 > 0 then data_at t (go_div (shape ! 1) 2)
      else Inr (t_data t ! 0))"

datatype infer_error = TensorFailed | PredictFailed predict_error | OutputMissing string
  | ScoreFailed string score_error | EmptyQValues | BadQShape "int list" | TooFewQValues
  | RLFallbackError f64 f64 infer_error

definition extractRiskScores :: "(string \<rightharpoonup> tensor) \<Rightarrow> infer_error + f64 \<times> f64" where
  "extractRiskScores outputs =
     (case outputs ''capacity_score'' of
        None \<Rightarrow> Inl (OutputMissing ''capacity_score'')
      | Some capacityTensor \<Rightarrow>
          (case outputs ''runtime_score'' of
             None \<Rightarrow> Inl (OutputMissing ''runtime_score'')
           | Some runtimeTensor \<Rightarrow>
               (case extractRiskScoreValue capacityTensor of
                  Inl e \<Rightarrow> Inl (ScoreFailed ''capacity_score'' e)
                | Inr capacity \<Rightarrow>
                    (case extractRiskScoreValue runtimeTensor of
                       Inl e \<Rightarrow> Inl (ScoreFailed ''runtime_score'' e)
                     | Inr runtime \<Rightarrow> Inr (capacity, runtime)))))"

definition AsRLFallbackError :: "infer_error \<Rightarrow> (f64 \<times> f64) option" where
  "AsRLFallbackError e = (case e of RLFallbackError c r cause \<Rightarrow> Some (c, r) | _ \<Rightarrow> None)"

text \<open>The runtime risk multiplier acts on the odds of a score.\<close>

definition scale_risk :: "mathlib \<Rightarrow> f64 \<Rightarrow> f64 \<Rightarrow> f64" where
  "scale_risk ml riskMultiplier score =
     (if feq riskMultiplier (Fin 1) then score
      else let s = (if score < to_f64 (1 / 1000000) then to_f64 (1 / 1000000)
                    else if to_f64 (999999 / 1000000) < score then to_f64 (999999 / 1000000) else score);
               odds = s / (Fin 1 - s);
               adjustedOdds = math_Pow ml odds riskMultiplier
           in adjustedOdds / (Fin 1 + adjustedOdds))"

fun argmax_loop :: "nat \<Rightarrow> nat \<Rightarrow> f64 \<Rightarrow> f64 list \<Rightarrow> nat \<times> f64" where
  "argmax_loop i best maxQ [] = (best, maxQ)"
| "argmax_loop i best maxQ (q # qs) =
     (if maxQ < q then argmax_loop (Suc i) i q qs else argmax_loop (Suc i) best maxQ qs)"

definition argmax_q :: "f64 list \<Rightarrow> nat \<times> f64" where
  "argmax_q qValues = argmax_loop 1 0 (hd qValues) (tl qValues)"

section \<open>The engine\<close>

record InferenceEngine =
  e_tft :: Model
  e_rl :: Model
  e_pysr :: "PySREngine option"
  e_scope :: "ModelContract option"
  e_builder :: FeatureBuilder

record prediction =
  p_action :: Action
  p_capacity :: f64
  p_runtime :: f64
  p_confidence :: f64
  p_err :: "infer_error option"

definition failed_prediction :: "infer_error \<Rightarrow> prediction" where
  "failed_prediction e = \<lparr>p_action = ActionHold, p_capacity = Fin 0, p_runtime = Fin 0, p_confidence = Fin 0, p_err = Some e\<rparr>"

definition rl_fallback :: "f64 \<Rightarrow> f64 \<Rightarrow> infer_error \<Rightarrow> prediction" where
  "rl_fallback finalScore runtimeScore cause =
     \<lparr>p_action = ActionHold, p_capacity = f32_of_f64 finalScore, p_runtime = f32_of_f64 runtimeScore,
      p_confidence = Fin 0, p_err = Some (RLFallbackError (f32_of_f64 finalScore) (f32_of_f64 runtimeScore) cause)\<rparr>"

definition calibrated_score :: "PySREngine option \<Rightarrow> NodeState \<Rightarrow> f64 \<Rightarrow> f64" where
  "calibrated_score pysr state rawScore =
     (let priceVolatility = (if length (ns_PriceHistory state) > 1 then calculateStdDev (ns_PriceHistory state) else Fin 0);
          calibrationScore =
            (case ApplyCalibration pysr [''capacity_score'' \<mapsto> rawScore, ''price_volatility'' \<mapsto> priceVolatility] of
               None \<Rightarrow> rawScore | Some score \<Rightarrow> score)
      in case ApplyFusion pysr [''pysr_calibrated_risk'' \<mapsto> calibrationScore,
                ''pod_startup_time'' \<mapsto> ns_PodStartupTime state,
                ''outage_penalty_hours'' \<mapsto> ns_OutagePenaltyHours state,
                ''cluster_utilization'' \<mapsto> ns_ClusterUtilization state,
                ''priority_score'' \<mapsto> ns_PriorityScore state] of
           None \<Rightarrow> calibrationScore | Some score \<Rightarrow> score)"

definition rl_select :: "ort \<Rightarrow> Model \<Rightarrow> f64 list \<Rightarrow> f64 \<Rightarrow> f64 \<Rightarrow> prediction" where
  "rl_select rt rl rlFeatures finalScore runtimeScore =
     (case ort_NewTensor rt [1, int (length rlFeatures)] rlFeatures of
        None \<Rightarrow> rl_fallback finalScore runtimeScore TensorFailed
      | Some t \<Rightarrow>
          (case Model_Predict rl [''state'' \<mapsto> t] of
             Inl e \<Rightarrow> rl_fallback finalScore runtimeScore (PredictFailed e)
           | Inr rlOutputs \<Rightarrow>
               (case rlOutputs ''q_values'' of
                  None \<Rightarrow> rl_fallback finalScore runtimeScore (OutputMissing ''q_values'')
                | Some qTensor \<Rightarrow>
                    if t_data qTensor = [] then rl_fallback finalScore runtimeScore EmptyQValues
                    else case argmax_q (t_data qTensor) of (bestAction, maxQ) \<Rightarrow>
                      \<lparr>p_action = Action_of_int (int bestAction),
                       p_capacity = f32_of_f64 finalScore, p_runtime = f32_of_f64 runtimeScore,
                       p_confidence = (if maxQ < Fin (- 1000) then to_f32 (1 / 10) else Fin 1), p_err = None\<rparr>)))"

text \<open>Steps 1 to 2.6 of the pipeline: the final capacity score and the runtime score.\<close>

definition tft_scores :: "ort \<Rightarrow> mathlib \<Rightarrow> InferenceEngine \<Rightarrow> NodeState \<Rightarrow> f64 \<Rightarrow> infer_error + f64 \<times> f64" where
  "tft_scores rt ml e state riskMultiplier =
     (case ort_NewTensor rt [1, int TFTHistorySteps, int TFTFeatureCount] (BuildTFTInput state) of
        None \<Rightarrow> Inl TensorFailed
      | Some tftInput \<Rightarrow>
          (case Model_Predict (e_tft e) [''input'' \<mapsto> tftInput] of
             Inl err \<Rightarrow> Inl (PredictFailed err)
           | Inr tftOutputs \<Rightarrow>
               (case extractRiskScores tftOutputs of
                  Inl err \<Rightarrow> Inl err
                | Inr (rawScore, rawRuntimeScore) \<Rightarrow>
                    Inr (scale_risk ml riskMultiplier (calibrated_score (e_pysr e) state rawScore),
                         scale_risk ml riskMultiplier rawRuntimeScore))))"

text \<open>The builder's update comes first; an index out of range there would be the panic \<open>None\<close>.\<close>

definition PredictDetailed :: "ort \<Rightarrow> mathlib \<Rightarrow> InferenceEngine \<Rightarrow> string \<Rightarrow> NodeState \<Rightarrow> f64 \<Rightarrow> (InferenceEngine \<times> prediction) option" where
  "PredictDetailed rt ml e nodeID state riskMultiplier =
     (case UpdatePriceHistory (e_builder e) nodeID (ns_SpotPrice state) of
        None \<Rightarrow> None
      | Some builder \<Rightarrow>
          Some (e\<lparr>e_builder := builder\<rparr>,
            case tft_scores rt ml e state riskMultiplier of
              Inl err \<Rightarrow> failed_prediction err
            | Inr (finalScore, runtimeScore) \<Rightarrow>
                let state = state\<lparr>ns_RuntimeScore := runtimeScore\<rparr>
                in rl_select rt (e_rl e) (BuildRLInput state finalScore) finalScore runtimeScore))"

definition Predict :: "ort \<Rightarrow> mathlib \<Rightarrow> InferenceEngine \<Rightarrow> string \<Rightarrow> NodeState \<Rightarrow> f64 \<Rightarrow>
    (InferenceEngine \<times> Action \<times> f64 \<times> f64 \<times> infer_error option) option" where
  "Predict rt ml e nodeID state riskMultiplier =
     map_option (\<lambda>(e', p). (e', p_action p, p_capacity p, p_confidence p, p_err p))
       (PredictDetailed rt ml e nodeID state riskMultiplier)"

section \<open>Construction\<close>

definition validateTFTOutputContract :: "(string \<rightharpoonup> tensor) \<Rightarrow> infer_error option" where
  "validateTFTOutputContract tftOutputs = (case extractRiskScores tftOutputs of Inl e \<Rightarrow> Some e | Inr _ \<Rightarrow> None)"

definition validateRLQValuesOutputContract :: "(string \<rightharpoonup> tensor) \<Rightarrow> infer_error option" where
  "validateRLQValuesOutputContract rlOutputs =
     (case rlOutputs ''q_values'' of
        None \<Rightarrow> Some (OutputMissing ''q_values'')
      | Some t \<Rightarrow>
          if t_shape t = [] \<or> last (t_shape t) \<noteq> 6 then Some (BadQShape (t_shape t))
          else if length (t_data t) < 6 then Some TooFewQValues else None)"

text \<open>The instant 1700000000 is a Tuesday, 22 h UTC.\<close>

definition contractState :: NodeState where
  "contractState =
     \<lparr>ns_SpotPrice = to_f64 (31 / 100), ns_OnDemandPrice = to_f64 (97 / 100),
      ns_PriceHistory = map (\<lambda>n. to_f64 (of_int n / 100)) [31, 32, 30, 29, 31, 33, 34, 33, 32, 31, 30, 29],
      ns_CPUUsage = Fin (1 / 2), ns_MemoryUsage = to_f64 (55 / 100), ns_PodStartupTime = Fin 30,
      ns_OutagePenaltyHours = Fin 1, ns_MigrationCost = Fin 1, ns_PriorityScore = Fin 0,
      ns_ClusterUtilization = to_f64 (6 / 10), ns_TimeSinceMigration = 5, ns_RuntimeScore = to_f64 (15 / 100),
      ns_IsSpot = True, ns_CurrentSpotRatio = to_f64 (6 / 10), ns_TargetSpotRatio = to_f64 (6 / 10),
      ns_PoolSafety = \<lparr>CriticalServiceSpotConcentration = Fin 0, MinPDBSlackIfOneNodeLost = Fin 0,
        MinPDBSlackIfTwoNodesLost = Fin 0, StatefulPodFraction = Fin 0, RestartP95Seconds = Fin 0,
        RecoveryBudgetViolationRisk = Fin 0, SpareODHeadroomNodes = Fin 0, ZoneDiversificationScore = Fin 0,
        EvictablePodFraction = Fin 0, SafeMaxSpotRatio = Fin 0\<rparr>,
      ns_Hour = 22, ns_Weekday = 2\<rparr>"

definition validateModelContracts :: "ort \<Rightarrow> InferenceEngine \<Rightarrow> infer_error option" where
  "validateModelContracts rt e =
     (case ort_NewTensor rt [1, int TFTHistorySteps, int TFTFeatureCount] (BuildTFTInput contractState) of
        None \<Rightarrow> Some TensorFailed
      | Some tftTensor \<Rightarrow>
          (case Model_Predict (e_tft e) [''input'' \<mapsto> tftTensor] of
             Inl err \<Rightarrow> Some (PredictFailed err)
           | Inr tftOutputs \<Rightarrow>
               (case validateTFTOutputContract tftOutputs of
                  Some err \<Rightarrow> Some err
                | None \<Rightarrow>
                    (case ort_NewTensor rt [1, int RLFeatureCount] (BuildRLInput contractState (Fin (1 / 4))) of
                       None \<Rightarrow> Some TensorFailed
                     | Some rlTensor \<Rightarrow>
                         (case Model_Predict (e_rl e) [''state'' \<mapsto> rlTensor] of
                            Inl err \<Rightarrow> Some (PredictFailed err)
                          | Inr rlOutputs \<Rightarrow> validateRLQValuesOutputContract rlOutputs)))))"

record EngineConfig =
  ec_TFTModelPath :: string
  ec_RLModelPath :: string
  ec_PySRCalibrationPath :: string
  ec_PySRFusionPath :: string
  ec_ModelManifestPath :: string
  ec_ExpectedCloud :: string
  ec_RequireModelContract :: bool

datatype engine_error = ContractLoadFailed contract_error | ContractRequired | ArtifactsRejected contract_error
  | CloudMismatch string string | TFTLoadFailed | RLLoadFailed | ContractCheckFailed infer_error

definition engine_manifest_path :: "EngineConfig \<Rightarrow> string" where
  "engine_manifest_path cfg =
     (let p = TrimSpace (ec_ModelManifestPath cfg) in if p = [] then defaultManifestPath (ec_TFTModelPath cfg) else p)"

definition check_scope :: "string model_files \<Rightarrow> EngineConfig \<Rightarrow> ModelContract option \<Rightarrow> engine_error option" where
  "check_scope fs cfg scope =
     (case (if ec_RequireModelContract cfg
            then (case scope of None \<Rightarrow> Some ContractRequired
                  | Some _ \<Rightarrow> map_option ArtifactsRejected
                      (VerifyManifestArtifacts fs (engine_manifest_path cfg) [ec_TFTModelPath cfg, ec_RLModelPath cfg]))
            else None) of
        Some err \<Rightarrow> Some err
      | None \<Rightarrow>
          (case scope of None \<Rightarrow> None
           | Some scope \<Rightarrow>
               let expectedCloud = TrimSpace (ToLower (ec_ExpectedCloud cfg));
                   expectedCloud = (if expectedCloud = [] then TrimSpace (ToLower (mf_Getenv fs ''SPOTVORTEX_CLOUD'')) else expectedCloud)
               in if expectedCloud \<noteq> [] \<and> Cloud scope \<noteq> [] \<and> Cloud scope \<noteq> expectedCloud
                  then Some (CloudMismatch expectedCloud (Cloud scope)) else None))"

definition NewInferenceEngine ::
  "ort \<Rightarrow> mathlib \<Rightarrow> govaluate \<Rightarrow> string model_files \<Rightarrow> (string \<rightharpoonup> string) \<Rightarrow> EngineConfig \<Rightarrow> engine_error + InferenceEngine" where
  "NewInferenceEngine rt ml gov fs lookupEnv cfg =
     (case LoadModelContract fs (engine_manifest_path cfg) of
        Inl e \<Rightarrow> Inl (ContractLoadFailed e)
      | Inr scope \<Rightarrow>
          (case check_scope fs cfg scope of
             Some e \<Rightarrow> Inl e
           | None \<Rightarrow>
               (case NewModel rt (ec_TFTModelPath cfg) [''input''] [''capacity_score'', ''runtime_score''] of
                  None \<Rightarrow> Inl TFTLoadFailed
                | Some tft \<Rightarrow>
                    (case NewModel rt (ec_RLModelPath cfg) [''state''] [''q_values''] of
                       None \<Rightarrow> Inl RLLoadFailed
                     | Some rl \<Rightarrow>
                         let calib = (if ec_PySRCalibrationPath cfg = [] then ''models/pysr/calibration_equation.txt'' else ec_PySRCalibrationPath cfg);
                             fus = (if ec_PySRFusionPath cfg = [] then ''models/pysr/context_equation.txt'' else ec_PySRFusionPath cfg);
                             engine = \<lparr>e_tft = tft, e_rl = rl, e_pysr = Some (NewPySREngine ml gov fs lookupEnv calib fus),
                                       e_scope = scope, e_builder = NewFeatureBuilder\<rparr>
                         in case validateModelContracts rt engine of
                              Some err \<Rightarrow> Inl (ContractCheckFailed err)
                            | None \<Rightarrow> Inr engine))))"

definition Engine_SupportsInstanceType :: "InferenceEngine option \<Rightarrow> string \<Rightarrow> scope_reason option" where
  "Engine_SupportsInstanceType e instanceType =
     (case e of None \<Rightarrow> None | Some e \<Rightarrow> SupportsInstanceType (e_scope e) instanceType)"

section \<open>The shared library\<close>

text \<open>
  \<open>sl_Stat\<close> is \<open>None\<close> for a path that is not there and otherwise says whether it is a
  directory; \<open>sl_Glob\<close> is \<open>filepath.Glob\<close>, \<open>None\<close> for a malformed pattern.
\<close>

record library_files =
  sl_Stat :: "string \<Rightarrow> bool option"
  sl_Glob :: "string \<Rightarrow> string list option"
  sl_Getenv :: "string \<Rightarrow> string"

fun string_less :: "string \<Rightarrow> string \<Rightarrow> bool" where
  "string_less _ [] = False"
| "string_less [] (d # t) = True"
| "string_less (c # s) (d # t) =
     ((of_char c :: nat) < of_char d \<or> c = d \<and> string_less s t)"

definition glob_all :: "library_files \<Rightarrow> (string list \<Rightarrow> string list) \<Rightarrow> string list \<Rightarrow> string list" where
  "glob_all fs arrange patterns =
     concat (map (\<lambda>p. case sl_Glob fs p of None \<Rightarrow> [] | Some ms \<Rightarrow> arrange ms) patterns)"

definition appendSharedLibraryCandidates :: "library_files \<Rightarrow> string list \<Rightarrow> string \<Rightarrow> string list" where
  "appendSharedLibraryCandidates fs paths rawPath =
     (let path = TrimSpace rawPath in
      if path = [] then paths
      else if sl_Stat fs path \<noteq> Some True then paths @ [path]
      else let found = glob_all fs (SliceStable string_less)
                 [Join2 path ''libonnxruntime.so'', Join2 path ''libonnxruntime.so.*'',
                  Join2 path ''libonnxruntime.dylib'', Join2 path ''libonnxruntime*.dylib'']
           in if found = [] then paths @ [path] else paths @ found)"

definition venv_patterns :: "string list" where
  "venv_patterns =
     concat (map (\<lambda>root. [root @ ''.venv/lib/python*/site-packages/onnxruntime/capi/libonnxruntime*.dylib'',
                          root @ ''.venv/lib/python*/site-packages/onnxruntime/capi/libonnxruntime*.so*''])
       ['''', ''tests/e2e/'', ''vortex/'', ''spot-vortex/tests/e2e/''])"

definition appendVenvONNXRuntimeCandidates :: "library_files \<Rightarrow> string list \<Rightarrow> string list" where
  "appendVenvONNXRuntimeCandidates fs paths =
     paths @ concat (map (\<lambda>prefix. glob_all fs id (map (Join2 prefix) venv_patterns))
       [''.'', ''..'', ''../..'', ''../../..'', ''../../../..''])"

definition shared_library_candidates :: "library_files \<Rightarrow> string list" where
  "shared_library_candidates fs =
     (let env1 = sl_Getenv fs ''ORT_SHARED_LIBRARY_PATH'';
          paths = (if env1 \<noteq> [] then appendSharedLibraryCandidates fs [] env1 else []);
          env2 = sl_Getenv fs ''SPOTVORTEX_ONNXRUNTIME_PATH'';
          paths = (if env2 \<noteq> [] then appendSharedLibraryCandidates fs paths env2 else paths)
      in appendVenvONNXRuntimeCandidates fs paths @
         [''/opt/homebrew/lib/libonnxruntime.dylib'', ''/usr/local/lib/libonnxruntime.dylib'', ''/usr/lib/libonnxruntime.so''])"

text \<open>The path handed to the runtime. Skipping paths seen before does not change which one is first.\<close>

fun first_existing :: "library_files \<Rightarrow> string list \<Rightarrow> string list \<Rightarrow> string" where
  "first_existing fs seen [] = ''onnxruntime''"
| "first_existing fs seen (p # ps) =
     (if p \<in> set seen then first_existing fs seen ps
      else if sl_Stat fs p \<noteq> None then p else first_existing fs (p # seen) ps)"

definition SetSharedLibraryPath :: "library_files \<Rightarrow> string" where
  "SetSharedLibraryPath fs = first_existing fs [] (shared_library_candidates fs)"

lemma first_existing_find:
  "(\<And>p. p \<in> set seen \<Longrightarrow> sl_Stat fs p = None) \<Longrightarrow>
     first_existing fs seen ps = (case find (\<lambda>p. sl_Stat fs p \<noteq> None) ps of None \<Rightarrow> ''onnxruntime'' | Some p \<Rightarrow> p)"
  by (induction fs seen ps rule: first_existing.induct) auto

lemma SetSharedLibraryPath_eq:
  "SetSharedLibraryPath fs =
     (case find (\<lambda>p. sl_Stat fs p \<noteq> None) (shared_library_candidates fs) of None \<Rightarrow> ''onnxruntime'' | Some p \<Rightarrow> p)"
  unfolding SetSharedLibraryPath_def by (rule first_existing_find) simp

text \<open>A library the operator names and that exists as a file is the one that is used.\<close>

lemma SetSharedLibraryPath_operator:
  assumes "sl_Stat fs p = Some False" "sl_Getenv fs ''ORT_SHARED_LIBRARY_PATH'' = p" "p \<noteq> []" "TrimSpace p = p"
  shows "SetSharedLibraryPath fs = p"
proof -
  have 1: "appendSharedLibraryCandidates fs [] p = [p]"
    using assms(1,3,4) by (simp add: appendSharedLibraryCandidates_def)
  have 2: "\<exists>rest. appendSharedLibraryCandidates fs [p] q = p # rest" for q
    by (simp add: appendSharedLibraryCandidates_def Let_def)
  have "\<exists>rest. shared_library_candidates fs = p # rest"
    using assms(2,3) 1 2 [of "sl_Getenv fs ''SPOTVORTEX_ONNXRUNTIME_PATH''"]
    by (auto simp: shared_library_candidates_def Let_def appendVenvONNXRuntimeCandidates_def)
  then show ?thesis using assms(1) by (auto simp: SetSharedLibraryPath_eq)
qed

section \<open>Action selection\<close>

lemma argmax_loop_spec:
  assumes "best < i" "maxQ = q ! best" "length q = i + length qs" "qs = drop i q"
    and "\<And>j. j < i \<Longrightarrow> \<not> maxQ < q ! j" "\<And>j. j < best \<Longrightarrow> q ! j < maxQ \<or> q ! j = NaN"
  shows "case argmax_loop i best maxQ qs of (n, m) \<Rightarrow>
    n < length q \<and> m = q ! n \<and> (\<forall>j < length q. \<not> m < q ! j) \<and> (\<forall>j < n. q ! j < m \<or> q ! j = NaN)"
    (is "?P (argmax_loop i best maxQ qs)")
  using assms
proof (induction i best maxQ qs rule: argmax_loop.induct)
  case (2 i best maxQ x qs)
  have x: "x = q ! i" "drop (Suc i) q = qs" "i < length q"
    using "2.prems"(3,4) by (metis nth_via_drop, metis drop_Suc list.sel(3) tl_drop, metis drop_eq_Nil list.distinct(1) not_le)
  have l: "length q = Suc i + length qs" using "2.prems"(3) by simp
  show ?case
  proof (cases "maxQ < x")
    case True
    have "\<not> x < q ! j" if "j < Suc i" for j
      using that True x(1) "2.prems"(5) [of j] by (cases "j = i") (auto simp: f_irrefl dest: f_less_imp_le f_le_less_trans)
    moreover have "q ! j < x \<or> q ! j = NaN" if "j < i" for j
    proof (cases "q ! j = NaN")
      case False
      with that True "2.prems"(5) [of j] have "q ! j \<le> maxQ" using f_lessD [OF True] by (auto simp: f_not_less)
      with True show ?thesis using f_le_less_trans by blast
    qed simp
    ultimately have "?P (argmax_loop (Suc i) i x qs)"
      using l x(1,2) by (intro "2.IH"(1) [OF True]) simp_all
    with True show ?thesis by simp
  next
    case False
    then have "\<not> maxQ < q ! j" if "j < Suc i" for j
      using that x(1) "2.prems"(5) [of j] by (cases "j = i") auto
    then have "?P (argmax_loop (Suc i) best maxQ qs)"
      using l x(2) "2.prems"(1,2,6) by (intro "2.IH"(2) [OF False]) simp_all
    with False show ?thesis by simp
  qed
qed simp

lemma argmax_q_spec:
  assumes "q \<noteq> []"
  shows "case argmax_q q of (n, m) \<Rightarrow>
    n < length q \<and> m = q ! n \<and> (\<forall>j < length q. \<not> m < q ! j) \<and> (\<forall>j < n. q ! j < m \<or> q ! j = NaN)"
  unfolding argmax_q_def using assms by (intro argmax_loop_spec) (auto simp: hd_conv_nth drop_Suc)

section \<open>Bounds of the scores\<close>

text \<open>
  What is used of \<open>math.Pow\<close>: on the odds and multipliers that occur it returns a
  floating-point number that is not negative, and NaN for the base NaN. Nothing else is said of
  its value.
\<close>

definition pow_law :: "mathlib \<Rightarrow> bool" where
  "pow_law ml \<longleftrightarrow> (\<forall>x y. Fin 0 < y \<longrightarrow> y \<le> Fin 10 \<longrightarrow> math_Pow ml NaN y = NaN \<and>
     (Fin 0 \<le> x \<longrightarrow> x \<le> Fin 10000000 \<longrightarrow> (\<exists>r \<ge> 0. math_Pow ml x y = Fin r \<and> to_f64 r = Fin r)))"

text \<open>The equations clamp to the unit interval, as \<open>NewPySREngine\<close> loads them.\<close>

definition pysr_unit :: "PySREngine option \<Rightarrow> bool" where
  "pysr_unit p \<longleftrightarrow> (\<forall>e. p = Some e \<longrightarrow>
     (\<forall>q \<in> set_option (calibration e) \<union> set_option (fusion e). eq_outputMin q = Fin 0 \<and> eq_outputMax q = Fin 1))"

text \<open>The outputs of a model are probabilities.\<close>

definition probability_model :: "Model \<Rightarrow> bool" where
  "probability_model m \<longleftrightarrow>
     (\<forall>inputs values i t. m_session m inputs = Some values \<longrightarrow> values i = Some t \<longrightarrow> list_all unit01 (t_data t))"

definition unit_or_NaN :: "f64 \<Rightarrow> bool" where
  "unit_or_NaN x \<longleftrightarrow> unit01 x \<or> x = NaN"

lemma unit01_Fin_iff [simp]: "unit01 (Fin r) \<longleftrightarrow> 0 \<le> r \<and> r \<le> 1"
  by (simp add: unit01_def)

lemma unit01_f32: "unit01 x \<Longrightarrow> unit01 (f32_of_f64 x)"
proof -
  assume "unit01 x"
  then obtain r where r: "x = Fin r" "0 \<le> r" "r \<le> 1" by (auto simp: unit01_def dest!: f_between_finite)
  with rnd32.rd_unit [of r] show ?thesis by auto
qed

lemma odds_ratio_unit:
  assumes "0 \<le> r" "to_f64 r = Fin r"
  shows "unit01 (Fin r / (Fin 1 + Fin r))"
proof (cases "to_f64 (1 + r)")
  case (Fin q)
  have "Fin r \<le> Fin q" "Fin 1 \<le> Fin q"
    using rnd64.rd_mono [of r "1 + r"] rnd64.rd_mono [of 1 "1 + r"] assms Fin by simp_all
  then show ?thesis using fdiv_unit [of r q] assms Fin by auto
next
  case NegInf
  then show ?thesis using rnd64.rd_nonneg [of "1 + r"] assms by simp
qed auto

lemma odds_range:
  assumes "to_f64 (1 / 1000000) \<le> s" "s \<le> to_f64 (999999 / 1000000)"
  shows "Fin 0 \<le> s / (Fin 1 - s) \<and> s / (Fin 1 - s) \<le> Fin 10000000"
proof -
  have hi: "to_f64 (999999 / 1000000) = Fin (9007190247541737 / 9007199254740992)" by code_simp
  have lo: "to_f64 (1 - 9007190247541737 / 9007199254740992) = Fin (9007199255 / 9007199254740992)" by code_simp
  obtain r where r: "s = Fin r" "0 \<le> r" "r \<le> 9007190247541737 / 9007199254740992"
    using assms f_between_finite [of _ s] by (force simp: hi lit_0_000001)
  have "Fin (9007199255 / 9007199254740992) \<le> to_f64 (1 - r)" "to_f64 (1 - r) \<le> Fin 1"
    using rnd64.rd_mono [of "1 - 9007190247541737 / 9007199254740992" "1 - r"] rnd64.rd_mono [of "1 - r" 1] lo r by simp_all
  then obtain q where q: "to_f64 (1 - r) = Fin q" "9007199255 / 9007199254740992 \<le> q" "q \<le> 1" using f_between_finite by blast
  then have "r / q \<le> of_int 10000000" "0 \<le> r / q" using r by (auto simp: pos_divide_le_eq)
  then show ?thesis
    using rnd64.rd_le_int [of "r / q" 10000000] rnd64.rd_nonneg [of "r / q"] r q by (simp add: minus_f64_def)
qed

lemma scale_risk_unit:
  assumes "pow_law ml" "Fin 0 < m" "m \<le> Fin 10" "unit01 score"
  shows "unit01 (scale_risk ml m score)"
proof (cases "feq m (Fin 1)")
  case False
  let ?lo = "to_f64 (1 / 1000000)" and ?hi = "to_f64 (999999 / 1000000)"
  let ?s = "if score < ?lo then ?lo else if ?hi < score then ?hi else score"
  have lh: "?lo \<le> ?hi" by (intro rnd64.rd_mono) simp
  have "?lo \<le> ?s" "?s \<le> ?hi"
    using f_leD [of "Fin 0" score] assms(4) lh f_not_less [of score ?lo] f_not_less [of ?hi score]
    by (simp_all add: unit01_def)
  then have o: "Fin 0 \<le> ?s / (Fin 1 - ?s)" "?s / (Fin 1 - ?s) \<le> Fin 10000000" using odds_range by blast+
  obtain r where "0 \<le> r" "math_Pow ml (?s / (Fin 1 - ?s)) m = Fin r" "to_f64 r = Fin r"
    using assms(1-3) o unfolding pow_law_def by blast
  with odds_ratio_unit [of r] False show ?thesis by (simp only: scale_risk_def Let_def if_False)
qed (use assms in \<open>simp add: scale_risk_def\<close>)

lemma scale_risk_NaN:
  assumes "pow_law ml" "Fin 0 < m" "m \<le> Fin 10"
  shows "scale_risk ml m NaN = NaN"
  using assms by (simp add: scale_risk_def pow_law_def minus_f64_def)

lemma scale_risk_unit_or_NaN:
  "pow_law ml \<Longrightarrow> Fin 0 < m \<Longrightarrow> m \<le> Fin 10 \<Longrightarrow> unit_or_NaN score \<Longrightarrow> unit_or_NaN (scale_risk ml m score)"
  using scale_risk_unit scale_risk_NaN by (auto simp: unit_or_NaN_def)

lemma Equation_Evaluate_unit:
  "Equation_Evaluate q fs = Some v \<Longrightarrow> eq_outputMin q = Fin 0 \<Longrightarrow> eq_outputMax q = Fin 1 \<Longrightarrow> unit_or_NaN v"
proof -
  assume a: "Equation_Evaluate q fs = Some v" "eq_outputMin q = Fin 0" "eq_outputMax q = Fin 1"
  then have "\<exists>x. v = (if x < Fin 0 then Fin 0 else if Fin 1 < x then Fin 1 else x)"
    unfolding Equation_Evaluate_def by (fastforce split: option.splits)
  then obtain x where "v = (if x < Fin 0 then Fin 0 else if Fin 1 < x then Fin 1 else x)" by blast
  then show ?thesis by (cases x) (auto simp: unit_or_NaN_def unit01_def)
qed

lemma calibrated_score_unit:
  assumes "pysr_unit p" "unit01 raw"
  shows "unit_or_NaN (calibrated_score p state raw)"
proof -
  have c: "unit_or_NaN v" if "ApplyCalibration p fs = Some v" for fs v
    using that assms(1) by (auto simp: ApplyCalibration_def pysr_unit_def split: option.splits intro: Equation_Evaluate_unit)
  have f: "unit_or_NaN v" if "ApplyFusion p fs = Some v" for fs v
    using that assms(1) by (auto simp: ApplyFusion_def pysr_unit_def split: option.splits intro: Equation_Evaluate_unit)
  have r: "unit_or_NaN raw" using assms(2) by (simp add: unit_or_NaN_def)
  show ?thesis unfolding calibrated_score_def Let_def by (auto split: option.split intro: c f r)
qed

lemma gather_outputs_values:
  "gather_outputs values i names result = Inr out \<Longrightarrow> out name = Some t \<Longrightarrow> result name = Some t \<or> (\<exists>j. values j = Some t)"
  by (induction "values" i names result rule: gather_outputs.induct) (auto split: option.splits if_splits)

lemma Model_Predict_unit:
  "probability_model m \<Longrightarrow> Model_Predict m input = Inr out \<Longrightarrow> out name = Some t \<Longrightarrow> list_all unit01 (t_data t)"
  unfolding Model_Predict_def probability_model_def
  by (auto split: sum.splits option.splits dest!: gather_outputs_values)

lemma extractRiskScoreValue_in: "extractRiskScoreValue t = Inr v \<Longrightarrow> v \<in> set (t_data t)"
  by (auto simp: extractRiskScoreValue_def data_at_def Let_def split: if_splits)

lemma extractRiskScores_unit:
  assumes "probability_model m" "Model_Predict m input = Inr out" "extractRiskScores out = Inr (c, r)"
  shows "unit01 c \<and> unit01 r"
  using assms(3) Model_Predict_unit [OF assms(1,2)]
  by (fastforce simp: extractRiskScores_def list_all_iff split: option.splits sum.splits dest: extractRiskScoreValue_in)

lemma rl_select_scores:
  "p_capacity (rl_select rt rl fs c r) = f32_of_f64 c" "p_runtime (rl_select rt rl fs c r) = f32_of_f64 r"
  by (auto simp: rl_select_def rl_fallback_def split: option.splits sum.splits prod.splits)

lemma rl_select_error:
  "p_err (rl_select rt rl fs c r) = Some err \<Longrightarrow>
     p_action (rl_select rt rl fs c r) = ActionHold \<and> AsRLFallbackError err = Some (f32_of_f64 c, f32_of_f64 r)"
  by (auto simp: rl_select_def rl_fallback_def AsRLFallbackError_def split: option.splits sum.splits prod.splits if_splits)

lemma unit_or_NaN_f32: "unit_or_NaN x \<Longrightarrow> unit_or_NaN (f32_of_f64 x)"
  by (auto simp: unit_or_NaN_def intro: unit01_f32)

lemma failed_scores [simp]: "p_capacity (failed_prediction e) = Fin 0" "p_runtime (failed_prediction e) = Fin 0"
  "p_action (failed_prediction e) = ActionHold" "p_err (failed_prediction e) = Some e"
  by (simp_all add: failed_prediction_def)

lemma tft_scores_unit:
  assumes "tft_scores rt ml e state m = Inr (c, r)"
    and "probability_model (e_tft e)" "pysr_unit (e_pysr e)" "pow_law ml" "Fin 0 < m" "m \<le> Fin 10"
  shows "unit_or_NaN c \<and> unit01 r"
proof -
  obtain input out rc rr where o: "Model_Predict (e_tft e) input = Inr out" "extractRiskScores out = Inr (rc, rr)"
      "c = scale_risk ml m (calibrated_score (e_pysr e) state rc)" "r = scale_risk ml m rr"
    using assms(1) by (auto simp: tft_scores_def split: option.splits sum.splits)
  from extractRiskScores_unit [OF assms(2) o(1,2)] have u: "unit01 rc" "unit01 rr" by auto
  show ?thesis
    using o(3,4) u(2) scale_risk_unit_or_NaN [OF assms(4-6) calibrated_score_unit [OF assms(3) u(1)]]
      scale_risk_unit [OF assms(4-6)] by simp
qed

lemma tft_scores_error: "tft_scores rt ml e state m = Inl err \<Longrightarrow> AsRLFallbackError err = None"
  by (auto simp: tft_scores_def extractRiskScores_def AsRLFallbackError_def split: option.splits sum.splits prod.splits)

section \<open>The feature builder never fails\<close>

definition builder_ok :: "FeatureBuilder \<Rightarrow> bool" where
  "builder_ok f \<longleftrightarrow> (\<forall>n r. f n = Some r \<longrightarrow> rb_inv TFTHistorySteps r)"

lemma UpdatePriceHistory_ok:
  assumes "builder_ok f"
  shows "\<exists>f'. UpdatePriceHistory f n x = Some f' \<and> builder_ok f'"
proof -
  let ?r = "case f n of None \<Rightarrow> NewRingBuffer TFTHistorySteps | Some r \<Rightarrow> r"
  have "rb_inv TFTHistorySteps ?r" using assms prices.fresh_inv by (auto simp: builder_ok_def split: option.split)
  from prices.push_step [OF this, of x] obtain r' where "Push ?r x = Some r'" "rb_inv TFTHistorySteps r'" by blast
  then show ?thesis using assms by (auto simp: UpdatePriceHistory_def builder_ok_def Let_def)
qed

lemma PredictDetailed_total:
  assumes "builder_ok (e_builder e)"
  shows "\<exists>e' p. PredictDetailed rt ml e nodeID state m = Some (e', p) \<and> builder_ok (e_builder e')"
  using UpdatePriceHistory_ok [OF assms, of nodeID "ns_SpotPrice state"] unfolding PredictDetailed_def by auto

section \<open>Properties\<close>

text \<open>
  The RL head picks the first action of greatest value: no value is above the
  chosen one, every earlier one is below it or is NaN, and the index is in range. A NaN for the
  first action makes it hold.
\<close>

theorem argmax_first_maximum:
  assumes "q \<noteq> []"
  shows "fst (argmax_q q) < length q \<and> (\<forall>j < length q. \<not> q ! fst (argmax_q q) < q ! j) \<and>
    (\<forall>j < fst (argmax_q q). q ! j < q ! fst (argmax_q q) \<or> q ! j = NaN) \<and>
    (hd q = NaN \<longrightarrow> Action_of_int (int (fst (argmax_q q))) = ActionHold)"
proof -
  have s: "fst (argmax_q q) < length q" "\<forall>j < length q. \<not> q ! fst (argmax_q q) < q ! j"
      "\<forall>j < fst (argmax_q q). q ! j < q ! fst (argmax_q q) \<or> q ! j = NaN"
    using argmax_q_spec [OF assms] by (auto split: prod.splits)
  have "argmax_loop i b NaN qs = (b, NaN)" for i b qs by (induction qs arbitrary: i) auto
  then have "hd q = NaN \<longrightarrow> fst (argmax_q q) = 0" by (simp add: argmax_q_def)
  with s show ?thesis by (auto simp: Action_of_int_def)
qed

theorem argmax_first_maximum_witness:
  "argmax_q [Fin 1, NaN, Fin 3, Fin 3, Fin 2, Fin 0] = (2, Fin 3) \<and> \<not> Fin 3 < Fin (2 :: rat)"
proof -
  have e: "argmax_q [Fin 1, NaN, Fin 3, Fin 3, Fin 2, Fin 0] = (2, Fin 3)" by code_simp
  have "\<not> [Fin 1, NaN, Fin 3, Fin 3, Fin 2, Fin 0] ! 2 < [Fin 1, NaN, Fin 3, Fin 3, Fin 2, Fin 0] ! 4"
    using argmax_first_maximum [of "[Fin 1, NaN, Fin 3, Fin 3, Fin 2, Fin 0]"] e by simp
  with e show ?thesis by simp
qed


definition example_model :: "string list \<Rightarrow> string list \<Rightarrow> f64 list \<Rightarrow> Model" where
  "example_model ins outs xs = \<lparr>m_session = (\<lambda>_. Some (\<lambda>_. Some \<lparr>t_shape = [1, int (length xs)], t_data = xs\<rparr>)),
     m_inputs = ins, m_outputs = outs\<rparr>"

definition example_ort :: ort where
  "example_ort = \<lparr>ort_NewTensor = (\<lambda>shape xs. Some \<lparr>t_shape = shape, t_data = xs\<rparr>), ort_NewSession = (\<lambda>_ _ _. None)\<rparr>"

definition example_math :: mathlib where
  "example_math = \<lparr>math_Pow = (\<lambda>x y. if x = NaN then NaN else Fin 1), math_Exp = id, math_Log = id, math_Sin = id, math_Cos = id, math_Tan = id\<rparr>"

definition example_engine :: InferenceEngine where
  "example_engine = \<lparr>e_tft = example_model [''input''] [''capacity_score'', ''runtime_score''] [Fin (1 / 2)],
     e_rl = example_model [''state''] [''q_values''] [Fin 0, Fin 1, Fin 0, Fin 0, Fin 0, Fin 0],
     e_pysr = None, e_scope = None, e_builder = NewFeatureBuilder\<rparr>"


text \<open>
  C33 (error). Scores do not depend on the RL model: whatever it does, the same scores come
  back, and an error after the scores were computed is a hold that carries them, so that the
  deterministic policy can go on. An error before that is a hold with zero scores.
\<close>

theorem PredictDetailed_rl_independent:
  assumes "PredictDetailed rt ml e nodeID state m = Some (e', p)"
    and "PredictDetailed rt ml (e\<lparr>e_rl := other\<rparr>) nodeID state m = Some (e'', q)"
  shows "p_capacity p = p_capacity q \<and> p_runtime p = p_runtime q \<and>
    (case p_err p of None \<Rightarrow> True
     | Some err \<Rightarrow> p_action p = ActionHold \<and>
         (case AsRLFallbackError err of Some scores \<Rightarrow> scores = (p_capacity p, p_runtime p)
          | None \<Rightarrow> p_capacity p = Fin 0 \<and> p_runtime p = Fin 0))"
proof -
  have same: "tft_scores rt ml (e\<lparr>e_rl := other\<rparr>) state m = tft_scores rt ml e state m"
    by (simp add: tft_scores_def split: option.split sum.split)
  show ?thesis
  proof (cases "tft_scores rt ml e state m")
    case (Inl err)
    with assms same tft_scores_error [OF Inl] show ?thesis by (auto simp: PredictDetailed_def split: option.splits)
  next
    case (Inr cr)
    with assms(1) obtain c r fs where cr: "tft_scores rt ml e state m = Inr (c, r)" "p = rl_select rt (e_rl e) fs c r"
      by (cases cr) (auto simp: PredictDetailed_def Let_def split: option.splits)
    with assms(2) same have q: "p_capacity q = f32_of_f64 c" "p_runtime q = f32_of_f64 r"
      by (auto simp: PredictDetailed_def Let_def rl_select_scores split: option.splits)
    show ?thesis
      using cr(2) q rl_select_error by (auto simp: rl_select_scores split: option.split)
  qed
qed

theorem PredictDetailed_rl_independent_witness:
  "\<exists>e' p e'' q. PredictDetailed example_ort example_math example_engine ''n'' contractState (Fin 2) = Some (e', p) \<and>
     PredictDetailed example_ort example_math (example_engine\<lparr>e_rl := example_model [''x''] [] []\<rparr>) ''n'' contractState (Fin 2) = Some (e'', q) \<and>
     p_capacity p = p_capacity q"
proof -
  have b: "builder_ok (e_builder example_engine)" by (simp add: example_engine_def builder_ok_def NewFeatureBuilder_def)
  obtain e' p where p: "PredictDetailed example_ort example_math example_engine ''n'' contractState (Fin 2) = Some (e', p)"
    using PredictDetailed_total [OF b] by blast
  obtain e'' q where q: "PredictDetailed example_ort example_math (example_engine\<lparr>e_rl := example_model [''x''] [] []\<rparr>) ''n'' contractState (Fin 2) = Some (e'', q)"
    using PredictDetailed_total [of "example_engine\<lparr>e_rl := example_model [''x''] [] []\<rparr>" example_ort example_math "''n''"
        contractState "Fin 2"] b by auto
  from PredictDetailed_rl_independent [OF p q] p q show ?thesis by blast
qed

text \<open>A sequence of predictions by one engine.\<close>

definition predict_all :: "ort \<Rightarrow> mathlib \<Rightarrow> InferenceEngine \<Rightarrow> (string \<times> NodeState \<times> f64) list \<Rightarrow> InferenceEngine option" where
  "predict_all rt ml = fold_opt (\<lambda>e (nodeID, state, m). map_option fst (PredictDetailed rt ml e nodeID state m))"

lemma predict_all_total: "builder_ok (e_builder e) \<Longrightarrow> \<exists>e'. predict_all rt ml e calls = Some e'"
proof (induction calls arbitrary: e)
  case (Cons c calls)
  obtain n s m where c: "c = (n, s, m)" by (cases c)
  from PredictDetailed_total [OF Cons.prems, of rt ml n s m] Cons.IH show ?case
    by (auto simp: c predict_all_def)
qed (simp add: predict_all_def)

lemma NewPySREngine_unit: "pysr_unit (Some (NewPySREngine ml gov fs env p q))"
  by (auto simp: pysr_unit_def NewPySREngine_def loadEquation_def Let_def split: read_result.splits if_splits)


definition example_loader :: ort where
  "example_loader = example_ort\<lparr>ort_NewSession := (\<lambda>_ _ _. Some (\<lambda>_. Some (\<lambda>_. Some \<lparr>t_shape = [1, 6], t_data = replicate 6 (Fin (1 / 2))\<rparr>)))\<rparr>"

definition example_engine_cfg :: EngineConfig where
  "example_engine_cfg = \<lparr>ec_TFTModelPath = ''models/tft.onnx'', ec_RLModelPath = ''models/tft.onnx'', ec_PySRCalibrationPath = [],
     ec_PySRFusionPath = [], ec_ModelManifestPath = ''models/M.json'', ec_ExpectedCloud = ''Aws'', ec_RequireModelContract = True\<rparr>"

lemma example_engine_starts:
  "\<exists>e. NewInferenceEngine example_loader example_math (\<lambda>_ _. None) example_bundle Map.empty example_engine_cfg = Inr e"
proof -
  have "LoadModelContract example_bundle (engine_manifest_path example_engine_cfg) =
    Inr (Some \<lparr>Cloud = ''aws'', SupportedInstanceFamilies = [''c6i'', ''m5*''], ArtifactChecksums = [(''tft.onnx'', ''ab'')]\<rparr>)"
    by code_simp
  moreover have "check_scope example_bundle example_engine_cfg
    (Some \<lparr>Cloud = ''aws'', SupportedInstanceFamilies = [''c6i'', ''m5*''], ArtifactChecksums = [(''tft.onnx'', ''ab'')]\<rparr>) = None"
    by code_simp
  ultimately show ?thesis
    by (simp add: NewInferenceEngine_def NewModel_def example_loader_def example_ort_def Let_def validateModelContracts_def
        Model_Predict_def validateTFTOutputContract_def extractRiskScores_def extractRiskScoreValue_def data_at_def go_div_def
        validateRLQValuesOutputContract_def)
qed


text \<open>
  A risk multiplier above one lowers low scores instead of raising them: with
  the multiplier 2 a capacity score of 0.40, in the medium band of the default policy, becomes
  less than its threshold 0.35, while the multiplier 1 keeps it.
\<close>

theorem risk_multiplier_softens:
  assumes "\<And>x. math_Pow ml x (Fin 2) = x * x"
  shows "scale_risk ml (Fin 2) (to_f64 (2 / 5)) < to_f64 (7 / 20) \<and> to_f64 (7 / 20) \<le> scale_risk ml (Fin 1) (to_f64 (2 / 5))"
proof -
  let ?s = "to_f64 (2 / 5)"
  have c: "\<not> ?s < to_f64 (1 / 1000000)" "\<not> to_f64 (999999 / 1000000) < ?s" "\<not> feq (Fin 2) (Fin 1)"
    "let a = ?s / (Fin 1 - ?s) * (?s / (Fin 1 - ?s)) in a / (Fin 1 + a) < to_f64 (7 / 20)" "to_f64 (7 / 20) \<le> ?s"
    by code_simp+
  then show ?thesis unfolding scale_risk_def by (simp only: assms Let_def if_False feq.simps if_True) simp
qed

theorem risk_multiplier_softens_witness:
  "scale_risk (example_math\<lparr>math_Pow := (\<lambda>x y. x * x)\<rparr>) (Fin 2) (to_f64 (2 / 5)) < to_f64 (7 / 20)"
  using risk_multiplier_softens [of "example_math\<lparr>math_Pow := (\<lambda>x y. x * x)\<rparr>"] by simp

end
