(* ===== verification/Telemetry.thy ===== *)
theory Telemetry
  imports Selection
begin

text \<open>
  internal/metrics/client.go and the metric synthesis of internal/controller/synthetic.go: what
  the controller is told about the load of the nodes. The Prometheus API and the random source
  are parameters. Iterating over a map visits its keys in the order \<open>order\<close>.
\<close>

section \<open>Prometheus\<close>

record NodeMetrics =
  nm_NodeID :: string
  nm_Zone :: string
  nm_InstanceType :: string
  nm_CPUUsagePercent :: f64
  nm_MemoryUsagePercent :: f64
  nm_SpotPrice :: f64
  nm_OnDemandPrice :: f64
  nm_IsSpot :: bool

text \<open>The results of a query, as far as their types are told apart; a sample is its labels and its value.\<close>

datatype prom_value = PromVector "(labels \<times> f64) list" | PromScalar f64 | PromOther

type_synonym 'w prom_api = "'w \<Rightarrow> string \<Rightarrow> prom_value option"

definition cpu_query :: string where
  \<open>cpu_query = ''100 - (avg by (node) (rate(node_cpu_seconds_total{mode="idle"}[5m])) * 100)''\<close>

definition memory_query :: string where
  "memory_query = ''(1 - node_memory_MemAvailable_bytes / node_memory_MemTotal_bytes) * 100''"

definition cluster_query :: string where
  \<open>cluster_query = ''avg(100 - (avg by (node) (rate(node_cpu_seconds_total{mode="idle"}[5m])) * 100))''\<close>

text \<open>The parameter \<open>pool_query\<close> is the text of the query by instance type and zone.\<close>

fun extract_loop :: "(string \<rightharpoonup> f64) \<Rightarrow> (labels \<times> f64) list \<Rightarrow> string \<rightharpoonup> f64" where
  "extract_loop vals [] = vals"
| "extract_loop vals ((metric, v) # samples) =
     (let nodeLabel = label_get metric ''node'';
          nodeLabel = (if nodeLabel = [] then label_get metric ''instance'' else nodeLabel)
      in extract_loop (if nodeLabel \<noteq> [] then vals(nodeLabel \<mapsto> v) else vals) samples)"

definition extractNodeValues :: "prom_value \<Rightarrow> string \<rightharpoonup> f64" where
  "extractNodeValues result = (case result of PromVector samples \<Rightarrow> extract_loop Map.empty samples | _ \<Rightarrow> Map.empty)"

text \<open>The keys of either map in the order they are visited.\<close>

definition metric_of :: "(string \<rightharpoonup> f64) \<Rightarrow> (string \<rightharpoonup> f64) \<Rightarrow> string \<Rightarrow> NodeMetrics" where
  "metric_of cpu mem node =
     \<lparr>nm_NodeID = node, nm_Zone = [], nm_InstanceType = [], nm_CPUUsagePercent = get_or (Fin 0) cpu node,
      nm_MemoryUsagePercent = get_or (Fin 0) mem node, nm_SpotPrice = Fin 0, nm_OnDemandPrice = Fin 0, nm_IsSpot = False\<rparr>"

definition mergeMetrics :: "(string set \<Rightarrow> string list) \<Rightarrow> (string \<rightharpoonup> f64) \<Rightarrow> (string \<rightharpoonup> f64) \<Rightarrow> NodeMetrics list" where
  "mergeMetrics order cpu mem = map (metric_of cpu mem) (order (dom cpu \<union> dom mem))"

datatype prom_error = CPUQueryFailed | MemoryQueryFailed | ClusterQueryFailed

definition GetNodeMetrics :: "(string set \<Rightarrow> string list) \<Rightarrow> 'w prom_api \<Rightarrow> 'w \<Rightarrow> prom_error + NodeMetrics list" where
  "GetNodeMetrics order query w =
     (case query w cpu_query of
        None \<Rightarrow> Inl CPUQueryFailed
      | Some cpu \<Rightarrow>
          (case query w memory_query of
             None \<Rightarrow> Inl MemoryQueryFailed
           | Some mem \<Rightarrow> Inr (mergeMetrics order (extractNodeValues cpu) (extractNodeValues mem))))"

definition GetClusterUtilization :: "'w prom_api \<Rightarrow> 'w \<Rightarrow> prom_error + f64" where
  "GetClusterUtilization query w =
     (case query w cluster_query of
        None \<Rightarrow> Inl ClusterQueryFailed
      | Some (PromVector ((_, v) # _)) \<Rightarrow> Inr (v / Fin 100)
      | Some (PromScalar v) \<Rightarrow> Inr (v / Fin 100)
      | _ \<Rightarrow> Inr (Fin (1 / 2)))"

fun pool_util_loop :: "(string \<rightharpoonup> f64) \<Rightarrow> (labels \<times> f64) list \<Rightarrow> string \<rightharpoonup> f64" where
  "pool_util_loop utils [] = utils"
| "pool_util_loop utils ((metric, v) # samples) =
     (let instanceType = label_get metric ''node_kubernetes_io_instance_type'';
          zone = label_get metric ''topology_kubernetes_io_zone'';
          instanceType = (if instanceType = [] then ''unknown'' else instanceType);
          zone = (if zone = [] then ''unknown'' else zone)
      in pool_util_loop (utils(instanceType @ '':'' @ zone \<mapsto> v / Fin 100)) samples)"

definition GetPoolUtilization :: "string \<Rightarrow> 'w prom_api \<Rightarrow> 'w \<Rightarrow> prom_error + (string \<rightharpoonup> f64)" where
  "GetPoolUtilization pool_query query w =
     (case query w pool_query of
        None \<Rightarrow> (case GetClusterUtilization query w of Inl e \<Rightarrow> Inl e | Inr u \<Rightarrow> Inr [''default'' \<mapsto> u])
      | Some (PromVector samples) \<Rightarrow> Inr (pool_util_loop Map.empty samples)
      | _ \<Rightarrow> Inr Map.empty)"

section \<open>Synthetic metrics\<close>

text \<open>\<open>rnd\<close> is the method \<open>Float64\<close> of the random source, a number from 0 up to but not including 1.\<close>

record 'r metricSynth =
  ms_rng :: 'r
  ms_cpu :: "string \<rightharpoonup> f64"
  ms_mem :: "string \<rightharpoonup> f64"

definition newMetricSynth :: "'r \<Rightarrow> 'r metricSynth" where
  "newMetricSynth seed = \<lparr>ms_rng = seed, ms_cpu = Map.empty, ms_mem = Map.empty\<rparr>"

definition start_level :: "('r \<Rightarrow> f64 \<times> 'r) \<Rightarrow> f64 \<Rightarrow> 'r \<Rightarrow> f64 \<times> 'r" where
  "start_level rng v s = (if feq v (Fin 0) then (case rng s of (x, s') \<Rightarrow> (Fin 20 + x * Fin 40, s')) else (v, s))"

definition walk_level :: "('r \<Rightarrow> f64 \<times> 'r) \<Rightarrow> f64 \<Rightarrow> 'r \<Rightarrow> f64 \<times> 'r" where
  "walk_level rng v s = (case rng s of (x, s') \<Rightarrow> (clampFloat (v + (x * Fin 10 - Fin 5)) (Fin 5) (Fin 95), s'))"

definition Next :: "('r \<Rightarrow> f64 \<times> 'r) \<Rightarrow> 'r metricSynth \<Rightarrow> string \<Rightarrow> f64 \<times> f64 \<times> 'r metricSynth" where
  "Next rng m nodeID =
     (case start_level rng (get_or (Fin 0) (ms_cpu m) nodeID) (ms_rng m) of (cpu, s) \<Rightarrow>
      case start_level rng (get_or (Fin 0) (ms_mem m) nodeID) s of (mem, s) \<Rightarrow>
      case walk_level rng cpu s of (cpu, s) \<Rightarrow>
      case walk_level rng mem s of (mem, s) \<Rightarrow>
        (cpu, mem, \<lparr>ms_rng = s, ms_cpu = (ms_cpu m)(nodeID \<mapsto> cpu), ms_mem = (ms_mem m)(nodeID \<mapsto> mem)\<rparr>))"

fun synth_loop :: "('r \<Rightarrow> f64 \<times> 'r) \<Rightarrow> 'r metricSynth \<Rightarrow> Node list \<Rightarrow> NodeMetrics list \<times> 'r metricSynth" where
  "synth_loop rng m [] = ([], m)"
| "synth_loop rng m (node # nodes) =
     (case Next rng m (node_Name node) of (cpu, mem, m') \<Rightarrow>
      case synth_loop rng m' nodes of (results, m'') \<Rightarrow>
        (\<lparr>nm_NodeID = node_Name node, nm_Zone = labelValue (node_Labels node) LabelZone ''unknown'',
          nm_InstanceType = labelValue (node_Labels node) LabelInstanceType ''unknown'',
          nm_CPUUsagePercent = cpu, nm_MemoryUsagePercent = mem, nm_SpotPrice = Fin 0, nm_OnDemandPrice = Fin 0,
          nm_IsSpot = IsSpotLabels (node_Labels node)\<rparr> # results, m''))"

text \<open>\<open>None\<close> when there is no Kubernetes client or the nodes cannot be listed.\<close>

definition syntheticNodeMetrics :: "('r \<Rightarrow> f64 \<times> 'r) \<Rightarrow> 'w Controller \<Rightarrow> 'w \<Rightarrow> 'r metricSynth \<Rightarrow> (NodeMetrics list \<times> 'r metricSynth) option" where
  "syntheticNodeMetrics rng c w m =
     (case c_k8s c of None \<Rightarrow> None
      | Some K \<Rightarrow> (case k_listNodes K w of Inl _ \<Rightarrow> None | Inr nodes \<Rightarrow> Some (synth_loop rng m nodes)))"

section \<open>Facts\<close>

lemma extract_loop_named: "vals [] = None \<Longrightarrow> extract_loop vals samples [] = None"
proof (induction samples arbitrary: vals)
  case (Cons p samples)
  then show ?case by (cases p) (simp add: Let_def)
qed simp

lemma extract_loop_finite: "finite (dom vals) \<Longrightarrow> finite (dom (extract_loop vals samples))"
proof (induction samples arbitrary: vals)
  case (Cons p samples)
  then show ?case by (cases p) (simp add: Let_def)
qed simp

lemma extractNodeValues_named: "[] \<notin> dom (extractNodeValues r)" and extractNodeValues_finite: "finite (dom (extractNodeValues r))"
  by (cases r; simp add: extractNodeValues_def extract_loop_named extract_loop_finite dom_def)
    (cases r; simp add: extractNodeValues_def extract_loop_finite)

text \<open>Every node that reports load or memory is there once, under a name.\<close>

lemma GetNodeMetrics_nodes:
  assumes "\<And>S. finite S \<Longrightarrow> distinct (order S) \<and> set (order S) = S" "GetNodeMetrics order query w = Inr ms"
  shows "distinct (map nm_NodeID ms) \<and> [] \<notin> nm_NodeID ` set ms"
proof -
  obtain cpu mem where cm: "query w cpu_query = Some cpu" "query w memory_query = Some mem"
      "ms = mergeMetrics order (extractNodeValues cpu) (extractNodeValues mem)"
    using assms(2) by (auto simp: GetNodeMetrics_def split: option.splits)
  let ?S = "dom (extractNodeValues cpu) \<union> dom (extractNodeValues mem)"
  have "map nm_NodeID ms = order ?S" using cm(3) by (simp add: mergeMetrics_def metric_of_def o_def)
  moreover have "distinct (order ?S) \<and> set (order ?S) = ?S" using assms(1) extractNodeValues_finite by simp
  moreover have "[] \<notin> ?S" using extractNodeValues_named by simp
  ultimately show ?thesis by (metis list.set_map)
qed

lemma walk_level_bounds: "v = Fin r \<Longrightarrow> Fin 0 \<le> fst (rng s) \<Longrightarrow> fst (rng s) \<le> Fin 1 \<Longrightarrow>
    Fin 5 \<le> fst (walk_level rng v s) \<and> fst (walk_level rng v s) \<le> Fin 95"
proof -
  assume a: "v = Fin r" "Fin 0 \<le> fst (rng s)" "fst (rng s) \<le> Fin 1"
  then obtain x where x: "fst (rng s) = Fin x" "0 \<le> x" "x \<le> 1" using f_between_finite by blast
  then have "Fin 0 \<le> to_f64 (x * 10)" "to_f64 (x * 10) \<le> Fin 10"
    using rnd64.rd_nonneg [of "x * 10"] rnd64.rd_le_int [of "x * 10" 10] by simp_all
  then obtain y where "to_f64 (x * 10) = Fin y" using f_between_finite by blast
  then have "v + (fst (rng s) * Fin 10 - Fin 5) \<noteq> NaN" using a(1) x(1)
    by (cases "to_f64 (y - 5)") (auto simp: minus_f64_def)
  then show ?thesis unfolding walk_level_def clampFloat_def by (auto split: prod.split simp: f_not_less)
qed

end
