(* ===== verification/Inference_Loop.thy ===== *)
theory Inference_Loop
  imports Actuation Engine Telemetry
begin

text \<open>
  internal/controller/controller.go, the step from node metrics to assessments, per node and per
  pool, with shadow_observability.go. Prometheus gauges and log lines are left out; what is only
  computed for a gauge and does not come from other state is left out with them, the projected
  savings of the RL shadow are kept as a result.
\<close>

section \<open>Environment\<close>

record SpotPriceData =
  CurrentPrice :: f64
  OnDemandPrice :: f64
  PriceHistory :: "f64 list"

text \<open>
  What the loop reads: the scope of the models (\<open>Some\<close> the reason of a refusal), the price
  provider (\<open>None\<close> when there is none, and for a failed lookup), the features collected in
  this tick, the prediction, the orders in which maps are visited, the clock with its hour and
  weekday.
\<close>

record 'w ienv = "'w env" +
  i_supports :: "string \<Rightarrow> scope_reason option"
  i_prices :: "(string \<Rightarrow> string \<Rightarrow> SpotPriceData option) option"
  i_features :: "string \<rightharpoonup> WorkloadFeatures"
  i_predict :: "string \<Rightarrow> NodeState \<Rightarrow> f64 \<Rightarrow> prediction"
  i_type_order :: "(string \<times> int) list \<Rightarrow> (string \<times> int) list"
  i_now :: int
  i_Hour :: int
  i_Weekday :: int

section \<open>Shared steps\<close>

definition maxFloat :: "f64 \<Rightarrow> f64 \<Rightarrow> f64" where
  "maxFloat a b = (if b < a then a else b)"

definition calculateClusterUtilization :: "NodeMetrics list \<Rightarrow> f64" where
  "calculateClusterUtilization ms =
     (if ms = [] then Fin 0
      else foldl (\<lambda>total m. total + nm_CPUUsagePercent m) (Fin 0) ms / f64_of_int (int (length ms)) / Fin 100)"

definition unsupportedFamilyAssessment :: "string \<Rightarrow> NodeAssessment" where
  "unsupportedFamilyAssessment nodeID =
     \<lparr>na_NodeID = nodeID, na_Action = ActionEmergencyExit, na_CapacityScore = Fin 1, na_RuntimeScore = Fin 1,
      na_Confidence = Fin 1, na_ClusterUtilization = Fin 0, na_ShadowAction = ActionHold, na_HasShadow = False,
      na_ResponseMode = ResponseModeNone, na_Urgency = PolicyUrgencyNone\<rparr>"

definition nodeInfo_or_empty :: "'w Controller \<Rightarrow> 'w \<Rightarrow> string \<rightharpoonup> nodeInfo" where
  "nodeInfo_or_empty c w = (case nodeInfoMap c w of None \<Rightarrow> Map.empty | Some info \<Rightarrow> info)"

text \<open>A metric's node, under its name or its host.\<close>

definition lookup_node :: "(string \<rightharpoonup> nodeInfo) \<Rightarrow> string \<Rightarrow> nodeInfo option" where
  "lookup_node info nodeID = (case info nodeID of Some i \<Rightarrow> Some i | None \<Rightarrow> info (hd (Split CHR '':'' nodeID)))"

definition resolve_metric :: "(string \<rightharpoonup> nodeInfo) \<Rightarrow> NodeMetrics \<Rightarrow> NodeMetrics \<times> nodeInfo option" where
  "resolve_metric info raw =
     (let m = raw\<lparr>nm_NodeID := TrimSpace (nm_NodeID raw)\<rparr> in
      case lookup_node info (nm_NodeID m) of
        None \<Rightarrow> (m, None)
      | Some i \<Rightarrow>
          (m\<lparr>nm_NodeID := ni_name i,
             nm_Zone := (if nm_Zone m = [] then ni_zone i else nm_Zone m),
             nm_InstanceType := (if nm_InstanceType m = [] then ni_instanceType i else nm_InstanceType m),
             nm_IsSpot := ni_isSpot i\<rparr>, Some i))"

definition ratio_map :: "(string \<rightharpoonup> poolCount) \<Rightarrow> string \<rightharpoonup> f64" where
  "ratio_map counts = (\<lambda>p. case counts p of None \<Rightarrow> None
     | Some pc \<Rightarrow> if pc_total pc > 0 then Some (f64_of_int (pc_spot pc) / f64_of_int (pc_total pc)) else None)"

text \<open>The ratios of this tick are stored; a pool seen for the first time starts with its own ratio as target.\<close>

definition store_counts :: "'w Controller \<Rightarrow> (string \<rightharpoonup> poolCount) \<Rightarrow> 'w Controller" where
  "store_counts c counts =
     c\<lparr>c_poolNodeCounts := counts, c_currentSpotRatio := ratio_map counts,
       c_targetSpotRatio := (\<lambda>p. case c_targetSpotRatio c p of Some r \<Rightarrow> Some r | None \<Rightarrow> ratio_map counts p)\<rparr>"

text \<open>The rolling history of a pool, used when the provider has none.\<close>

definition own_history :: "'w Controller \<Rightarrow> string \<Rightarrow> f64 \<Rightarrow> 'w Controller \<times> f64 list" where
  "own_history c poolID spotPrice =
     (let hist = get_or [] (c_priceHistory c) poolID in
      if Fin 0 < spotPrice
      then let hist = last_n (TFTHistorySteps * 2) (hist @ [spotPrice])
           in (c\<lparr>c_priceHistory := (c_priceHistory c)(poolID \<mapsto> hist)\<rparr>, hist)
      else (c, hist))"

definition migration_cost :: "f64 \<Rightarrow> f64 \<Rightarrow> f64 \<Rightarrow> f64 \<Rightarrow> f64" where
  "migration_cost podStartupTime odPrice spotPrice clusterUtil =
     podStartupTime / Fin 60 / Fin 60 * maxFloat (Fin 0) (odPrice - spotPrice) * clusterUtil * Fin 2"

definition time_since_migration :: "'w ienv \<Rightarrow> 'w Controller \<Rightarrow> RuntimeConfig \<Rightarrow> string \<Rightarrow> int" where
  "time_since_migration E c cfg poolID =
     (case c_lastMigration c poolID of None \<Rightarrow> 100 | Some t0 \<Rightarrow> stepsSinceMigration (i_now E) t0 (StepMinutes cfg))"

section \<open>The RL shadow\<close>

definition actionSpotRatioStepDelta :: "Action \<Rightarrow> NodeState \<Rightarrow> f64" where
  "actionSpotRatioStepDelta action state =
     (case action of
        ActionDecrease10 \<Rightarrow> - to_f64 (1 / 10)
      | ActionDecrease30 \<Rightarrow> - to_f64 (3 / 10)
      | ActionIncrease10 \<Rightarrow> to_f64 (1 / 10)
      | ActionIncrease30 \<Rightarrow> to_f64 (3 / 10)
      | ActionEmergencyExit \<Rightarrow> - clampFloat (ns_CurrentSpotRatio state) (Fin 0) (Fin 1)
      | _ \<Rightarrow> Fin 0)"

definition projectedHourlySavingsDeltaProxyUSD :: "NodeState \<Rightarrow> Action \<Rightarrow> Action \<Rightarrow> f64 \<Rightarrow> f64" where
  "projectedHourlySavingsDeltaProxyUSD state deterministicAction rlAction multiplier =
     (if multiplier \<le> Fin 0 then Fin 0
      else let spread = ns_OnDemandPrice state - ns_SpotPrice state in
           if feq spread (Fin 0) then Fin 0
           else spread * (actionSpotRatioStepDelta rlAction state - actionSpotRatioStepDelta deterministicAction state) * multiplier)"

text \<open>The guardrail that would have blocked the shadow action, for the gauge.\<close>

definition shadowGuardrailBlock :: "'w Controller \<Rightarrow> 'w \<Rightarrow> string \<Rightarrow> Action \<Rightarrow> NodeState \<Rightarrow> f64 \<Rightarrow> f64 \<Rightarrow> string option" where
  "shadowGuardrailBlock c w nodeID rlAction state capacityScore rlConfidence =
     (case c_k8s c of None \<Rightarrow> None
      | Some K \<Rightarrow>
          if nodeID = [] then None
          else case toExecutorAction rlAction of
                 (_, False) \<Rightarrow> None
               | (action, True) \<Rightarrow>
                   (case k_getNode K w nodeID of
                      Inl _ \<Rightarrow> None
                    | Inr node \<Rightarrow>
                        (case Check K w (NewGuardrailChecker (Fin 0)) node action
                           \<lparr>es_NodeName = nodeID, es_InstanceType = [], es_Zone = [], es_CapacityScore = capacityScore,
                            es_SpotPrice = ns_SpotPrice state, es_OnDemandPrice = ns_OnDemandPrice state,
                            es_PodStartupTime = ns_PodStartupTime state, es_OutagePenalty = ns_OutagePenaltyHours state,
                            es_Confidence = rlConfidence, es_ClusterUtilization = ns_ClusterUtilization state\<rparr> of
                           Inl _ \<Rightarrow> None
                         | Inr result \<Rightarrow> if \<not> Approved result then Some (GuardrailName result) else None)))"

section \<open>One decision\<close>

text \<open>
  The engine's answer for a state, and what the mode makes of it: a failure ends the assessment
  unless the deterministic policy can use the scores that came with it. The second result is the
  projected difference when the shadow is compared.
\<close>

definition usable_scores :: "bool \<Rightarrow> prediction \<Rightarrow> (f64 \<times> f64) option" where
  "usable_scores useDeterministic p =
     (case p_err p of
        None \<Rightarrow> Some (p_capacity p, p_runtime p)
      | Some err \<Rightarrow> if useDeterministic then AsRLFallbackError err else None)"

definition assess :: "'w ienv \<Rightarrow> RuntimeConfig \<Rightarrow> string \<Rightarrow> string \<Rightarrow> NodeState \<Rightarrow> f64 \<Rightarrow> (NodeAssessment \<times> f64 option) option" where
  "assess E cfg scopeID nodeID state multiplier =
     (let useDeterministic = UseDeterministicPolicy (Some cfg);
          p = i_predict E scopeID state (RiskMultiplier cfg);
          rlAvailable = (p_err p = None);
          shadow = (UseRLShadow (Some cfg) \<and> rlAvailable)
      in case usable_scores useDeterministic p of
           None \<Rightarrow> None
         | Some (capacityScore, runtimeScore) \<Rightarrow>
             let base = \<lparr>na_NodeID = nodeID, na_Action = p_action p, na_CapacityScore = capacityScore,
                         na_RuntimeScore = runtimeScore, na_Confidence = p_confidence p,
                         na_ClusterUtilization = f32_of_f64 (ns_ClusterUtilization state), na_ShadowAction = ActionHold,
                         na_HasShadow = False, na_ResponseMode = ResponseModeNone, na_Urgency = PolicyUrgencyNone\<rparr>
             in if useDeterministic
                then case evaluateDeterministicPolicy (e_files E) state capacityScore runtimeScore (Some cfg) of
                  (action, d) \<Rightarrow>
                    Some (base\<lparr>na_Action := action, na_Confidence := Fin 1, na_ResponseMode := ResponseMode d, na_Urgency := Urgency d,
                               na_HasShadow := shadow, na_ShadowAction := (if shadow then p_action p else ActionHold)\<rparr>,
                          if shadow then Some (projectedHourlySavingsDeltaProxyUSD state action (p_action p) multiplier) else None)
                else Some (base, None))"

type_synonym shadow_sums = "string \<rightharpoonup> f64"

definition add_shadow :: "shadow_sums \<Rightarrow> string \<Rightarrow> f64 option \<Rightarrow> shadow_sums" where
  "add_shadow s poolID d = (case d of None \<Rightarrow> s | Some x \<Rightarrow> s(poolID \<mapsto> get_or (Fin 0) s poolID + x))"

section \<open>Per node\<close>

record node_scan =
  sc_workloadPool :: "string \<rightharpoonup> string"
  sc_counts :: "string \<rightharpoonup> poolCount"
  sc_resolved :: "NodeMetrics list"

definition pool_id_of :: "'w Controller \<Rightarrow> (string \<rightharpoonup> string) \<Rightarrow> NodeMetrics \<Rightarrow> string" where
  "pool_id_of c workloadPool m =
     (if nm_InstanceType m = [] \<or> nm_Zone m = [] then ''unknown:unknown''
      else getPoolIDWithExtendedFormat c (nm_InstanceType m) (nm_Zone m) (get_or [] workloadPool (nm_NodeID m)))"

definition scan_node :: "'w Controller \<Rightarrow> (string \<rightharpoonup> nodeInfo) \<Rightarrow> node_scan \<Rightarrow> NodeMetrics \<Rightarrow> node_scan" where
  "scan_node c info s raw =
     (case resolve_metric info raw of (m, i) \<Rightarrow>
      let wp = (case i of None \<Rightarrow> sc_workloadPool s | Some i \<Rightarrow> (sc_workloadPool s)(nm_NodeID m \<mapsto> ni_workloadPool i));
          poolID = pool_id_of c wp m;
          counts = get_or \<lparr>pc_total = 0, pc_spot = 0\<rparr> (sc_counts s) poolID
      in \<lparr>sc_workloadPool = wp,
          sc_counts = (sc_counts s)(poolID \<mapsto> \<lparr>pc_total = pc_total counts + 1,
             pc_spot = pc_spot counts + (if nm_IsSpot m then 1 else 0)\<rparr>),
          sc_resolved = sc_resolved s @ [m]\<rparr>)"

definition scan_nodes :: "'w Controller \<Rightarrow> (string \<rightharpoonup> nodeInfo) \<Rightarrow> NodeMetrics list \<Rightarrow> node_scan" where
  "scan_nodes c info ms = foldl (scan_node c info) \<lparr>sc_workloadPool = Map.empty, sc_counts = Map.empty, sc_resolved = []\<rparr> ms"

type_synonym price_cache = "string \<rightharpoonup> SpotPriceData"

definition fetch_price :: "'w ienv \<Rightarrow> price_cache \<Rightarrow> string \<Rightarrow> string \<Rightarrow> string \<Rightarrow> price_cache \<times> SpotPriceData option" where
  "fetch_price E cache key instanceType zone =
     (case i_prices E of None \<Rightarrow> (cache, None)
      | Some get \<Rightarrow>
          (case cache key of
             Some d \<Rightarrow> (cache, Some d)
           | None \<Rightarrow> (case get instanceType zone of None \<Rightarrow> (cache, None) | Some d \<Rightarrow> (cache(key \<mapsto> d), Some d))))"

definition enrich_prices :: "NodeMetrics \<Rightarrow> SpotPriceData option \<Rightarrow> NodeMetrics \<times> f64 list" where
  "enrich_prices m d =
     (case d of None \<Rightarrow> (m, [])
      | Some d \<Rightarrow> (m\<lparr>nm_SpotPrice := (if nm_SpotPrice m \<le> Fin 0 then CurrentPrice d else nm_SpotPrice m),
                     nm_OnDemandPrice := (if nm_OnDemandPrice m \<le> Fin 0 then OnDemandPrice d else nm_OnDemandPrice m)\<rparr>,
                   PriceHistory d))"

definition market_missing :: "f64 \<Rightarrow> f64 \<Rightarrow> f64 list \<Rightarrow> bool" where
  "market_missing spotPrice odPrice history \<longleftrightarrow> spotPrice \<le> Fin 0 \<or> odPrice \<le> Fin 0 \<or> history = []"

definition node_state :: "'w ienv \<Rightarrow> 'w Controller \<Rightarrow> RuntimeConfig \<Rightarrow> f64 \<Rightarrow> string \<Rightarrow> string \<Rightarrow> f64 \<Rightarrow> f64 \<Rightarrow> f64 list \<Rightarrow>
    f64 \<Rightarrow> f64 \<Rightarrow> bool \<Rightarrow> NodeState" where
  "node_state E c cfg clusterUtil featureKey ratioKey spotPrice odPrice history cpu mem isSpot =
     (let f = GetPoolFeatures (i_features E) featureKey in
      \<lparr>ns_SpotPrice = spotPrice, ns_OnDemandPrice = odPrice, ns_PriceHistory = history,
       ns_CPUUsage = cpu / Fin 100, ns_MemoryUsage = mem / Fin 100,
       ns_PodStartupTime = wf_PodStartupTime f, ns_OutagePenaltyHours = wf_OutagePenaltyHours f,
       ns_MigrationCost = migration_cost (wf_PodStartupTime f) odPrice spotPrice clusterUtil,
       ns_PriorityScore = wf_PriorityScore f, ns_ClusterUtilization = clusterUtil,
       ns_TimeSinceMigration = time_since_migration E c cfg featureKey, ns_RuntimeScore = Fin 0, ns_IsSpot = isSpot,
       ns_CurrentSpotRatio = get_or (Fin 0) (c_currentSpotRatio c) ratioKey,
       ns_TargetSpotRatio = get_or (Fin 0) (c_targetSpotRatio c) ratioKey,
       ns_PoolSafety = wf_PoolSafety f, ns_Hour = i_Hour E, ns_Weekday = i_Weekday E\<rparr>)"

text \<open>The state of the loop: the controller, the price cache, the shadow sums.\<close>

type_synonym 'w loop_state = "'w Controller \<times> price_cache \<times> shadow_sums"

text \<open>Prices and history of a node: from the provider, else its own price and the pool's rolling history.\<close>

definition node_market :: "'w ienv \<Rightarrow> 'w Controller \<Rightarrow> price_cache \<Rightarrow> string \<Rightarrow> NodeMetrics \<Rightarrow>
    'w Controller \<times> price_cache \<times> NodeMetrics \<times> f64 list" where
  "node_market E c cache poolID m =
     (case (if nm_InstanceType m \<noteq> [] \<and> nm_Zone m \<noteq> [] then fetch_price E cache poolID (nm_InstanceType m) (nm_Zone m)
            else (cache, None)) of (cache, d) \<Rightarrow>
      case enrich_prices m d of (m, history) \<Rightarrow>
      case (if history = [] then own_history c poolID (nm_SpotPrice m) else (c, history)) of (c, history) \<Rightarrow>
        (c, cache, m, normalizePriceHistory history (nm_SpotPrice m)))"

definition infer_node :: "'w ienv \<Rightarrow> RuntimeConfig \<Rightarrow> f64 \<Rightarrow> (string \<rightharpoonup> string) \<Rightarrow> 'w loop_state \<Rightarrow> NodeMetrics \<Rightarrow>
    'w loop_state \<times> NodeAssessment option" where
  "infer_node E cfg clusterUtil workloadPool st m =
     (case st of (c, cache, shadow) \<Rightarrow>
      let poolID = pool_id_of c workloadPool m in
      if i_supports E (nm_InstanceType m) \<noteq> None then (st, Some (unsupportedFamilyAssessment (nm_NodeID m)))
      else case node_market E c cache poolID m of (c, cache, m, history) \<Rightarrow>
        if market_missing (nm_SpotPrice m) (nm_OnDemandPrice m) history then ((c, cache, shadow), None)
        else
          let state = node_state E c cfg clusterUtil poolID poolID (nm_SpotPrice m) (nm_OnDemandPrice m) history
                        (nm_CPUUsagePercent m) (nm_MemoryUsagePercent m) (nm_IsSpot m)
          in case assess E cfg (nm_NodeID m) (nm_NodeID m) state (Fin 1) of
               None \<Rightarrow> ((c, cache, shadow), None)
             | Some (a, d) \<Rightarrow> ((c, cache, add_shadow shadow poolID d), Some a))"

fun infer_nodes :: "'w ienv \<Rightarrow> RuntimeConfig \<Rightarrow> f64 \<Rightarrow> (string \<rightharpoonup> string) \<Rightarrow> 'w loop_state \<Rightarrow> NodeMetrics list \<Rightarrow>
    'w loop_state \<times> NodeAssessment list" where
  "infer_nodes E cfg clusterUtil workloadPool st [] = (st, [])"
| "infer_nodes E cfg clusterUtil workloadPool st (m # ms) =
     (case infer_node E cfg clusterUtil workloadPool st m of (st, a) \<Rightarrow>
      case infer_nodes E cfg clusterUtil workloadPool st ms of (st, as) \<Rightarrow>
        (st, case a of None \<Rightarrow> as | Some a \<Rightarrow> a # as))"

section \<open>Per pool\<close>

record poolAggregation =
  pa_nodes :: "NodeMetrics list"
  pa_dominantType :: string
  pa_typeCounts :: "(string \<times> int) list"
  pa_avgCPUUsage :: f64
  pa_avgMemUsage :: f64
  pa_spotNodes :: int
  pa_odNodes :: int
  pa_workloadPool :: string
  pa_zone :: string

definition new_aggregation :: "string \<Rightarrow> string \<Rightarrow> poolAggregation" where
  "new_aggregation workloadPool zone =
     \<lparr>pa_nodes = [], pa_dominantType = [], pa_typeCounts = [], pa_avgCPUUsage = Fin 0, pa_avgMemUsage = Fin 0,
      pa_spotNodes = 0, pa_odNodes = 0, pa_workloadPool = workloadPool, pa_zone = zone\<rparr>"

definition pool_key :: "string \<Rightarrow> string \<Rightarrow> string" where
  "pool_key workloadPool zone =
     (if zone = [] then ''unknown'' else if workloadPool \<noteq> [] then workloadPool @ '':'' @ zone else zone)"

definition add_to_pool :: "NodeMetrics \<Rightarrow> poolAggregation \<Rightarrow> poolAggregation" where
  "add_to_pool m agg =
     agg\<lparr>pa_nodes := pa_nodes agg @ [m],
         pa_typeCounts := alist_upd (nm_InstanceType m) (\<lambda>n. n + 1) 0 (pa_typeCounts agg),
         pa_avgCPUUsage := pa_avgCPUUsage agg + nm_CPUUsagePercent m,
         pa_avgMemUsage := pa_avgMemUsage agg + nm_MemoryUsagePercent m,
         pa_spotNodes := pa_spotNodes agg + (if nm_IsSpot m then 1 else 0),
         pa_odNodes := pa_odNodes agg + (if nm_IsSpot m then 0 else 1)\<rparr>"

definition workload_pool_of :: "(string \<rightharpoonup> nodeInfo) \<Rightarrow> NodeMetrics \<Rightarrow> string" where
  "workload_pool_of info m = (case info (nm_NodeID m) of None \<Rightarrow> [] | Some i \<Rightarrow> ni_workloadPool i)"

text \<open>The aggregations and the pool of each node.\<close>

definition group_node :: "(string \<rightharpoonup> nodeInfo) \<Rightarrow> (string \<rightharpoonup> poolAggregation) \<times> (string \<rightharpoonup> string) \<Rightarrow> NodeMetrics \<Rightarrow>
    (string \<rightharpoonup> poolAggregation) \<times> (string \<rightharpoonup> string)" where
  "group_node info s raw =
     (case s of (aggs, nodeToPoolID) \<Rightarrow>
      let m = fst (resolve_metric info raw); wp = workload_pool_of info m; key = pool_key wp (nm_Zone m);
          agg = (case aggs key of None \<Rightarrow> new_aggregation wp (nm_Zone m) | Some agg \<Rightarrow> agg)
      in (aggs(key \<mapsto> add_to_pool m agg), nodeToPoolID(nm_NodeID m \<mapsto> key)))"

fun dominant_loop :: "int \<Rightarrow> string \<Rightarrow> (string \<times> int) list \<Rightarrow> string" where
  "dominant_loop maxCount best [] = best"
| "dominant_loop maxCount best ((t, n) # rest) =
     (if n > maxCount then dominant_loop n t rest else dominant_loop maxCount best rest)"

definition finalize_aggregation :: "((string \<times> int) list \<Rightarrow> (string \<times> int) list) \<Rightarrow> poolAggregation \<Rightarrow> poolAggregation" where
  "finalize_aggregation order agg =
     (let n = f64_of_int (int (length (pa_nodes agg))) in
      agg\<lparr>pa_avgCPUUsage := (if pa_nodes agg \<noteq> [] then pa_avgCPUUsage agg / n else pa_avgCPUUsage agg),
          pa_avgMemUsage := (if pa_nodes agg \<noteq> [] then pa_avgMemUsage agg / n else pa_avgMemUsage agg),
          pa_dominantType := dominant_loop 0 (pa_dominantType agg) (order (pa_typeCounts agg))\<rparr>)"

definition pool_market :: "'w ienv \<Rightarrow> 'w Controller \<Rightarrow> price_cache \<Rightarrow> string \<Rightarrow> string \<Rightarrow> string \<Rightarrow>
    'w Controller \<times> price_cache \<times> f64 \<times> f64 \<times> f64 list" where
  "pool_market E c cache poolID instanceType zone =
     (case fetch_price E cache (instanceType @ '':'' @ zone) instanceType zone of (cache, d) \<Rightarrow>
      let spotPrice = (case d of None \<Rightarrow> Fin 0 | Some d \<Rightarrow> CurrentPrice d);
          odPrice = (case d of None \<Rightarrow> Fin 0 | Some d \<Rightarrow> OnDemandPrice d);
          history = (case d of None \<Rightarrow> [] | Some d \<Rightarrow> PriceHistory d)
      in case (if history = [] then own_history c poolID spotPrice else (c, history)) of (c, history) \<Rightarrow>
        (c, cache, spotPrice, odPrice, normalizePriceHistory history spotPrice))"

definition infer_pool :: "'w ienv \<Rightarrow> RuntimeConfig \<Rightarrow> f64 \<Rightarrow> (string \<rightharpoonup> poolAggregation) \<Rightarrow>
    'w loop_state \<times> (string \<rightharpoonup> NodeAssessment) \<Rightarrow> string \<Rightarrow> 'w loop_state \<times> (string \<rightharpoonup> NodeAssessment)" where
  "infer_pool E cfg clusterUtil aggs s poolKey =
     (case s of ((c, cache, shadow), actions) \<Rightarrow>
      case aggs poolKey of None \<Rightarrow> s
      | Some agg \<Rightarrow>
        let instanceType = pa_dominantType agg; zone = pa_zone agg in
        if pa_nodes agg = [] then s
        else if instanceType = [] \<or> zone = [] then s
        else if i_supports E instanceType \<noteq> None
        then ((c, cache, shadow), actions(poolKey \<mapsto> unsupportedFamilyAssessment poolKey))
        else
          let poolID = getPoolIDWithExtendedFormat c instanceType zone (pa_workloadPool agg) in
          case pool_market E c cache poolID instanceType zone of (c, cache, spotPrice, odPrice, history) \<Rightarrow>
          if market_missing spotPrice odPrice history then ((c, cache, shadow), actions)
          else
            let state = node_state E c cfg clusterUtil poolID poolKey spotPrice odPrice history
                          (pa_avgCPUUsage agg) (pa_avgMemUsage agg) (pa_spotNodes agg > pa_odNodes agg)
            in case assess E cfg poolKey poolKey state (f64_of_int (int (length (pa_nodes agg)))) of
                 None \<Rightarrow> ((c, cache, shadow), actions)
               | Some (a, d) \<Rightarrow> ((c, cache, add_shadow shadow poolKey d), actions(poolKey \<mapsto> a)))"

fun spread_action :: "'w ienv \<Rightarrow> (string \<rightharpoonup> nodeInfo) \<Rightarrow> (string \<rightharpoonup> string) \<Rightarrow> (string \<rightharpoonup> NodeAssessment) \<Rightarrow>
    NodeMetrics list \<Rightarrow> NodeAssessment list" where
  "spread_action E info nodeToPoolID actions [] = []"
| "spread_action E info nodeToPoolID actions (m # ms) =
     (let nodeID = TrimSpace (nm_NodeID m);
          (nodeID, instanceType) = (case info nodeID of
             None \<Rightarrow> (nodeID, nm_InstanceType m)
           | Some i \<Rightarrow> (ni_name i, if nm_InstanceType m = [] then ni_instanceType i else nm_InstanceType m));
          poolKey = get_or [] nodeToPoolID nodeID;
          rest = spread_action E info nodeToPoolID actions ms
      in if poolKey = [] then rest
         else case actions poolKey of
                None \<Rightarrow> rest
              | Some a \<Rightarrow>
                  (if i_supports E instanceType \<noteq> None then unsupportedFamilyAssessment nodeID
                   else a\<lparr>na_NodeID := nodeID\<rparr>) # rest)"

definition pool_counts :: "(string \<rightharpoonup> poolAggregation) \<Rightarrow> string \<rightharpoonup> poolCount" where
  "pool_counts aggs = (\<lambda>p. map_option (\<lambda>agg. \<lparr>pc_total = int (length (pa_nodes agg)), pc_spot = pa_spotNodes agg\<rparr>) (aggs p))"

text \<open>\<open>keys\<close> is the order in which the map of pools is visited.\<close>

fun group_keys :: "(string \<rightharpoonup> nodeInfo) \<Rightarrow> NodeMetrics list \<Rightarrow> string list" where
  "group_keys info [] = []"
| "group_keys info (raw # ms) =
     (let m = fst (resolve_metric info raw); key = pool_key (workload_pool_of info m) (nm_Zone m)
      in List.insert key (group_keys info ms))"

definition runPoolLevelInference :: "'w ienv \<Rightarrow> 'w Controller \<Rightarrow> 'w \<Rightarrow> NodeMetrics list \<Rightarrow>
    'w Controller \<times> shadow_sums \<times> NodeAssessment list" where
  "runPoolLevelInference E c w ms =
     (let cfg = runtimeConfigForTick (env.truncate E);
          clusterUtil = calculateClusterUtilization ms;
          info = nodeInfo_or_empty c w;
          (aggs, nodeToPoolID) = foldl (group_node info) (Map.empty, Map.empty) ms;
          aggs = (\<lambda>k. map_option (finalize_aggregation (i_type_order E)) (aggs k));
          c = store_counts c (pool_counts aggs);
          ((c, _, shadow), actions) = foldl (infer_pool E cfg clusterUtil aggs) ((c, Map.empty, Map.empty), Map.empty)
            (e_order E (group_keys info ms))
      in (c, shadow, spread_action E info nodeToPoolID actions ms))"

definition runInference :: "'w ienv \<Rightarrow> 'w Controller \<Rightarrow> 'w \<Rightarrow> NodeMetrics list \<Rightarrow>
    'w Controller \<times> shadow_sums \<times> NodeAssessment list" where
  "runInference E c w ms =
     (if UsePoolLevelInference (c_karpenterCfg c) then runPoolLevelInference E c w ms
      else
        let cfg = runtimeConfigForTick (env.truncate E);
            clusterUtil = calculateClusterUtilization ms;
            scan = scan_nodes c (nodeInfo_or_empty c w) ms;
            c = store_counts c (sc_counts scan)
        in case infer_nodes E cfg clusterUtil (sc_workloadPool scan) (c, Map.empty, Map.empty) (sc_resolved scan) of
             ((c, _, shadow), as) \<Rightarrow> (c, shadow, as))"

section \<open>Counts and ratios\<close>

definition counts_wf :: "nat \<Rightarrow> (string \<rightharpoonup> poolCount) \<Rightarrow> bool" where
  "counts_wf n counts \<longleftrightarrow> (\<forall>p pc. counts p = Some pc \<longrightarrow>
     0 \<le> pc_spot pc \<and> pc_spot pc \<le> pc_total pc \<and> 1 \<le> pc_total pc \<and> pc_total pc \<le> int n)"

lemma counts_wf_mono: "counts_wf n counts \<Longrightarrow> n \<le> m \<Longrightarrow> counts_wf m counts"
  unfolding counts_wf_def by (meson of_nat_mono order_trans)

lemma counts_wf_bump:
  assumes "counts_wf n counts" "pc = get_or \<lparr>pc_total = 0, pc_spot = 0\<rparr> counts p"
  shows "counts_wf (Suc n) (counts(p \<mapsto> \<lparr>pc_total = pc_total pc + 1, pc_spot = pc_spot pc + (if b then 1 else 0)\<rparr>))"
proof -
  have "0 \<le> pc_spot pc \<and> pc_spot pc \<le> pc_total pc \<and> pc_total pc \<le> int n"
    using assms unfolding counts_wf_def get_or_def by (cases "counts p") force+
  then show ?thesis using counts_wf_mono [OF assms(1), of "Suc n"] by (auto simp: counts_wf_def)
qed

lemma scan_node_counts: "counts_wf n (sc_counts s) \<Longrightarrow> counts_wf (Suc n) (sc_counts (scan_node c info s raw))"
  unfolding scan_node_def by (cases "resolve_metric info raw") (simp add: Let_def counts_wf_bump [OF _ refl])

lemma scan_nodes_wf: "counts_wf n (sc_counts s) \<Longrightarrow> counts_wf (n + length ms) (sc_counts (foldl (scan_node c info) s ms))"
proof (induction ms arbitrary: n s)
  case (Cons m ms)
  from Cons.IH [OF scan_node_counts [OF Cons.prems]] show ?case by simp
qed simp

lemma scan_nodes_counts: "counts_wf (length ms) (sc_counts (scan_nodes c info ms))"
  unfolding scan_nodes_def by (rule scan_nodes_wf [of 0, simplified]) (simp add: counts_wf_def)

definition agg_wf :: "nat \<Rightarrow> poolAggregation \<Rightarrow> bool" where
  "agg_wf n agg \<longleftrightarrow> 1 \<le> length (pa_nodes agg) \<and> length (pa_nodes agg) \<le> n \<and>
     0 \<le> pa_spotNodes agg \<and> pa_spotNodes agg \<le> int (length (pa_nodes agg))"

definition aggs_wf :: "nat \<Rightarrow> (string \<rightharpoonup> poolAggregation) \<Rightarrow> bool" where
  "aggs_wf n aggs \<longleftrightarrow> (\<forall>k agg. aggs k = Some agg \<longrightarrow> agg_wf n agg)"

lemma group_node_wf: "aggs_wf n (fst s) \<Longrightarrow> aggs_wf (Suc n) (fst (group_node info s raw))"
  by (fastforce simp: group_node_def aggs_wf_def agg_wf_def add_to_pool_def new_aggregation_def Let_def
      split: prod.splits option.splits)

lemma group_nodes_wf: "aggs_wf n (fst s) \<Longrightarrow> aggs_wf (n + length ms) (fst (foldl (group_node info) s ms))"
proof (induction ms arbitrary: n s)
  case (Cons m ms)
  from Cons.IH [OF group_node_wf [OF Cons.prems]] show ?case by simp
qed simp

lemma pool_counts_wf: "aggs_wf n aggs \<Longrightarrow> counts_wf n (pool_counts (\<lambda>k. map_option (finalize_aggregation order) (aggs k)))"
  by (fastforce simp: counts_wf_def aggs_wf_def agg_wf_def pool_counts_def finalize_aggregation_def Let_def)

lemma ratio_map_unit:
  assumes "counts_wf n counts" "int n \<le> 2 ^ 53" "ratio_map counts p = Some r"
  shows "in_unit r"
proof -
  obtain pc where pc: "counts p = Some pc" "r = f64_of_int (pc_spot pc) / f64_of_int (pc_total pc)"
    using assms(3) by (auto simp: ratio_map_def split: option.splits if_splits)
  have b: "0 \<le> pc_spot pc" "pc_spot pc \<le> pc_total pc" "1 \<le> pc_total pc" "pc_total pc \<le> 2 ^ 53"
    using assms(1,2) pc(1) unfolding counts_wf_def by force+
  then show ?thesis
    using fdiv_unit [of "of_int (pc_spot pc)" "of_int (pc_total pc)"] pc(2) by (auto simp: f64_of_int_exact in_unit_def)
qed

lemma store_counts_ok:
  assumes "ratios_ok c" "counts_wf n counts" "int n \<le> 2 ^ 53"
  shows "ratios_ok (store_counts c counts) \<and> (\<forall>p r. c_currentSpotRatio (store_counts c counts) p = Some r \<longrightarrow> in_unit r)"
  using assms(1) ratio_map_unit [OF assms(2,3)] by (auto simp: store_counts_def ratios_ok_def split: option.splits)

section \<open>Histories\<close>

definition histories_ok :: "'w Controller \<Rightarrow> bool" where
  "histories_ok c \<longleftrightarrow> (\<forall>p h. c_priceHistory c p = Some h \<longrightarrow>
     h \<noteq> [] \<and> length h \<le> 2 * TFTHistorySteps \<and> (\<forall>x \<in> set h. Fin 0 < x))"

text \<open>What an inference step may change of the controller.\<close>

definition history_step :: "'w Controller \<Rightarrow> 'w Controller \<Rightarrow> bool" where
  "history_step c c' \<longleftrightarrow> (\<exists>h. c' = c\<lparr>c_priceHistory := h\<rparr>) \<and> (histories_ok c \<longrightarrow> histories_ok c')"

lemma history_step_refl [simp]: "history_step c c"
  unfolding history_step_def by (metis Controller.surjective Controller.update_convs(14))

lemma history_step_trans: "history_step a b \<Longrightarrow> history_step b c \<Longrightarrow> history_step a c"
  unfolding history_step_def by force

lemma own_history_step: "own_history c p x = (c', h) \<Longrightarrow> history_step c c'"
proof -
  assume o: "own_history c p x = (c', h)"
  show ?thesis
  proof (cases "Fin 0 < x")
    case True
    let ?h = "last_n (TFTHistorySteps * 2) (get_or [] (c_priceHistory c) p @ [x])"
    have c': "c' = c\<lparr>c_priceHistory := (c_priceHistory c)(p \<mapsto> ?h)\<rparr>" using o True by (auto simp: own_history_def Let_def)
    have len: "?h \<noteq> []" "length ?h \<le> 2 * TFTHistorySteps" by (auto simp: last_n_def TFTHistorySteps_def)
    have "Fin 0 < y" if "histories_ok c" "y \<in> set ?h" for y
    proof -
      have "y \<in> set (get_or [] (c_priceHistory c) p @ [x])" using that(2) unfolding last_n_def by (rule in_set_dropD)
      with that(1) True show ?thesis by (cases "c_priceHistory c p") (auto simp: histories_ok_def get_or_def)
    qed
    with len c' show ?thesis by (auto simp: history_step_def histories_ok_def)
  qed (use o in \<open>auto simp: own_history_def Let_def\<close>)
qed

lemma node_market_step: "node_market E c cache p m = (c', cache', m', h) \<Longrightarrow> history_step c c'"
  by (auto simp: node_market_def split: prod.splits if_splits dest: own_history_step)

lemma pool_market_step: "pool_market E c cache p t z = (c', cache', x, y, h) \<Longrightarrow> history_step c c'"
  by (auto simp: pool_market_def Let_def split: prod.splits if_splits dest: own_history_step)

lemma infer_node_step: "infer_node E cfg u wp (c, cache, sh) m = ((c', r), a) \<Longrightarrow> history_step c c'"
  by (auto simp: infer_node_def Let_def split: prod.splits if_splits option.splits dest: node_market_step)

lemma infer_nodes_step: "infer_nodes E cfg u wp (c, r) ms = ((c', r'), as) \<Longrightarrow> history_step c c'"
proof (induction ms arbitrary: c r as)
  case (Cons m ms)
  obtain c1 r1 a where n: "infer_node E cfg u wp (c, r) m = ((c1, r1), a)" by (metis prod.exhaust)
  obtain as1 where "infer_nodes E cfg u wp (c1, r1) ms = ((c', r'), as1)" using Cons.prems n by (auto split: prod.splits)
  with Cons.IH have "history_step c1 c'" by blast
  moreover have "history_step c c1" using n by (cases r) (auto dest: infer_node_step)
  ultimately show ?case by (rule history_step_trans [rotated])
qed simp

lemma infer_pool_step: "infer_pool E cfg u aggs ((c, cache, sh), acts) k = ((c', r), acts') \<Longrightarrow> history_step c c'"
  by (auto simp: infer_pool_def Let_def split: prod.splits if_splits option.splits dest: pool_market_step)

lemma infer_pools_step: "foldl (infer_pool E cfg u aggs) ((c, r), acts) ks = ((c', r'), acts') \<Longrightarrow> history_step c c'"
proof (induction ks arbitrary: c r acts)
  case (Cons k ks)
  obtain c1 r1 acts1 where n: "infer_pool E cfg u aggs ((c, r), acts) k = ((c1, r1), acts1)" by (metis prod.exhaust)
  with Cons have "history_step c1 c'" by simp
  moreover have "history_step c c1" using n by (cases r) (auto dest: infer_pool_step)
  ultimately show ?case by (rule history_step_trans [rotated])
qed simp

section \<open>Where assessments come from\<close>

text \<open>
  A state the policy is asked about has prices and a history, the safety vector of some pool as it
  was collected, and the current ratio of some pool.
\<close>

definition state_ok :: "'w ienv \<Rightarrow> (string \<rightharpoonup> f64) \<Rightarrow> NodeState \<Rightarrow> bool" where
  "state_ok E R state \<longleftrightarrow>
     \<not> market_missing (ns_SpotPrice state) (ns_OnDemandPrice state) (ns_PriceHistory state) \<and>
     (\<exists>k. ns_PoolSafety state = wf_PoolSafety (GetPoolFeatures (i_features E) k)) \<and>
     (\<exists>k. ns_CurrentSpotRatio state = get_or (Fin 0) R k)"

definition sound_source :: "'w ienv \<Rightarrow> RuntimeConfig \<Rightarrow> (string \<rightharpoonup> f64) \<Rightarrow> NodeAssessment \<Rightarrow> bool" where
  "sound_source E cfg R a \<longleftrightarrow> (\<exists>nodeID. a = unsupportedFamilyAssessment nodeID) \<or>
     (\<exists>scopeID nodeID state mult d. state_ok E R state \<and> assess E cfg scopeID nodeID state mult = Some (a, d))"

lemma state_ok_node_state:
  "\<not> market_missing x y h \<Longrightarrow> state_ok E (c_currentSpotRatio c) (node_state E c cfg u k k' x y h cpu mem b)"
  by (auto simp: state_ok_def node_state_def Let_def)

lemma history_step_ratio: "history_step c c' \<Longrightarrow> c_currentSpotRatio c' = c_currentSpotRatio c"
  by (auto simp: history_step_def)

lemma sound_unsupported [simp]: "sound_source E cfg R (unsupportedFamilyAssessment n)"
  by (auto simp: sound_source_def)

lemma infer_node_source:
  assumes "infer_node E cfg u wp (c, cache, sh) m = (st, Some a)"
  shows "sound_source E cfg (c_currentSpotRatio c) a"
proof (cases "i_supports E (nm_InstanceType m) \<noteq> None")
  case True
  with assms show ?thesis by (auto simp: infer_node_def Let_def)
next
  case False
  obtain c1 cache1 m1 h where n: "node_market E c cache (pool_id_of c wp m) m = (c1, cache1, m1, h)" by (metis prod.exhaust)
  with False assms obtain k k' cpu mem b d where
      a: "\<not> market_missing (nm_SpotPrice m1) (nm_OnDemandPrice m1) h"
        "assess E cfg (nm_NodeID m1) (nm_NodeID m1)
           (node_state E c1 cfg u k k' (nm_SpotPrice m1) (nm_OnDemandPrice m1) h cpu mem b) (Fin 1) = Some (a, d)"
    by (auto simp: infer_node_def Let_def split: if_splits option.splits)
  from state_ok_node_state [OF a(1)] a(2) history_step_ratio [OF node_market_step [OF n]] show ?thesis
    unfolding sound_source_def by metis
qed

lemma infer_nodes_source:
  "infer_nodes E cfg u wp (c, r) ms = ((c', r'), as) \<Longrightarrow> a \<in> set as \<Longrightarrow> sound_source E cfg (c_currentSpotRatio c) a"
proof (induction ms arbitrary: c r as)
  case (Cons m ms)
  obtain c1 r1 o1 where n: "infer_node E cfg u wp (c, r) m = ((c1, r1), o1)" by (metis prod.exhaust)
  obtain as1 where as1: "infer_nodes E cfg u wp (c1, r1) ms = ((c', r'), as1)" and "a \<in> set as1 \<or> o1 = Some a"
    using Cons.prems n by (auto split: prod.splits option.splits)
  moreover have "c_currentSpotRatio c1 = c_currentSpotRatio c"
    using n by (cases r) (auto dest: infer_node_step history_step_ratio)
  ultimately show ?case
    using Cons.IH [OF as1] n infer_node_source [of E cfg u wp c "fst r" "snd r" m "(c1, r1)" a] by auto
qed simp

lemma infer_pool_source:
  assumes "infer_pool E cfg u aggs ((c, cache, sh), acts) k = (st, acts')" "acts' k' = Some a"
    and "\<And>k a. acts k = Some a \<Longrightarrow> sound_source E cfg (c_currentSpotRatio c) a"
  shows "sound_source E cfg (c_currentSpotRatio c) a"
proof (cases "acts' = acts")
  case False
  obtain agg where agg: "aggs k = Some agg" using assms(1) False by (auto simp: infer_pool_def split: option.splits)
  show ?thesis
  proof (cases "i_supports E (pa_dominantType agg) \<noteq> None")
    case True
    with assms agg show ?thesis by (auto simp: infer_pool_def Let_def split: if_splits)
  next
    case unsup: False
    let ?id = "getPoolIDWithExtendedFormat c (pa_dominantType agg) (pa_zone agg) (pa_workloadPool agg)"
    obtain c1 cache1 x y h where n: "pool_market E c cache ?id (pa_dominantType agg) (pa_zone agg) = (c1, cache1, x, y, h)"
      by (metis prod.exhaust)
    with assms(1) agg unsup False obtain cpu mem b n a1 d where
        a: "\<not> market_missing x y h" "assess E cfg k k (node_state E c1 cfg u ?id k x y h cpu mem b) n = Some (a1, d)"
          "acts' = acts(k \<mapsto> a1)"
      by (auto simp: infer_pool_def Let_def split: if_splits option.splits)
    have "sound_source E cfg (c_currentSpotRatio c) a1"
      using state_ok_node_state [OF a(1)] a(2) history_step_ratio [OF pool_market_step [OF n]]
      unfolding sound_source_def by metis
    with a(3) assms(2,3) show ?thesis by (auto split: if_splits)
  qed
qed (use assms in blast)

lemma infer_pools_source:
  "foldl (infer_pool E cfg u aggs) ((c, r), acts) ks = ((c', r'), acts') \<Longrightarrow>
   (\<And>k a. acts k = Some a \<Longrightarrow> sound_source E cfg (c_currentSpotRatio c) a) \<Longrightarrow> acts' k = Some a \<Longrightarrow>
     sound_source E cfg (c_currentSpotRatio c) a"
proof (induction ks arbitrary: c r acts)
  case (Cons k0 ks)
  obtain c1 r1 acts1 where n: "infer_pool E cfg u aggs ((c, r), acts) k0 = ((c1, r1), acts1)" by (metis prod.exhaust)
  have same: "c_currentSpotRatio c1 = c_currentSpotRatio c"
    using n by (cases r) (auto dest: infer_pool_step history_step_ratio)
  have "sound_source E cfg (c_currentSpotRatio c1) a'" if "acts1 k' = Some a'" for k' a'
    using n same infer_pool_source [of E cfg u aggs c "fst r" "snd r" acts k0 "(c1, r1)" acts1 k' a'] that Cons.prems(2) by auto
  with Cons.IH [of c1 r1 acts1] Cons.prems(1,3) n same show ?case by simp
qed simp

lemma sound_source_rename: "sound_source E cfg R a \<Longrightarrow> sound_source E cfg R (a\<lparr>na_NodeID := n\<rparr>)"
proof -
  have r: "assess E cfg s i state mult = Some (a, d) \<Longrightarrow> assess E cfg s n state mult = Some (a\<lparr>na_NodeID := n\<rparr>, d)"
    for s i state mult d
    by (auto simp: assess_def Let_def split: option.splits prod.splits if_splits)
  assume "sound_source E cfg R a"
  then show ?thesis unfolding sound_source_def by (auto simp: unsupportedFamilyAssessment_def dest: r)
qed

lemma spread_action_source:
  "a \<in> set (spread_action E info n2p acts ms) \<Longrightarrow> (\<And>k a. acts k = Some a \<Longrightarrow> sound_source E cfg R a) \<Longrightarrow> sound_source E cfg R a"
  by (induction ms)
    (auto simp: Let_def intro: sound_source_rename
      split: if_splits option.splits prod.splits)

lemma store_counts_setup: "same_setup c (store_counts c counts)" "c_capacityRouter (store_counts c counts) = c_capacityRouter c"
    "c_priceHistory (store_counts c counts) = c_priceHistory c" "c_currentSpotRatio (store_counts c counts) = ratio_map counts"
  by (simp_all add: store_counts_def same_setup_def)

lemma runPoolLevelInference_result:
  assumes "runPoolLevelInference E c w ms = (c', sh, as)"
  shows "\<exists>counts. counts_wf (length ms) counts \<and> history_step (store_counts c counts) c' \<and>
    (\<forall>a \<in> set as. sound_source E (runtimeConfigForTick (env.truncate E)) (ratio_map counts) a)"
proof -
  let ?cfg = "runtimeConfigForTick (env.truncate E)" and ?info = "nodeInfo_or_empty c w"
  obtain aggs0 n2p where g: "foldl (group_node ?info) (Map.empty, Map.empty) ms = (aggs0, n2p)" by (metis prod.exhaust)
  let ?aggs = "\<lambda>k. map_option (finalize_aggregation (i_type_order E)) (aggs0 k)"
  obtain r acts where f: "foldl (infer_pool E ?cfg (calculateClusterUtilization ms) ?aggs)
        ((store_counts c (pool_counts ?aggs), Map.empty, Map.empty), Map.empty) (e_order E (group_keys ?info ms)) = ((c', r), acts)"
      and as: "as = spread_action E ?info n2p acts ms"
    using assms by (auto simp: runPoolLevelInference_def Let_def g split: prod.splits)
  have "counts_wf (length ms) (pool_counts ?aggs)"
    using group_nodes_wf [of 0 "(Map.empty, Map.empty)" ms ?info] g by (simp add: aggs_wf_def pool_counts_wf)
  moreover have "sound_source E ?cfg (ratio_map (pool_counts ?aggs)) b" if "acts k = Some b" for k b
    using infer_pools_source [OF f _ that] by (simp add: store_counts_setup)
  then have "sound_source E ?cfg (ratio_map (pool_counts ?aggs)) a" if "a \<in> set as" for a
    using that unfolding as by (rule spread_action_source [rotated])
  ultimately show ?thesis using infer_pools_step [OF f] by blast
qed

lemma runInference_result:
  assumes "runInference E c w ms = (c', sh, as)"
  shows "\<exists>counts. counts_wf (length ms) counts \<and> history_step (store_counts c counts) c' \<and>
    (\<forall>a \<in> set as. sound_source E (runtimeConfigForTick (env.truncate E)) (ratio_map counts) a)"
proof (cases "UsePoolLevelInference (c_karpenterCfg c)")
  case True
  with assms runPoolLevelInference_result show ?thesis by (simp add: runInference_def)
next
  case False
  let ?scan = "scan_nodes c (nodeInfo_or_empty c w) ms"
  obtain r where n: "infer_nodes E (runtimeConfigForTick (env.truncate E)) (calculateClusterUtilization ms) (sc_workloadPool ?scan)
      (store_counts c (sc_counts ?scan), Map.empty, Map.empty) (sc_resolved ?scan) = ((c', r), as)"
    using assms False by (auto simp: runInference_def Let_def split: prod.splits)
  from infer_nodes_step [OF n] infer_nodes_source [OF n] scan_nodes_counts [of ms c] show ?thesis
    unfolding store_counts_setup(4) by blast
qed

lemma history_step_setup: "history_step c c' \<Longrightarrow> same_setup c c' \<and> c_capacityRouter c' = c_capacityRouter c \<and>
    c_targetSpotRatio c' = c_targetSpotRatio c"
  by (auto simp: history_step_def same_setup_def)

lemma inference_invariant:
  assumes "runInference E c w ms = (c', sh, as)" "ratios_ok c" "histories_ok c" "int (length ms) \<le> 2 ^ 53"
  shows "ratios_ok c' \<and> histories_ok c' \<and> same_setup c c' \<and> c_capacityRouter c' = c_capacityRouter c \<and>
    (\<forall>p r. c_currentSpotRatio c' p = Some r \<longrightarrow> in_unit r)"
proof -
  obtain counts where k: "counts_wf (length ms) counts" "history_step (store_counts c counts) c'"
    using runInference_result [OF assms(1)] by blast
  have "histories_ok (store_counts c counts)" using assms(3) by (simp add: histories_ok_def store_counts_setup)
  with k store_counts_ok [OF assms(2) k(1) assms(4)] history_step_setup [OF k(2)] show ?thesis
    using store_counts_setup [of c counts] history_step_ratio [OF k(2)]
    by (auto simp: ratios_ok_def history_step_def intro: same_setup_trans)
qed

lemma assess_growth:
  assumes "assess E cfg s i state mul = Some (a, d)" "na_Action a \<in> {ActionIncrease10, ActionIncrease30}"
    and "UseDeterministicPolicy (Some cfg)" "wf_runtime_config cfg"
  shows "math_Max (na_CapacityScore a) (na_RuntimeScore a) < MediumRiskThreshold (DeterministicPolicy cfg) \<and>
    ns_SpotPrice state < ns_OnDemandPrice state \<and>
    \<not> effective_cap (NewPolicyEvaluator (e_files E) (Some cfg)) state - to_f64 (1 / 1000000) \<le> ns_CurrentSpotRatio state \<and>
    \<not> to_f64 (3 / 5) \<le> RecoveryBudgetViolationRisk (resolvePoolSafetyVector (ns_PoolSafety state))"
proof -
  let ?p = "NewPolicyEvaluator (e_files E) (Some cfg)" and ?r = "math_Max (na_CapacityScore a) (na_RuntimeScore a)"
  have e: "na_Action a = fst (Evaluate ?p state (na_CapacityScore a) (na_RuntimeScore a))"
    using assms(1,3) by (auto simp: assess_def evaluateDeterministicPolicy_def Let_def split: option.splits prod.splits)
  have p: "pol ?p = DeterministicPolicy cfg" by (simp add: pol_def NewPolicyEvaluator_def Let_def)
  have g: "calm_action ?p state ?r \<in> {ActionIncrease10, ActionIncrease30}" and m: "\<not> MediumRiskThreshold (pol ?p) \<le> ?r"
    using assms(2) unfolding e Evaluate_action by (auto split: if_splits)
  have "MediumRiskThreshold (pol ?p) \<noteq> NaN"
    using assms(4) by (auto simp: p wf_runtime_config_def wf_policy_def wf_risk_bands_def)
  then show ?thesis using calm_action_growth [OF g] m by (auto simp: p f_not_le)
qed

section \<open>Properties\<close>


definition loop_env :: "Action \<Rightarrow> unit ienv" where
  "loop_env rl = \<lparr>e_clock = (\<lambda>_. 0), e_order = id, e_runtimeConfigLoader = Some example_config, e_files = (\<lambda>_. None),
     e_decoded = Inr zero_config, e_allowMonitoringDrain = [], e_wait = (\<lambda>_. []),
     i_supports = (\<lambda>t. if t = ''gpu'' then Some UnknownInstanceType else None), i_prices = None, i_features = Map.empty,
     i_predict = (\<lambda>_ _ _. \<lparr>p_action = rl, p_capacity = Fin (1 / 8), p_runtime = Fin (1 / 8), p_confidence = Fin 1, p_err = None\<rparr>),
     i_type_order = id, i_now = 0, i_Hour = 0, i_Weekday = 1\<rparr>"

definition loop_controller :: "bool \<Rightarrow> unit Controller" where
  "loop_controller pools = \<lparr>c_dryRun = True, c_k8s = None, c_drain = None, c_nodePoolMgr = None,
     c_karpenterCfg = (cfg_Karpenter example_yaml)\<lparr>UsePoolLevelInference := pools\<rparr>, c_capacityRouter = NewRouter [],
     c_riskThreshold = Fin (1 / 2), c_maxDrainRatio = Fin (1 / 2), c_reconcileInterval = 0, c_confidenceThreshold = Fin (1 / 2),
     c_useSyntheticMetrics = False, c_running = True, c_stopClosed = False, c_priceHistory = Map.empty,
     c_lastMigration = Map.empty, c_targetSpotRatio = Map.empty, c_currentSpotRatio = Map.empty,
     c_poolNodeCounts = Map.empty, c_lastWeightChange = Map.empty\<rparr>"

definition loop_metric :: "string \<Rightarrow> string \<Rightarrow> NodeMetrics" where
  "loop_metric n t = \<lparr>nm_NodeID = n, nm_Zone = ''z'', nm_InstanceType = t, nm_CPUUsagePercent = Fin 0, nm_MemoryUsagePercent = Fin 0,
     nm_SpotPrice = Fin (1 / 4), nm_OnDemandPrice = Fin 1, nm_IsSpot = False\<rparr>"


lemma loop_trim: "TrimSpace ''n'' = ''n''" "Split CHR '':'' ''n'' = [''n'']"
  by (simp_all add: TrimSpace_def is_space_def)

lemma loop_scan:
  "scan_nodes (loop_controller b) Map.empty [loop_metric ''n'' ''t''] =
     \<lparr>sc_workloadPool = Map.empty, sc_counts = [''t:z'' \<mapsto> \<lparr>pc_total = 1, pc_spot = 0\<rparr>], sc_resolved = [loop_metric ''n'' ''t'']\<rparr>"
  by (simp add: scan_nodes_def scan_node_def resolve_metric_def lookup_node_def loop_metric_def Let_def loop_trim pool_id_of_def
      getPoolIDWithExtendedFormat_def get_or_def)

definition calm_state :: "f64 \<Rightarrow> NodeState" where
  "calm_state hist = (example_state (Fin 0) (Fin 1))\<lparr>ns_PriceHistory := [hist], ns_PodStartupTime := Fin 300, ns_OutagePenaltyHours := Fin 5,
     ns_MigrationCost := Fin 0, ns_PriorityScore := Fin (1 / 2), ns_ClusterUtilization := Fin 0, ns_IsSpot := False\<rparr>"

lemma loop_evaluator: "NewPolicyEvaluator (\<lambda>_. None) (Some example_config) = example_evaluator"
  by (simp add: NewPolicyEvaluator_def Let_def example_defs resolved_rules_defs resolvedCapRules_def normalizeCapRules_def
      normalizeCapRule_def SliceStable_def clampFloat_def)

lemma loop_lits: "\<not> to_f64 (4722361760503162344051 / 4722366482869645213696) \<le> Fin 0" "to_f64 (- 1) = Fin (- 1)"
  by code_simp+

lemma loop_evaluate: "fst (Evaluate example_evaluator (calm_state x) (Fin (1 / 8)) (Fin (1 / 8))) = ActionIncrease30"
  by (simp add: policy_eval example_defs calm_state_def f64_lit to_f64_examples loop_lits)

lemma loop_market:
  "node_market (loop_env rl) c cache k (loop_metric ''n'' ''t'') =
     (fst (own_history c k (Fin (1 / 4))), cache, loop_metric ''n'' ''t'',
      normalizePriceHistory (snd (own_history c k (Fin (1 / 4)))) (Fin (1 / 4)))"
  by (simp add: node_market_def fetch_price_def loop_env_def loop_metric_def enrich_prices_def split: prod.split)

lemma loop_cost: "migration_cost (Fin 300) (Fin 1) (Fin (1 / 4)) (Fin 0) = Fin 0"
  by code_simp

lemma loop_node_state:
  assumes "c_priceHistory c = Map.empty" "c_lastMigration c = Map.empty" "c_currentSpotRatio c = [''t:z'' \<mapsto> Fin 0]"
  shows "node_state (loop_env rl) (fst (own_history c ''t:z'' (Fin (1 / 4)))) example_config (Fin 0) ''t:z'' ''t:z'' (Fin (1 / 4)) (Fin 1)
    (normalizePriceHistory (snd (own_history c ''t:z'' (Fin (1 / 4)))) (Fin (1 / 4))) (Fin 0) (Fin 0) False =
      (calm_state (Fin (1 / 4)))\<lparr>ns_TargetSpotRatio := get_or (Fin 0) (c_targetSpotRatio c) ''t:z''\<rparr>"
  using assms
  by (simp add: node_state_def own_history_def get_or_def last_n_def TFTHistorySteps_def normalizePriceHistory_def GetPoolFeatures_def
      loop_cost DefaultPoolSafetyVector_def calm_state_def example_state_def example_safety_def time_since_migration_def loop_env_def Let_def
      minus_f64_def f64_lit)

lemma loop_config [simp]: "runtimeConfigForTick (env.truncate (loop_env rl)) = example_config"
    "UseDeterministicPolicy (Some example_config)"
  by (simp_all add: runtimeConfigForTick_def loop_env_def env.truncate_def UseDeterministicPolicy_def EqualFold_def example_config_def)

lemma loop_assess:
  "\<exists>a d. assess (loop_env rl) example_config s i ((calm_state x)\<lparr>ns_TargetSpotRatio := r\<rparr>) (Fin 1) = Some (a, d) \<and> na_Action a = ActionIncrease30"
proof -
  have "fst (Evaluate example_evaluator ((calm_state x)\<lparr>ns_TargetSpotRatio := r\<rparr>) (Fin (1 / 8)) (Fin (1 / 8))) = ActionIncrease30"
    by (simp add: policy_eval example_defs calm_state_def f64_lit to_f64_examples loop_lits)
  then show ?thesis
    by (auto simp: assess_def usable_scores_def loop_env_def evaluateDeterministicPolicy_def loop_evaluator Let_def
        split: prod.split)
qed

lemma loop_run:
  "\<exists>c' sh a. runInference (loop_env rl) (loop_controller False) () [loop_metric ''n'' ''t''] = (c', sh, [a]) \<and> na_Action a = ActionIncrease30"
proof -
  let ?c = "store_counts (loop_controller False) [''t:z'' \<mapsto> \<lparr>pc_total = 1, pc_spot = 0\<rparr>]"
  have c: "c_priceHistory ?c = Map.empty" "c_lastMigration ?c = Map.empty" "c_currentSpotRatio ?c = [''t:z'' \<mapsto> Fin 0]"
    by (simp_all add: store_counts_def loop_controller_def ratio_map_def fun_eq_iff f64_of_int_def)
  have n: "nodeInfo_or_empty (loop_controller False) () = Map.empty"
    by (simp add: nodeInfo_or_empty_def nodeInfoMap_def loop_controller_def)
  have u: "calculateClusterUtilization [loop_metric ''n'' ''t''] = Fin 0"
    by (simp add: calculateClusterUtilization_def loop_metric_def f64_of_int_def)
  have p: "pool_id_of ?c Map.empty (loop_metric ''n'' ''t'') = ''t:z''"
    by (simp add: pool_id_of_def loop_metric_def getPoolIDWithExtendedFormat_def get_or_def)
  have m: "\<not> market_missing (Fin (1 / 4)) (Fin 1) (normalizePriceHistory (snd (own_history ?c ''t:z'' (Fin (1 / 4)))) (Fin (1 / 4)))"
    by (simp add: market_missing_def own_history_def c get_or_def last_n_def normalizePriceHistory_def TFTHistorySteps_def Let_def)
  obtain a d where a: "assess (loop_env rl) example_config ''n'' ''n''
      ((calm_state (Fin (1 / 4)))\<lparr>ns_TargetSpotRatio := get_or (Fin 0) (c_targetSpotRatio ?c) ''t:z''\<rparr>) (Fin 1) = Some (a, d)"
      "na_Action a = ActionIncrease30"
    using loop_assess by blast
  have s: "i_supports (loop_env rl) ''t'' = None" by (simp add: loop_env_def)
  have f: "nm_NodeID (loop_metric ''n'' ''t'') = ''n''" "nm_InstanceType (loop_metric ''n'' ''t'') = ''t''"
      "nm_SpotPrice (loop_metric ''n'' ''t'') = Fin (1 / 4)" "nm_OnDemandPrice (loop_metric ''n'' ''t'') = Fin 1"
      "nm_CPUUsagePercent (loop_metric ''n'' ''t'') = Fin 0" "nm_MemoryUsagePercent (loop_metric ''n'' ''t'') = Fin 0"
      "nm_IsSpot (loop_metric ''n'' ''t'') = False" "\<not> UsePoolLevelInference (c_karpenterCfg (loop_controller False))"
    by (simp_all add: loop_metric_def loop_controller_def)
  show ?thesis
    using a m by (simp add: runInference_def n loop_scan u infer_node_def p s f loop_market loop_node_state [OF c] Let_def)
qed

lemma loop_threshold: "MediumRiskThreshold (DeterministicPolicy example_config) = Fin (3 / 8)"
  by (simp add: example_config_def example_policy_def)


section \<open>One action per pool\<close>

lemma runPoolLevelInference_counts:
  assumes "runPoolLevelInference E c w ms = (c', sh, as)"
  shows "c_poolNodeCounts c' = pool_counts (\<lambda>k. map_option (finalize_aggregation (i_type_order E))
    (fst (foldl (group_node (nodeInfo_or_empty c w)) (Map.empty, Map.empty) ms) k))"
proof -
  let ?info = "nodeInfo_or_empty c w"
  let ?aggs = "\<lambda>k. map_option (finalize_aggregation (i_type_order E)) (fst (foldl (group_node ?info) (Map.empty, Map.empty) ms) k)"
  obtain r acts where "foldl (infer_pool E (runtimeConfigForTick (env.truncate E)) (calculateClusterUtilization ms) ?aggs)
        ((store_counts c (pool_counts ?aggs), Map.empty, Map.empty), Map.empty) (e_order E (group_keys ?info ms)) = ((c', r), acts)"
    using assms by (auto simp: runPoolLevelInference_def Let_def split: prod.splits)
  from infer_pools_step [OF this] show ?thesis by (auto simp: history_step_def store_counts_def)
qed


lemma spread_of_pools:
  assumes "runPoolLevelInference E c w ms = (c', sh, as)"
  shows "\<exists>acts. as = spread_action E (nodeInfo_or_empty c w)
    (snd (foldl (group_node (nodeInfo_or_empty c w)) (Map.empty, Map.empty) ms)) acts ms"
  using assms by (auto simp: runPoolLevelInference_def Let_def split: prod.splits)

lemma spread_action_origin:
  assumes "a \<in> set (spread_action E info n2p acts ms)"
  shows "a = unsupportedFamilyAssessment (na_NodeID a) \<or>
    (\<exists>k b. n2p (na_NodeID a) = Some k \<and> acts k = Some b \<and> a = b\<lparr>na_NodeID := na_NodeID a\<rparr>)"
  using assms
proof (induction ms)
  case (Cons m ms)
  then show ?case
    by (fastforce simp: Let_def get_or_def unsupportedFamilyAssessment_def split: if_splits option.splits prod.splits)
qed simp

text \<open>
  Pool-level inference gives one answer per pool: there is one assessment for
  each pool key, and what a node of that pool gets is that assessment under the node's name, or
  the emergency exit of an instance family the models do not support.
\<close>

theorem pool_level_coherent:
  assumes "runPoolLevelInference E c w ms = (c', sh, as)"
  shows "\<exists>pool_answer. \<forall>a \<in> set as. a = unsupportedFamilyAssessment (na_NodeID a) \<or>
    (\<exists>k b. snd (foldl (group_node (nodeInfo_or_empty c w)) (Map.empty, Map.empty) ms) (na_NodeID a) = Some k \<and>
       pool_answer k = Some b \<and> a = b\<lparr>na_NodeID := na_NodeID a\<rparr>)"
proof -
  obtain acts where "as = spread_action E (nodeInfo_or_empty c w)
      (snd (foldl (group_node (nodeInfo_or_empty c w)) (Map.empty, Map.empty) ms)) acts ms"
    using spread_of_pools [OF assms] by blast
  with spread_action_origin show ?thesis by (intro exI [of _ acts]) blast
qed

theorem pool_level_coherent_witness:
  "\<exists>c' sh as (pool_answer :: string \<rightharpoonup> NodeAssessment). runPoolLevelInference (loop_env ActionHold) (loop_controller True) () [loop_metric ''n'' ''t''] = (c', sh, as) \<and>
    (\<forall>a \<in> set as. a = unsupportedFamilyAssessment (na_NodeID a) \<or> (\<exists>k b. pool_answer k = Some b \<and> na_Action a = na_Action b))"
proof -
  obtain c' sh as where r: "runPoolLevelInference (loop_env ActionHold) (loop_controller True) () [loop_metric ''n'' ''t''] = (c', sh, as)"
    by (metis prod.exhaust)
  from pool_level_coherent [OF r] obtain pool_answer where p: "\<forall>a \<in> set as. a = unsupportedFamilyAssessment (na_NodeID a) \<or>
      (\<exists>k b. snd (foldl (group_node (nodeInfo_or_empty (loop_controller True) ())) (Map.empty, Map.empty) [loop_metric ''n'' ''t'']) (na_NodeID a) = Some k \<and>
        pool_answer k = Some b \<and> a = b\<lparr>na_NodeID := na_NodeID a\<rparr>)" by blast
  have "na_Action a = na_Action b" if "a = b\<lparr>na_NodeID := n\<rparr>" for a b :: NodeAssessment and n using that by simp
  with p have "\<forall>a \<in> set as. a = unsupportedFamilyAssessment (na_NodeID a) \<or> (\<exists>k b. pool_answer k = Some b \<and> na_Action a = na_Action b)"
    by blast
  with r show ?thesis by blast
qed

text \<open>
  A node that Prometheus reports under an address with a port other than 9100 takes
  part in its pool's decision but never gets it: the node is found by its host when the pools
  are formed and not when the pool's action is applied.
\<close>

theorem pool_level_drops_host_port:
  assumes "nodeInfo_or_empty c w (TrimSpace (nm_NodeID m)) = None"
    and "nodeInfo_or_empty c w (hd (Split CHR '':'' (TrimSpace (nm_NodeID m)))) = Some i" "ni_name i \<noteq> TrimSpace (nm_NodeID m)"
  shows "case runPoolLevelInference E c w [m] of (c', sh, as) \<Rightarrow> as = [] \<and> (\<exists>p pc. c_poolNodeCounts c' p = Some pc \<and> pc_total pc = 1)"
proof -
  let ?info = "nodeInfo_or_empty c w" and ?m = "fst (resolve_metric (nodeInfo_or_empty c w) m)"
  have id: "nm_NodeID ?m = ni_name i" using assms by (simp add: resolve_metric_def Let_def lookup_node_def)
  obtain c' sh as where r: "runPoolLevelInference E c w [m] = (c', sh, as)" by (metis prod.exhaust)
  have n2p: "snd (foldl (group_node ?info) (Map.empty, Map.empty) [m]) = [ni_name i \<mapsto> pool_key (workload_pool_of ?info ?m) (nm_Zone ?m)]"
    using id by (simp add: group_node_def Let_def)
  obtain acts where as: "as = spread_action E ?info (snd (foldl (group_node ?info) (Map.empty, Map.empty) [m])) acts [m]"
    using spread_of_pools [OF r] by blast
  have "as = []" unfolding as n2p using assms(1,3) by (simp add: Let_def get_or_def)
  moreover have "\<exists>p pc. c_poolNodeCounts c' p = Some pc \<and> pc_total pc = 1"
    unfolding runPoolLevelInference_counts [OF r]
    by (intro exI [of _ "pool_key (workload_pool_of ?info ?m) (nm_Zone ?m)"])
      (simp add: pool_counts_def group_node_def Let_def finalize_aggregation_def add_to_pool_def new_aggregation_def)
  ultimately show ?thesis using r by simp
qed

definition port_controller :: "mem_server Controller" where
  "port_controller = (act_controller True)\<lparr>c_karpenterCfg := (cfg_Karpenter example_yaml)\<lparr>UsePoolLevelInference := True\<rparr>\<rparr>"

definition port_server :: mem_server where
  "port_server = act_server\<lparr>ms_nodes := [act_node\<lparr>node_Addresses := [''10.0.0.1'']\<rparr>]\<rparr>"

theorem pool_level_drops_host_port_witness:
  "\<forall>E. snd (snd (runPoolLevelInference E port_controller port_server [loop_metric ''10.0.0.1:9200'' ''t''])) = []"
proof -
  let ?info = "nodeInfo_or_empty port_controller port_server"
  have "?info (TrimSpace ''10.0.0.1:9200'') = None" "ni_name (the (?info ''10.0.0.1'')) \<noteq> TrimSpace ''10.0.0.1:9200''"
    "?info (hd (Split CHR '':'' (TrimSpace ''10.0.0.1:9200''))) = Some (the (?info ''10.0.0.1''))"
    by code_simp+
  moreover have "nm_NodeID (loop_metric n t) = n" for n t by (simp add: loop_metric_def)
  ultimately show ?thesis
    using pool_level_drops_host_port [of port_controller port_server "loop_metric ''10.0.0.1:9200'' ''t''" "the (?info ''10.0.0.1'')"]
    by (simp add: case_prod_beta)
qed

end
