(* ===== verification/Savings.thy ===== *)
theory Savings
  imports Inference_Loop
begin

text \<open>
  internal/controller/savings.go and \<open>generateAndLogSavingsReport\<close> of controller.go: the
  report of a dry run. Its log lines are left out; of its gauges only the cumulative counter is
  kept, the one that has a state. A recommendation is its case with the numbers it prints.
\<close>

section \<open>Nodes\<close>

datatype RiskLevel = RiskLow | RiskMedium | RiskHigh

datatype recommendation = SpotStable f64 | SpotMonitor f64 | SpotHighRisk f64
  | MigrateStable f64 f64 f64 | MigrateOptional f64 f64 | OnDemandOptimal f64

record NodeSavings =
  sv_NodeID :: string
  sv_PoolID :: string
  sv_InstanceType :: string
  sv_Zone :: string
  sv_IsSpot :: bool
  sv_CurrentCostHourly :: f64
  sv_SpotPriceHourly :: f64
  sv_ODPriceHourly :: f64
  sv_SavingsHourly :: f64
  sv_SavingsDaily :: f64
  sv_SavingsMonthly :: f64
  sv_Action :: Action
  sv_CapacityScore :: f64
  sv_Confidence :: f64
  sv_RiskLevel :: RiskLevel
  sv_CanMigrate :: bool

definition generateNodeRecommendation :: "NodeSavings \<Rightarrow> recommendation" where
  "generateNodeRecommendation ns =
     (if sv_IsSpot ns
      then (case sv_RiskLevel ns of
              RiskLow \<Rightarrow> SpotStable (sv_CurrentCostHourly ns)
            | RiskMedium \<Rightarrow> SpotMonitor (sv_CurrentCostHourly ns)
            | RiskHigh \<Rightarrow> SpotHighRisk (sv_CurrentCostHourly ns))
      else if sv_CanMigrate ns \<and> sv_RiskLevel ns = RiskLow
      then MigrateStable (sv_CurrentCostHourly ns) (sv_SavingsHourly ns) (sv_SavingsMonthly ns)
      else if sv_CanMigrate ns \<and> sv_RiskLevel ns = RiskMedium
      then MigrateOptional (sv_CurrentCostHourly ns) (sv_SavingsHourly ns)
      else OnDemandOptimal (sv_CurrentCostHourly ns))"

definition calculateNodeSavings :: "string \<Rightarrow> string \<Rightarrow> string \<Rightarrow> string \<Rightarrow> bool \<Rightarrow> f64 \<Rightarrow> f64 \<Rightarrow> Action \<Rightarrow> f64 \<Rightarrow> f64 \<Rightarrow> NodeSavings" where
  "calculateNodeSavings nodeID poolID instanceType zone isSpot spotPrice odPrice action capacityScore confidence =
     (let can = (\<not> isSpot \<and> Fin 0 < spotPrice \<and> spotPrice < odPrice);
          hourly = (if can then odPrice - spotPrice else Fin 0);
          daily = (if can then hourly * Fin 24 else Fin 0);
          monthly = (if can then daily * Fin 30 else Fin 0)
      in \<lparr>sv_NodeID = nodeID, sv_PoolID = poolID, sv_InstanceType = instanceType, sv_Zone = zone, sv_IsSpot = isSpot,
          sv_CurrentCostHourly = (if isSpot then spotPrice else odPrice), sv_SpotPriceHourly = spotPrice,
          sv_ODPriceHourly = odPrice, sv_SavingsHourly = hourly, sv_SavingsDaily = daily, sv_SavingsMonthly = monthly,
          sv_Action = action, sv_CapacityScore = capacityScore, sv_Confidence = confidence,
          sv_RiskLevel = (if capacityScore < to_f32 (3 / 10) then RiskLow
                          else if capacityScore < to_f32 (7 / 10) then RiskMedium else RiskHigh),
          sv_CanMigrate = can\<rparr>)"

section \<open>Pools\<close>

record PoolSavings =
  ps_PoolID :: string
  ps_Zone :: string
  ps_TotalNodes :: int
  ps_SpotNodes :: int
  ps_ODNodes :: int
  ps_OptimizableOD :: int
  ps_CurrentCostHourly :: f64
  ps_OptimalCostHourly :: f64
  ps_PotentialSavingsHour :: f64
  ps_PotentialSavingsDay :: f64
  ps_PotentialSavingsMonth :: f64
  ps_PoolRiskScore :: f64
  ps_PoolAction :: Action
  ps_NodeSavings :: "NodeSavings list"

definition count_savings :: "PoolSavings \<Rightarrow> NodeSavings \<Rightarrow> PoolSavings" where
  "count_savings ps ns =
     (let ps = ps\<lparr>ps_TotalNodes := ps_TotalNodes ps + 1,
                  ps_CurrentCostHourly := ps_CurrentCostHourly ps + sv_CurrentCostHourly ns\<rparr> in
      if sv_IsSpot ns
      then ps\<lparr>ps_SpotNodes := ps_SpotNodes ps + 1, ps_OptimalCostHourly := ps_OptimalCostHourly ps + sv_SpotPriceHourly ns\<rparr>
      else
        let ps = ps\<lparr>ps_ODNodes := ps_ODNodes ps + 1\<rparr> in
        if sv_CanMigrate ns
        then ps\<lparr>ps_OptimizableOD := ps_OptimizableOD ps + 1,
                ps_OptimalCostHourly := ps_OptimalCostHourly ps + sv_SpotPriceHourly ns,
                ps_PotentialSavingsHour := ps_PotentialSavingsHour ps + sv_SavingsHourly ns\<rparr>
        else ps\<lparr>ps_OptimalCostHourly := ps_OptimalCostHourly ps + sv_ODPriceHourly ns\<rparr>)"

definition aggregatePoolSavings :: "string \<Rightarrow> string \<Rightarrow> NodeSavings list \<Rightarrow> Action \<Rightarrow> f64 \<Rightarrow> PoolSavings" where
  "aggregatePoolSavings poolID zone nodes poolAction poolRisk =
     (let ps = foldl count_savings
            \<lparr>ps_PoolID = poolID, ps_Zone = zone, ps_TotalNodes = 0, ps_SpotNodes = 0, ps_ODNodes = 0, ps_OptimizableOD = 0,
             ps_CurrentCostHourly = Fin 0, ps_OptimalCostHourly = Fin 0, ps_PotentialSavingsHour = Fin 0,
             ps_PotentialSavingsDay = Fin 0, ps_PotentialSavingsMonth = Fin 0, ps_PoolRiskScore = poolRisk,
             ps_PoolAction = poolAction, ps_NodeSavings = nodes\<rparr> nodes;
          day = ps_PotentialSavingsHour ps * Fin 24
      in ps\<lparr>ps_PotentialSavingsDay := day, ps_PotentialSavingsMonth := day * Fin 30\<rparr>)"

section \<open>The report\<close>

record SavingsReport =
  sr_Pools :: "(string \<times> PoolSavings) list"
  sr_TotalSavingsHour :: f64
  sr_TotalSavingsDay :: f64
  sr_TotalSavingsMonth :: f64
  sr_TotalNodes :: int
  sr_OptimizableNodes :: int

definition node_savings_of :: "(string \<rightharpoonup> nodeInfo) \<Rightarrow> (string \<rightharpoonup> f64) \<Rightarrow> string \<Rightarrow> poolAggregation \<Rightarrow> NodeAssessment \<Rightarrow>
    NodeMetrics \<Rightarrow> NodeSavings" where
  "node_savings_of info priceCache poolKey agg poolAction m =
     (let (instanceType, zone, isSpot) =
            (case info (nm_NodeID m) of
               None \<Rightarrow> (nm_InstanceType m, nm_Zone m, nm_IsSpot m)
             | Some i \<Rightarrow> (if nm_InstanceType m = [] then ni_instanceType i else nm_InstanceType m,
                          if nm_Zone m = [] then ni_zone i else nm_Zone m, ni_isSpot i));
          price = (\<lambda>t kind. get_or (Fin 0) priceCache (t @ '':'' @ zone @ kind));
          spotPrice = price instanceType '':spot'';
          odPrice = price instanceType '':od'';
          spotPrice = (if feq spotPrice (Fin 0) then price (pa_dominantType agg) '':spot'' else spotPrice);
          odPrice = (if feq odPrice (Fin 0) then price (pa_dominantType agg) '':od'' else odPrice)
      in calculateNodeSavings (nm_NodeID m) poolKey instanceType zone isSpot spotPrice odPrice
           (na_Action poolAction) (na_CapacityScore poolAction) (na_Confidence poolAction))"

definition report_pool :: "(string \<rightharpoonup> nodeInfo) \<Rightarrow> (string \<rightharpoonup> poolAggregation) \<Rightarrow> (string \<rightharpoonup> NodeAssessment) \<Rightarrow> (string \<rightharpoonup> f64) \<Rightarrow>
    SavingsReport \<Rightarrow> string \<Rightarrow> SavingsReport" where
  "report_pool info aggs poolActions priceCache r poolKey =
     (case (aggs poolKey, poolActions poolKey) of
        (Some agg, Some poolAction) \<Rightarrow>
          let ps = aggregatePoolSavings poolKey (pa_zone agg)
                     (map (node_savings_of info priceCache poolKey agg poolAction) (pa_nodes agg))
                     (na_Action poolAction) (na_CapacityScore poolAction)
          in r\<lparr>sr_Pools := sr_Pools r @ [(poolKey, ps)], sr_TotalNodes := sr_TotalNodes r + ps_TotalNodes ps,
               sr_OptimizableNodes := sr_OptimizableNodes r + ps_OptimizableOD ps,
               sr_TotalSavingsHour := sr_TotalSavingsHour r + ps_PotentialSavingsHour ps\<rparr>
      | _ \<Rightarrow> r)"

text \<open>\<open>keys\<close> is the order in which the map of pools is visited.\<close>

definition buildSavingsReport :: "string list \<Rightarrow> (string \<rightharpoonup> nodeInfo) \<Rightarrow> (string \<rightharpoonup> poolAggregation) \<Rightarrow>
    (string \<rightharpoonup> NodeAssessment) \<Rightarrow> (string \<rightharpoonup> f64) \<Rightarrow> SavingsReport" where
  "buildSavingsReport keys info aggs poolActions priceCache =
     (let r = foldl (report_pool info aggs poolActions priceCache)
            \<lparr>sr_Pools = [], sr_TotalSavingsHour = Fin 0, sr_TotalSavingsDay = Fin 0, sr_TotalSavingsMonth = Fin 0,
             sr_TotalNodes = 0, sr_OptimizableNodes = 0\<rparr> keys;
          day = sr_TotalSavingsHour r * Fin 24
      in r\<lparr>sr_TotalSavingsDay := day, sr_TotalSavingsMonth := day * Fin 30\<rparr>)"

text \<open>The counter \<open>DryRunCumulativeSavings\<close>.\<close>

definition emitDryRunMetrics :: "f64 \<Rightarrow> SavingsReport \<Rightarrow> f64" where
  "emitDryRunMetrics cumulative report =
     (if Fin 0 < sr_TotalSavingsHour report then cumulative + sr_TotalSavingsHour report else cumulative)"

record gather =
  g_aggs :: "string \<rightharpoonup> poolAggregation"
  g_actions :: "string \<rightharpoonup> NodeAssessment"
  g_prices :: "string \<rightharpoonup> f64"
  g_keys :: "string list"

definition gather_node :: "'w ienv \<Rightarrow> (string \<rightharpoonup> nodeInfo) \<Rightarrow> (string \<rightharpoonup> NodeAssessment) \<Rightarrow> gather \<Rightarrow> NodeMetrics \<Rightarrow> gather" where
  "gather_node E info assessmentMap g m =
     (let node = fst (resolve_metric info m);
          workloadPool = (case snd (resolve_metric info m) of None \<Rightarrow> [] | Some i \<Rightarrow> ni_workloadPool i);
          zone = nm_Zone node; instanceType = nm_InstanceType node;
          poolKey = pool_key workloadPool zone;
          agg = (case g_aggs g poolKey of None \<Rightarrow> new_aggregation workloadPool zone | Some agg \<Rightarrow> agg);
          agg = agg\<lparr>pa_nodes := pa_nodes agg @ [node],
                    pa_typeCounts := alist_upd instanceType (\<lambda>n. n + 1) 0 (pa_typeCounts agg),
                    pa_spotNodes := pa_spotNodes agg + (if nm_IsSpot node then 1 else 0),
                    pa_odNodes := pa_odNodes agg + (if nm_IsSpot node then 0 else 1)\<rparr>;
          agg = agg\<lparr>pa_dominantType := dominant_loop 0 (pa_dominantType agg) (i_type_order E (pa_typeCounts agg))\<rparr>;
          cacheKey = instanceType @ '':'' @ zone;
          prices = (case i_prices E of None \<Rightarrow> g_prices g
            | Some get \<Rightarrow>
                if g_prices g (cacheKey @ '':spot'') \<noteq> None then g_prices g
                else (case get instanceType zone of None \<Rightarrow> g_prices g
                      | Some d \<Rightarrow> (g_prices g)(cacheKey @ '':spot'' \<mapsto> CurrentPrice d, cacheKey @ '':od'' \<mapsto> OnDemandPrice d)))
      in \<lparr>g_aggs = (g_aggs g)(poolKey \<mapsto> agg),
          g_actions = (case assessmentMap (nm_NodeID node) of None \<Rightarrow> g_actions g | Some a \<Rightarrow> (g_actions g)(poolKey \<mapsto> a)),
          g_prices = prices, g_keys = List.insert poolKey (g_keys g)\<rparr>)"

definition generateAndLogSavingsReport :: "'w ienv \<Rightarrow> 'w Controller \<Rightarrow> 'w \<Rightarrow> NodeMetrics list \<Rightarrow> NodeAssessment list \<Rightarrow> SavingsReport" where
  "generateAndLogSavingsReport E c w ms assessments =
     (let info = nodeInfo_or_empty c w;
          assessmentMap = foldl (\<lambda>f a. f(na_NodeID a \<mapsto> a)) Map.empty assessments;
          g = foldl (gather_node E info assessmentMap) \<lparr>g_aggs = Map.empty, g_actions = Map.empty, g_prices = Map.empty, g_keys = []\<rparr> ms
      in buildSavingsReport (e_order E (g_keys g)) info (g_aggs g) (g_actions g) (g_prices g))"

section \<open>Consistency\<close>

lemma savings_nonneg: "Fin 0 \<le> sv_SavingsHourly (calculateNodeSavings n p t z b x y a c k)"
proof -
  have "Fin 0 \<le> y - x" if "Fin 0 < x" "x < y"
    using that rnd64.rd_nonneg by (cases x; cases y) (auto simp: minus_f64_def)
  then show ?thesis by (simp add: calculateNodeSavings_def Let_def)
qed

definition pool_consistent :: "PoolSavings \<Rightarrow> bool" where
  "pool_consistent ps \<longleftrightarrow> ps_TotalNodes ps = ps_SpotNodes ps + ps_ODNodes ps \<and> 0 \<le> ps_SpotNodes ps \<and>
     0 \<le> ps_OptimizableOD ps \<and> ps_OptimizableOD ps \<le> ps_ODNodes ps \<and> Fin 0 \<le> ps_PotentialSavingsHour ps"

lemma count_savings_consistent:
  "pool_consistent ps \<Longrightarrow> Fin 0 \<le> sv_SavingsHourly ns \<Longrightarrow>
     pool_consistent (count_savings ps ns) \<and> ps_TotalNodes (count_savings ps ns) = ps_TotalNodes ps + 1 \<and>
     ps_NodeSavings (count_savings ps ns) = ps_NodeSavings ps"
  by (auto simp: count_savings_def pool_consistent_def Let_def intro: plus_nonneg)

lemma foldl_count_savings:
  "pool_consistent ps \<Longrightarrow> (\<And>ns. ns \<in> set nodes \<Longrightarrow> Fin 0 \<le> sv_SavingsHourly ns) \<Longrightarrow>
     pool_consistent (foldl count_savings ps nodes) \<and>
     ps_TotalNodes (foldl count_savings ps nodes) = ps_TotalNodes ps + int (length nodes) \<and>
     ps_NodeSavings (foldl count_savings ps nodes) = ps_NodeSavings ps"
proof (induction nodes arbitrary: ps)
  case (Cons n nodes)
  from count_savings_consistent [OF Cons.prems(1), of n] Cons.prems(2) Cons.IH [of "count_savings ps n"] show ?case by simp
qed simp

lemma aggregate_consistent:
  assumes "\<And>ns. ns \<in> set nodes \<Longrightarrow> Fin 0 \<le> sv_SavingsHourly ns"
  shows "pool_consistent (aggregatePoolSavings k z nodes a r)"
    "ps_TotalNodes (aggregatePoolSavings k z nodes a r) = int (length (ps_NodeSavings (aggregatePoolSavings k z nodes a r)))"
proof -
  have "pool_consistent ps \<Longrightarrow> pool_consistent (ps\<lparr>ps_PotentialSavingsDay := d, ps_PotentialSavingsMonth := m\<rparr>)" for ps d m
    by (simp add: pool_consistent_def)
  with assms show "pool_consistent (aggregatePoolSavings k z nodes a r)"
    "ps_TotalNodes (aggregatePoolSavings k z nodes a r) = int (length (ps_NodeSavings (aggregatePoolSavings k z nodes a r)))"
    by (simp_all add: aggregatePoolSavings_def Let_def foldl_count_savings pool_consistent_def [of "\<lparr>ps_PoolID = _, ps_Zone = _,
          ps_TotalNodes = _, ps_SpotNodes = _, ps_ODNodes = _, ps_OptimizableOD = _, ps_CurrentCostHourly = _, ps_OptimalCostHourly = _,
          ps_PotentialSavingsHour = _, ps_PotentialSavingsDay = _, ps_PotentialSavingsMonth = _, ps_PoolRiskScore = _,
          ps_PoolAction = _, ps_NodeSavings = _\<rparr>"])
qed

definition pool_line_ok :: "string \<times> PoolSavings \<Rightarrow> bool" where
  "pool_line_ok = (\<lambda>(k, ps). pool_consistent ps \<and> ps_TotalNodes ps = int (length (ps_NodeSavings ps)))"

definition report_consistent :: "SavingsReport \<Rightarrow> bool" where
  "report_consistent r \<longleftrightarrow> list_all pool_line_ok (sr_Pools r) \<and> Fin 0 \<le> sr_TotalSavingsHour r \<and>
     sr_TotalNodes r = sum_list (map (\<lambda>(k, ps). ps_TotalNodes ps) (sr_Pools r)) \<and>
     sr_OptimizableNodes r = sum_list (map (\<lambda>(k, ps). ps_OptimizableOD ps) (sr_Pools r))"

lemma report_pool_consistent: "report_consistent r \<Longrightarrow> report_consistent (report_pool info aggs acts prices r k)"
proof -
  assume r: "report_consistent r"
  have n: "Fin 0 \<le> sv_SavingsHourly ns" if "ns \<in> set (map (node_savings_of info prices k agg a) (pa_nodes agg))" for agg a ns
    using that by (auto simp: node_savings_of_def Let_def savings_nonneg split: prod.splits)
  show ?thesis
  proof (cases "aggs k = None \<or> acts k = None")
    case True
    with r show ?thesis by (auto simp: report_pool_def split: option.splits)
  next
    case False
    then obtain agg a where k: "aggs k = Some agg" "acts k = Some a" by auto
    define ps where "ps = aggregatePoolSavings k (pa_zone agg) (map (node_savings_of info prices k agg a) (pa_nodes agg))
      (na_Action a) (na_CapacityScore a)"
    have "pool_consistent ps" "ps_TotalNodes ps = int (length (ps_NodeSavings ps))"
      unfolding ps_def using n [of _ agg a] by (auto intro!: aggregate_consistent)
    then show ?thesis
      using r k by (simp add: report_pool_def Let_def report_consistent_def pool_line_ok_def pool_consistent_def plus_nonneg ps_def [symmetric])
  qed
qed

lemma foldl_report_consistent:
  "report_consistent r \<Longrightarrow> report_consistent (foldl (report_pool info aggs acts prices) r ks)"
  by (induction ks arbitrary: r) (simp_all add: report_pool_consistent)


text \<open>
  The counter adds an hourly rate at every cycle: after \<open>n\<close> cycles with a saving of one dollar
  an hour it stands at \<open>n\<close> dollars, however short the cycles are.
\<close>

lemma dry_run_counter_counts_cycles:
  assumes "sr_TotalSavingsHour r = Fin 1" "n \<le> 2 ^ 24"
  shows "foldl emitDryRunMetrics (Fin 0) (replicate n r) = Fin (of_nat n)"
  using assms(2)
proof (induction n)
  case (Suc n)
  have "replicate (Suc n) r = replicate n r @ [r]" by (simp add: replicate_append_same)
  moreover have "to_f64 (of_nat n + 1) = Fin (of_nat n + 1)" using rnd64.rd_int [of "int n + 1"] Suc.prems by simp
  ultimately show ?case using Suc assms(1) by (simp add: emitDryRunMetrics_def add.commute)
qed simp

end
