(* ===== verification/Reconcile.thy ===== *)
theory Reconcile
  imports Savings
begin

text \<open>
  internal/controller/controller.go, \<open>Reconcile\<close>: one cycle from the metrics to the drains, and
  any number of them. The agent is the controller with what the cycle keeps beside it: the
  collected features, the synthetic metrics, the counter of the dry run. The reliability
  telemetry that a cycle polls first (Reliability) only feeds counters: nothing of the cycle reads
  it, so it is not part of this state.
\<close>

section \<open>One cycle\<close>

record ('w, 'r) agent =
  ag_c :: "'w Controller"
  ag_features :: "string \<rightharpoonup> WorkloadFeatures"
  ag_synth :: "'r metricSynth option"
  ag_savings :: f64

text \<open>What a cycle talks to: the environment of the loop, the collector's API, Prometheus, a random source and its seed.\<close>

record ('w, 'r) services =
  s_env :: "'w ienv"
  s_collector :: "'w collector_api"
  s_prom :: "'w prom_api"
  s_keys :: "string set \<Rightarrow> string list"
  s_rng :: "'r \<Rightarrow> f64 \<times> 'r"
  s_seed :: 'r

definition fetchNodeMetrics :: "('w, 'r) services \<Rightarrow> ('w, 'r) agent \<Rightarrow> 'w \<Rightarrow> ('w, 'r) agent \<times> NodeMetrics list option" where
  "fetchNodeMetrics S a w =
     (if c_useSyntheticMetrics (ag_c a)
      then if c_k8s (ag_c a) = None then (a, None)
      else let synth = (case ag_synth a of None \<Rightarrow> newMetricSynth (s_seed S) | Some m \<Rightarrow> m)
           in case syntheticNodeMetrics (s_rng S) (ag_c a) w synth of
                None \<Rightarrow> (a\<lparr>ag_synth := Some synth\<rparr>, None)
              | Some (ms, synth) \<Rightarrow> (a\<lparr>ag_synth := Some synth\<rparr>, Some ms)
      else (a, case GetNodeMetrics (s_keys S) (s_prom S) w of Inl _ \<Rightarrow> None | Inr ms \<Rightarrow> Some ms))"

text \<open>\<open>None\<close> while a capacity swap is still waiting. Metrics and features that cannot be had end the cycle without an error.\<close>

definition Reconcile :: "('w, 'r) services \<Rightarrow> ('w, 'r) agent \<Rightarrow> 'w \<Rightarrow> (('w, 'r) agent \<times> 'w) option" where
  "Reconcile S a w =
     (case fetchNodeMetrics S a w of
        (a, None) \<Rightarrow> Some (a, w)
      | (a, Some nodeMetrics) \<Rightarrow>
          if nodeMetrics = [] then Some (a, w)
          else case Collect (s_collector S) w (ag_features a) of
            (Some _, features) \<Rightarrow> Some (a\<lparr>ag_features := features\<rparr>, w)
          | (None, features) \<Rightarrow>
              let E = (s_env S)\<lparr>i_features := features\<rparr> in
              case runInference E (ag_c a) w nodeMetrics of
                (c, _, assessments) \<Rightarrow>
                  let a = a\<lparr>ag_features := features, ag_savings :=
                        (if c_dryRun c then emitDryRunMetrics (ag_savings a) (generateAndLogSavingsReport E c w nodeMetrics assessments)
                         else ag_savings a)\<rparr>
                  in map_option (\<lambda>(c, w). (a\<lparr>ag_c := c\<rparr>, w)) (actuate (env.truncate E) c w assessments (int (length nodeMetrics))))"

text \<open>One cycle after another, each with the services as they are then.\<close>

fun run_cycles :: "('w, 'r) services list \<Rightarrow> ('w, 'r) agent \<Rightarrow> 'w \<Rightarrow> (('w, 'r) agent \<times> 'w) option" where
  "run_cycles [] a w = Some (a, w)"
| "run_cycles (S # Ss) a w = (case Reconcile S a w of None \<Rightarrow> None | Some (a, w) \<Rightarrow> run_cycles Ss a w)"

section \<open>Invariant\<close>

definition agent_ok :: "('w, 'r) agent \<Rightarrow> bool" where
  "agent_ok a \<longleftrightarrow> ratios_ok (ag_c a) \<and> histories_ok (ag_c a) \<and> wf_router (c_capacityRouter (ag_c a))"

text \<open>
  The runtime configuration of a tick is well formed, and the source of the node metrics that the
  controller uses never reports more nodes than floating-point counts hold exactly.
\<close>

definition services_ok :: "('w, 'r) services \<Rightarrow> 'w Controller \<Rightarrow> bool" where
  "services_ok S c \<longleftrightarrow>
     wf_ratios (runtimeConfigForTick (env.truncate (s_env S))) \<and>
     nan_free_policy (DeterministicPolicy (runtimeConfigForTick (env.truncate (s_env S)))) \<and>
     (\<forall>a w ms. same_setup c (ag_c a) \<and> snd (fetchNodeMetrics S a w) = Some ms \<longrightarrow> int (length ms) \<le> 2 ^ 53)"

lemma services_ok_setup: "services_ok S c \<Longrightarrow> same_setup c c' \<Longrightarrow> services_ok S c'"
  unfolding services_ok_def using same_setup_trans by blast

lemma fetch_agent: "ag_c (fst (fetchNodeMetrics S a w)) = ag_c a" "ag_features (fst (fetchNodeMetrics S a w)) = ag_features a"
  by (auto simp: fetchNodeMetrics_def Let_def split: option.splits prod.splits)

lemma Reconcile_cases:
  assumes "Reconcile S a w = Some (a', w')"
  shows "ag_c a' = ag_c a \<and> w' = w \<or>
    (\<exists>features ms c sh as. snd (fetchNodeMetrics S a w) = Some ms \<and>
       runInference ((s_env S)\<lparr>i_features := features\<rparr>) (ag_c a) w ms = (c, sh, as) \<and>
       Collect (s_collector S) w (ag_features a) = (None, features) \<and>
       actuate (env.truncate (s_env S)) c w as (int (length ms)) = Some (ag_c a', w'))"
proof -
  obtain a1 o1 where f: "fetchNodeMetrics S a w = (a1, o1)" by fastforce
  have a1: "ag_c a1 = ag_c a" "ag_features a1 = ag_features a" using fetch_agent [of S a w] f by simp_all
  have t: "env.truncate (E\<lparr>i_features := F\<rparr>) = env.truncate E" for E :: "'a ienv" and F by (simp add: env.truncate_def)
  show ?thesis
    using assms a1 unfolding Reconcile_def f
    by (auto simp: Let_def t split: option.splits prod.splits if_splits)
qed

text \<open>Acting on assessments never touches the price histories.\<close>

lemma steer_histories: "steerKarpenterWeights E c w pool fs = (c', w') \<Longrightarrow> c_priceHistory c' = c_priceHistory c"
  by (auto simp: steerKarpenterWeights_def Let_def split: option.splits if_splits prod.splits)

lemma steer_pools_histories: "steer_pools E ds c w pools = (c', w') \<Longrightarrow> c_priceHistory c' = c_priceHistory c"
proof (induction pools arbitrary: c w)
  case (Cons p ps)
  then show ?case by (auto split: option.splits prod.splits dest!: steer_histories)
qed simp

lemma batchSteer_histories: "batchSteerKarpenterWeights E c w nodes = (c', w') \<Longrightarrow> c_priceHistory c' = c_priceHistory c"
  by (auto simp: batchSteerKarpenterWeights_def Let_def split: option.splits if_splits dest: steer_pools_histories)

lemma swaps_histories: "prepareCapacitySwaps E c w nodes = Some (c', w') \<Longrightarrow> c_priceHistory c' = c_priceHistory c"
  by (auto simp: prepareCapacitySwaps_def Let_def split: option.splits prod.splits)

lemma finish_histories: "finish_drain E c K w nodeObj i result = (e, c', w') \<Longrightarrow> c_priceHistory c' = c_priceHistory c"
  by (auto simp: finish_drain_def Let_def split: if_splits option.splits prod.splits sum.splits)

lemma target_histories [simp]: "c_priceHistory (applyTargetSpotRatioWithConfig c p a cfg low) = c_priceHistory c"
  by (auto simp: applyTargetSpotRatioWithConfig_def Let_def split: option.splits prod.splits)

lemma execute_histories: "executeAction E c w n = (e, c', w') \<Longrightarrow> c_priceHistory c' = c_priceHistory c"
  unfolding executeAction_def Let_def
  by (auto split: option.splits sum.splits if_splits prod.splits dest!: finish_histories)

lemma execute_all_histories: "execute_all E c w nodes = (c', w') \<Longrightarrow> c_priceHistory c' = c_priceHistory c"
proof (induction nodes arbitrary: c w)
  case (Cons n ns)
  then show ?case by (auto split: prod.splits dest!: execute_histories)
qed simp

lemma actuate_histories: "actuate E c w as n = Some (c', w') \<Longrightarrow> c_priceHistory c' = c_priceHistory c"
  by (auto simp: actuate_def Let_def split: if_splits option.splits prod.splits
      dest!: swaps_histories execute_all_histories batchSteer_histories)

lemma Reconcile_keeps:
  assumes "services_ok S (ag_c a)" "agent_ok a" "Reconcile S a w = Some (a', w')"
  shows "agent_ok a' \<and> same_setup (ag_c a) (ag_c a')"
  using Reconcile_cases [OF assms(3)]
proof (elim disjE exE conjE)
  assume "ag_c a' = ag_c a"
  then show ?thesis using assms(2) by (simp add: agent_ok_def)
next
  fix features ms c sh as
  assume f: "snd (fetchNodeMetrics S a w) = Some ms"
    and r: "runInference ((s_env S)\<lparr>i_features := features\<rparr>) (ag_c a) w ms = (c, sh, as)"
    and x: "actuate (env.truncate (s_env S)) c w as (int (length ms)) = Some (ag_c a', w')"
  from f assms(1) have n: "int (length ms) \<le> 2 ^ 53" unfolding services_ok_def using same_setup_refl by blast
  from inference_invariant [OF r _ _ n] assms(2)
  have i: "ratios_ok c" "histories_ok c" "same_setup (ag_c a) c" "wf_router (c_capacityRouter c)"
    by (simp_all add: agent_ok_def)
  from actuate_invariant [OF _ _ i(1,4) x] assms(1) actuate_histories [OF x] i show ?thesis
    by (auto simp: agent_ok_def services_ok_def histories_ok_def intro: same_setup_trans)
qed

text \<open>
  C3 (invariant). Whatever the metrics, the features, the prices and the models are, and however
  many cycles run, one after another: the target ratio of every pool stays within the unit
  interval and its price history within the bound of the window, the capacity router stays well
  formed, and no cycle replaces a client, a threshold or a life-cycle flag of the controller.
\<close>

theorem run_cycles_invariant:
  "\<forall>S \<in> set Ss. services_ok S (ag_c a) \<Longrightarrow> agent_ok a \<Longrightarrow> run_cycles Ss a w = Some (a', w') \<Longrightarrow>
     agent_ok a' \<and> same_setup (ag_c a) (ag_c a')"
proof (induction Ss arbitrary: a w)
  case (Cons S Ss)
  then obtain a1 w1 where r: "Reconcile S a w = Some (a1, w1)" "run_cycles Ss a1 w1 = Some (a', w')"
    by (auto split: option.splits)
  from Reconcile_keeps [OF _ Cons.prems(2) r(1)] Cons.prems(1) have "agent_ok a1" "same_setup (ag_c a) (ag_c a1)" by auto
  with Cons.IH [OF _ _ r(2)] Cons.prems(1) show ?case by (auto intro: same_setup_trans services_ok_setup)
qed simp

section \<open>Skipped cycles and progress\<close>

lemma Collect_keeps: "Collect Q w F = (Some e, F') \<Longrightarrow> F' = F"
  by (auto simp: Collect_def Let_def split: sum.splits)

text \<open>
  C28 (error). A cycle that gets no node metrics, or whose workload features cannot be collected,
  is skipped whole: it returns, changes nothing in the cluster, and leaves the controller and the
  features of the last good collection as they were, so no decision rests on stale inputs.
\<close>

theorem Reconcile_skips:
  assumes "snd (fetchNodeMetrics S a w) \<in> {None, Some []} \<or> fst (Collect (s_collector S) w (ag_features a)) \<noteq> None"
  shows "\<exists>a'. Reconcile S a w = Some (a', w) \<and> ag_c a' = ag_c a \<and> ag_features a' = ag_features a"
proof -
  obtain a1 o1 where f: "fetchNodeMetrics S a w = (a1, o1)" by fastforce
  have a1: "ag_c a1 = ag_c a" "ag_features a1 = ag_features a" using fetch_agent [of S a w] f by simp_all
  obtain e F where k: "Collect (s_collector S) w (ag_features a) = (e, F)" by fastforce
  show ?thesis
    using assms a1 Collect_keeps [of "s_collector S" w "ag_features a" _ F] k unfolding Reconcile_def f
    by (auto split: option.splits)
qed

lemma Reconcile_some:
  assumes "\<And>w. \<exists>w'. Deadline w' \<in> set (e_wait (s_env S) w) \<or> Cancelled w' \<in> set (e_wait (s_env S) w)"
  shows "\<exists>a' w'. Reconcile S a w = Some (a', w')"
proof -
  have "\<exists>c' w'. actuate (env.truncate ((s_env S)\<lparr>i_features := F\<rparr>)) c w as n = Some (c', w')" for F c w as n
    by (rule cycle_returns) (use assms in \<open>simp add: env.truncate_def\<close>)
  then have x: "\<exists>w' c'. actuate (env.truncate ((s_env S)\<lparr>i_features := F\<rparr>)) c w as n = Some (c', w')" for F c w as n by blast
  have "Reconcile S a w \<noteq> None"
    using x by (auto simp: Reconcile_def Let_def split: option.splits prod.splits)
  then show ?thesis by fastforce
qed

text \<open>
  C29 (liveness). Provided every wait for a replacement node is cut off, by its deadline or by
  the cancellation of the context, any number of cycles comes to an end.
\<close>

theorem run_cycles_returns:
  assumes "\<forall>S \<in> set Ss. \<forall>w. \<exists>w'. Deadline w' \<in> set (e_wait (s_env S) w) \<or> Cancelled w' \<in> set (e_wait (s_env S) w)"
  shows "\<exists>a' w'. run_cycles Ss a w = Some (a', w')"
  using assms
proof (induction Ss arbitrary: a w)
  case (Cons S Ss)
  then obtain a1 w1 where "Reconcile S a w = Some (a1, w1)" using Reconcile_some [of S a w] by auto
  with Cons show ?case by simp
qed simp

section \<open>A concrete cycle\<close>

definition cycle_services :: "api_error option \<Rightarrow> (unit, unit) services" where
  "cycle_services e =
     \<lparr>s_env = (loop_env ActionHold)\<lparr>e_wait := (\<lambda>_. [Deadline ()])\<rparr>,
      s_collector = \<lparr>q_listNodes = (\<lambda>_. case e of None \<Rightarrow> Inr [] | Some e \<Rightarrow> Inl e), q_listPods = (\<lambda>_. Inr []),
        q_listPDBs = (\<lambda>_. Inr []), q_listReplicaSets = (\<lambda>_. Inr []), q_GetPoolUtilization = None,
        q_Sscanf_f = (\<lambda>_. None), q_sort_Slice = (\<lambda>xs. xs)\<rparr>,
      s_prom = (\<lambda>_ _. Some (PromVector [([''node'' \<mapsto> ''n''], Fin 50)])), s_keys = (\<lambda>_. [''n'']),
      s_rng = (\<lambda>s. (Fin (1 / 2), s)), s_seed = ()\<rparr>"

definition cycle_agent :: "(unit, unit) agent" where
  "cycle_agent = \<lparr>ag_c = loop_controller False, ag_features = Map.empty, ag_synth = None, ag_savings = Fin 0\<rparr>"

lemma cycle_config: "runtimeConfigForTick (env.truncate (s_env (cycle_services e))) = example_config"
  by (simp add: cycle_services_def env.truncate_def runtimeConfigForTick_def loop_env_def)

lemma cycle_services_ok: "services_ok (cycle_services e) (loop_controller False)"
proof -
  have "length ms = 1" if "same_setup (loop_controller False) (ag_c a)" "snd (fetchNodeMetrics (cycle_services e) a w) = Some ms"
    for a :: "(unit, unit) agent" and w ms
    using that by (auto simp: same_setup_def fetchNodeMetrics_def loop_controller_def cycle_services_def GetNodeMetrics_def mergeMetrics_def)
  then show ?thesis
    using wf_example_config example_policy_nan_free
    by (auto simp: services_ok_def cycle_config wf_runtime_config_def)
qed

lemma cycle_agent_ok: "agent_ok cycle_agent"
  by (simp add: agent_ok_def cycle_agent_def ratios_ok_def histories_ok_def loop_controller_def wf_router_def NewRouter_def)

theorem run_cycles_returns_witness:
  "\<exists>a' w'. run_cycles [cycle_services None, cycle_services (Some NotFound), cycle_services None] cycle_agent () = Some (a', w')"
  by (rule run_cycles_returns) (simp add: cycle_services_def)

theorem run_cycles_invariant_witness:
  "\<exists>a'. run_cycles [cycle_services None, cycle_services (Some NotFound)] cycle_agent () = Some (a', ()) \<and>
     agent_ok a' \<and> same_setup (loop_controller False) (ag_c a')"
proof -
  have "\<exists>a' w'. Reconcile (cycle_services e) a () = Some (a', w')" for e a
    by (rule Reconcile_some) (simp add: cycle_services_def)
  then obtain a1 a2 where r: "Reconcile (cycle_services None) cycle_agent () = Some (a1, ())"
      "Reconcile (cycle_services (Some NotFound)) a1 () = Some (a2, ())"
    by (metis (full_types) unit.exhaust)
  then have "run_cycles [cycle_services None, cycle_services (Some NotFound)] cycle_agent () = Some (a2, ())" by simp
  moreover from run_cycles_invariant [OF _ cycle_agent_ok this] have "agent_ok a2 \<and> same_setup (loop_controller False) (ag_c a2)"
    using cycle_services_ok by (simp add: cycle_agent_def)
  ultimately show ?thesis by blast
qed

theorem Reconcile_skips_witness:
  "\<exists>a'. Reconcile (cycle_services (Some NotFound)) cycle_agent () = Some (a', ()) \<and> ag_c a' = loop_controller False"
  using Reconcile_skips [of "cycle_services (Some NotFound)" cycle_agent "()"]
  by (simp add: cycle_services_def Collect_def cycle_agent_def) blast

end
