(* ===== verification/Text_Format.thy ===== *)
theory Text_Format
  imports Float64
begin

text \<open>
  Printing numbers as package fmt does with the verb f and a precision: the exact value rounded
  to the nearest decimal, ties to even, with at least one digit before the point. A negative
  value that rounds to zero keeps its sign.
\<close>

definition digit_char :: "nat \<Rightarrow> char" where
  "digit_char n = char_of (48 + n mod 10)"

fun decimal :: "nat \<Rightarrow> string" where
  "decimal n = (if n < 10 then [digit_char n] else decimal (n div 10) @ [digit_char n])"

declare decimal.simps [simp del]

definition pad_left :: "nat \<Rightarrow> string \<Rightarrow> string" where
  "pad_left k s = replicate (k - length s) (CHR ''0'') @ s"

definition fixed_point :: "nat \<Rightarrow> nat \<Rightarrow> string" where
  "fixed_point prec n = (let s = pad_left (Suc prec) (decimal n); k = length s - prec in take k s @ ''.'' @ drop k s)"

fun Sprintf_f :: "nat \<Rightarrow> f64 \<Rightarrow> string" where
  "Sprintf_f prec (Fin q) = (if q < 0 then ''-'' else []) @ fixed_point prec (nat (round_half_even (\<bar>q\<bar> * 10 ^ prec)))"
| "Sprintf_f prec PosInf = ''+Inf''"
| "Sprintf_f prec NegInf = ''-Inf''"
| "Sprintf_f prec NaN = ''NaN''"

section \<open>Digits\<close>

lemma of_char_digit: "(of_char (digit_char n) :: nat) = 48 + n mod 10"
  by (simp add: digit_char_def)

lemma is_digit_digit_char [simp]: "is_digit (digit_char n)"
  by (auto simp: is_digit_def of_char_digit)

lemma digits_value_snoc: "digits_value (s @ [digit_char n]) = 10 * digits_value s + int (n mod 10)"
proof -
  have "int (of_char (digit_char n)) = 48 + int (n mod 10)" using of_char_digit [of n] by simp
  then show ?thesis by (simp add: digits_value_def)
qed

lemma digits_value_decimal: "digits_value (decimal n) = int n"
proof (induction n rule: decimal.induct)
  case (1 n)
  show ?case
  proof (cases "n < 10")
    case True
    then show ?thesis using digits_value_snoc [of "[]" n] by (simp add: decimal.simps [of n] digits_value_def)
  next
    case False
    then show ?thesis
      using 1 div_mult_mod_eq [of n 10] by (simp add: decimal.simps [of n] digits_value_snoc) presburger
  qed
qed

lemma set_decimal: "c \<in> set (decimal n) \<Longrightarrow> is_digit c"
proof (induction n rule: decimal.induct)
  case (1 n)
  then show ?case by (cases "n < 10") (auto simp: decimal.simps [of n])
qed

lemma digits_value_pad: "digits_value (pad_left k s) = digits_value s"
proof -
  have "foldl (\<lambda>n c. 10 * n + (int (of_char c) - 48)) 0 (replicate m (CHR ''0'')) = 0" for m
    by (induction m) simp_all
  then show ?thesis by (simp add: pad_left_def digits_value_def)
qed

lemma set_pad_left: "c \<in> set (pad_left k (decimal n)) \<Longrightarrow> is_digit c"
  using set_decimal by (auto simp: pad_left_def is_digit_def)

lemma fixed_point_digits: "digits_value (filter is_digit (fixed_point prec n)) = int n"
proof -
  let ?s = "pad_left (Suc prec) (decimal n)" and ?k = "length (pad_left (Suc prec) (decimal n)) - prec"
  have "filter is_digit (fixed_point prec n) = filter is_digit (take ?k ?s) @ filter is_digit (drop ?k ?s)"
    by (simp add: fixed_point_def Let_def is_digit_def)
  also have "\<dots> = ?s" unfolding filter_append [symmetric] append_take_drop_id using set_pad_left by (auto simp: filter_id_conv)
  finally show ?thesis by (simp add: digits_value_pad digits_value_decimal)
qed

text \<open>What is printed determines the value up to its rounding.\<close>

lemma Sprintf_f_inj:
  assumes "Sprintf_f prec (Fin p) = Sprintf_f prec (Fin q)" "0 \<le> p" "0 \<le> q"
  shows "round_half_even (p * 10 ^ prec) = round_half_even (q * 10 ^ prec)"
proof -
  have r: "0 \<le> round_half_even (x * 10 ^ prec)" if "0 \<le> x" for x :: rat
    using that round_half_even_mono [of 0 "x * 10 ^ prec"] round_half_even_of_int [of 0] by simp
  have "fixed_point prec (nat (round_half_even (p * 10 ^ prec))) = fixed_point prec (nat (round_half_even (q * 10 ^ prec)))"
    using assms by simp
  from arg_cong [OF this, of "\<lambda>s. digits_value (filter is_digit s)"] show ?thesis
    using r assms(2,3) by (simp add: fixed_point_digits)
qed

lemma Sprintf_f_plain: "CHR ''|'' \<notin> set (Sprintf_f prec x)"
proof -
  have "CHR ''|'' \<notin> set (fixed_point prec n)" for n
  proof
    assume "CHR ''|'' \<in> set (fixed_point prec n)"
    then have "CHR ''|'' \<in> set (pad_left (Suc prec) (decimal n))"
      by (auto simp: fixed_point_def Let_def dest: in_set_takeD in_set_dropD)
    then show False using set_pad_left by (fastforce simp: is_digit_def)
  qed
  then show ?thesis by (cases x) auto
qed

end
