(* ===== verification/Executor.thy ===== *)
theory Executor
  imports Guardrails Drain NodePools Collector Text_Format
begin

text \<open>
  internal/controller/executor.go: one action on one node, after the guardrails. A drain runs in
  a goroutine of its own; an operation returns the drains it has started, and \<open>exec_step\<close> lets
  them run in any order, between the actions.
\<close>

section \<open>Executor\<close>

record ExecutorConfig =
  GracefulDrainPeriod :: int
  ForceDrainPeriod :: int
  NodePoolName :: string
  ClusterFractionMax :: f64

record 'w Executor =
  ex_k8s :: "'w k8s"
  ex_dynamicClient :: "'w dyn option"
  ex_drainer :: DrainConfig
  ex_guardrails :: GuardrailChecker
  ex_config :: ExecutorConfig

definition NewExecutor :: "'w k8s \<Rightarrow> 'w dyn option \<Rightarrow> ExecutorConfig \<Rightarrow> 'w Executor" where
  "NewExecutor K client config =
     \<lparr>ex_k8s = K, ex_dynamicClient = client,
      ex_drainer = \<lparr>GracePeriodSeconds = int_of_f64 (Seconds (GracefulDrainPeriod config)), dc_DryRun = False,
        IgnoreDaemonSets = True, Force = False\<rparr>,
      ex_guardrails = NewGuardrailChecker (ClusterFractionMax config), ex_config = config\<rparr>"

datatype node_error = NodeGetFailed string api_error | NodeUpdateFailed string api_error

datatype executor_error = GuardrailCheckFailed api_error | BlockedByGuardrails guard_reason
  | TaintFailed node_error | LabelFailed node_error | NodePoolFailed np_error | UnknownAction int

text \<open>A drain in the background: its node and the timeout of its context.\<close>

record drain_job =
  job_Node :: string
  job_Timeout :: int

type_synonym 'w outcome = "executor_error option \<times> 'w \<times> drain_job list"

section \<open>Writing nodes\<close>

definition write_node :: "'w k8s \<Rightarrow> 'w \<Rightarrow> string \<Rightarrow> Node \<Rightarrow> node_error option \<times> 'w" where
  "write_node K w nodeName node =
     (case k_updateNode K w node of (Some e, w') \<Rightarrow> (Some (NodeUpdateFailed nodeName e), w') | (None, w') \<Rightarrow> (None, w'))"

definition updateNodeLabel :: "'w k8s \<Rightarrow> 'w \<Rightarrow> string \<Rightarrow> string \<Rightarrow> string \<Rightarrow> node_error option \<times> 'w" where
  "updateNodeLabel K w nodeName key v =
     (case k_getNode K w nodeName of
        Inl e \<Rightarrow> (Some (NodeGetFailed nodeName e), w)
      | Inr node \<Rightarrow> write_node K w nodeName (node\<lparr>node_Labels := (node_Labels node)(key \<mapsto> v)\<rparr>))"

fun has_taint :: "string \<Rightarrow> Taint list \<Rightarrow> bool" where
  "has_taint key [] = False"
| "has_taint key (t # ts) = (if taint_Key t = key then True else has_taint key ts)"

definition addTaint :: "'w k8s \<Rightarrow> 'w \<Rightarrow> string \<Rightarrow> string \<Rightarrow> string \<Rightarrow> node_error option \<times> 'w" where
  "addTaint K w nodeName key effect =
     (case k_getNode K w nodeName of
        Inl e \<Rightarrow> (Some (NodeGetFailed nodeName e), w)
      | Inr node \<Rightarrow>
          if has_taint key (node_Taints node) then (None, w)
          else write_node K w nodeName (node\<lparr>node_Taints := node_Taints node @ [\<lparr>taint_Key = key, taint_Effect = effect\<rparr>]\<rparr>))"

section \<open>Actions\<close>

definition DrainingTaint :: string where "DrainingTaint = ''spotvortex.io/draining''"
definition StatusLabel :: string where "StatusLabel = ''spotvortex.io/market-status''"

definition executeHold :: "'w Executor \<Rightarrow> 'w \<Rightarrow> Node \<Rightarrow> ExecNodeState \<Rightarrow> 'w outcome" where
  "executeHold E w node state =
     (case updateNodeLabel (ex_k8s E) w (node_Name node) ''spotvortex.io/capacity-score'' (Sprintf_f 2 (es_CapacityScore state)) of
        (Some e, w') \<Rightarrow> (Some (LabelFailed e), w', [])
      | (None, w') \<Rightarrow> (None, w', []))"

definition executeMigrateSlow :: "'w Executor \<Rightarrow> 'w \<Rightarrow> Node \<Rightarrow> 'w outcome" where
  "executeMigrateSlow E w node =
     (case addTaint (ex_k8s E) w (node_Name node) DrainingTaint ''NoSchedule'' of
        (Some e, w1) \<Rightarrow> (Some (TaintFailed e), w1, [])
      | (None, w1) \<Rightarrow>
          (case updateNodeLabel (ex_k8s E) w1 (node_Name node) StatusLabel ''draining'' of
             (Some e, w2) \<Rightarrow> (Some (LabelFailed e), w2, [])
           | (None, w2) \<Rightarrow> (None, w2, [\<lparr>job_Node = node_Name node, job_Timeout = GracefulDrainPeriod (ex_config E)\<rparr>])))"

definition executeMigrateNow :: "'w Executor \<Rightarrow> 'w \<Rightarrow> Node \<Rightarrow> 'w outcome" where
  "executeMigrateNow E w node =
     (case addTaint (ex_k8s E) w (node_Name node) DrainingTaint ''NoExecute'' of
        (Some e, w1) \<Rightarrow> (Some (TaintFailed e), w1, [])
      | (None, w1) \<Rightarrow> (None, w1, [\<lparr>job_Node = node_Name node, job_Timeout = ForceDrainPeriod (ex_config E)\<rparr>]))"

text \<open>No action of \<open>Execute\<close> leads to the fallback; it is kept beside the others in the source.\<close>

definition executeFallbackOD :: "'w Executor \<Rightarrow> 'w \<Rightarrow> Node \<Rightarrow> 'w outcome" where
  "executeFallbackOD E w node =
     (case FallbackToOnDemand (ex_dynamicClient E) w (NodePoolName (ex_config E)) of
        (Some e, w1) \<Rightarrow> (Some (NodePoolFailed e), w1, [])
      | (None, w1) \<Rightarrow>
          (case updateNodeLabel (ex_k8s E) w1 (node_Name node) StatusLabel ''volatile'' of
             (Some e, w2) \<Rightarrow> (Some (LabelFailed e), w2, [])
           | (None, w2) \<Rightarrow> (None, w2, [\<lparr>job_Node = node_Name node, job_Timeout = 5 * 60 * Second\<rparr>])))"

text \<open>A taint that cannot be added is only logged.\<close>

definition executeRecover :: "'w Executor \<Rightarrow> 'w \<Rightarrow> Node \<Rightarrow> 'w outcome" where
  "executeRecover E w node =
     (case RecoverToSpot (ex_dynamicClient E) w (NodePoolName (ex_config E)) of
        (Some e, w1) \<Rightarrow> (Some (NodePoolFailed e), w1, [])
      | (None, w1) \<Rightarrow>
          (case updateNodeLabel (ex_k8s E) w1 (node_Name node) StatusLabel ''stable'' of
             (Some e, w2) \<Rightarrow> (Some (LabelFailed e), w2, [])
           | (None, w2) \<Rightarrow> (None, snd (addTaint (ex_k8s E) w2 (node_Name node) ''spotvortex.io/prefer-spot'' ''PreferNoSchedule''), [])))"

definition dispatch :: "'w Executor \<Rightarrow> 'w \<Rightarrow> Node \<Rightarrow> ExAction \<Rightarrow> ExecNodeState \<Rightarrow> 'w outcome" where
  "dispatch E w node action state =
     (case action of
        ExHold \<Rightarrow> executeHold E w node state
      | ExDecrease10 \<Rightarrow> executeMigrateSlow E w node
      | ExDecrease30 \<Rightarrow> executeMigrateSlow E w node
      | ExEmergencyExit \<Rightarrow> executeMigrateNow E w node
      | ExIncrease10 \<Rightarrow> executeRecover E w node
      | ExIncrease30 \<Rightarrow> executeRecover E w node
      | ExUnknown n \<Rightarrow> (Some (UnknownAction n), w, []))"

definition Execute :: "'w Executor \<Rightarrow> 'w \<Rightarrow> Node \<Rightarrow> ExAction \<Rightarrow> ExecNodeState \<Rightarrow> 'w outcome" where
  "Execute E w node action state =
     (case Check (ex_k8s E) w (ex_guardrails E) node action state of
        Inl e \<Rightarrow> (Some (GuardrailCheckFailed e), w, [])
      | Inr r \<Rightarrow>
          if \<not> Approved r then (Some (BlockedByGuardrails (gr_Reason r)), w, [])
          else dispatch E w node (ModifiedAction r) state)"

section \<open>Runs\<close>

definition run_job :: "'w Executor \<Rightarrow> 'w \<Rightarrow> drain_job \<Rightarrow> 'w" where
  "run_job E w j = snd (Drain (ex_k8s E) (ex_drainer E) w (job_Node j))"

text \<open>A step is an action, or one of the drains in the background.\<close>

inductive exec_step :: "'w Executor \<Rightarrow> 'w \<times> drain_job list \<Rightarrow> 'w \<times> drain_job list \<Rightarrow> bool" for E where
  act: "Execute E w node action state = (e, w', js) \<Longrightarrow> exec_step E (w, jobs) (w', jobs @ js)"
| background: "exec_step E (w, xs @ j # ys) (run_job E w j, xs @ ys)"

inductive_cases exec_stepE: "exec_step E s s'"

section \<open>What the server keeps\<close>

text \<open>
  The nodes are stored under their names; a write of one node leaves the others alone, and one
  that fails has stored either nothing or what it was given. Evictions and NodePool patches do
  not write nodes.
\<close>

definition node_frame :: "'w k8s \<Rightarrow> 'w dyn option \<Rightarrow> bool" where
  "node_frame K client \<longleftrightarrow> node_store_contract K \<and>
     (\<forall>w y n. n \<noteq> node_Name y \<longrightarrow> k_getNode K (snd (k_updateNode K w y)) n = k_getNode K w n) \<and>
     (\<forall>w y. k_getNode K (snd (k_updateNode K w y)) (node_Name y) \<in> {k_getNode K w (node_Name y), Inr y}) \<and>
     (\<forall>w ns p g n. k_getNode K (snd (k_evict K w ns p g)) n = k_getNode K w n) \<and>
     (\<forall>D w pool patch n. client = Some D \<longrightarrow> k_getNode K (snd (d_patch D w pool patch)) n = k_getNode K w n)"

lemma has_taint_iff: "has_taint key ts \<longleftrightarrow> key \<in> taint_Key ` set ts"
  by (induction ts) auto

definition keeps_taints :: "'w k8s \<Rightarrow> 'w \<Rightarrow> 'w \<Rightarrow> bool" where
  "keeps_taints K w w' \<longleftrightarrow> (\<forall>n x. k_getNode K w n = Inr x \<longrightarrow>
     (\<exists>x'. k_getNode K w' n = Inr x' \<and> (\<forall>key. has_taint key (node_Taints x) \<longrightarrow> has_taint key (node_Taints x'))))"

lemma keeps_taints_refl [simp]: "keeps_taints K w w"
  by (simp add: keeps_taints_def)

lemma keeps_taints_trans [trans]: "keeps_taints K w w' \<Longrightarrow> keeps_taints K w' w'' \<Longrightarrow> keeps_taints K w w''"
  unfolding keeps_taints_def by meson

lemma keeps_taints_same: "(\<And>n. k_getNode K w' n = k_getNode K w n) \<Longrightarrow> keeps_taints K w w'"
  by (simp add: keeps_taints_def)

lemma update_keeps:
  assumes "node_frame K client" "k_getNode K w n = Inr x" "node_Name y = n"
    and "\<And>key. has_taint key (node_Taints x) \<Longrightarrow> has_taint key (node_Taints y)"
  shows "keeps_taints K w (snd (k_updateNode K w y))"
proof -
  have "k_getNode K (snd (k_updateNode K w y)) n \<in> {Inr x, Inr y}"
    using assms(1-3) unfolding node_frame_def by metis
  moreover have "k_getNode K (snd (k_updateNode K w y)) m = k_getNode K w m" if "m \<noteq> n" for m
    using assms(1,3) that unfolding node_frame_def by blast
  ultimately show ?thesis
    using assms(2,4) unfolding keeps_taints_def by (metis insertE singletonD sum.inject(2))
qed

lemma get_name: "node_frame K client \<Longrightarrow> k_getNode K w n = Inr x \<Longrightarrow> node_Name x = n"
  unfolding node_frame_def node_store_contract_def by blast

lemma stored:
  assumes "node_frame K client" "k_getNode K w n = Inr x" "node_Name y = n" "k_updateNode K w y = (None, w')"
  shows "k_getNode K w' n = Inr y"
proof -
  have "node_store_contract K" using assms(1) unfolding node_frame_def by (rule conjunct1)
  then show ?thesis using assms(2-4) unfolding node_store_contract_def by (elim conjE) metis
qed

lemma write_node_world: "snd (write_node K w n y) = snd (k_updateNode K w y)"
  by (simp add: write_node_def split: prod.splits option.splits)

lemma label_keeps: "node_frame K client \<Longrightarrow> keeps_taints K w (snd (updateNodeLabel K w n key v))"
  by (auto simp: updateNodeLabel_def write_node_world get_name split: sum.splits intro!: update_keeps)

lemma addTaint_keeps: "node_frame K client \<Longrightarrow> keeps_taints K w (snd (addTaint K w n key eff))"
  by (auto simp: addTaint_def write_node_world get_name has_taint_iff split: sum.splits intro!: update_keeps)

lemma addTaint_tainted:
  assumes "node_frame K client" "addTaint K w n key eff = (None, w')"
  shows "\<exists>x. k_getNode K w' n = Inr x \<and> has_taint key (node_Taints x)"
proof (cases "k_getNode K w n")
  case (Inr x)
  let ?y = "x\<lparr>node_Taints := node_Taints x @ [\<lparr>taint_Key = key, taint_Effect = eff\<rparr>]\<rparr>"
  have "k_getNode K w' n = Inr ?y" if "k_updateNode K w ?y = (None, w')"
    by (rule stored [OF assms(1) Inr _ that]) (simp add: get_name [OF assms(1) Inr])
  moreover have "has_taint key (node_Taints ?y)" by (simp add: has_taint_iff)
  moreover have "has_taint key (node_Taints x) \<and> w' = w \<or> k_updateNode K w ?y = (None, w')"
    using assms(2) Inr by (simp add: addTaint_def write_node_def split: if_splits prod.splits option.splits)
  ultimately show ?thesis using Inr by blast
qed (use assms(2) in \<open>simp add: addTaint_def\<close>)

lemma cordon_keeps: "node_frame K client \<Longrightarrow> keeps_taints K w (snd (cordonNode K cfg w n))"
  by (auto simp: cordonNode_def get_name split: sum.splits intro!: update_keeps)

lemma evict_keeps: "node_frame K client \<Longrightarrow> k_getNode K (snd (evictPod K cfg w pod)) n = k_getNode K w n"
  unfolding node_frame_def evictPod_def by (auto split: prod.splits option.splits if_splits) (metis snd_conv)+

lemma drain_loop_keeps: "node_frame K client \<Longrightarrow> k_getNode K (snd (drain_loop K cfg w r pods)) n = k_getNode K w n"
proof (induction pods arbitrary: w r)
  case (Cons p ps)
  then show ?case using evict_keeps [OF Cons.prems, of cfg w p n]
    by (auto simp: Let_def split: prod.splits option.splits if_splits)
qed simp

lemma Drain_keeps: "node_frame K client \<Longrightarrow> keeps_taints K w (snd (Drain K cfg w n))"
  using cordon_keeps [of K client w cfg n] drain_loop_keeps [of K client cfg]
  by (auto simp: Drain_def Let_def keeps_taints_def split: prod.splits option.splits sum.splits)

lemma nodepool_keeps:
  assumes "node_frame K client" shows "keeps_taints K w (snd (SetCapacityTypes client w pool ts))"
proof (rule keeps_taints_same)
  show "k_getNode K (snd (SetCapacityTypes client w pool ts)) n = k_getNode K w n" for n
    using assms unfolding node_frame_def SetCapacityTypes_def apply_patch_def
    by (auto split: option.splits prod.splits) (metis snd_conv)+
qed

section \<open>Runs of the executor\<close>

lemma slow_keeps: "node_frame (ex_k8s E) (ex_dynamicClient E) \<Longrightarrow> keeps_taints (ex_k8s E) w (fst (snd (executeMigrateSlow E w node)))"
  using addTaint_keeps [of "ex_k8s E" "ex_dynamicClient E" w "node_Name node" DrainingTaint "''NoSchedule''"]
    label_keeps [of "ex_k8s E" "ex_dynamicClient E" _ "node_Name node" StatusLabel "''draining''"]
  by (auto simp: executeMigrateSlow_def split: prod.splits option.splits) (metis keeps_taints_trans snd_conv)+

lemma recover_keeps: "node_frame (ex_k8s E) (ex_dynamicClient E) \<Longrightarrow> keeps_taints (ex_k8s E) w (fst (snd (executeRecover E w node)))"
proof -
  assume f: "node_frame (ex_k8s E) (ex_dynamicClient E)"
  let ?K = "ex_k8s E" and ?n = "node_Name node"
  obtain e w1 where r: "RecoverToSpot (ex_dynamicClient E) w (NodePoolName (ex_config E)) = (e, w1)" by fastforce
  obtain e' w2 where l: "updateNodeLabel ?K w1 ?n StatusLabel ''stable'' = (e', w2)" by fastforce
  have "keeps_taints ?K w w1" using nodepool_keeps [OF f] r unfolding RecoverToSpot_def by (metis snd_conv)
  moreover have "keeps_taints ?K w1 w2" using label_keeps [OF f] l by (metis snd_conv)
  moreover note addTaint_keeps [OF f, of w2 ?n "''spotvortex.io/prefer-spot''" "''PreferNoSchedule''"]
  ultimately show ?thesis
    using r l by (auto simp: executeRecover_def split: option.splits intro: keeps_taints_trans)
qed

lemma dispatch_keeps: "node_frame (ex_k8s E) (ex_dynamicClient E) \<Longrightarrow> keeps_taints (ex_k8s E) w (fst (snd (dispatch E w node a s)))"
  using slow_keeps [of E w node] recover_keeps [of E w node]
    label_keeps [of "ex_k8s E" "ex_dynamicClient E" w "node_Name node" "''spotvortex.io/capacity-score''"]
    addTaint_keeps [of "ex_k8s E" "ex_dynamicClient E" w "node_Name node" DrainingTaint "''NoExecute''"]
  by (cases a) (auto simp: dispatch_def executeHold_def executeMigrateNow_def split: prod.splits option.splits, (metis snd_conv)+)

lemma dispatch_jobs:
  assumes f: "node_frame (ex_k8s E) (ex_dynamicClient E)" and d: "dispatch E w node a s = (e, w', js)" and j: "j \<in> set js"
  shows "job_Node j = node_Name node \<and> e = None \<and> a \<in> {ExDecrease10, ExDecrease30, ExEmergencyExit} \<and>
    (\<exists>x. k_getNode (ex_k8s E) w' (job_Node j) = Inr x \<and> has_taint DrainingTaint (node_Taints x))"
proof -
  let ?K = "ex_k8s E" and ?n = "node_Name node"
  have slow: "e = None \<and> job_Node j = ?n \<and> (\<exists>w1. addTaint ?K w ?n DrainingTaint ''NoSchedule'' = (None, w1) \<and>
      updateNodeLabel ?K w1 ?n StatusLabel ''draining'' = (None, w'))" if "executeMigrateSlow E w node = (e, w', js)"
    using that j by (auto simp: executeMigrateSlow_def split: prod.splits option.splits)
  have now: "e = None \<and> job_Node j = ?n \<and> addTaint ?K w ?n DrainingTaint ''NoExecute'' = (None, w')"
    if "executeMigrateNow E w node = (e, w', js)"
    using that j by (auto simp: executeMigrateNow_def split: prod.splits option.splits)
  have taint: "\<exists>x. k_getNode ?K w' ?n = Inr x \<and> has_taint DrainingTaint (node_Taints x)"
    if "addTaint ?K w ?n DrainingTaint eff = (None, w1)" "keeps_taints ?K w1 w'" for eff w1
    using addTaint_tainted [OF f that(1)] that(2) unfolding keeps_taints_def by blast
  have label: "keeps_taints ?K w1 w'" if "updateNodeLabel ?K w1 ?n StatusLabel ''draining'' = (None, w')" for w1
    using label_keeps [OF f] that by (metis snd_conv)
  show ?thesis
    using d j slow now taint label
    by (cases a) (auto simp: dispatch_def executeHold_def executeRecover_def split: prod.splits option.splits)
qed

lemma Execute_dispatch:
  assumes "Execute E w node a s = (e, w', js)" "w' \<noteq> w \<or> js \<noteq> []"
  shows "\<exists>r. Check (ex_k8s E) w (ex_guardrails E) node a s = Inr r \<and> Approved r \<and> dispatch E w node (ModifiedAction r) s = (e, w', js)"
  using assms by (auto simp: Execute_def split: sum.splits if_splits)

lemma exec_step_tainted:
  assumes f: "node_frame (ex_k8s E) (ex_dynamicClient E)" and "exec_step E s s'"
    and "\<forall>j \<in> set (snd s). \<exists>x. k_getNode (ex_k8s E) (fst s) (job_Node j) = Inr x \<and> has_taint DrainingTaint (node_Taints x)"
  shows "\<forall>j \<in> set (snd s'). \<exists>x. k_getNode (ex_k8s E) (fst s') (job_Node j) = Inr x \<and> has_taint DrainingTaint (node_Taints x)"
  using assms(2)
proof cases
  case (act w node action state e w' js jobs)
  have k: "keeps_taints (ex_k8s E) w w'"
    using act(3) dispatch_keeps [OF f, of w node _ state]
    by (cases "w' = w") (auto dest!: Execute_dispatch, metis fst_conv snd_conv)
  have "\<exists>x. k_getNode (ex_k8s E) w' (job_Node j) = Inr x \<and> has_taint DrainingTaint (node_Taints x)" if "j \<in> set js" for j
    using Execute_dispatch [OF act(3)] dispatch_jobs [OF f _ that] that by fastforce
  then show ?thesis using k assms(3) act(1,2) unfolding keeps_taints_def by (auto, blast)
next
  case (background w xs j ys)
  have "keeps_taints (ex_k8s E) w (run_job E w j)" unfolding run_job_def by (rule Drain_keeps [OF f])
  then show ?thesis using assms(3) background(1,2) unfolding keeps_taints_def by (auto, blast+)
qed

section \<open>Properties\<close>

text \<open>
  C17 (invariant). However actions and background drains interleave, no drain is ever waiting for a
  node that has not been tainted first: the taint is on the server before the drain is started
  and nothing the executor does takes it away, so pods that are evicted are not scheduled back.
\<close>

theorem drains_are_tainted:
  assumes "node_frame (ex_k8s E) (ex_dynamicClient E)" "(exec_step E)\<^sup>*\<^sup>* (w0, []) (w, jobs)" "j \<in> set jobs"
  shows "\<exists>x. k_getNode (ex_k8s E) w (job_Node j) = Inr x \<and> has_taint DrainingTaint (node_Taints x)"
proof -
  have "\<forall>j \<in> set (snd (w, jobs)). \<exists>x. k_getNode (ex_k8s E) (fst (w, jobs)) (job_Node j) = Inr x \<and> has_taint DrainingTaint (node_Taints x)"
    using assms(2) by (induction rule: rtranclp_induct) (auto dest!: exec_step_tainted [OF assms(1)])
  then show ?thesis using assms(3) by simp
qed

text \<open>
  An action touches the cluster or starts a drain only after the guardrails have
  approved it, for its own node, and a drain is started only by a decrease or an emergency exit,
  never by a hold or an increase.
\<close>

theorem Execute_guarded:
  assumes "node_frame (ex_k8s E) (ex_dynamicClient E)" "Execute E w node action state = (e, w', js)" "w' \<noteq> w \<or> js \<noteq> []"
  shows "(\<exists>r. Check (ex_k8s E) w (ex_guardrails E) node action state = Inr r \<and> Approved r) \<and>
    (\<forall>j \<in> set js. job_Node j = node_Name node \<and> action \<in> {ExDecrease10, ExDecrease30, ExEmergencyExit})"
proof -
  obtain r where r: "Check (ex_k8s E) w (ex_guardrails E) node action state = Inr r" "Approved r"
      "dispatch E w node (ModifiedAction r) state = (e, w', js)"
    using Execute_dispatch [OF assms(2,3)] by blast
  have m: "ModifiedAction r = action \<or> action = ExEmergencyExit \<and> ModifiedAction r = ExDecrease30"
    using Check_cases [OF r(1)] r(2) by simp
  have "job_Node j = node_Name node \<and> action \<in> {ExDecrease10, ExDecrease30, ExEmergencyExit}" if "j \<in> set js" for j
    using dispatch_jobs [OF assms(1) r(3) that] m by auto
  with r show ?thesis by blast
qed

text \<open>
  An emergency exit of a node that is already tainted for draining leaves the taint it has: the
  effect stays \<open>NoSchedule\<close> and running pods are not driven off by it.
\<close>

lemma migrate_now_keeps_effect:
  assumes "k_getNode (ex_k8s E) w (node_Name node) = Inr x" "has_taint DrainingTaint (node_Taints x)"
  shows "fst (snd (executeMigrateNow E w node)) = w"
  using assms by (simp add: executeMigrateNow_def addTaint_def)

section \<open>A run\<close>

lemma mem_update: "k_updateNode mem_k8s w y = (None, w\<lparr>ms_nodes := map (\<lambda>z. if node_Name z = node_Name y then y else z) (ms_nodes w)\<rparr>)"
  by (simp add: mem_k8s_def)

lemma find_node_other: "n \<noteq> node_Name y \<Longrightarrow> find_node n (map (\<lambda>z. if node_Name z = node_Name y then y else z) xs) = find_node n xs"
  by (induction xs) auto

lemma find_node_none: "find_node n xs = None \<Longrightarrow> node_Name y = n \<Longrightarrow> find_node n (map (\<lambda>z. if node_Name z = node_Name y then y else z) xs) = None"
  by (induction xs) (auto split: if_splits)

lemma mem_node_frame: "node_frame mem_k8s None"
proof -
  have "k_getNode mem_k8s (snd (k_updateNode mem_k8s w y)) (node_Name y) \<in> {k_getNode mem_k8s w (node_Name y), Inr y}" for w y
    using find_node_replace [of "node_Name y" "ms_nodes w" _ y] find_node_none [of "node_Name y" "ms_nodes w" y]
    by (cases "find_node (node_Name y) (ms_nodes w)") (auto simp: mem_update, simp_all add: mem_k8s_def)
  moreover have "k_getNode mem_k8s (snd (k_updateNode mem_k8s w y)) n = k_getNode mem_k8s w n" if "n \<noteq> node_Name y" for w y n
    using find_node_other [OF that] by (simp add: mem_update) (simp add: mem_k8s_def)
  moreover have "k_getNode mem_k8s (snd (k_evict mem_k8s w ns p g)) n = k_getNode mem_k8s w n" for w ns p g n
    by (simp add: mem_k8s_def)
  ultimately show ?thesis using mem_node_store unfolding node_frame_def by blast
qed

definition run_executor :: "mem_server Executor" where
  "run_executor = NewExecutor mem_k8s None
     \<lparr>GracefulDrainPeriod = 60 * Second, ForceDrainPeriod = 10 * Second, NodePoolName = ''core'', ClusterFractionMax = Fin 1\<rparr>"

lemma run_executor_frame: "node_frame (ex_k8s run_executor) (ex_dynamicClient run_executor)"
  using mem_node_frame by (simp add: run_executor_def NewExecutor_def)

lemma run_executes:
  "snd (snd (Execute run_executor guard_server (hd (ms_nodes guard_server)) ExDecrease10 guard_state)) =
     [\<lparr>job_Node = ''n1'', job_Timeout = 60 * Second\<rparr>]"
  by code_simp

theorem drains_are_tainted_witness:
  "\<exists>w x. (exec_step run_executor)\<^sup>*\<^sup>* (guard_server, []) (w, [\<lparr>job_Node = ''n1'', job_Timeout = 60 * Second\<rparr>]) \<and>
     k_getNode mem_k8s w ''n1'' = Inr x \<and> has_taint DrainingTaint (node_Taints x)"
proof -
  let ?j = "\<lparr>job_Node = ''n1'', job_Timeout = 60 * Second\<rparr>"
  obtain e w where x: "Execute run_executor guard_server (hd (ms_nodes guard_server)) ExDecrease10 guard_state = (e, w, [?j])"
    using run_executes by (metis prod.collapse)
  have s: "(exec_step run_executor)\<^sup>*\<^sup>* (guard_server, []) (w, [?j])"
    using exec_step.act [OF x, of "[]"] by auto
  have "ex_k8s run_executor = mem_k8s" by (simp add: run_executor_def NewExecutor_def)
  with drains_are_tainted [OF run_executor_frame s, of ?j] s show ?thesis by auto
qed

theorem Execute_guarded_witness:
  "\<exists>r. Check mem_k8s guard_server (ex_guardrails run_executor) (hd (ms_nodes guard_server)) ExDecrease10 guard_state = Inr r \<and> Approved r"
proof -
  obtain e w where x: "Execute run_executor guard_server (hd (ms_nodes guard_server)) ExDecrease10 guard_state =
      (e, w, [\<lparr>job_Node = ''n1'', job_Timeout = 60 * Second\<rparr>])"
    using run_executes by (metis prod.collapse)
  have "ex_k8s run_executor = mem_k8s" by (simp add: run_executor_def NewExecutor_def)
  then show ?thesis using Execute_guarded [OF run_executor_frame x] by simp
qed

end
