(* ===== verification/Node_Marks.thy ===== *)
theory Node_Marks
  imports Cluster
begin

text \<open>
  internal/karpenter/labeler.go and version.go, internal/finalizer/finalizer.go: what the agent
  writes on nodes for others to see. Here a nil map is told apart from an empty one, since the
  code does: writing to a nil map panics, and a reset stops at nil labels.
\<close>

record MarkedNode =
  mk_Name :: string
  mk_Labels :: "labels option"
  mk_Annotations :: "labels option"
  mk_Finalizers :: "string list"

text \<open>The API server; \<open>mk_probe\<close> is a raw GET of a path that succeeds.\<close>

record 'w mark_api =
  mk_get :: "'w \<Rightarrow> string \<Rightarrow> api_error + MarkedNode"
  mk_update :: "'w \<Rightarrow> MarkedNode \<Rightarrow> api_error option \<times> 'w"
  mk_probe :: "'w \<Rightarrow> string \<Rightarrow> bool"

datatype mark_error = InvalidRisk string | MarkGetFailed string api_error | MarkUpdateFailed string api_error | NilMapPanic

definition or_make :: "labels option \<Rightarrow> labels" where
  "or_make m = (case m of None \<Rightarrow> Map.empty | Some m \<Rightarrow> m)"

definition mark_update :: "'w mark_api \<Rightarrow> 'w \<Rightarrow> string \<Rightarrow> MarkedNode \<Rightarrow> mark_error option \<times> 'w" where
  "mark_update A w nodeName node =
     (case mk_update A w node of (Some e, w') \<Rightarrow> (Some (MarkUpdateFailed nodeName e), w') | (None, w') \<Rightarrow> (None, w'))"

section \<open>Risk labels\<close>

definition RiskLabel :: string where "RiskLabel = ''spotvortex.io/risk''"
definition RiskLow :: string where "RiskLow = ''low''"
definition RiskHigh :: string where "RiskHigh = ''high''"
definition RiskReason :: string where "RiskReason = ''spotvortex.io/risk-reason''"

definition SetNodeRisk :: "'w mark_api \<Rightarrow> bool \<Rightarrow> 'w \<Rightarrow> string \<Rightarrow> string \<Rightarrow> string \<Rightarrow> mark_error option \<times> 'w" where
  "SetNodeRisk A dryRun w nodeName risk reason =
     (if risk \<noteq> RiskLow \<and> risk \<noteq> RiskHigh then (Some (InvalidRisk risk), w)
      else if dryRun then (None, w)
      else case mk_get A w nodeName of
        Inl e \<Rightarrow> (Some (MarkGetFailed nodeName e), w)
      | Inr node \<Rightarrow> mark_update A w nodeName (node\<lparr>
          mk_Labels := Some ((or_make (mk_Labels node))(RiskLabel \<mapsto> risk)),
          mk_Annotations := Some ((or_make (mk_Annotations node))(RiskReason \<mapsto> reason))\<rparr>))"

definition MarkNodeHighRisk :: "'w mark_api \<Rightarrow> bool \<Rightarrow> 'w \<Rightarrow> string \<Rightarrow> string \<Rightarrow> mark_error option \<times> 'w" where
  "MarkNodeHighRisk A dryRun w nodeName reason = SetNodeRisk A dryRun w nodeName RiskHigh reason"

definition MarkNodeLowRisk :: "'w mark_api \<Rightarrow> bool \<Rightarrow> 'w \<Rightarrow> string \<Rightarrow> string \<Rightarrow> mark_error option \<times> 'w" where
  "MarkNodeLowRisk A dryRun w nodeName reason = SetNodeRisk A dryRun w nodeName RiskLow reason"

text \<open>Deleting from a nil map does nothing.\<close>

definition ResetNodeRisk :: "'w mark_api \<Rightarrow> bool \<Rightarrow> 'w \<Rightarrow> string \<Rightarrow> mark_error option \<times> 'w" where
  "ResetNodeRisk A dryRun w nodeName =
     (if dryRun then (None, w)
      else case mk_get A w nodeName of
        Inl e \<Rightarrow> (Some (MarkGetFailed nodeName e), w)
      | Inr node \<Rightarrow>
          (case mk_Labels node of
             None \<Rightarrow> (None, w)
           | Some labels \<Rightarrow> mark_update A w nodeName (node\<lparr>
               mk_Labels := Some (labels(RiskLabel := None)),
               mk_Annotations := map_option (\<lambda>m. m(RiskReason := None)) (mk_Annotations node)\<rparr>)))"

section \<open>Karpenter versions\<close>

definition v1_path :: string where "v1_path = ''/apis/karpenter.sh/v1/nodepools''"
definition v1beta1_path :: string where "v1beta1_path = ''/apis/karpenter.sh/v1beta1/nodepools''"

definition IsKarpenterInstalled :: "'w mark_api \<Rightarrow> 'w \<Rightarrow> bool" where
  "IsKarpenterInstalled A w = (if mk_probe A w v1_path then True else if mk_probe A w v1beta1_path then True else False)"

record KarpenterVersion =
  HasV1 :: bool
  HasV1Beta1 :: bool

definition DetectKarpenterVersion :: "'w mark_api \<Rightarrow> 'w \<Rightarrow> KarpenterVersion" where
  "DetectKarpenterVersion A w = \<lparr>HasV1 = mk_probe A w v1_path, HasV1Beta1 = mk_probe A w v1beta1_path\<rparr>"

datatype version_error = OnlyV1Beta1 | KarpenterMissing

definition validateVersionFromDetection :: "KarpenterVersion \<Rightarrow> version_error option" where
  "validateVersionFromDetection ver =
     (if HasV1 ver then None else if HasV1Beta1 ver then Some OnlyV1Beta1 else Some KarpenterMissing)"

definition ValidateKarpenterVersion :: "'w mark_api \<Rightarrow> 'w \<Rightarrow> version_error option" where
  "ValidateKarpenterVersion A w = validateVersionFromDetection (DetectKarpenterVersion A w)"

section \<open>Drain protection\<close>

definition DrainProtectionFinalizer :: string where "DrainProtectionFinalizer = ''spotvortex.io/drain-protection''"
definition ReplacementReadyAnnotation :: string where "ReplacementReadyAnnotation = ''spotvortex.io/replacement-ready''"
definition DrainStartedAnnotation :: string where "DrainStartedAnnotation = ''spotvortex.io/drain-started''"

fun listed_in :: "string \<Rightarrow> string list \<Rightarrow> bool" where
  "listed_in x [] = False"
| "listed_in x (f # fs) = (if f = x then True else listed_in x fs)"

definition IsProtected :: "MarkedNode \<Rightarrow> bool" where
  "IsProtected node = listed_in DrainProtectionFinalizer (mk_Finalizers node)"

definition IsReplacementReady :: "MarkedNode \<Rightarrow> bool" where
  "IsReplacementReady node = (case mk_Annotations node of None \<Rightarrow> False | Some m \<Rightarrow> m ReplacementReadyAnnotation \<noteq> None)"

text \<open>\<open>now\<close> is the current time in RFC 3339. The write of the annotation panics on a nil map.\<close>

definition AddProtection :: "'w mark_api \<Rightarrow> bool \<Rightarrow> string \<Rightarrow> 'w \<Rightarrow> string \<Rightarrow> mark_error option \<times> 'w" where
  "AddProtection A dryRun now w nodeName =
     (if dryRun then (None, w)
      else case mk_get A w nodeName of
        Inl e \<Rightarrow> (Some (MarkGetFailed nodeName e), w)
      | Inr node \<Rightarrow>
          if listed_in DrainProtectionFinalizer (mk_Finalizers node) then (None, w)
          else case mk_Annotations node of
            None \<Rightarrow> (Some NilMapPanic, w)
          | Some m \<Rightarrow> mark_update A w nodeName (node\<lparr>
              mk_Finalizers := mk_Finalizers node @ [DrainProtectionFinalizer],
              mk_Annotations := Some (m(DrainStartedAnnotation \<mapsto> now))\<rparr>))"

definition MarkReplacementReady :: "'w mark_api \<Rightarrow> bool \<Rightarrow> 'w \<Rightarrow> string \<Rightarrow> string \<Rightarrow> mark_error option \<times> 'w" where
  "MarkReplacementReady A dryRun w nodeName replacementNode =
     (if dryRun then (None, w)
      else case mk_get A w nodeName of
        Inl e \<Rightarrow> (Some (MarkGetFailed nodeName e), w)
      | Inr node \<Rightarrow> mark_update A w nodeName (node\<lparr>
          mk_Annotations := Some ((or_make (mk_Annotations node))(ReplacementReadyAnnotation \<mapsto> replacementNode))\<rparr>))"

fun without :: "string \<Rightarrow> string list \<Rightarrow> string list" where
  "without x [] = []"
| "without x (f # fs) = (if f \<noteq> x then f # without x fs else without x fs)"

definition RemoveProtection :: "'w mark_api \<Rightarrow> bool \<Rightarrow> 'w \<Rightarrow> string \<Rightarrow> mark_error option \<times> 'w" where
  "RemoveProtection A dryRun w nodeName =
     (if dryRun then (None, w)
      else case mk_get A w nodeName of
        Inl e \<Rightarrow> (Some (MarkGetFailed nodeName e), w)
      | Inr node \<Rightarrow> mark_update A w nodeName (node\<lparr>mk_Finalizers := without DrainProtectionFinalizer (mk_Finalizers node)\<rparr>))"

section \<open>What is written is read back\<close>

definition mark_store :: "'w mark_api \<Rightarrow> bool" where
  "mark_store A \<longleftrightarrow>
     (\<forall>w n x. mk_get A w n = Inr x \<longrightarrow> mk_Name x = n) \<and>
     (\<forall>w n x y w'. mk_get A w n = Inr x \<longrightarrow> mk_Name y = n \<longrightarrow> mk_update A w y = (None, w') \<longrightarrow> mk_get A w' n = Inr y)"

lemma listed_in_iff: "listed_in x fs \<longleftrightarrow> x \<in> set fs"
  by (induction fs) auto

lemma without_filter: "without x fs = filter (\<lambda>f. f \<noteq> x) fs"
  by (induction fs) auto

lemma without_absent: "x \<notin> set fs \<Longrightarrow> without x (fs @ [x]) = fs"
  by (induction fs) auto

lemma mark_update_stored:
  assumes "mark_store A" "mk_get A w n = Inr x" "mark_update A w n y = (None, w')" "mk_Name y = mk_Name x"
  shows "mk_get A w' n = Inr y"
proof -
  have "mk_Name x = n" using assms(1,2) unfolding mark_store_def by blast
  moreover have "mk_update A w y = (None, w')" using assms(3) by (auto simp: mark_update_def split: prod.splits option.splits)
  ultimately show ?thesis using assms(1,2,4) unfolding mark_store_def by (elim conjE) metis
qed

lemma AddProtection_result:
  assumes "mark_store A" "mk_get A w n = Inr node" "AddProtection A False now w n = (None, w')" "\<not> IsProtected node"
  shows "\<exists>m. mk_Annotations node = Some m \<and> mk_get A w' n = Inr (node\<lparr>
    mk_Finalizers := mk_Finalizers node @ [DrainProtectionFinalizer], mk_Annotations := Some (m(DrainStartedAnnotation \<mapsto> now))\<rparr>)"
  using assms(2-4) mark_update_stored [OF assms(1,2)]
  by (auto simp: AddProtection_def IsProtected_def split: option.splits if_splits)

text \<open>
  Protecting a node and removing the protection again brings back its finalizers,
  those of others in their order: in between the node is protected, and only the time of the
  drain is left as an annotation. The removal asks for no replacement.
\<close>

theorem protection_roundtrip:
  assumes "mark_store A" "mk_get A w n = Inr node" "\<not> IsProtected node"
    and "AddProtection A False now w n = (None, w1)" "RemoveProtection A False w1 n = (None, w2)"
  shows "\<exists>m node1. mk_Annotations node = Some m \<and> mk_get A w1 n = Inr node1 \<and> IsProtected node1 \<and>
    mk_get A w2 n = Inr (node\<lparr>mk_Annotations := Some (m(DrainStartedAnnotation \<mapsto> now))\<rparr>)"
proof -
  obtain m where m: "mk_Annotations node = Some m" "mk_get A w1 n = Inr (node\<lparr>
      mk_Finalizers := mk_Finalizers node @ [DrainProtectionFinalizer], mk_Annotations := Some (m(DrainStartedAnnotation \<mapsto> now))\<rparr>)"
    using AddProtection_result [OF assms(1,2,4,3)] by blast
  have "DrainProtectionFinalizer \<notin> set (mk_Finalizers node)" using assms(3) by (simp add: IsProtected_def listed_in_iff)
  then have "mk_get A w2 n = Inr (node\<lparr>mk_Annotations := Some (m(DrainStartedAnnotation \<mapsto> now))\<rparr>)"
    using assms(5) mark_update_stored [OF assms(1) m(2)] m(2)
    by (simp add: RemoveProtection_def without_absent)
  with m show ?thesis by (auto simp: IsProtected_def listed_in_iff)
qed

text \<open>A node without annotations cannot be protected: the write to its nil map panics.\<close>

lemma AddProtection_panics:
  "mk_get A w n = Inr node \<Longrightarrow> mk_Annotations node = None \<Longrightarrow> \<not> IsProtected node \<Longrightarrow>
     AddProtection A False now w n = (Some NilMapPanic, w)"
  by (simp add: AddProtection_def IsProtected_def)

lemma risk_roundtrip:
  assumes "mark_store A" "mk_get A w n = Inr node" "mk_Labels node = Some labels" "labels RiskLabel = None"
    and "SetNodeRisk A False w n risk reason = (None, w1)" "ResetNodeRisk A False w1 n = (None, w2)"
  shows "(\<exists>node1. mk_get A w1 n = Inr node1 \<and> or_make (mk_Labels node1) RiskLabel = Some risk \<and> risk \<in> {RiskLow, RiskHigh}) \<and>
    (\<exists>node2. mk_get A w2 n = Inr node2 \<and> mk_Labels node2 = mk_Labels node)"
proof -
  let ?y = "node\<lparr>mk_Labels := Some (labels(RiskLabel \<mapsto> risk)),
      mk_Annotations := Some ((or_make (mk_Annotations node))(RiskReason \<mapsto> reason))\<rparr>"
  have "risk \<in> {RiskLow, RiskHigh}" and u: "mark_update A w n ?y = (None, w1)"
    using assms(2,3,5) by (auto simp: SetNodeRisk_def or_make_def split: if_splits)
  from mark_update_stored [OF assms(1,2) u] have g: "mk_get A w1 n = Inr ?y" by simp
  have "mark_update A w1 n (?y\<lparr>mk_Labels := Some labels, mk_Annotations := Some ((or_make (mk_Annotations node))(RiskReason := None))\<rparr>) = (None, w2)"
    using assms(4,6) g by (simp add: ResetNodeRisk_def fun_upd_idem)
  from mark_update_stored [OF assms(1) g this] g \<open>risk \<in> _\<close> show ?thesis by (simp add: assms(3) or_make_def)
qed

text \<open>A cluster with only v1beta1 counts as one with Karpenter for the labeler, and is refused at start.\<close>

lemma version_accepts: "ValidateKarpenterVersion A w = None \<longleftrightarrow> mk_probe A w v1_path"
  "IsKarpenterInstalled A w \<longleftrightarrow> ValidateKarpenterVersion A w \<noteq> Some KarpenterMissing"
  by (simp_all add: ValidateKarpenterVersion_def validateVersionFromDetection_def DetectKarpenterVersion_def IsKarpenterInstalled_def)

definition mem_marks :: "(string \<rightharpoonup> MarkedNode) mark_api" where
  "mem_marks = \<lparr>mk_get = (\<lambda>w n. case w n of Some x \<Rightarrow> if mk_Name x = n then Inr x else Inl NotFound | None \<Rightarrow> Inl NotFound),
     mk_update = (\<lambda>w y. (None, w(mk_Name y \<mapsto> y))), mk_probe = (\<lambda>_ p. p = v1_path)\<rparr>"

lemma mem_marks_store: "mark_store mem_marks"
  by (auto simp: mark_store_def mem_marks_def split: option.splits if_splits)

definition marked_node :: MarkedNode where
  "marked_node = \<lparr>mk_Name = ''n1'', mk_Labels = None, mk_Annotations = Some Map.empty, mk_Finalizers = [''other'']\<rparr>"

theorem protection_roundtrip_witness:
  "\<exists>w1 w2 node2. AddProtection mem_marks False ''now'' [''n1'' \<mapsto> marked_node] ''n1'' = (None, w1) \<and>
     RemoveProtection mem_marks False w1 ''n1'' = (None, w2) \<and> mk_get mem_marks w2 ''n1'' = Inr node2 \<and> mk_Finalizers node2 = [''other'']"
proof -
  let ?w = "[''n1'' \<mapsto> marked_node]"
  have g: "mk_get mem_marks ?w ''n1'' = Inr marked_node" "\<not> IsProtected marked_node" "mk_Finalizers marked_node = [''other'']"
    by (simp_all add: mem_marks_def marked_node_def IsProtected_def DrainProtectionFinalizer_def)
  obtain w1 where a: "AddProtection mem_marks False ''now'' ?w ''n1'' = (None, w1)"
    using g by (simp add: AddProtection_def IsProtected_def marked_node_def mark_update_def mem_marks_def)
  obtain node1 where "mk_get mem_marks w1 ''n1'' = Inr node1"
    using AddProtection_result [OF mem_marks_store g(1) a g(2)] by blast
  then obtain w2 where r: "RemoveProtection mem_marks False w1 ''n1'' = (None, w2)"
    by (simp add: RemoveProtection_def mark_update_def) (simp add: mem_marks_def)
  from protection_roundtrip [OF mem_marks_store g(1,2) a r] a r g(3) show ?thesis by auto
qed

end
