(* ===== verification/Billing.thy ===== *)
theory Billing
  imports Collector Controller_State Text_Format
begin

text \<open>
  internal/billing/meter.go and internal/audit/auditor.go: the uptime of Spot nodes turned into
  savings events, and signed savings manifests. Times are nanoseconds since the Unix epoch. The
  billing API and HMAC-SHA256 are parameters.
\<close>

definition Hours :: "int \<Rightarrow> f64" where
  "Hours d = f64_of_int (go_div d (3600 * Second)) + f64_of_int (go_rem d (3600 * Second)) / Fin 3600000000000"

section \<open>The meter\<close>

record SavingsEvent =
  ev_NodeID :: string
  ev_InstanceType :: string
  ev_Region :: string
  ev_Zone :: string
  ev_SpotPrice :: f64
  ev_OnDemandPrice :: f64
  ev_UptimeMinutes :: int
  ev_Savings :: f64
  ev_Timestamp :: int

record nodeTracker =
  nt_StartTime :: int
  nt_InstanceType :: string
  nt_Region :: string
  nt_Zone :: string
  nt_SpotPrice :: f64
  nt_OnDemandPrice :: f64

record Meter =
  mt_enabled :: bool
  mt_dryRun :: bool
  mt_activeNodes :: "string \<rightharpoonup> nodeTracker"

definition NewMeter :: "bool \<Rightarrow> bool \<Rightarrow> Meter" where
  "NewMeter enabled dryRun = \<lparr>mt_enabled = enabled, mt_dryRun = dryRun, mt_activeNodes = Map.empty\<rparr>"

text \<open>The API: whether a request can be built for the endpoint, and sending one (\<open>None\<close> when that fails, else the status).\<close>

record 'w billing_api =
  b_request :: bool
  b_Do :: "'w \<Rightarrow> SavingsEvent \<Rightarrow> int option \<times> 'w"

datatype report_error = MarshalFailed | RequestFailed | SendFailed | BillingStatus int

fun finite_f64 :: "f64 \<Rightarrow> bool" where
  "finite_f64 (Fin _) = True"
| "finite_f64 _ = False"

text \<open>Encoding an event as JSON fails for infinite numbers and NaN.\<close>

definition marshals :: "SavingsEvent \<Rightarrow> bool" where
  "marshals ev \<longleftrightarrow> finite_f64 (ev_SpotPrice ev) \<and> finite_f64 (ev_OnDemandPrice ev) \<and> finite_f64 (ev_Savings ev)"

definition ReportSavings :: "'w billing_api \<Rightarrow> Meter \<Rightarrow> 'w \<Rightarrow> SavingsEvent \<Rightarrow> report_error option \<times> 'w" where
  "ReportSavings B m w ev =
     (if \<not> mt_enabled m then (None, w)
      else if mt_dryRun m then (None, w)
      else if \<not> marshals ev then (Some MarshalFailed, w)
      else if \<not> b_request B then (Some RequestFailed, w)
      else case b_Do B w ev of
        (None, w') \<Rightarrow> (Some SendFailed, w')
      | (Some status, w') \<Rightarrow> if status \<ge> 400 then (Some (BillingStatus status), w') else (None, w'))"

definition TrackNodeStart :: "Meter \<Rightarrow> string \<Rightarrow> nodeTracker \<Rightarrow> Meter" where
  "TrackNodeStart m nodeID tracker = m\<lparr>mt_activeNodes := (mt_activeNodes m)(nodeID \<mapsto> tracker)\<rparr>"

definition savings_event :: "string \<Rightarrow> int \<Rightarrow> nodeTracker \<Rightarrow> SavingsEvent" where
  "savings_event nodeID now tracker =
     (let uptimeMinutes = int_of_f64 (Minutes (sat64 (now - nt_StartTime tracker)));
          hourlyRate = nt_OnDemandPrice tracker - nt_SpotPrice tracker
      in \<lparr>ev_NodeID = nodeID, ev_InstanceType = nt_InstanceType tracker, ev_Region = nt_Region tracker, ev_Zone = nt_Zone tracker,
          ev_SpotPrice = nt_SpotPrice tracker, ev_OnDemandPrice = nt_OnDemandPrice tracker, ev_UptimeMinutes = uptimeMinutes,
          ev_Savings = hourlyRate * (f64_of_int uptimeMinutes / Fin 60), ev_Timestamp = now\<rparr>)"

definition TrackNodeEnd :: "'w billing_api \<Rightarrow> int \<Rightarrow> Meter \<Rightarrow> 'w \<Rightarrow> string \<Rightarrow> report_error option \<times> Meter \<times> 'w" where
  "TrackNodeEnd B now m w nodeID =
     (case mt_activeNodes m nodeID of
        None \<Rightarrow> (None, m, w)
      | Some tracker \<Rightarrow>
          let m' = m\<lparr>mt_activeNodes := (mt_activeNodes m)(nodeID := None)\<rparr>
          in case ReportSavings B m' w (savings_event nodeID now tracker) of (e, w') \<Rightarrow> (e, m', w'))"

text \<open>\<open>order\<close> is the order in which the map is visited.\<close>

definition GetActiveSavings :: "(string set \<Rightarrow> string list) \<Rightarrow> int \<Rightarrow> Meter \<Rightarrow> f64" where
  "GetActiveSavings order now m =
     foldl (\<lambda>total nodeID. case mt_activeNodes m nodeID of
         None \<Rightarrow> total
       | Some t \<Rightarrow> total + (nt_OnDemandPrice t - nt_SpotPrice t) * Hours (sat64 (now - nt_StartTime t)))
       (Fin 0) (order (dom (mt_activeNodes m)))"

text \<open>A sequence of calls, with the events of the nodes that end.\<close>

datatype meter_call = StartCall string nodeTracker | EndCall string int

fun run_meter :: "'w billing_api \<Rightarrow> Meter \<Rightarrow> 'w \<Rightarrow> meter_call list \<Rightarrow> Meter \<times> 'w \<times> SavingsEvent list" where
  "run_meter B m w [] = (m, w, [])"
| "run_meter B m w (StartCall n t # cs) = run_meter B (TrackNodeStart m n t) w cs"
| "run_meter B m w (EndCall n now # cs) =
     (case TrackNodeEnd B now m w n of (_, m', w') \<Rightarrow>
      case run_meter B m' w' cs of (m'', w'', evs) \<Rightarrow>
        (m'', w'', (case mt_activeNodes m n of None \<Rightarrow> evs | Some t \<Rightarrow> savings_event n now t # evs)))"

definition starts_of :: "string \<Rightarrow> meter_call list \<Rightarrow> nat" where
  "starts_of n cs = length (filter (\<lambda>c. case c of StartCall n' _ \<Rightarrow> n' = n | _ \<Rightarrow> False) cs)"

definition events_of :: "string \<Rightarrow> SavingsEvent list \<Rightarrow> nat" where
  "events_of n evs = length (filter (\<lambda>ev. ev_NodeID ev = n) evs)"

definition tracked :: "Meter \<Rightarrow> string \<Rightarrow> nat" where
  "tracked m n = (if mt_activeNodes m n = None then 0 else 1)"

lemma savings_event_node [simp]: "ev_NodeID (savings_event n now t) = n"
  by (simp add: savings_event_def Let_def)

lemma TrackNodeEnd_meter: "fst (snd (TrackNodeEnd B now m w n)) = m\<lparr>mt_activeNodes := (mt_activeNodes m)(n := None)\<rparr>"
  by (auto simp: TrackNodeEnd_def Let_def fun_upd_idem split: option.splits prod.splits)

lemma run_meter_count:
  "run_meter B m w cs = (m', w', evs) \<Longrightarrow> events_of n evs + tracked m' n \<le> starts_of n cs + tracked m n"
proof (induction cs arbitrary: m w evs)
  case (Cons c cs)
  show ?case
  proof (cases c)
    case (StartCall k t)
    with Cons.IH [of "TrackNodeStart m k t" w evs] Cons.prems show ?thesis
      by (auto simp: starts_of_def tracked_def TrackNodeStart_def split: if_splits)
  next
    case (EndCall k now)
    let ?m = "m\<lparr>mt_activeNodes := (mt_activeNodes m)(k := None)\<rparr>"
    obtain w1 evs1 where r: "run_meter B ?m w1 cs = (m', w', evs1)"
      "evs = (case mt_activeNodes m k of None \<Rightarrow> evs1 | Some t \<Rightarrow> savings_event k now t # evs1)"
      using Cons.prems EndCall TrackNodeEnd_meter [of B now m w k] by (auto split: prod.splits)
    from Cons.IH [OF r(1)] r(2) EndCall show ?thesis
      by (auto simp: starts_of_def tracked_def events_of_def split: option.splits if_splits)
  qed
qed (auto simp: starts_of_def events_of_def)

text \<open>
  No uptime is billed twice: in any sequence of starts and ends from a new meter, a node
  has at most as many savings events as it was started, and one less while it is still tracked.
\<close>

theorem meter_bills_once:
  assumes "run_meter B (NewMeter enabled dryRun) w cs = (m, w', evs)"
  shows "events_of n evs + tracked m n \<le> starts_of n cs"
  using run_meter_count [OF assms, of n] by (simp add: tracked_def NewMeter_def)

text \<open>An event that cannot be reported is lost: the node is no longer tracked.\<close>

lemma failed_report_lost:
  "TrackNodeEnd B now m w n = (e, m', w') \<Longrightarrow> mt_activeNodes m' n = None"
  using TrackNodeEnd_meter [of B now m w n] by simp

section \<open>Dates\<close>

text \<open>The proleptic Gregorian date of a day since 1970-01-01, and a time in UTC as RFC 3339 prints it, years from 0 on.\<close>

definition civil_from_days :: "int \<Rightarrow> int \<times> int \<times> int" where
  "civil_from_days days =
     (let z = days + 719468; era = z div 146097; doe = z mod 146097;
          yoe = (doe - doe div 1460 + doe div 36524 - doe div 146096) div 365;
          doy = doe - (365 * yoe + yoe div 4 - yoe div 100);
          mp = (5 * doy + 2) div 153;
          d = doy - (153 * mp + 2) div 5 + 1;
          m = (if mp < 10 then mp + 3 else mp - 9)
      in (yoe + era * 400 + (if m \<le> 2 then 1 else 0), m, d))"

definition two_digits :: "int \<Rightarrow> string" where
  "two_digits n = pad_left 2 (decimal (nat n))"

definition Format_RFC3339 :: "int \<Rightarrow> string" where
  "Format_RFC3339 t =
     (let s = t div Second; secs = s mod 86400 in
      case civil_from_days (s div 86400) of (y, m, d) \<Rightarrow>
        pad_left 4 (decimal (nat y)) @ ''-'' @ two_digits m @ ''-'' @ two_digits d @ ''T'' @
        two_digits (secs div 3600) @ '':'' @ two_digits (secs mod 3600 div 60) @ '':'' @ two_digits (secs mod 60) @ ''Z'')"

lemma pad_left_plain: "c \<in> set (pad_left k (decimal n)) \<Longrightarrow> c \<noteq> CHR ''|''"
  using set_pad_left by (fastforce simp: is_digit_def)

lemma Format_RFC3339_plain: "CHR ''|'' \<notin> set (Format_RFC3339 t)"
  using pad_left_plain by (auto simp: Format_RFC3339_def two_digits_def Let_def split: prod.splits)

section \<open>The auditor\<close>

record SavingsManifest =
  sm_ClusterID :: string
  sm_NodeID :: string
  sm_InstanceType :: string
  sm_Region :: string
  sm_Zone :: string
  sm_StartTime :: int
  sm_EndTime :: int
  sm_OnDemandPrice :: f64
  sm_SpotPrice :: f64
  sm_DurationHours :: f64
  sm_TotalSaved :: f64
  sm_Signature :: string

record AuditConfig =
  au_SecretKey :: string
  au_ClusterID :: string

definition getFloatLabel :: "(string \<Rightarrow> f64 option) \<Rightarrow> Node \<Rightarrow> string \<Rightarrow> f64" where
  "getFloatLabel scan node key =
     (case node_Labels node key of None \<Rightarrow> Fin 0 | Some v \<Rightarrow> (case scan v of None \<Rightarrow> Fin 0 | Some f \<Rightarrow> f))"

definition manifest_payload :: "SavingsManifest \<Rightarrow> string" where
  "manifest_payload m =
     sm_ClusterID m @ ''|'' @ sm_NodeID m @ ''|'' @ Format_RFC3339 (sm_StartTime m) @ ''|'' @
     Sprintf_f 6 (sm_OnDemandPrice m) @ ''|'' @ Sprintf_f 6 (sm_SpotPrice m) @ ''|'' @ Sprintf_f 6 (sm_TotalSaved m)"

definition signManifest :: "(string \<Rightarrow> string \<Rightarrow> string) \<Rightarrow> AuditConfig \<Rightarrow> SavingsManifest \<Rightarrow> string" where
  "signManifest hmac cfg m = hmac (au_SecretKey cfg) (manifest_payload m)"

definition VerifyManifest :: "(string \<Rightarrow> string \<Rightarrow> string) \<Rightarrow> AuditConfig \<Rightarrow> SavingsManifest \<Rightarrow> bool" where
  "VerifyManifest hmac cfg m \<longleftrightarrow> signManifest hmac cfg m = sm_Signature m"

datatype audit_error = ODPriceMissing string | SpotPriceMissing string

definition label_or :: "Node \<Rightarrow> string \<Rightarrow> string \<Rightarrow> string" where
  "label_or node key old = (if label_get (node_Labels node) key = [] then label_get (node_Labels node) old else label_get (node_Labels node) key)"

definition GenerateManifest :: "(string \<Rightarrow> string \<Rightarrow> string) \<Rightarrow> (string \<Rightarrow> f64 option) \<Rightarrow> AuditConfig \<Rightarrow> int \<Rightarrow> Node \<Rightarrow> int \<Rightarrow>
    audit_error + SavingsManifest" where
  "GenerateManifest hmac scan cfg endTime node startTime =
     (let duration = Hours (sat64 (endTime - startTime));
          odPrice = getFloatLabel scan node ''spotvortex.io/od-price'';
          spotPrice = getFloatLabel scan node ''spotvortex.io/spot-price''
      in if feq odPrice (Fin 0) then Inl (ODPriceMissing (node_Name node))
         else if feq spotPrice (Fin 0) then Inl (SpotPriceMissing (node_Name node))
         else
           let totalSaved = (odPrice - spotPrice) * duration;
               totalSaved = (if totalSaved < Fin 0 then Fin 0 else totalSaved);
               manifest = \<lparr>sm_ClusterID = au_ClusterID cfg, sm_NodeID = node_Name node,
                 sm_InstanceType = label_get (node_Labels node) LabelInstanceType,
                 sm_Region = label_or node ''topology.kubernetes.io/region'' ''failure-domain.beta.kubernetes.io/region'',
                 sm_Zone = label_or node LabelZone ''failure-domain.beta.kubernetes.io/zone'',
                 sm_StartTime = startTime, sm_EndTime = endTime, sm_OnDemandPrice = odPrice, sm_SpotPrice = spotPrice,
                 sm_DurationHours = duration, sm_TotalSaved = totalSaved, sm_Signature = []\<rparr>
           in Inr (manifest\<lparr>sm_Signature := signManifest hmac cfg manifest\<rparr>))"

lemma bar_split:
  "CHR ''|'' \<notin> set a \<Longrightarrow> CHR ''|'' \<notin> set a' \<Longrightarrow> a @ CHR ''|'' # b = a' @ CHR ''|'' # b' \<longleftrightarrow> a = a' \<and> b = b'"
proof (induction a arbitrary: a')
  case Nil
  then show ?case by (cases a') auto
next
  case (Cons x a)
  then show ?case by (cases a') auto
qed

lemma payload_fields:
  assumes "manifest_payload m = manifest_payload m'"
    and "CHR ''|'' \<notin> set (sm_ClusterID m) \<union> set (sm_NodeID m) \<union> set (sm_ClusterID m') \<union> set (sm_NodeID m')"
  shows "sm_ClusterID m = sm_ClusterID m' \<and> sm_NodeID m = sm_NodeID m' \<and>
    Format_RFC3339 (sm_StartTime m) = Format_RFC3339 (sm_StartTime m') \<and>
    Sprintf_f 6 (sm_OnDemandPrice m) = Sprintf_f 6 (sm_OnDemandPrice m') \<and>
    Sprintf_f 6 (sm_SpotPrice m) = Sprintf_f 6 (sm_SpotPrice m') \<and> Sprintf_f 6 (sm_TotalSaved m) = Sprintf_f 6 (sm_TotalSaved m')"
  using assms unfolding manifest_payload_def
  by (simp add: bar_split Format_RFC3339_plain Sprintf_f_plain)

text \<open>
  A generated manifest verifies under the key it was signed with, and never claims a
  negative saving. What it signs is unambiguous: manifests with the same payload agree on the
  cluster, the node, the start time to the second, and on both prices and the saving to six
  decimals, as long as the identifiers hold no bar.
\<close>

theorem GenerateManifest_verifies:
  assumes "GenerateManifest hmac scan cfg endTime node startTime = Inr m"
  shows "VerifyManifest hmac cfg m \<and> \<not> sm_TotalSaved m < Fin 0 \<and>
    (\<forall>m'. manifest_payload m = manifest_payload m' \<and>
       CHR ''|'' \<notin> set (au_ClusterID cfg) \<union> set (node_Name node) \<union> set (sm_ClusterID m') \<union> set (sm_NodeID m') \<longrightarrow>
       sm_ClusterID m' = au_ClusterID cfg \<and> sm_NodeID m' = node_Name node \<and>
       Format_RFC3339 (sm_StartTime m') = Format_RFC3339 startTime \<and>
       (\<forall>p q. sm_TotalSaved m = Fin p \<and> sm_TotalSaved m' = Fin q \<and> 0 \<le> p \<and> 0 \<le> q \<longrightarrow>
          round_half_even (p * 10 ^ 6) = round_half_even (q * 10 ^ 6)))"
proof -
  have f: "sm_ClusterID m = au_ClusterID cfg" "sm_NodeID m = node_Name node" "sm_StartTime m = startTime"
    "\<not> sm_TotalSaved m < Fin 0" "VerifyManifest hmac cfg m"
    using assms by (auto simp: GenerateManifest_def Let_def VerifyManifest_def signManifest_def manifest_payload_def split: if_splits)
  show ?thesis
  proof (intro conjI allI impI; (elim conjE)?)
    fix m'
    assume e: "manifest_payload m = manifest_payload m'"
      "CHR ''|'' \<notin> set (au_ClusterID cfg) \<union> set (node_Name node) \<union> set (sm_ClusterID m') \<union> set (sm_NodeID m')"
    note p = payload_fields [OF e(1) e(2) [folded f(1,2)]]
    show "sm_ClusterID m' = au_ClusterID cfg" "sm_NodeID m' = node_Name node" "Format_RFC3339 (sm_StartTime m') = Format_RFC3339 startTime"
      using p f by simp_all
    fix a b assume "sm_TotalSaved m = Fin a" "sm_TotalSaved m' = Fin b" "0 \<le> a" "0 \<le> b"
    then show "round_half_even (a * 10 ^ 6) = round_half_even (b * 10 ^ 6)"
      using p by (intro Sprintf_f_inj) simp_all
  qed (use f in simp_all)
qed

text \<open>The signature covers neither the place, the instance type, the end nor the duration: a manifest changed there still verifies.\<close>

lemma unsigned_fields:
  "VerifyManifest hmac cfg (m\<lparr>sm_InstanceType := t, sm_Region := r, sm_Zone := z, sm_EndTime := e, sm_DurationHours := d\<rparr>) \<longleftrightarrow>
     VerifyManifest hmac cfg m"
  by (simp add: VerifyManifest_def signManifest_def manifest_payload_def)

section \<open>Examples\<close>

definition meter_calls :: "meter_call list" where
  "meter_calls =
     [StartCall ''n1'' \<lparr>nt_StartTime = 0, nt_InstanceType = ''m5.large'', nt_Region = ''us-east-1'', nt_Zone = ''us-east-1a'',
        nt_SpotPrice = Fin (1 / 4), nt_OnDemandPrice = Fin 1\<rparr>,
      EndCall ''n1'' (7200 * Second), EndCall ''n1'' (7300 * Second)]"

definition meter_api :: "unit billing_api" where
  "meter_api = \<lparr>b_request = True, b_Do = (\<lambda>_ _. (Some 200, ()))\<rparr>"

theorem meter_bills_once_witness:
  "\<exists>m evs. run_meter meter_api (NewMeter True False) () meter_calls = (m, (), evs) \<and> events_of ''n1'' evs = 1 \<and> starts_of ''n1'' meter_calls = 1"
proof -
  obtain m evs where r: "run_meter meter_api (NewMeter True False) () meter_calls = (m, (), evs)"
    by (metis (full_types) prod.exhaust unit.exhaust)
  have s: "starts_of ''n1'' meter_calls = 1" by (simp add: starts_of_def meter_calls_def)
  have "events_of ''n1'' evs \<ge> 1"
    using r by (auto simp: meter_calls_def TrackNodeStart_def NewMeter_def events_of_def split: prod.splits)
  moreover have "events_of ''n1'' evs \<le> 1" using meter_bills_once [OF r, of "''n1''"] s by simp
  ultimately show ?thesis using r s by auto
qed

lemma RFC3339_example: "Format_RFC3339 (1700000000 * Second) = ''2023-11-14T22:13:20Z''"
  by code_simp

definition audited_node :: Node where
  "audited_node = \<lparr>node_Name = ''n1'', node_Labels = [''spotvortex.io/od-price'' \<mapsto> ''1.0'', ''spotvortex.io/spot-price'' \<mapsto> ''0.25''],
     node_Taints = [], node_Unschedulable = False, node_ProviderID = [], node_Addresses = [], node_Conditions = []\<rparr>"

definition audit_scan :: "string \<Rightarrow> f64 option" where
  "audit_scan s = (if s = ''1.0'' then Some (Fin 1) else if s = ''0.25'' then Some (Fin (1 / 4)) else None)"

theorem GenerateManifest_verifies_witness:
  "\<exists>m. GenerateManifest (\<lambda>k p. k @ p) audit_scan \<lparr>au_SecretKey = ''key'', au_ClusterID = ''c''\<rparr> (3600 * Second) audited_node 0 = Inr m \<and>
     VerifyManifest (\<lambda>k p. k @ p) \<lparr>au_SecretKey = ''key'', au_ClusterID = ''c''\<rparr> m \<and> \<not> sm_TotalSaved m < Fin 0"
proof -
  let ?g = "GenerateManifest (\<lambda>k p. k @ p) audit_scan \<lparr>au_SecretKey = ''key'', au_ClusterID = ''c''\<rparr> (3600 * Second) audited_node 0"
  obtain m where m: "?g = Inr m"
    by (simp add: GenerateManifest_def getFloatLabel_def audited_node_def audit_scan_def Let_def)
  from GenerateManifest_verifies [OF m] m show ?thesis by blast
qed

end
