(* ===== verification/AWS_ASG.thy ===== *)
theory AWS_ASG
  imports ASG
begin

text \<open>
  internal/capacity/aws_asg_client.go: the Auto Scaling Group client on the AWS API. The API is a
  record of operations over the account's state; discovering the twin groups follows the API's
  pages and may run for ever when the pages never end, so it is a partial function whose value is
  \<open>None\<close> then. It is proved to return on every finite chain of pages, with the pair a reference
  definition over the list of pages picks.
\<close>

section \<open>The API as the client uses it\<close>

record AwsTag =
  tag_Key :: "string option"
  tag_Value :: "string option"

record AutoScalingGroup =
  AutoScalingGroupName :: "string option"
  aws_DesiredCapacity :: "int option"
  aws_Instances :: "string list"
  aws_MaxSize :: "int option"
  aws_Tags :: "AwsTag list"

record DescribePage =
  page_Groups :: "AutoScalingGroup list"
  NextToken :: "string option"

text \<open>
  A describe call names a filter (its name and the values it admits) and the token of the page
  to continue from; an instance record carries the name of its group, which may be absent.
\<close>

record 'w autoscaling =
  DescribeAutoScalingGroups :: "'w \<Rightarrow> string \<times> string list \<Rightarrow> string option \<Rightarrow> string + DescribePage"
  api_SetDesiredCapacity :: "'w \<Rightarrow> string \<Rightarrow> int \<Rightarrow> string option \<times> 'w"
  TerminateInstanceInAutoScalingGroup :: "'w \<Rightarrow> string \<Rightarrow> bool \<Rightarrow> string option \<times> 'w"
  DescribeAutoScalingInstances :: "'w \<Rightarrow> string list \<Rightarrow> string + string option list"

record AWSASGClient =
  poolTagKey :: string
  capTagKey :: string

definition NewAWSASGClient :: "string option \<Rightarrow> string \<Rightarrow> string \<Rightarrow> string + AWSASGClient" where
  "NewAWSASGClient load_error cfgPoolTagKey cfgCapacityTagKey =
     (let poolKey = (if cfgPoolTagKey = [] then ''spotvortex.io/pool'' else cfgPoolTagKey);
          capKey = (if cfgCapacityTagKey = [] then ''spotvortex.io/capacity-type'' else cfgCapacityTagKey)
      in case load_error of
           Some e \<Rightarrow> Inl e
         | None \<Rightarrow> Inr \<lparr>poolTagKey = poolKey, capTagKey = capKey\<rparr>)"

section \<open>Reading a group\<close>

definition ToInt32 :: "int option \<Rightarrow> int" where
  "ToInt32 p = (case p of None \<Rightarrow> 0 | Some n \<Rightarrow> n)"

fun apply_tags :: "string \<Rightarrow> string \<Rightarrow> AwsTag list \<Rightarrow> ASGInfo \<Rightarrow> ASGInfo" where
  "apply_tags poolKey capKey [] info = info"
| "apply_tags poolKey capKey (tag # tags) info =
     (case (tag_Key tag, tag_Value tag) of
        (Some k, Some v) \<Rightarrow>
          apply_tags poolKey capKey tags
            (if k = poolKey then info\<lparr>asg_Pool := v\<rparr>
             else if k = capKey then info\<lparr>asg_CapacityType := v\<rparr>
             else info)
      | _ \<Rightarrow> apply_tags poolKey capKey tags info)"

definition asgInfoFromAWS :: "AutoScalingGroup \<Rightarrow> string \<Rightarrow> string \<Rightarrow> ASGInfo option" where
  "asgInfoFromAWS asg poolKey capKey =
     (case AutoScalingGroupName asg of
        None \<Rightarrow> None
      | Some name \<Rightarrow>
          let info = \<lparr>ASGID = name, asg_Pool = [], asg_CapacityType = [],
                DesiredCapacity = ToInt32 (aws_DesiredCapacity asg),
                CurrentCount = wrap 32 (int (length (aws_Instances asg))),
                MaxSize = ToInt32 (aws_MaxSize asg)\<rparr>;
              info = apply_tags poolKey capKey (aws_Tags asg) info
          in if asg_Pool info = [] \<or> asg_CapacityType info = [] then None else Some info)"

section \<open>Discovering the twins\<close>

type_synonym twins = "ASGInfo option \<times> ASGInfo option"

fun scan_groups :: "AWSASGClient \<Rightarrow> AutoScalingGroup list \<Rightarrow> twins \<Rightarrow> twins" where
  "scan_groups c [] sd = sd"
| "scan_groups c (asg # rest) (spot, od) =
     scan_groups c rest
       (case asgInfoFromAWS asg (poolTagKey c) (capTagKey c) of
          None \<Rightarrow> (spot, od)
        | Some info \<Rightarrow>
            if asg_CapacityType info = ''spot'' then (Some info, od)
            else if asg_CapacityType info = ''on-demand'' then (spot, Some info)
            else (spot, od))"

definition both_found :: "twins \<Rightarrow> bool" where
  "both_found sd \<longleftrightarrow> fst sd \<noteq> None \<and> snd sd \<noteq> None"

definition twin_result :: "string \<Rightarrow> twins \<Rightarrow> asg_error + (ASGInfo \<times> ASGInfo)" where
  "twin_result pool sd =
     (case sd of (Some spot, Some od) \<Rightarrow> Inr (spot, od) | _ \<Rightarrow> Inl (TwinNotFound pool))"

definition pool_filter :: "AWSASGClient \<Rightarrow> string \<Rightarrow> string \<times> string list" where
  "pool_filter c pool = (''tag:'' @ poolTagKey c, [pool])"

partial_function (option) discover_loop ::
  "'w autoscaling \<Rightarrow> AWSASGClient \<Rightarrow> 'w \<Rightarrow> string \<Rightarrow> string option \<Rightarrow> twins \<Rightarrow>
   (asg_error + (ASGInfo \<times> ASGInfo)) option" where
  "discover_loop svc c w pool tok sd =
     (case DescribeAutoScalingGroups svc w (pool_filter c pool) tok of
        Inl e \<Rightarrow> Some (Inl (AsgApiError e))
      | Inr page \<Rightarrow>
          (let sd' = scan_groups c (page_Groups page) sd in
           if both_found sd' \<or> NextToken page = None then Some (twin_result pool sd')
           else discover_loop svc c w pool (NextToken page) sd'))"

definition aws_DiscoverTwinASGs ::
  "'w autoscaling \<Rightarrow> AWSASGClient \<Rightarrow> 'w \<Rightarrow> string \<Rightarrow> (asg_error + (ASGInfo \<times> ASGInfo)) option" where
  "aws_DiscoverTwinASGs svc c w pool = discover_loop svc c w pool None (None, None)"

section \<open>The other operations\<close>

definition aws_SetDesiredCapacity ::
  "'w autoscaling \<Rightarrow> 'w \<Rightarrow> string \<Rightarrow> int \<Rightarrow> asg_error option \<times> 'w" where
  "aws_SetDesiredCapacity svc w asgID desired =
     (case api_SetDesiredCapacity svc w asgID desired of
        (Some e, w') \<Rightarrow> (Some (AsgApiError e), w')
      | (None, w') \<Rightarrow> (None, w'))"

definition aws_TerminateInstance ::
  "'w autoscaling \<Rightarrow> 'w \<Rightarrow> string \<Rightarrow> string \<Rightarrow> bool \<Rightarrow> asg_error option \<times> 'w" where
  "aws_TerminateInstance svc w asgID instanceID decrementDesired =
     (case TerminateInstanceInAutoScalingGroup svc w instanceID decrementDesired of
        (Some e, w') \<Rightarrow> (Some (AsgApiError e), w')
      | (None, w') \<Rightarrow> (None, w'))"

definition aws_GetInstanceASG :: "'w autoscaling \<Rightarrow> 'w \<Rightarrow> string \<Rightarrow> asg_error + string" where
  "aws_GetInstanceASG svc w instanceID =
     (case DescribeAutoScalingInstances svc w [instanceID] of
        Inl e \<Rightarrow> Inl (AsgApiError e)
      | Inr [] \<Rightarrow> Inl (ASGNotFound instanceID)
      | Inr (name # _) \<Rightarrow> (case name of None \<Rightarrow> Inl (ASGNotFound instanceID) | Some n \<Rightarrow> Inr n))"

text \<open>
  The client as the managers use it. Discovery is total there: where the pages never end it has
  no value, and none is claimed.
\<close>

definition aws_asg_client :: "'w autoscaling \<Rightarrow> AWSASGClient \<Rightarrow> 'w asg_client" where
  "aws_asg_client svc c = \<lparr>a_DiscoverTwinASGs = (\<lambda>w pool. the (aws_DiscoverTwinASGs svc c w pool)),
     a_SetDesiredCapacity = aws_SetDesiredCapacity svc, a_TerminateInstance = aws_TerminateInstance svc,
     a_GetInstanceASG = aws_GetInstanceASG svc\<rparr>"

section \<open>Pages and the reference\<close>

text \<open>
  \<open>pages_from svc w f tok ps e\<close>: following the tokens from \<open>tok\<close> gives the pages \<open>ps\<close> and then
  ends (\<open>e = None\<close>) or fails with \<open>e\<close>.
\<close>

inductive pages_from ::
  "'w autoscaling \<Rightarrow> 'w \<Rightarrow> string \<times> string list \<Rightarrow> string option \<Rightarrow> AutoScalingGroup list list \<Rightarrow>
   string option \<Rightarrow> bool" for svc w f where
  page_error: "DescribeAutoScalingGroups svc w f tok = Inl e \<Longrightarrow> pages_from svc w f tok [] (Some e)"
| page_last: "DescribeAutoScalingGroups svc w f tok = Inr page \<Longrightarrow> NextToken page = None \<Longrightarrow>
    pages_from svc w f tok [page_Groups page] None"
| page_more: "DescribeAutoScalingGroups svc w f tok = Inr page \<Longrightarrow> NextToken page = Some t \<Longrightarrow>
    pages_from svc w f (Some t) ps e \<Longrightarrow> pages_from svc w f tok (page_Groups page # ps) e"

text \<open>
  The reference: the usable groups of a capacity type, in page order; the twins are the last of
  each type on the shortest run of pages that has both.
\<close>

definition groups_of :: "AWSASGClient \<Rightarrow> string \<Rightarrow> AutoScalingGroup list \<Rightarrow> ASGInfo list" where
  "groups_of c ty gs =
     filter (\<lambda>info. asg_CapacityType info = ty)
       (List.map_filter (\<lambda>g. asgInfoFromAWS g (poolTagKey c) (capTagKey c)) gs)"

definition has_twins :: "AWSASGClient \<Rightarrow> AutoScalingGroup list \<Rightarrow> bool" where
  "has_twins c gs \<longleftrightarrow> groups_of c ''spot'' gs \<noteq> [] \<and> groups_of c ''on-demand'' gs \<noteq> []"

fun first_complete :: "AWSASGClient \<Rightarrow> AutoScalingGroup list \<Rightarrow> AutoScalingGroup list list \<Rightarrow>
    AutoScalingGroup list option" where
  "first_complete c seen [] = None"
| "first_complete c seen (p # ps) =
     (if has_twins c (seen @ p) then Some (seen @ p) else first_complete c (seen @ p) ps)"

definition twins_of :: "AWSASGClient \<Rightarrow> string \<Rightarrow> AutoScalingGroup list list \<Rightarrow> string option \<Rightarrow>
    asg_error + (ASGInfo \<times> ASGInfo)" where
  "twins_of c pool ps e =
     (case first_complete c [] ps of
        Some gs \<Rightarrow> Inr (last (groups_of c ''spot'' gs), last (groups_of c ''on-demand'' gs))
      | None \<Rightarrow> Inl (case e of Some err \<Rightarrow> AsgApiError err | None \<Rightarrow> TwinNotFound pool))"

definition last_of :: "'a list \<Rightarrow> 'a option" where
  "last_of xs = (if xs = [] then None else Some (last xs))"

definition twins_seen :: "AWSASGClient \<Rightarrow> AutoScalingGroup list \<Rightarrow> twins" where
  "twins_seen c gs = (last_of (groups_of c ''spot'' gs), last_of (groups_of c ''on-demand'' gs))"

lemma groups_of_append: "groups_of c ty (gs @ hs) = groups_of c ty gs @ groups_of c ty hs"
  by (induction gs) (simp_all add: groups_of_def List.map_filter_simps split: option.splits)

lemma groups_of_Nil [simp]: "groups_of c ty [] = []"
  by (simp add: groups_of_def List.map_filter_simps)

lemma twins_seen_Nil [simp]: "twins_seen c [] = (None, None)"
  by (simp add: twins_seen_def last_of_def)

lemma last_of_append: "last_of (xs @ ys) = (if ys = [] then last_of xs else Some (last ys))"
  by (simp add: last_of_def)

lemma scan_step:
  "scan_groups c [g] (twins_seen c seen) = twins_seen c (seen @ [g])"
  by (simp add: twins_seen_def groups_of_append last_of_append)
     (simp add: groups_of_def List.map_filter_simps last_of_def split: option.splits)

lemma scan_append: "scan_groups c (gs @ hs) sd = scan_groups c hs (scan_groups c gs sd)"
  by (induction c gs sd rule: scan_groups.induct) simp_all

lemma scan_seen: "scan_groups c gs (twins_seen c seen) = twins_seen c (seen @ gs)"
proof (induction gs arbitrary: seen)
  case (Cons g gs)
  have "scan_groups c ([g] @ gs) (twins_seen c seen) = twins_seen c ((seen @ [g]) @ gs)"
    by (simp only: scan_append scan_step Cons)
  then show ?case by simp
qed simp

lemma both_found_seen: "both_found (twins_seen c gs) = has_twins c gs"
  by (simp add: both_found_def twins_seen_def has_twins_def last_of_def)

lemma twin_result_seen:
  "twin_result pool (twins_seen c gs) =
     (if has_twins c gs then Inr (last (groups_of c ''spot'' gs), last (groups_of c ''on-demand'' gs))
      else Inl (TwinNotFound pool))"
  by (auto simp: twin_result_def twins_seen_def has_twins_def last_of_def)

lemma discover_loop_pages:
  "pages_from svc w (pool_filter c pool) tok ps e \<Longrightarrow>
   discover_loop svc c w pool tok (twins_seen c seen) =
     Some (case first_complete c seen ps of
        Some gs \<Rightarrow> Inr (last (groups_of c ''spot'' gs), last (groups_of c ''on-demand'' gs))
      | None \<Rightarrow> Inl (case e of Some err \<Rightarrow> AsgApiError err | None \<Rightarrow> TwinNotFound pool))"
proof (induction arbitrary: seen rule: pages_from.induct)
  case (page_error tok e)
  then show ?case by (simp add: discover_loop.simps)
next
  case (page_last tok page)
  then show ?case
    by (subst discover_loop.simps) (simp add: scan_seen both_found_seen twin_result_seen)
next
  case (page_more tok page t ps e)
  then show ?case
    by (subst discover_loop.simps) (simp add: scan_seen both_found_seen twin_result_seen)
qed

text \<open>
  C19 (termination). The twin discovery pages through the API until it has both groups or the pages
  end. Whenever following the tokens reaches a last page or an error, the discovery returns, and
  what it returns is fixed by the list of pages: if some run of pages from the first has both a
  usable Spot and a usable on-demand group, the last of each on the shortest such run, whatever
  the later pages hold (an error there included); otherwise the API's error, or that the pair was
  not found.
\<close>

theorem aws_DiscoverTwinASGs_returns:
  assumes "pages_from svc w (pool_filter c pool) None ps e"
  shows "aws_DiscoverTwinASGs svc c w pool = Some (twins_of c pool ps e)"
  using discover_loop_pages [OF assms, of "[]"]
  by (simp add: aws_DiscoverTwinASGs_def twins_of_def)

text \<open>
  A service that always hands out another token and never the twins keeps the discovery going.
\<close>

lemma discover_loop_endless:
  assumes "\<And>tok. \<exists>page. DescribeAutoScalingGroups svc w (pool_filter c pool) tok = Inr page \<and>
      NextToken page \<noteq> None \<and> groups_of c ''spot'' (page_Groups page) = []"
  shows "aws_DiscoverTwinASGs svc c w pool = None"
proof -
  let ?Q = "\<lambda>svc' c' w' pool' tok sd r. svc' = svc \<longrightarrow> c' = c \<longrightarrow> w' = w \<longrightarrow> pool' = pool \<longrightarrow>
      (\<forall>seen. sd = twins_seen c seen \<longrightarrow> groups_of c ''spot'' seen \<noteq> [])"
  have "?Q svc c w pool tok sd r" if "discover_loop svc c w pool tok sd = Some r" for tok sd r
  proof (rule discover_loop.raw_induct [where P = ?Q, OF _ that], intro impI allI notI)
    fix loop svc' c' w' pool' tok sd r seen
    assume IH: "\<And>c w pool tok sd b y. loop c w pool tok sd b = Some y \<Longrightarrow> ?Q c w pool tok sd b y"
      and eqs: "svc' = svc" "c' = c" "w' = w" "pool' = pool" "sd = twins_seen c seen"
      and none: "groups_of c ''spot'' seen = []"
      and body: "(case DescribeAutoScalingGroups svc' w' (pool_filter c' pool') tok of
        Inl e \<Rightarrow> Some (Inl (AsgApiError e))
      | Inr page \<Rightarrow>
          let sd' = scan_groups c' (page_Groups page) sd
          in if both_found sd' \<or> NextToken page = None then Some (twin_result pool' sd')
             else loop svc' c' w' pool' (NextToken page) sd') = Some r"
    obtain page where page: "DescribeAutoScalingGroups svc w (pool_filter c pool) tok = Inr page"
        "NextToken page \<noteq> None" "groups_of c ''spot'' (page_Groups page) = []"
      using assms by blast
    have "groups_of c ''spot'' (seen @ page_Groups page) = []" using none page by (simp add: groups_of_append)
    moreover from this have "\<not> has_twins c (seen @ page_Groups page)" by (simp add: has_twins_def)
    ultimately show False
      using IH [of svc c w pool "NextToken page" "twins_seen c (seen @ page_Groups page)" r] body eqs page
      by (simp add: scan_seen both_found_seen)
  qed
  from this [of None "(None, None)"] have "discover_loop svc c w pool None (None, None) \<noteq> Some r" for r
    using twins_seen_Nil groups_of_Nil by metis
  then show ?thesis unfolding aws_DiscoverTwinASGs_def by blast
qed

section \<open>What is discovered\<close>

text \<open>An info the client read off a group the service returned for this pool's filter.\<close>

definition described :: "'w autoscaling \<Rightarrow> AWSASGClient \<Rightarrow> 'w \<Rightarrow> string \<Rightarrow> AutoScalingGroup \<Rightarrow> bool" where
  "described svc c w pool g \<longleftrightarrow>
     (\<exists>tok page. DescribeAutoScalingGroups svc w (pool_filter c pool) tok = Inr page \<and> g \<in> set (page_Groups page))"

definition twin_ok :: "'w autoscaling \<Rightarrow> AWSASGClient \<Rightarrow> 'w \<Rightarrow> string \<Rightarrow> string \<Rightarrow> ASGInfo \<Rightarrow> bool" where
  "twin_ok svc c w pool ty info \<longleftrightarrow> asg_CapacityType info = ty \<and>
     (\<exists>g. described svc c w pool g \<and> asgInfoFromAWS g (poolTagKey c) (capTagKey c) = Some info)"

definition twins_ok :: "'w autoscaling \<Rightarrow> AWSASGClient \<Rightarrow> 'w \<Rightarrow> string \<Rightarrow> twins \<Rightarrow> bool" where
  "twins_ok svc c w pool sd \<longleftrightarrow> pred_option (twin_ok svc c w pool ''spot'') (fst sd) \<and>
     pred_option (twin_ok svc c w pool ''on-demand'') (snd sd)"

lemma scan_twins_ok:
  "\<forall>g \<in> set gs. described svc c w pool g \<Longrightarrow> twins_ok svc c w pool sd \<Longrightarrow>
   twins_ok svc c w pool (scan_groups c gs sd)"
proof (induction c gs sd rule: scan_groups.induct)
  case (2 c asg rest spot od)
  show ?case unfolding scan_groups.simps
    by (rule 2(1)) (use 2(2,3) in \<open>auto simp: twins_ok_def twin_ok_def split: option.splits\<close>)
qed simp

lemma twin_result_ok:
  "twins_ok svc c w pool sd \<Longrightarrow> twin_result pool' sd = Inr (s, d) \<Longrightarrow>
   twin_ok svc c w pool ''spot'' s \<and> twin_ok svc c w pool ''on-demand'' d"
  by (auto simp: twins_ok_def twin_result_def split: prod.splits option.splits)

lemma discover_loop_twins_ok:
  fixes svc :: "'w autoscaling"
  assumes "discover_loop svc c w pool tok sd = Some (Inr (s, d))" and "twins_ok svc c w pool sd"
  shows "twin_ok svc c w pool ''spot'' s \<and> twin_ok svc c w pool ''on-demand'' d"
proof -
  let ?Q = "\<lambda>(svc :: 'w autoscaling) c w pool (tok :: string option) sd (r :: asg_error + (ASGInfo \<times> ASGInfo)).
      twins_ok svc c w pool sd \<longrightarrow> (\<forall>s d. r = Inr (s, d) \<longrightarrow>
      twin_ok svc c w pool ''spot'' s \<and> twin_ok svc c w pool ''on-demand'' d)"
  have "?Q svc c w pool tok sd (Inr (s, d))"
  proof (rule discover_loop.raw_induct [where P = ?Q, OF _ assms(1)], intro impI allI)
    fix loop and svc :: "'w autoscaling" and c w pool tok sd r s d
    assume IH: "\<And>svc c w pool tok sd r. loop svc c w pool tok sd = Some r \<Longrightarrow> ?Q svc c w pool tok sd r"
      and ok: "twins_ok svc c w pool sd" and r: "r = Inr (s, d)"
      and body: "(case DescribeAutoScalingGroups svc w (pool_filter c pool) tok of
        Inl e \<Rightarrow> Some (Inl (AsgApiError e))
      | Inr page \<Rightarrow>
          let sd' = scan_groups c (page_Groups page) sd
          in if both_found sd' \<or> NextToken page = None then Some (twin_result pool sd')
             else loop svc c w pool (NextToken page) sd') = Some r"
    obtain page where page: "DescribeAutoScalingGroups svc w (pool_filter c pool) tok = Inr page"
      using body r by (auto split: sum.splits)
    let ?sd = "scan_groups c (page_Groups page) sd"
    have "twins_ok svc c w pool ?sd"
      using page by (intro scan_twins_ok ok) (auto simp: described_def)
    then show "twin_ok svc c w pool ''spot'' s \<and> twin_ok svc c w pool ''on-demand'' d"
      using body page r IH [of svc c w pool "NextToken page" ?sd r]
      by (auto simp: Let_def dest: twin_result_ok split: if_splits)
  qed
  then show ?thesis using assms(2) by blast
qed

lemma apply_tags_pool:
  "\<forall>t \<in> set tags. tag_Key t = Some poolKey \<longrightarrow> tag_Value t = Some pool \<Longrightarrow> asg_Pool info \<in> {[], pool} \<Longrightarrow>
   asg_Pool (apply_tags poolKey capKey tags info) \<in> {[], pool}"
  by (induction poolKey capKey tags info rule: apply_tags.induct) (auto split: option.splits)

lemma apply_tags_ASGID [simp]: "ASGID (apply_tags poolKey capKey tags info) = ASGID info"
  by (induction poolKey capKey tags info rule: apply_tags.induct) (auto split: option.splits)

lemma asgInfoFromAWS_ASGID:
  "asgInfoFromAWS g poolKey capKey = Some info \<Longrightarrow> AutoScalingGroupName g = Some (ASGID info)"
  by (auto simp: asgInfoFromAWS_def Let_def split: option.splits if_splits)

lemma asgInfoFromAWS_pool:
  assumes "asgInfoFromAWS g poolKey capKey = Some info"
    and "\<forall>t \<in> set (aws_Tags g). tag_Key t = Some poolKey \<longrightarrow> tag_Value t = Some pool"
  shows "asg_Pool info = pool"
proof -
  obtain start where "info = apply_tags poolKey capKey (aws_Tags g) start" "asg_Pool start = []" "asg_Pool info \<noteq> []"
    using assms(1) by (auto simp: asgInfoFromAWS_def Let_def split: option.splits if_splits)
  then show ?thesis using apply_tags_pool [OF assms(2), of start capKey] by simp
qed

text \<open>
  The pair the discovery returns is a twin pair of the pool that was asked for: both
  infos are read off groups the API returned for this pool, the first is a Spot group and the
  second an on-demand group, and they are different groups. The API's tag filter is taken at its
  word (a group it returns has no other value under the pool tag), and so is that a group name
  names one group.
\<close>

theorem aws_DiscoverTwinASGs_twins:
  assumes "aws_DiscoverTwinASGs svc c w pool = Some (Inr (s, d))"
    and filtered: "\<And>g t. described svc c w pool g \<Longrightarrow> t \<in> set (aws_Tags g) \<Longrightarrow>
      tag_Key t = Some (poolTagKey c) \<Longrightarrow> tag_Value t = Some pool"
    and named: "\<And>g h. described svc c w pool g \<Longrightarrow> described svc c w pool h \<Longrightarrow>
      AutoScalingGroupName g = AutoScalingGroupName h \<Longrightarrow> g = h"
  shows "asg_CapacityType s = ''spot'' \<and> asg_CapacityType d = ''on-demand'' \<and> asg_Pool s = pool \<and>
    asg_Pool d = pool \<and> ASGID s \<noteq> ASGID d \<and> (\<exists>g. described svc c w pool g \<and> AutoScalingGroupName g = Some (ASGID s)) \<and>
    (\<exists>g. described svc c w pool g \<and> AutoScalingGroupName g = Some (ASGID d))"
proof -
  have ok: "twin_ok svc c w pool ''spot'' s" "twin_ok svc c w pool ''on-demand'' d"
    using discover_loop_twins_ok [OF assms(1) [unfolded aws_DiscoverTwinASGs_def]] by (simp_all add: twins_ok_def)
  obtain g h where g: "described svc c w pool g" "asgInfoFromAWS g (poolTagKey c) (capTagKey c) = Some s"
      "asg_CapacityType s = ''spot''"
    and h: "described svc c w pool h" "asgInfoFromAWS h (poolTagKey c) (capTagKey c) = Some d"
      "asg_CapacityType d = ''on-demand''"
    using ok by (auto simp: twin_ok_def)
  note names = asgInfoFromAWS_ASGID [OF g(2)] asgInfoFromAWS_ASGID [OF h(2)]
  have "ASGID s \<noteq> ASGID d" using named [OF g(1) h(1)] names g h by auto
  moreover have "asg_Pool s = pool" using asgInfoFromAWS_pool [OF g(2)] filtered [OF g(1)] by blast
  moreover have "asg_Pool d = pool" using asgInfoFromAWS_pool [OF h(2)] filtered [OF h(1)] by blast
  ultimately show ?thesis using g h names by blast
qed

section \<open>An account with two pages\<close>

definition demo_group :: "string \<Rightarrow> string \<Rightarrow> AutoScalingGroup" where
  "demo_group name cap = \<lparr>AutoScalingGroupName = Some name, aws_DesiredCapacity = Some 2,
     aws_Instances = [''i-1'', ''i-2''], aws_MaxSize = Some 5,
     aws_Tags = [\<lparr>tag_Key = Some ''spotvortex.io/pool'', tag_Value = Some ''web''\<rparr>,
                 \<lparr>tag_Key = Some ''spotvortex.io/capacity-type'', tag_Value = Some cap\<rparr>]\<rparr>"

definition demo_service :: "unit autoscaling" where
  "demo_service = \<lparr>DescribeAutoScalingGroups = (\<lambda>w f tok.
       if f \<noteq> (''tag:spotvortex.io/pool'', [''web'']) then Inl ''validation error''
       else case tok of
         None \<Rightarrow> Inr \<lparr>page_Groups = [demo_group ''web-spot'' ''spot''], NextToken = Some ''2''\<rparr>
       | Some t \<Rightarrow> Inr \<lparr>page_Groups = [demo_group ''web-od'' ''on-demand''], NextToken = None\<rparr>),
     api_SetDesiredCapacity = (\<lambda>w i n. (None, w)),
     TerminateInstanceInAutoScalingGroup = (\<lambda>w i b. (None, w)),
     DescribeAutoScalingInstances = (\<lambda>w is. Inr [])\<rparr>"

definition demo_client :: AWSASGClient where
  "demo_client = \<lparr>poolTagKey = ''spotvortex.io/pool'', capTagKey = ''spotvortex.io/capacity-type''\<rparr>"

definition demo_info :: "string \<Rightarrow> string \<Rightarrow> ASGInfo" where
  "demo_info name cap = \<lparr>ASGID = name, asg_Pool = ''web'', asg_CapacityType = cap, DesiredCapacity = 2,
     CurrentCount = 2, MaxSize = 5\<rparr>"

lemmas demo_simps = demo_service_def demo_client_def demo_group_def pool_filter_def

lemma demo_pages:
  "pages_from demo_service () (pool_filter demo_client ''web'') None
     [[demo_group ''web-spot'' ''spot''], [demo_group ''web-od'' ''on-demand'']] None"
proof -
  let ?p1 = "\<lparr>page_Groups = [demo_group ''web-spot'' ''spot''], NextToken = Some ''2''\<rparr>"
  let ?p2 = "\<lparr>page_Groups = [demo_group ''web-od'' ''on-demand''], NextToken = None\<rparr>"
  have "pages_from demo_service () (pool_filter demo_client ''web'') (Some ''2'') [page_Groups ?p2] None"
    by (rule page_last) (simp_all add: demo_simps)
  then have "pages_from demo_service () (pool_filter demo_client ''web'') None (page_Groups ?p1 # [page_Groups ?p2]) None"
    by (rule page_more [rotated 2]) (simp_all add: demo_simps)
  then show ?thesis by simp
qed

lemma demo_twins:
  "twins_of demo_client ''web'' [[demo_group ''web-spot'' ''spot''], [demo_group ''web-od'' ''on-demand'']] None =
     Inr (demo_info ''web-spot'' ''spot'', demo_info ''web-od'' ''on-demand'')"
  by code_simp

theorem aws_DiscoverTwinASGs_returns_witness:
  "aws_DiscoverTwinASGs demo_service demo_client () ''web'' =
     Some (Inr (demo_info ''web-spot'' ''spot'', demo_info ''web-od'' ''on-demand''))"
  using aws_DiscoverTwinASGs_returns [OF demo_pages] by (simp only: demo_twins)

lemma demo_described:
  "described demo_service demo_client () ''web'' g \<Longrightarrow>
   g = demo_group ''web-spot'' ''spot'' \<or> g = demo_group ''web-od'' ''on-demand''"
  by (auto simp: described_def demo_simps split: option.splits)

theorem aws_DiscoverTwinASGs_twins_witness:
  "ASGID (demo_info ''web-spot'' ''spot'') \<noteq> ASGID (demo_info ''web-od'' ''on-demand'')"
proof -
  have found: "aws_DiscoverTwinASGs demo_service demo_client () ''web'' =
      Some (Inr (demo_info ''web-spot'' ''spot'', demo_info ''web-od'' ''on-demand''))"
    using discover_loop_pages [OF demo_pages, of "[]"] demo_twins by (simp add: aws_DiscoverTwinASGs_def twins_of_def)
  have filtered: "tag_Value t = Some ''web''"
    if "described demo_service demo_client () ''web'' g" "t \<in> set (aws_Tags g)" "tag_Key t = Some (poolTagKey demo_client)" for g t
    using demo_described [OF that(1)] that(2,3) by (auto simp: demo_group_def demo_client_def)
  have named: "g = h" if "described demo_service demo_client () ''web'' g" "described demo_service demo_client () ''web'' h"
      "AutoScalingGroupName g = AutoScalingGroupName h" for g h
    using demo_described [OF that(1)] demo_described [OF that(2)] that(3) by (auto simp: demo_group_def)
  show ?thesis by (rule aws_DiscoverTwinASGs_twins [THEN conjunct2, THEN conjunct2, THEN conjunct2, THEN conjunct2, THEN conjunct1])
    (fact found, erule (2) filtered, erule (2) named)
qed

end
