(* ===== verification/Prices.thy ===== *)
theory Prices
  imports Features
begin

text \<open>
  internal/cloudapi/aws/aws.go and internal/cloudapi/gcp/gcp.go: the Spot price clients with their
  five-minute caches. The EC2, Pricing and Compute Engine APIs are parameters, as are
  \<open>fmt.Sscanf\<close> and \<open>strconv.ParseFloat\<close> on a price and the decoding of a JSON object, whose pairs
  stand in the order in which the decoded map is visited. What both clients promise as caches is
  the locale \<open>ttl_cache\<close>.
\<close>

definition CacheTTL :: int where "CacheTTL = 5 * 60 * 1000000000"
definition HistorySteps :: nat where "HistorySteps = 24"
definition PriceHistoryLookback :: int where "PriceHistoryLookback = 2 * 3600 * 1000000000"

text \<open>The readings of the clock in one call: at the cache, before the request, when storing.\<close>

record clock =
  t_checked :: int
  t_started :: int
  t_stored :: int

definition cache_key :: "string \<Rightarrow> string \<Rightarrow> string" where
  "cache_key instanceType zone = instanceType @ '':'' @ zone"

section \<open>On-demand prices of AWS\<close>

datatype json_value = VNull | VBool bool | VNum f64 | VStr string | VArr "json_value list" | VObj "(string \<times> json_value) list"

datatype payload_error = BadPayload | MissingTerms | InvalidTerms | MissingOnDemand | InvalidOnDemand | NoUSDPrice

datatype on_demand_error = ProductsFailed string | NoPricing string | PayloadFailed payload_error

fun as_object :: "json_value \<Rightarrow> (string \<times> json_value) list option" where
  "as_object (VObj kvs) = Some kvs"
| "as_object _ = None"

fun parseUSD :: "(string \<Rightarrow> f64 option) \<Rightarrow> json_value \<Rightarrow> f64 option" where
  "parseUSD pf (VStr s) =
     (case pf (TrimSpace s) of None \<Rightarrow> None | Some p \<Rightarrow> if p \<le> Fin 0 then None else Some p)"
| "parseUSD pf (VNum v) = (if v \<le> Fin 0 then None else Some v)"
| "parseUSD pf _ = None"

definition dimension_price :: "(string \<Rightarrow> f64 option) \<Rightarrow> json_value \<Rightarrow> f64 option" where
  "dimension_price pf dimAny =
     (case as_object dimAny of None \<Rightarrow> None | Some dimMap \<Rightarrow>
      (case map_of dimMap ''pricePerUnit'' of None \<Rightarrow> None | Some ppuAny \<Rightarrow>
       (case as_object ppuAny of None \<Rightarrow> None | Some ppuMap \<Rightarrow>
        (case map_of ppuMap ''USD'' of None \<Rightarrow> None | Some usdAny \<Rightarrow> parseUSD pf usdAny))))"

definition term_prices :: "(string \<Rightarrow> f64 option) \<Rightarrow> json_value \<Rightarrow> f64 list" where
  "term_prices pf termAny =
     (case as_object termAny of None \<Rightarrow> [] | Some termMap \<Rightarrow>
      (case map_of termMap ''priceDimensions'' of None \<Rightarrow> [] | Some dimsAny \<Rightarrow>
       (case as_object dimsAny of None \<Rightarrow> []
        | Some dimsMap \<Rightarrow> List.map_filter (dimension_price pf \<circ> snd) dimsMap)))"

definition sku_prices :: "(string \<Rightarrow> f64 option) \<Rightarrow> json_value \<Rightarrow> f64 list" where
  "sku_prices pf skuAny =
     (case as_object skuAny of None \<Rightarrow> [] | Some skuMap \<Rightarrow> concat (map (term_prices pf \<circ> snd) skuMap))"

definition keep_best :: "f64 option \<Rightarrow> f64 \<Rightarrow> f64 option" where
  "keep_best best price =
     (case best of None \<Rightarrow> Some price | Some b \<Rightarrow> if price < b then Some price else Some b)"

definition onDemand_of :: "(string \<times> json_value) list \<Rightarrow> payload_error + (string \<times> json_value) list" where
  "onDemand_of payload =
     (case map_of payload ''terms'' of None \<Rightarrow> Inl MissingTerms | Some termsAny \<Rightarrow>
      (case as_object termsAny of None \<Rightarrow> Inl InvalidTerms | Some terms \<Rightarrow>
       (case map_of terms ''OnDemand'' of None \<Rightarrow> Inl MissingOnDemand | Some onDemandAny \<Rightarrow>
        (case as_object onDemandAny of None \<Rightarrow> Inl InvalidOnDemand | Some onDemand \<Rightarrow> Inr onDemand))))"

definition usd_prices :: "(string \<Rightarrow> f64 option) \<Rightarrow> (string \<times> json_value) list \<Rightarrow> f64 list" where
  "usd_prices pf onDemand = concat (map (sku_prices pf \<circ> snd) onDemand)"

definition parseOnDemandPrice ::
  "(string \<Rightarrow> (string \<times> json_value) list option) \<Rightarrow> (string \<Rightarrow> f64 option) \<Rightarrow> string \<Rightarrow> payload_error + f64" where
  "parseOnDemandPrice unmarshal pf priceList =
     (case unmarshal priceList of
        None \<Rightarrow> Inl BadPayload
      | Some payload \<Rightarrow>
          (case onDemand_of payload of
             Inl e \<Rightarrow> Inl e
           | Inr onDemand \<Rightarrow>
               (case foldl keep_best None (usd_prices pf onDemand) of
                  None \<Rightarrow> Inl NoUSDPrice
                | Some best \<Rightarrow> Inr best)))"

section \<open>The AWS client\<close>

record aws_SpotPriceData =
  ap_CurrentPrice :: f64
  ap_OnDemandPrice :: f64
  ap_PriceHistory :: "f64 list"
  ap_Volatility :: f64
  ap_LastUpdated :: int
  ap_InstanceType :: string
  ap_Zone :: string

record 'w aws_api =
  DescribeSpotPriceHistory :: "'w \<Rightarrow> string \<Rightarrow> string \<Rightarrow> int \<Rightarrow> string + string option list"
  GetProducts :: "'w \<Rightarrow> string \<Rightarrow> string \<Rightarrow> string + string list"
  price_Sscanf :: "string \<Rightarrow> f64 option"
  price_ParseFloat :: "string \<Rightarrow> f64 option"
  json_Unmarshal :: "string \<Rightarrow> (string \<times> json_value) list option"

record aws_PriceClient =
  pc_region :: string
  pc_cache :: "string \<rightharpoonup> aws_SpotPriceData"
  pc_onDemandCache :: "string \<rightharpoonup> f64"

definition NewPriceClient :: "string option \<Rightarrow> string \<Rightarrow> string + aws_PriceClient" where
  "NewPriceClient load_error region =
     (case load_error of
        Some e \<Rightarrow> Inl e
      | None \<Rightarrow> Inr \<lparr>pc_region = region, pc_cache = Map.empty, pc_onDemandCache = Map.empty\<rparr>)"

definition parsePrice :: "(string \<Rightarrow> f64 option) \<Rightarrow> string \<Rightarrow> f64" where
  "parsePrice sscanf s = (case sscanf s of None \<Rightarrow> Fin 0 | Some price \<Rightarrow> price)"

text \<open>\<open>None\<close> is the panic of \<open>prices[0]\<close> on records that all lack a price.\<close>

definition buildPriceHistory :: "(string \<Rightarrow> f64 option) \<Rightarrow> string option list \<Rightarrow> f64 list option" where
  "buildPriceHistory sscanf history =
     (if history = [] then Some []
      else
        let prices = map (parsePrice sscanf) (List.map_filter id (rev history)) in
        if length prices < HistorySteps
        then (case prices of [] \<Rightarrow> None | p # _ \<Rightarrow> Some (replicate (HistorySteps - length prices) p @ prices))
        else if length prices > HistorySteps then Some (drop (length prices - HistorySteps) prices)
        else Some prices)"

definition calculateVolatility :: "f64 list \<Rightarrow> f64" where
  "calculateVolatility prices =
     (if length prices < 2 then Fin 0
      else
        let sum = foldl (+) (Fin 0) prices;
            mean = sum / f64_of_int (int (length prices));
            variance = foldl (\<lambda>variance p. let diff = p - mean in variance + diff * diff) (Fin 0) prices;
            variance = variance / f64_of_int (int (length prices) - 1)
        in math_Sqrt variance)"

definition GetOnDemandPrice ::
  "'w aws_api \<Rightarrow> 'w \<Rightarrow> aws_PriceClient \<Rightarrow> string \<Rightarrow> (on_demand_error + f64) \<times> aws_PriceClient" where
  "GetOnDemandPrice api w c instanceType =
     (case pc_onDemandCache c instanceType of
        Some price \<Rightarrow> (Inr price, c)
      | None \<Rightarrow>
          (case GetProducts api w instanceType (pc_region c) of
             Inl e \<Rightarrow> (Inl (ProductsFailed e), c)
           | Inr [] \<Rightarrow> (Inl (NoPricing instanceType), c)
           | Inr (priceList # _) \<Rightarrow>
               (case parseOnDemandPrice (json_Unmarshal api) (price_ParseFloat api) priceList of
                  Inl e \<Rightarrow> (Inl (PayloadFailed e), c)
                | Inr price \<Rightarrow> (Inr price, c\<lparr>pc_onDemandCache := (pc_onDemandCache c)(instanceType \<mapsto> price)\<rparr>))))"

datatype price_error = HistoryFailed string | NoHistory string string | HistoryPanic | OnDemandFailed on_demand_error

definition fresh :: "int \<Rightarrow> int \<Rightarrow> bool" where
  "fresh now lastUpdated \<longleftrightarrow> now - lastUpdated < CacheTTL"

definition fetch_aws ::
  "'w aws_api \<Rightarrow> 'w \<Rightarrow> clock \<Rightarrow> aws_PriceClient \<Rightarrow> string \<Rightarrow> string \<Rightarrow> (price_error + aws_SpotPriceData) \<times> aws_PriceClient" where
  "fetch_aws api w t c instanceType zone =
     (case DescribeSpotPriceHistory api w instanceType zone (t_started t - PriceHistoryLookback) of
        Inl e \<Rightarrow> (Inl (HistoryFailed e), c)
      | Inr history \<Rightarrow>
          if history = [] then (Inl (NoHistory instanceType zone), c)
          else
            (case buildPriceHistory (price_Sscanf api) history of
               None \<Rightarrow> (Inl HistoryPanic, c)
             | Some priceHistory \<Rightarrow>
                 let currentPrice = last priceHistory;
                     volatility = calculateVolatility priceHistory
                 in (case GetOnDemandPrice api w c instanceType of
                       (Inl e, c) \<Rightarrow> (Inl (OnDemandFailed e), c)
                     | (Inr onDemandPrice, c) \<Rightarrow>
                         let data = \<lparr>ap_CurrentPrice = currentPrice, ap_OnDemandPrice = onDemandPrice,
                               ap_PriceHistory = priceHistory, ap_Volatility = volatility,
                               ap_LastUpdated = t_stored t, ap_InstanceType = instanceType, ap_Zone = zone\<rparr>
                         in (Inr data, c\<lparr>pc_cache := (pc_cache c)(cache_key instanceType zone \<mapsto> data)\<rparr>))))"

definition GetSpotPrice ::
  "'w aws_api \<Rightarrow> 'w \<Rightarrow> clock \<Rightarrow> aws_PriceClient \<Rightarrow> string \<Rightarrow> string \<Rightarrow> (price_error + aws_SpotPriceData) \<times> aws_PriceClient" where
  "GetSpotPrice api w t c instanceType zone =
     (case pc_cache c (cache_key instanceType zone) of
        Some cached \<Rightarrow>
          if fresh (t_checked t) (ap_LastUpdated cached) then (Inr cached, c)
          else fetch_aws api w t c instanceType zone
      | None \<Rightarrow> fetch_aws api w t c instanceType zone)"

section \<open>The GCP client\<close>

record gcp_SpotPriceData =
  gp_CurrentPrice :: f64
  gp_OnDemandPrice :: f64
  gp_PriceHistory :: "f64 list"
  gp_Volatility :: f64
  gp_LastUpdated :: int
  gp_MachineType :: string
  gp_Zone :: string

text \<open>\<open>MachineTypes.Get\<close> for a project, zone and machine type: guest CPUs and memory in MB (int32).\<close>

record 'w gcp_api =
  MachineTypesGet :: "'w \<Rightarrow> string \<Rightarrow> string \<Rightarrow> string \<Rightarrow> string + int \<times> int"

record gcp_PriceClient =
  gc_project :: string
  gc_cache :: "string \<rightharpoonup> gcp_SpotPriceData"
  gc_onDemandCache :: "string \<rightharpoonup> f64"

definition gcp_NewPriceClient :: "string option \<Rightarrow> string \<Rightarrow> string + gcp_PriceClient" where
  "gcp_NewPriceClient client_error project =
     (case client_error of
        Some e \<Rightarrow> Inl e
      | None \<Rightarrow> Inr \<lparr>gc_project = project, gc_cache = Map.empty, gc_onDemandCache = Map.empty\<rparr>)"

definition machine_price :: "int \<Rightarrow> int \<Rightarrow> f64" where
  "machine_price vcpus memoryMB =
     (let memoryGB = f64_of_int memoryMB / Fin 1024
      in f64_of_int vcpus * to_f64 (33 / 1000) + memoryGB * to_f64 (4 / 1000))"

definition gcp_GetOnDemandPrice ::
  "'w gcp_api \<Rightarrow> 'w \<Rightarrow> gcp_PriceClient \<Rightarrow> string \<Rightarrow> string \<Rightarrow> (string + f64) \<times> gcp_PriceClient" where
  "gcp_GetOnDemandPrice api w c machineType zone =
     (case gc_onDemandCache c (cache_key machineType zone) of
        Some price \<Rightarrow> (Inr price, c)
      | None \<Rightarrow>
          (case MachineTypesGet api w (gc_project c) zone machineType of
             Inl e \<Rightarrow> (Inl e, c)
           | Inr (vcpus, memoryMB) \<Rightarrow>
               let price = machine_price vcpus memoryMB
               in (Inr price, c\<lparr>gc_onDemandCache := (gc_onDemandCache c)(cache_key machineType zone \<mapsto> price)\<rparr>)))"

definition buildSyntheticHistory :: "f64 \<Rightarrow> f64 list" where
  "buildSyntheticHistory currentPrice =
     (map (\<lambda>i. let variation = Fin 1 + (f64_of_int (int (i mod 5)) - Fin 2) * to_f64 (1 / 1000)
               in currentPrice * variation) [0..<HistorySteps])[HistorySteps - 1 := currentPrice]"

definition gcp_calculateVolatility :: "f64 list \<Rightarrow> f64" where
  "gcp_calculateVolatility prices =
     (if length prices < 2 then Fin 0
      else
        let sum = foldl (+) (Fin 0) prices;
            mean = sum / f64_of_int (int (length prices));
            variance = foldl (\<lambda>variance p. let diff = p - mean in variance + diff * diff) (Fin 0) prices;
            variance = variance / f64_of_int (int (length prices) - 1)
        in math_Sqrt variance)"

definition fetch_gcp ::
  "'w gcp_api \<Rightarrow> 'w \<Rightarrow> clock \<Rightarrow> gcp_PriceClient \<Rightarrow> string \<Rightarrow> string \<Rightarrow> (string + gcp_SpotPriceData) \<times> gcp_PriceClient" where
  "fetch_gcp api w t c machineType zone =
     (case gcp_GetOnDemandPrice api w c machineType zone of
        (Inl e, c) \<Rightarrow> (Inl e, c)
      | (Inr onDemandPrice, c) \<Rightarrow>
          let preemptiblePrice = onDemandPrice * to_f64 (3 / 10);
              priceHistory = buildSyntheticHistory preemptiblePrice;
              volatility = gcp_calculateVolatility priceHistory;
              data = \<lparr>gp_CurrentPrice = preemptiblePrice, gp_OnDemandPrice = onDemandPrice,
                gp_PriceHistory = priceHistory, gp_Volatility = volatility, gp_LastUpdated = t_stored t,
                gp_MachineType = machineType, gp_Zone = zone\<rparr>
          in (Inr data, c\<lparr>gc_cache := (gc_cache c)(cache_key machineType zone \<mapsto> data)\<rparr>))"

definition gcp_GetSpotPrice ::
  "'w gcp_api \<Rightarrow> 'w \<Rightarrow> clock \<Rightarrow> gcp_PriceClient \<Rightarrow> string \<Rightarrow> string \<Rightarrow> (string + gcp_SpotPriceData) \<times> gcp_PriceClient" where
  "gcp_GetSpotPrice api w t c machineType zone =
     (case gc_cache c (cache_key machineType zone) of
        Some cached \<Rightarrow>
          if fresh (t_checked t) (gp_LastUpdated cached) then (Inr cached, c)
          else fetch_gcp api w t c machineType zone
      | None \<Rightarrow> fetch_gcp api w t c machineType zone)"

text \<open>\<open>ListZones\<close> collects what the iterator yields, a name or an error, until it is done.\<close>

fun collect_zones :: "(string + string) list \<Rightarrow> string list \<Rightarrow> string + string list" where
  "collect_zones [] zones = Inr zones"
| "collect_zones (Inl e # it) zones = Inl e"
| "collect_zones (Inr zone # it) zones = collect_zones it (zones @ [zone])"

definition ListZones :: "string option \<Rightarrow> (string + string) list \<Rightarrow> string + string list" where
  "ListZones client_error it = (case client_error of Some e \<Rightarrow> Inl e | None \<Rightarrow> collect_zones it [])"

lemma collect_zones_spec:
  "collect_zones it zones = (case find Sum_Type.isl it of Some (Inl e) \<Rightarrow> Inl e | _ \<Rightarrow> Inr (zones @ map projr it))"
  by (induction it zones rule: collect_zones.induct) (auto split: option.splits sum.splits)

section \<open>The caches\<close>

text \<open>
  What a price client promises of its cache: an entry younger than the time to live is handed
  out as it is and nothing changes; any other call either stores what it returns under the key
  of the request, stamped with the time of storing, or fails and leaves the cache alone.
\<close>

locale ttl_cache =
  fixes get :: "'r \<Rightarrow> 'c \<Rightarrow> string \<Rightarrow> string \<Rightarrow> ('e + 'd) \<times> 'c"
    and entries :: "'c \<Rightarrow> string \<rightharpoonup> 'd" and stamp :: "'d \<Rightarrow> int" and checked :: "'r \<Rightarrow> int" and stored :: "'r \<Rightarrow> int"
  assumes hit: "entries c (cache_key i z) = Some d \<Longrightarrow> fresh (checked r) (stamp d) \<Longrightarrow> get r c i z = (Inr d, c)"
    and stores: "get r c i z = (Inr d, c') \<Longrightarrow>
      entries c' = (entries c)(cache_key i z \<mapsto> d) \<and> (fresh (checked r) (stamp d) \<and> entries c (cache_key i z) = Some d \<or> stamp d = stored r)"
    and fails: "get r c i z = (Inl e, c') \<Longrightarrow> entries c' = entries c"
begin

text \<open>A sequence of calls, each in its own context, for its own instance type and zone.\<close>

definition after :: "('r \<times> string \<times> string) list \<Rightarrow> 'c \<Rightarrow> 'c" where
  "after calls c = foldl (\<lambda>c (r, i, z). snd (get r c i z)) c calls"

lemma entry_kept:
  assumes "entries c k = Some d" "fresh (checked r) (stamp d)"
  shows "entries (snd (get r c i z)) k = Some d"
proof (cases "cache_key i z = k")
  case True
  then show ?thesis using hit [of c i z d r] assms by simp
next
  case False
  obtain res c' where "get r c i z = (res, c')" by fastforce
  then show ?thesis using stores [of r c i z _ c'] fails [of r c i z _ c'] assms(1) False by (cases res) auto
qed

lemma stable:
  assumes "entries c (cache_key i z) = Some d"
    and "\<forall>(r, _) \<in> set calls. fresh (checked r) (stamp d)" and "fresh (checked r) (stamp d)"
  shows "get r (after calls c) i z = (Inr d, after calls c)"
  using assms
proof (induction calls arbitrary: c)
  case Nil
  then show ?case by (simp add: after_def hit)
next
  case (Cons call calls)
  obtain r' i' z' where call: "call = (r', i', z')" by (cases call)
  have "entries (snd (get r' c i' z')) (cache_key i z) = Some d" using Cons.prems by (intro entry_kept) (auto simp: call)
  from Cons.IH [OF this] show ?case using Cons.prems by (simp add: after_def call)
qed

lemma returned_stable:
  assumes "get r0 c i z = (Inr d, c')"
    and "\<forall>(r, _) \<in> set calls. fresh (checked r) (stamp d)" and "fresh (checked r) (stamp d)"
  shows "get r (after calls c') i z = (Inr d, after calls c')"
  using stable [of c' i z d calls r] stores [OF assms(1)] assms(2,3) by simp

lemma not_stale:
  assumes "get r c i z = (Inr d, c')" and "stored r - checked r \<le> delay" and "checked r \<le> stored r"
  shows "stored r - stamp d < CacheTTL + delay \<or> stamp d = stored r"
  using stores [OF assms(1)] assms(2) by (auto simp: fresh_def)

end

lemma GetOnDemandPrice_cache:
  "GetOnDemandPrice api w c i = (r, c') \<Longrightarrow> pc_cache c' = pc_cache c"
  by (auto simp: GetOnDemandPrice_def split: option.splits sum.splits list.splits)

lemma fetch_aws_stores:
  "fetch_aws api w t c i z = (Inr d, c') \<Longrightarrow> pc_cache c' = (pc_cache c)(cache_key i z \<mapsto> d) \<and> ap_LastUpdated d = t_stored t"
  by (auto simp: fetch_aws_def Let_def dest!: GetOnDemandPrice_cache split: option.splits sum.splits if_splits prod.splits)

lemma fetch_aws_fails: "fetch_aws api w t c i z = (Inl e, c') \<Longrightarrow> pc_cache c' = pc_cache c"
  by (auto simp: fetch_aws_def Let_def dest!: GetOnDemandPrice_cache split: option.splits sum.splits if_splits prod.splits)

interpretation aws: ttl_cache "\<lambda>(w, t). GetSpotPrice api w t" pc_cache ap_LastUpdated "t_checked \<circ> snd" "t_stored \<circ> snd"
  for api
  by unfold_locales
    (auto simp: GetSpotPrice_def map_upd_triv dest!: fetch_aws_stores fetch_aws_fails split: option.splits if_splits)

lemma gcp_GetOnDemandPrice_cache:
  "gcp_GetOnDemandPrice api w c i z = (r, c') \<Longrightarrow> gc_cache c' = gc_cache c"
  by (auto simp: gcp_GetOnDemandPrice_def Let_def split: option.splits sum.splits)

lemma fetch_gcp_stores:
  "fetch_gcp api w t c i z = (Inr d, c') \<Longrightarrow> gc_cache c' = (gc_cache c)(cache_key i z \<mapsto> d) \<and> gp_LastUpdated d = t_stored t"
  by (auto simp: fetch_gcp_def Let_def dest!: gcp_GetOnDemandPrice_cache split: sum.splits prod.splits)

lemma fetch_gcp_fails: "fetch_gcp api w t c i z = (Inl e, c') \<Longrightarrow> gc_cache c' = gc_cache c"
  by (auto simp: fetch_gcp_def Let_def dest!: gcp_GetOnDemandPrice_cache split: sum.splits prod.splits)

interpretation gcp: ttl_cache "\<lambda>(w, t). gcp_GetSpotPrice api w t" gc_cache gp_LastUpdated "t_checked \<circ> snd" "t_stored \<circ> snd"
  for api
  by unfold_locales
    (auto simp: gcp_GetSpotPrice_def map_upd_triv dest!: fetch_gcp_stores fetch_gcp_fails split: option.splits if_splits)

section \<open>The least price\<close>

lemma keep_best_Some: "keep_best (Some b) p = Some (if p < b then p else b)"
  by (simp add: keep_best_def)

lemma keep_best_fold:
  "\<forall>p \<in> set ps. p \<noteq> NaN \<Longrightarrow> b \<noteq> NaN \<Longrightarrow>
   \<exists>m. foldl keep_best (Some b) ps = Some m \<and> m \<in> insert b (set ps) \<and> m \<le> b \<and> (\<forall>p \<in> set ps. m \<le> p)"
proof (induction ps arbitrary: b)
  case (Cons p ps)
  let ?b = "if p < b then p else b"
  have b: "?b \<noteq> NaN" "?b \<le> b" "?b \<le> p" using Cons.prems f_not_less [of p b] by (auto intro: f_less_imp_le)
  obtain m where "foldl keep_best (Some ?b) ps = Some m" "m \<in> insert ?b (set ps)" "m \<le> ?b" "\<forall>p \<in> set ps. m \<le> p"
    using Cons.IH [of ?b] Cons.prems b(1) by auto
  then show ?case
    using b f_le_trans [of m ?b b] f_le_trans [of m ?b p] by (auto simp: keep_best_Some split: if_splits)
qed simp

lemma parseUSD_pos: "parseUSD pf v = Some p \<Longrightarrow> \<not> p \<le> Fin 0"
  by (cases v) (auto split: option.splits if_splits)

lemma dimension_price_pos: "dimension_price pf v = Some p \<Longrightarrow> \<not> p \<le> Fin 0"
  by (auto simp: dimension_price_def parseUSD_pos split: option.splits)

lemma set_map_filter: "set (List.map_filter f xs) = {y. \<exists>x \<in> set xs. f x = Some y}"
  by (induction xs) (auto simp: List.map_filter_simps split: option.splits)

lemma usd_prices_pos: "p \<in> set (usd_prices pf onDemand) \<Longrightarrow> \<not> p \<le> Fin 0"
  by (auto simp: usd_prices_def sku_prices_def term_prices_def set_map_filter dest!: dimension_price_pos split: option.splits)

lemma keep_best_mem: "foldl keep_best b ps = Some m \<Longrightarrow> b = Some m \<or> m \<in> set ps"
  by (induction ps arbitrary: b) (fastforce simp: keep_best_def split: option.splits if_splits)+

lemma keep_best_None: "foldl keep_best b ps = None \<longleftrightarrow> b = None \<and> ps = []"
  by (induction ps arbitrary: b) (auto simp: keep_best_def split: option.splits)

lemma parseOnDemandPrice_mem:
  "parseOnDemandPrice unmarshal pf s = Inr p \<Longrightarrow>
   \<exists>payload od. unmarshal s = Some payload \<and> onDemand_of payload = Inr od \<and> p \<in> set (usd_prices pf od)"
  by (auto simp: parseOnDemandPrice_def split: option.splits sum.splits dest!: keep_best_mem)

text \<open>
  C27 (functional). The on-demand price read off a Pricing API payload is the least of the positive
  USD prices anywhere under its on-demand terms, whatever the order in which the decoded maps are
  visited, as long as none of them is NaN; it is an error exactly when there is no such price.
\<close>

theorem parseOnDemandPrice_least:
  assumes "unmarshal s = Some payload" and "onDemand_of payload = Inr od"
    and "\<forall>p \<in> set (usd_prices pf od). p \<noteq> NaN"
  shows "case parseOnDemandPrice unmarshal pf s of
      Inr best \<Rightarrow> best \<in> set (usd_prices pf od) \<and> Fin 0 < best \<and> (\<forall>p \<in> set (usd_prices pf od). best \<le> p)
    | Inl e \<Rightarrow> e = NoUSDPrice \<and> set (usd_prices pf od) = {}"
proof (cases "usd_prices pf od")
  case Nil
  then show ?thesis using assms by (simp add: parseOnDemandPrice_def)
next
  case (Cons q qs)
  obtain m where m: "foldl keep_best (Some q) qs = Some m" "m \<in> insert q (set qs)" "m \<le> q" "\<forall>p \<in> set qs. m \<le> p"
    using keep_best_fold [of qs q] assms(3) Cons by auto
  have res: "parseOnDemandPrice unmarshal pf s = Inr m"
    using assms m(1) Cons by (simp add: parseOnDemandPrice_def keep_best_def)
  have "\<not> m \<le> Fin 0" using usd_prices_pos [of m pf od] m(2) Cons by simp
  then have "Fin 0 < m" using f_not_le [of m "Fin 0"] m(3) f_leD by auto
  then show ?thesis using m res Cons by simp
qed

section \<open>What the AWS cache holds\<close>

definition aws_entry_ok :: "aws_PriceClient \<Rightarrow> string \<Rightarrow> aws_SpotPriceData \<Rightarrow> bool" where
  "aws_entry_ok c k d \<longleftrightarrow> k = cache_key (ap_InstanceType d) (ap_Zone d) \<and> length (ap_PriceHistory d) = HistorySteps \<and>
     ap_CurrentPrice d = last (ap_PriceHistory d) \<and> ap_Volatility d = calculateStdDev (ap_PriceHistory d) \<and>
     pc_onDemandCache c (ap_InstanceType d) = Some (ap_OnDemandPrice d)"

definition aws_cache_ok :: "aws_PriceClient \<Rightarrow> bool" where
  "aws_cache_ok c \<longleftrightarrow> (\<forall>k d. pc_cache c k = Some d \<longrightarrow> aws_entry_ok c k d) \<and>
     (\<forall>i p. pc_onDemandCache c i = Some p \<longrightarrow> \<not> p \<le> Fin 0)"

lemma NewPriceClient_ok: "NewPriceClient None region = Inr c \<Longrightarrow> aws_cache_ok c"
  by (auto simp: NewPriceClient_def aws_cache_ok_def)

lemma calculateVolatility_eq: "calculateVolatility = calculateStdDev" "gcp_calculateVolatility = calculateStdDev"
  by (simp_all add: fun_eq_iff calculateVolatility_def gcp_calculateVolatility_def calculateStdDev_def Let_def)

lemma buildPriceHistory_length:
  "buildPriceHistory f hs = Some ps \<Longrightarrow> hs \<noteq> [] \<Longrightarrow> length ps = HistorySteps"
  by (auto simp: buildPriceHistory_def Let_def split: if_splits list.splits)

lemma buildPriceHistory_panics:
  "buildPriceHistory f hs = None \<longleftrightarrow> hs \<noteq> [] \<and> (\<forall>h \<in> set hs. h = None)"
proof -
  have "List.map_filter id (rev hs) = [] \<longleftrightarrow> (\<forall>h \<in> set hs. h = None)"
    using set_map_filter [of id "rev hs"] by (auto simp flip: set_empty)
  then show ?thesis by (auto simp: buildPriceHistory_def Let_def HistorySteps_def split: list.splits)
qed

lemma parseOnDemandPrice_pos: "parseOnDemandPrice u f s = Inr p \<Longrightarrow> \<not> p \<le> Fin 0"
  using parseOnDemandPrice_mem usd_prices_pos by blast

lemma aws_on_demand_add:
  "aws_cache_ok c \<Longrightarrow> pc_onDemandCache c i = None \<Longrightarrow> \<not> p \<le> Fin 0 \<Longrightarrow>
   aws_cache_ok (c\<lparr>pc_onDemandCache := (pc_onDemandCache c)(i \<mapsto> p)\<rparr>)"
  unfolding aws_cache_ok_def aws_entry_ok_def by (intro conjI allI impI) (fastforce split: if_splits)+

lemma GetOnDemandPrice_ok:
  "GetOnDemandPrice api w c i = (r, c') \<Longrightarrow> aws_cache_ok c \<Longrightarrow>
   aws_cache_ok c' \<and> (\<forall>p. r = Inr p \<longrightarrow> pc_onDemandCache c' i = Some p)"
  by (auto simp: GetOnDemandPrice_def intro!: aws_on_demand_add dest!: parseOnDemandPrice_pos
      split: option.splits sum.splits list.splits)

lemma aws_cache_add:
  "aws_cache_ok c \<Longrightarrow> aws_entry_ok c k d \<Longrightarrow> aws_cache_ok (c\<lparr>pc_cache := (pc_cache c)(k \<mapsto> d)\<rparr>)"
  by (auto simp: aws_cache_ok_def aws_entry_ok_def)

lemma fetch_aws_cases:
  assumes "fetch_aws api w t c i z = (r, c')"
  obtains (failed) e where "r = Inl e" "c' = c"
  | (no_price) e where "r = Inl (OnDemandFailed e)" "GetOnDemandPrice api w c i = (Inl e, c')"
  | (fetched) hs ps p c1 d where "hs \<noteq> []" "buildPriceHistory (price_Sscanf api) hs = Some ps"
      "GetOnDemandPrice api w c i = (Inr p, c1)" "r = Inr d" "c' = c1\<lparr>pc_cache := (pc_cache c1)(cache_key i z \<mapsto> d)\<rparr>"
      "d = \<lparr>ap_CurrentPrice = last ps, ap_OnDemandPrice = p, ap_PriceHistory = ps, ap_Volatility = calculateStdDev ps,
         ap_LastUpdated = t_stored t, ap_InstanceType = i, ap_Zone = z\<rparr>"
  using assms unfolding fetch_aws_def calculateVolatility_eq Let_def
  by (cases "DescribeSpotPriceHistory api w i z (t_started t - PriceHistoryLookback)";
      cases "GetOnDemandPrice api w c i"; cases "fst (GetOnDemandPrice api w c i)")
     (auto split: option.splits if_splits)

lemma fetch_aws_ok:
  assumes "fetch_aws api w t c i z = (r, c')" "aws_cache_ok c"
  shows "aws_cache_ok c'"
  using assms(1)
proof (cases rule: fetch_aws_cases)
  case failed
  then show ?thesis using assms(2) by simp
next
  case (no_price e)
  then show ?thesis using GetOnDemandPrice_ok [OF no_price(2) assms(2)] by simp
next
  case (fetched hs ps p c1 d)
  have "length ps = HistorySteps" using buildPriceHistory_length fetched(1,2) by blast
  then have "aws_entry_ok c1 (cache_key i z) d"
    using GetOnDemandPrice_ok [OF fetched(3) assms(2)] fetched(6) by (simp add: aws_entry_ok_def)
  then show ?thesis using aws_cache_add GetOnDemandPrice_ok [OF fetched(3) assms(2)] fetched(5) by blast
qed

text \<open>Cache keys tell instance types without a colon apart, and so the zones.\<close>

lemma cache_key_inj:
  "CHR '':'' \<notin> set i \<Longrightarrow> CHR '':'' \<notin> set i' \<Longrightarrow> cache_key i z = cache_key i' z' \<Longrightarrow> i = i' \<and> z = z'"
proof (induction i arbitrary: i')
  case Nil
  then show ?case by (cases i') (auto simp: cache_key_def)
next
  case (Cons x i)
  then show ?case by (cases i') (auto simp: cache_key_def)
qed

text \<open>
  C18 (invariant). Every entry of the AWS price cache has twenty-four prices, the current price is
  the last of them, the volatility is the sample standard deviation the feature builder uses too,
  and its on-demand price is the one remembered for the instance type, never zero or negative.
  Every lookup keeps this, and what it returns is such an entry, filed under the key that was
  asked for; a failed lookup, the panic on records without a price included, leaves the cached
  Spot prices as they were.
\<close>

theorem aws_cache_invariant:
  assumes "aws_cache_ok c" and "GetSpotPrice api w t c i z = (r, c')"
  shows "aws_cache_ok c' \<and>
    (case r of Inr d \<Rightarrow> pc_cache c' (cache_key i z) = Some d \<and> aws_entry_ok c' (cache_key i z) d \<and> \<not> ap_OnDemandPrice d \<le> Fin 0
     | Inl e \<Rightarrow> pc_cache c' = pc_cache c)"
proof -
  have ok: "aws_cache_ok c'"
    using assms by (auto simp: GetSpotPrice_def dest: fetch_aws_ok split: option.splits if_splits)
  show ?thesis
  proof (cases r)
    case (Inl e)
    then show ?thesis using ok aws.fails [of api "(w, t)" c i z e c'] assms(2) by simp
  next
    case (Inr d)
    then have "pc_cache c' (cache_key i z) = Some d" using aws.stores [of api "(w, t)" c i z d c'] assms(2) by simp
    then show ?thesis using ok Inr unfolding aws_cache_ok_def aws_entry_ok_def by simp blast
  qed
qed

text \<open>
  (liveness). Once a lookup has answered, the same prices are served for five minutes: after any
  further calls, for this or other instance types and zones, whatever the service answers or
  fails with meanwhile, a lookup less than five minutes after the entry was stored returns the
  same data, and returns it without changing the client.
\<close>

definition after_calls :: "'w aws_api \<Rightarrow> (('w \<times> clock) \<times> string \<times> string) list \<Rightarrow> aws_PriceClient \<Rightarrow> aws_PriceClient" where
  "after_calls api calls c = foldl (\<lambda>c ((w, t), i, z). snd (GetSpotPrice api w t c i z)) c calls"

theorem aws_prices_stable:
  assumes "GetSpotPrice api w0 t0 c i z = (Inr d, c')"
    and "\<forall>((w, t), _) \<in> set calls. t_checked t - ap_LastUpdated d < CacheTTL"
    and "t_checked t - ap_LastUpdated d < CacheTTL"
  shows "GetSpotPrice api w t (after_calls api calls c') i z = (Inr d, after_calls api calls c')"
proof -
  have "aws.after api calls c' = after_calls api calls c'"
    unfolding aws.after_def after_calls_def by (intro arg_cong [where f = "\<lambda>f. foldl f c' calls"]) (auto simp: fun_eq_iff)
  then show ?thesis
    using aws.returned_stable [of api "(w0, t0)" c i z d c' calls "(w, t)"] assms
    by (simp add: fresh_def case_prod_beta)
qed

section \<open>What GCP prices are\<close>

lemma plus_rounded: "x + y = Fin v \<Longrightarrow> to_f64 v = Fin v" for x y :: f64
  by (cases x; cases y) (auto dest: to_fmt_idem [rotated])

lemma lit_0_033 [f64_lit]: "to_f64 (33 / 1000) = Fin (1188950301625811 / 36028797018963968)"
  by code_simp

lemma lit_0_004 [f64_lit]: "to_f64 (1 / 250) = Fin (1152921504606847 / 288230376151711744)"
  by code_simp

lemma machine_price_nonneg:
  assumes "0 \<le> vcpus" "0 \<le> memoryMB"
  shows "Fin 0 \<le> machine_price vcpus memoryMB"
  unfolding machine_price_def Let_def
  using assms by (auto intro!: plus_nonneg times_nonneg f64_of_int_nonneg f_div_nonneg simp: lit_0_033 lit_0_004)

lemma buildSyntheticHistory_last: "last (buildSyntheticHistory p) = p \<and> length (buildSyntheticHistory p) = HistorySteps"
  by (simp add: buildSyntheticHistory_def HistorySteps_def last_list_update)

definition gcp_price_ok :: "f64 \<Rightarrow> bool" where
  "gcp_price_ok p \<longleftrightarrow> Fin 0 \<le> p \<and> Fin 0 \<le> p * to_f64 (3 / 10) \<and> p * to_f64 (3 / 10) \<le> p"

lemma machine_price_ok:
  assumes "0 \<le> vcpus" "0 \<le> memoryMB"
  shows "gcp_price_ok (machine_price vcpus memoryMB)"
proof -
  let ?p = "machine_price vcpus memoryMB"
  have nn: "Fin 0 \<le> ?p" using machine_price_nonneg [OF assms] .
  have "?p * Fin c \<le> ?p" if "0 < c" "c \<le> 1" for c
  proof (cases ?p)
    case (Fin v)
    then have "to_f64 v = Fin v" unfolding machine_price_def Let_def by (rule plus_rounded)
    then show ?thesis using times_le_self [of ?p v c] nn that Fin by simp
  qed (use nn that in simp_all)
  then show ?thesis using nn times_nonneg [OF nn] by (simp add: gcp_price_ok_def lit_0_3)
qed

definition gcp_entry_ok :: "string \<Rightarrow> gcp_SpotPriceData \<Rightarrow> bool" where
  "gcp_entry_ok k d \<longleftrightarrow> k = cache_key (gp_MachineType d) (gp_Zone d) \<and> length (gp_PriceHistory d) = HistorySteps \<and>
     gp_CurrentPrice d = last (gp_PriceHistory d) \<and> gp_Volatility d = calculateStdDev (gp_PriceHistory d) \<and>
     Fin 0 \<le> gp_CurrentPrice d \<and> gp_CurrentPrice d \<le> gp_OnDemandPrice d"

definition gcp_cache_ok :: "gcp_PriceClient \<Rightarrow> bool" where
  "gcp_cache_ok c \<longleftrightarrow> (\<forall>k d. gc_cache c k = Some d \<longrightarrow> gcp_entry_ok k d) \<and>
     (\<forall>k p. gc_onDemandCache c k = Some p \<longrightarrow> gcp_price_ok p)"

lemma gcp_NewPriceClient_ok: "gcp_NewPriceClient None project = Inr c \<Longrightarrow> gcp_cache_ok c"
  by (auto simp: gcp_NewPriceClient_def gcp_cache_ok_def)

definition machines_ok :: "'w gcp_api \<Rightarrow> 'w \<Rightarrow> bool" where
  "machines_ok api w \<longleftrightarrow> (\<forall>project zone ty n m. MachineTypesGet api w project zone ty = Inr (n, m) \<longrightarrow> 0 \<le> n \<and> 0 \<le> m)"

lemma gcp_on_demand_add:
  "gcp_cache_ok c \<Longrightarrow> gcp_price_ok p \<Longrightarrow> gcp_cache_ok (c\<lparr>gc_onDemandCache := (gc_onDemandCache c)(k \<mapsto> p)\<rparr>)"
  unfolding gcp_cache_ok_def by (intro conjI allI impI) (fastforce split: if_splits)+

lemma gcp_GetOnDemandPrice_ok:
  assumes "gcp_GetOnDemandPrice api w c i z = (r, c')" "gcp_cache_ok c" "machines_ok api w"
  shows "gcp_cache_ok c' \<and> (\<forall>p. r = Inr p \<longrightarrow> gcp_price_ok p)"
proof (cases "gc_onDemandCache c (cache_key i z)")
  case (Some p)
  then show ?thesis using assms(1,2) unfolding gcp_cache_ok_def by (auto simp: gcp_GetOnDemandPrice_def)
next
  case None
  show ?thesis
  proof (cases "MachineTypesGet api w (gc_project c) z i")
    case (Inl e)
    then show ?thesis using assms(1,2) None by (auto simp: gcp_GetOnDemandPrice_def)
  next
    case (Inr nm)
    obtain n m where nm: "nm = (n, m)" by (cases nm)
    have "gcp_price_ok (machine_price n m)"
      using assms(3) Inr nm unfolding machines_ok_def by (metis machine_price_ok)
    then show ?thesis
      using assms(1) None Inr nm gcp_on_demand_add [OF assms(2)] by (auto simp: gcp_GetOnDemandPrice_def Let_def)
  qed
qed

lemma gcp_cache_add:
  "gcp_cache_ok c \<Longrightarrow> gcp_entry_ok k d \<Longrightarrow> gcp_cache_ok (c\<lparr>gc_cache := (gc_cache c)(k \<mapsto> d)\<rparr>)"
  by (auto simp: gcp_cache_ok_def)

lemma fetch_gcp_ok:
  assumes "fetch_gcp api w t c i z = (r, c')" "gcp_cache_ok c" "machines_ok api w"
  shows "gcp_cache_ok c'"
proof -
  obtain r1 c1 where od: "gcp_GetOnDemandPrice api w c i z = (r1, c1)" by fastforce
  note ok = gcp_GetOnDemandPrice_ok [OF od assms(2,3)]
  show ?thesis
  proof (cases r1)
    case (Inl e)
    then show ?thesis using assms(1) od ok by (simp add: fetch_gcp_def)
  next
    case (Inr p)
    then have "gcp_price_ok p" using ok by simp
    then show ?thesis
      using assms(1) od ok Inr buildSyntheticHistory_last
      by (auto simp: fetch_gcp_def Let_def gcp_entry_ok_def gcp_price_ok_def calculateVolatility_eq
          intro!: gcp_cache_add)
  qed
qed

text \<open>
  When the Compute Engine API reports machine types with non-negative CPUs and memory,
  every preemptible price the GCP client hands out lies between zero and the on-demand price it
  comes with, in float64, with twenty-four prices of history that end in the current price; every
  lookup keeps the cache so.
\<close>

theorem gcp_cache_invariant:
  assumes "gcp_cache_ok c" and "machines_ok api w" and "gcp_GetSpotPrice api w t c i z = (r, c')"
  shows "gcp_cache_ok c' \<and>
    (\<forall>d. r = Inr d \<longrightarrow> Fin 0 \<le> gp_CurrentPrice d \<and> gp_CurrentPrice d \<le> gp_OnDemandPrice d \<and>
       length (gp_PriceHistory d) = HistorySteps \<and> last (gp_PriceHistory d) = gp_CurrentPrice d)"
proof -
  have ok: "gcp_cache_ok c'"
    using assms by (auto simp: gcp_GetSpotPrice_def dest: fetch_gcp_ok split: option.splits if_splits)
  have "gcp_entry_ok (cache_key i z) d" if "r = Inr d" for d
    using ok gcp.stores [of api "(w, t)" c i z d c'] assms(3) that by (simp add: gcp_cache_ok_def)
  then show ?thesis using ok unfolding gcp_entry_ok_def by metis
qed

section \<open>Closed instances\<close>

definition demo_payload :: "(string \<times> json_value) list" where
  "demo_payload = [(''terms'', VObj [(''OnDemand'', VObj [(''sku'', VObj [(''term'', VObj [(''priceDimensions'',
     VObj [(''d1'', VObj [(''pricePerUnit'', VObj [(''USD'', VNum (Fin 3))])]),
           (''d2'', VObj [(''pricePerUnit'', VObj [(''USD'', VStr ''2'')])])])])])])])]"

definition demo_aws :: "unit aws_api" where
  "demo_aws = \<lparr>DescribeSpotPriceHistory = (\<lambda>w i z start. Inr [Some ''2'', None, Some ''1'']),
     GetProducts = (\<lambda>w i r. Inr [''{}'']), price_Sscanf = (\<lambda>s. if s = ''2'' then Some (Fin 2) else Some (Fin 1)),
     price_ParseFloat = (\<lambda>s. if s = ''2'' then Some (Fin 2) else None), json_Unmarshal = (\<lambda>s. Some demo_payload)\<rparr>"

definition demo_prices :: aws_PriceClient where
  "demo_prices = \<lparr>pc_region = ''us-east-1'', pc_cache = Map.empty, pc_onDemandCache = Map.empty\<rparr>"

definition demo_clock :: clock where
  "demo_clock = \<lparr>t_checked = 0, t_started = 1, t_stored = 2\<rparr>"

definition demo_data :: aws_SpotPriceData where
  "demo_data = \<lparr>ap_CurrentPrice = Fin 2, ap_OnDemandPrice = Fin 2, ap_PriceHistory = replicate 23 (Fin 1) @ [Fin 2],
     ap_Volatility = calculateVolatility (replicate 23 (Fin 1) @ [Fin 2]), ap_LastUpdated = 2,
     ap_InstanceType = ''m5.large'', ap_Zone = ''us-east-1a''\<rparr>"

lemma demo_on_demand: "parseOnDemandPrice (json_Unmarshal demo_aws) (price_ParseFloat demo_aws) ''{}'' = Inr (Fin 2)"
  by code_simp

lemma demo_history: "buildPriceHistory (price_Sscanf demo_aws) [Some ''2'', None, Some ''1''] = Some (replicate 23 (Fin 1) @ [Fin 2])"
  by code_simp

lemma demo_fetch:
  "GetSpotPrice demo_aws () demo_clock demo_prices ''m5.large'' ''us-east-1a'' =
     (Inr demo_data, demo_prices\<lparr>pc_onDemandCache := [''m5.large'' \<mapsto> Fin 2],
        pc_cache := [cache_key ''m5.large'' ''us-east-1a'' \<mapsto> demo_data]\<rparr>)"
proof -
  have od: "GetOnDemandPrice demo_aws () demo_prices ''m5.large'' =
      (Inr (Fin 2), demo_prices\<lparr>pc_onDemandCache := [''m5.large'' \<mapsto> Fin 2]\<rparr>)"
    unfolding GetOnDemandPrice_def using demo_on_demand by (simp add: demo_prices_def demo_aws_def)
  have "DescribeSpotPriceHistory demo_aws () i z n = Inr [Some ''2'', None, Some ''1'']" for i z n
    by (simp add: demo_aws_def)
  then have "fetch_aws demo_aws () demo_clock demo_prices ''m5.large'' ''us-east-1a'' =
     (Inr demo_data, demo_prices\<lparr>pc_onDemandCache := [''m5.large'' \<mapsto> Fin 2],
        pc_cache := [cache_key ''m5.large'' ''us-east-1a'' \<mapsto> demo_data]\<rparr>)"
    unfolding fetch_aws_def od by (simp add: Let_def demo_history demo_data_def demo_prices_def demo_clock_def)
  moreover have "pc_cache demo_prices = Map.empty" by (simp add: demo_prices_def)
  ultimately show ?thesis by (simp add: GetSpotPrice_def)
qed

theorem parseOnDemandPrice_least_witness:
  "case parseOnDemandPrice (\<lambda>s. Some demo_payload) (price_ParseFloat demo_aws) ''{}'' of
     Inr best \<Rightarrow> best \<le> Fin 3 | Inl e \<Rightarrow> False"
proof -
  obtain od where od: "onDemand_of demo_payload = Inr od" and ps: "usd_prices (price_ParseFloat demo_aws) od = [Fin 3, Fin 2]"
    by (rule that [of "[(''sku'', VObj [(''term'', VObj [(''priceDimensions'',
     VObj [(''d1'', VObj [(''pricePerUnit'', VObj [(''USD'', VNum (Fin 3))])]),
           (''d2'', VObj [(''pricePerUnit'', VObj [(''USD'', VStr ''2'')])])])])])]"]) code_simp+
  show ?thesis
    using parseOnDemandPrice_least [of "\<lambda>s. Some demo_payload" "''{}''" demo_payload od "price_ParseFloat demo_aws"] od ps
    by (simp split: sum.splits)
qed

theorem aws_cache_invariant_witness:
  "aws_entry_ok (snd (GetSpotPrice demo_aws () demo_clock demo_prices ''m5.large'' ''us-east-1a''))
     (cache_key ''m5.large'' ''us-east-1a'') demo_data"
proof -
  have "aws_cache_ok demo_prices" by (simp add: aws_cache_ok_def demo_prices_def)
  from aws_cache_invariant [OF this demo_fetch] show ?thesis by (simp add: demo_fetch)
qed

theorem aws_prices_stable_witness:
  "fst (GetSpotPrice demo_aws () \<lparr>t_checked = 60, t_started = 0, t_stored = 0\<rparr>
     (after_calls demo_aws [(((), demo_clock), ''c5.large'', ''us-east-1b'')]
       (snd (GetSpotPrice demo_aws () demo_clock demo_prices ''m5.large'' ''us-east-1a'')))
     ''m5.large'' ''us-east-1a'') = Inr demo_data"
proof -
  let ?calls = "[(((), demo_clock), ''c5.large'', ''us-east-1b'')]"
  let ?t = "\<lparr>t_checked = 60, t_started = 0, t_stored = 0\<rparr> :: clock"
  have "\<forall>((w, t), _) \<in> set ?calls. t_checked t - ap_LastUpdated demo_data < CacheTTL"
    "t_checked ?t - ap_LastUpdated demo_data < CacheTTL"
    by (simp_all add: demo_clock_def demo_data_def CacheTTL_def)
  from aws_prices_stable [OF demo_fetch this] show ?thesis by (simp only: demo_fetch fst_conv snd_conv)
qed

lemma gcp_GetSpotPrice_returns:
  "MachineTypesGet api w (gc_project c) z i = Inr (n, m) \<Longrightarrow> \<exists>d c'. gcp_GetSpotPrice api w t c i z = (Inr d, c')"
  by (auto simp: gcp_GetSpotPrice_def fetch_gcp_def gcp_GetOnDemandPrice_def Let_def split: option.splits)

definition demo_gcp :: "unit gcp_api" where
  "demo_gcp = \<lparr>MachineTypesGet = (\<lambda>w project zone ty. Inr (4, 16384))\<rparr>"

definition demo_gcp_client :: gcp_PriceClient where
  "demo_gcp_client = \<lparr>gc_project = ''p'', gc_cache = Map.empty, gc_onDemandCache = Map.empty\<rparr>"

theorem gcp_cache_invariant_witness:
  "case fst (gcp_GetSpotPrice demo_gcp () demo_clock demo_gcp_client ''n1-standard-4'' ''us-central1-a'') of
     Inr d \<Rightarrow> gp_CurrentPrice d \<le> gp_OnDemandPrice d | Inl e \<Rightarrow> False"
proof -
  obtain d c' where run: "gcp_GetSpotPrice demo_gcp () demo_clock demo_gcp_client ''n1-standard-4'' ''us-central1-a'' = (Inr d, c')"
    using gcp_GetSpotPrice_returns [of demo_gcp "()" demo_gcp_client "''us-central1-a''" "''n1-standard-4''" 4 16384]
    by (fastforce simp: demo_gcp_def)
  moreover have "gcp_cache_ok demo_gcp_client" "machines_ok demo_gcp ()"
    by (simp_all add: gcp_cache_ok_def machines_ok_def demo_gcp_def demo_gcp_client_def)
  ultimately show ?thesis using gcp_cache_invariant [of demo_gcp_client demo_gcp "()" demo_clock] by simp
qed

end
