(* ===== verification/Fake_Prices.thy ===== *)
theory Fake_Prices
  imports Float64
begin

text \<open>
  internal/cloudapi/fake_price_provider.go: the scripted price provider of the dry-run test
  harness. A scenario maps series keys to scripts of price points; every Spot lookup takes the
  next step of the best matching script. The whole history of lookups is proved to follow the
  script.
\<close>

section \<open>Scenarios\<close>

record PriceData =
  pd_CurrentPrice :: f64
  pd_OnDemandPrice :: f64
  pd_PriceHistory :: "f64 list"
  pd_Volatility :: f64
  pd_InstanceType :: string
  pd_Zone :: string

record FakePricePoint =
  fp_CurrentPrice :: "f64 option"
  fp_OnDemandPrice :: "f64 option"
  fp_PriceHistory :: "f64 list option"
  fp_Volatility :: "f64 option"
  fp_Error :: string

text \<open>The series stand in the order in which the map is visited; keys occur once.\<close>

record FakePriceScenario =
  sc_Default :: FakePricePoint
  sc_Series :: "(string \<times> FakePricePoint list) list"
  sc_RepeatLast :: "bool option"

datatype fake_error = EmptyScenario | EmptySeriesKey | MalformedKey string | EmptySeries string
  | NoSeries string string | SeriesExhausted string | InjectedError string string string
  | ScenarioUnreadable string string | ScenarioUndecodable string

definition hasAnyValue :: "FakePricePoint \<Rightarrow> bool" where
  "hasAnyValue p \<longleftrightarrow> fp_CurrentPrice p \<noteq> None \<or> fp_OnDemandPrice p \<noteq> None \<or> fp_PriceHistory p \<noteq> None \<or>
     fp_Volatility p \<noteq> None \<or> fp_Error p \<noteq> []"

fun validate_series :: "(string \<times> FakePricePoint list) list \<Rightarrow> fake_error option" where
  "validate_series [] = None"
| "validate_series ((key, points) # series) =
     (let key = TrimSpace key in
      if key = [] then Some EmptySeriesKey
      else if \<not> str_Contains key '':'' then Some (MalformedKey key)
      else if points = [] then Some (EmptySeries key)
      else validate_series series)"

definition validateFakePriceScenario :: "FakePriceScenario \<Rightarrow> fake_error option" where
  "validateFakePriceScenario sc =
     (if \<not> hasAnyValue (sc_Default sc) \<and> length (sc_Series sc) = 0 then Some EmptyScenario
      else validate_series (sc_Series sc))"

definition mergeFakePricePoints :: "FakePricePoint \<Rightarrow> FakePricePoint \<Rightarrow> FakePricePoint" where
  "mergeFakePricePoints base override =
     (let out = base;
          out = (if fp_CurrentPrice override \<noteq> None then out\<lparr>fp_CurrentPrice := fp_CurrentPrice override\<rparr> else out);
          out = (if fp_OnDemandPrice override \<noteq> None then out\<lparr>fp_OnDemandPrice := fp_OnDemandPrice override\<rparr> else out);
          out = (if fp_PriceHistory override \<noteq> None then out\<lparr>fp_PriceHistory := fp_PriceHistory override\<rparr> else out);
          out = (if fp_Volatility override \<noteq> None then out\<lparr>fp_Volatility := fp_Volatility override\<rparr> else out)
      in (if fp_Error override \<noteq> [] then out\<lparr>fp_Error := fp_Error override\<rparr> else out))"

definition cloneHistory :: "f64 list option \<Rightarrow> f64 list" where
  "cloneHistory history = (case history of None \<Rightarrow> [] | Some h \<Rightarrow> h)"

definition derefFloat :: "f64 option \<Rightarrow> f64" where
  "derefFloat v = (case v of None \<Rightarrow> Fin 0 | Some x \<Rightarrow> x)"

section \<open>The provider\<close>

record FakePriceProvider =
  fk_scenario :: FakePriceScenario
  fk_repeatLast :: bool
  fk_cursors :: "string \<rightharpoonup> nat"

definition NewFakePriceProvider :: "FakePriceScenario \<Rightarrow> fake_error + FakePriceProvider" where
  "NewFakePriceProvider sc =
     (case validateFakePriceScenario sc of
        Some e \<Rightarrow> Inl e
      | None \<Rightarrow> Inr \<lparr>fk_scenario = sc,
          fk_repeatLast = (case sc_RepeatLast sc of None \<Rightarrow> True | Some b \<Rightarrow> b), fk_cursors = Map.empty\<rparr>)"

text \<open>Decoding the JSON text, unknown fields disallowed, is a parameter.\<close>

definition NewFakePriceProviderFromJSONBytes ::
  "(string \<Rightarrow> string + FakePriceScenario) \<Rightarrow> string \<Rightarrow> fake_error + FakePriceProvider" where
  "NewFakePriceProviderFromJSONBytes decode raw =
     (case decode raw of Inl e \<Rightarrow> Inl (ScenarioUndecodable e) | Inr sc \<Rightarrow> NewFakePriceProvider sc)"

definition NewFakePriceProviderFromJSON ::
  "(string \<Rightarrow> string + FakePriceScenario) \<Rightarrow> string \<Rightarrow> fake_error + FakePriceProvider" where
  "NewFakePriceProviderFromJSON decode raw = NewFakePriceProviderFromJSONBytes decode raw"

definition NewFakePriceProviderFromFile ::
  "(string \<Rightarrow> string + string) \<Rightarrow> (string \<Rightarrow> string + FakePriceScenario) \<Rightarrow> string \<Rightarrow> fake_error + FakePriceProvider" where
  "NewFakePriceProviderFromFile read decode path =
     (case read path of
        Inl e \<Rightarrow> Inl (ScenarioUnreadable path e)
      | Inr raw \<Rightarrow> NewFakePriceProviderFromJSONBytes decode raw)"

definition selectSeriesKey :: "FakePriceScenario \<Rightarrow> string \<Rightarrow> string \<Rightarrow> string option" where
  "selectSeriesKey sc instanceType zone =
     (let instanceType = TrimSpace instanceType;
          zone = TrimSpace zone;
          instanceType = (if instanceType = [] then ''*'' else instanceType);
          zone = (if zone = [] then ''*'' else zone)
      in find (\<lambda>key. map_of (sc_Series sc) key \<noteq> None)
           [instanceType @ '':'' @ zone, instanceType @ '':*'', ''*:'' @ zone, ''*:*''])"

definition nextStepLocked ::
  "FakePriceProvider \<Rightarrow> string \<Rightarrow> string \<Rightarrow> bool \<Rightarrow> (fake_error + FakePricePoint) \<times> FakePriceProvider" where
  "nextStepLocked f instanceType zone advance =
     (case selectSeriesKey (fk_scenario f) instanceType zone of
        None \<Rightarrow>
          if \<not> hasAnyValue (sc_Default (fk_scenario f)) then (Inl (NoSeries instanceType zone), f)
          else (Inr (sc_Default (fk_scenario f)), f)
      | Some seriesKey \<Rightarrow>
          let points = (case map_of (sc_Series (fk_scenario f)) seriesKey of None \<Rightarrow> [] | Some ps \<Rightarrow> ps) in
          if length points = 0 then (Inl (EmptySeries seriesKey), f)
          else
            let index = (case fk_cursors f seriesKey of None \<Rightarrow> 0 | Some i \<Rightarrow> i) in
            if index \<ge> length points \<and> \<not> fk_repeatLast f then (Inl (SeriesExhausted seriesKey), f)
            else
              let index = (if index \<ge> length points then length points - 1 else index);
                  f = (if advance \<and> index < length points - 1
                       then f\<lparr>fk_cursors := (fk_cursors f)(seriesKey \<mapsto> index + 1)\<rparr>
                       else if advance \<and> index = length points - 1 \<and> \<not> fk_repeatLast f
                       then f\<lparr>fk_cursors := (fk_cursors f)(seriesKey \<mapsto> length points)\<rparr>
                       else f)
              in (Inr (mergeFakePricePoints (sc_Default (fk_scenario f)) (points ! index)), f))"

definition point_data :: "string \<Rightarrow> string \<Rightarrow> FakePricePoint \<Rightarrow> fake_error + PriceData" where
  "point_data instanceType zone step =
     (if fp_Error step \<noteq> [] then Inl (InjectedError instanceType zone (fp_Error step))
      else Inr \<lparr>pd_CurrentPrice = derefFloat (fp_CurrentPrice step), pd_OnDemandPrice = derefFloat (fp_OnDemandPrice step),
                pd_PriceHistory = cloneHistory (fp_PriceHistory step), pd_Volatility = derefFloat (fp_Volatility step),
                pd_InstanceType = instanceType, pd_Zone = zone\<rparr>)"

definition resolveSpotPrice ::
  "FakePriceProvider \<Rightarrow> string \<Rightarrow> string \<Rightarrow> bool \<Rightarrow> (fake_error + PriceData) \<times> FakePriceProvider" where
  "resolveSpotPrice f instanceType zone advance =
     (case nextStepLocked f instanceType zone advance of
        (Inl e, f) \<Rightarrow> (Inl e, f)
      | (Inr step, f) \<Rightarrow> (point_data instanceType zone step, f))"

definition fake_GetSpotPrice ::
  "FakePriceProvider \<Rightarrow> string \<Rightarrow> string \<Rightarrow> (fake_error + PriceData) \<times> FakePriceProvider" where
  "fake_GetSpotPrice f instanceType zone = resolveSpotPrice f instanceType zone True"

definition fake_GetOnDemandPrice ::
  "FakePriceProvider \<Rightarrow> string \<Rightarrow> string \<Rightarrow> (fake_error + f64) \<times> FakePriceProvider" where
  "fake_GetOnDemandPrice f instanceType zone =
     (case resolveSpotPrice f instanceType zone False of
        (Inl e, f) \<Rightarrow> (Inl e, f)
      | (Inr data, f) \<Rightarrow> (Inr (pd_OnDemandPrice data), f))"

section \<open>The script as specification\<close>

text \<open>
  A history of calls. The specification has no cursor: what a call answers depends on how many
  Spot lookups before it resolved to the same series.
\<close>

datatype fake_call = SpotCall string string | OnDemandCall string string

datatype fake_answer = SpotAnswer "fake_error + PriceData" | OnDemandAnswer "fake_error + f64"

definition fake_step :: "FakePriceProvider \<Rightarrow> fake_call \<Rightarrow> fake_answer \<times> FakePriceProvider" where
  "fake_step f call =
     (case call of
        SpotCall i z \<Rightarrow> (case fake_GetSpotPrice f i z of (r, f) \<Rightarrow> (SpotAnswer r, f))
      | OnDemandCall i z \<Rightarrow> (case fake_GetOnDemandPrice f i z of (r, f) \<Rightarrow> (OnDemandAnswer r, f)))"

fun run_fake :: "FakePriceProvider \<Rightarrow> fake_call list \<Rightarrow> fake_answer list" where
  "run_fake f [] = []"
| "run_fake f (call # calls) = (case fake_step f call of (a, f') \<Rightarrow> a # run_fake f' calls)"

definition takes_from :: "FakePriceScenario \<Rightarrow> string \<Rightarrow> fake_call \<Rightarrow> bool" where
  "takes_from sc key call = (case call of SpotCall i z \<Rightarrow> selectSeriesKey sc i z = Some key | OnDemandCall i z \<Rightarrow> False)"

definition taken :: "FakePriceScenario \<Rightarrow> fake_call list \<Rightarrow> string \<Rightarrow> nat" where
  "taken sc history key = length (filter (takes_from sc key) history)"

definition script_point :: "FakePriceScenario \<Rightarrow> fake_call list \<Rightarrow> string \<Rightarrow> string \<Rightarrow> fake_error + FakePricePoint" where
  "script_point sc history i z =
     (case selectSeriesKey sc i z of
        None \<Rightarrow> if hasAnyValue (sc_Default sc) then Inr (sc_Default sc) else Inl (NoSeries i z)
      | Some key \<Rightarrow>
          let points = the (map_of (sc_Series sc) key); n = taken sc history key in
          if n < length points then Inr (mergeFakePricePoints (sc_Default sc) (points ! n))
          else if sc_RepeatLast sc = Some False then Inl (SeriesExhausted key)
          else Inr (mergeFakePricePoints (sc_Default sc) (last points)))"

definition script_answer :: "FakePriceScenario \<Rightarrow> fake_call list \<Rightarrow> fake_call \<Rightarrow> fake_answer" where
  "script_answer sc history call =
     (case call of
        SpotCall i z \<Rightarrow> SpotAnswer (case script_point sc history i z of Inl e \<Rightarrow> Inl e | Inr p \<Rightarrow> point_data i z p)
      | OnDemandCall i z \<Rightarrow> OnDemandAnswer (case script_point sc history i z of Inl e \<Rightarrow> Inl e
          | Inr p \<Rightarrow> map_sum id pd_OnDemandPrice (point_data i z p)))"

lemma validate_series_None:
  "validate_series series = None \<longleftrightarrow>
     (\<forall>(key, points) \<in> set series. TrimSpace key \<noteq> [] \<and> str_Contains (TrimSpace key) '':'' \<and> points \<noteq> [])"
  by (induction series rule: validate_series.induct) (auto simp: Let_def)

definition cursor_ok :: "FakePriceScenario \<Rightarrow> fake_call list \<Rightarrow> FakePriceProvider \<Rightarrow> bool" where
  "cursor_ok sc history f \<longleftrightarrow> fk_scenario f = sc \<and> fk_repeatLast f = (sc_RepeatLast sc \<noteq> Some False) \<and>
     (\<forall>key points. map_of (sc_Series sc) key = Some points \<longrightarrow>
        (case fk_cursors f key of None \<Rightarrow> 0 | Some i \<Rightarrow> i) =
          min (taken sc history key) (if fk_repeatLast f then length points - 1 else length points))"

definition scripts_ok :: "FakePriceScenario \<Rightarrow> bool" where
  "scripts_ok sc \<longleftrightarrow> (\<forall>key points. map_of (sc_Series sc) key = Some points \<longrightarrow> points \<noteq> [])"

lemma NewFakePriceProvider_ok:
  "NewFakePriceProvider sc = Inr f \<Longrightarrow> scripts_ok sc \<and> cursor_ok sc [] f"
  by (auto simp: NewFakePriceProvider_def validateFakePriceScenario_def scripts_ok_def cursor_ok_def taken_def validate_series_None
      split: option.splits if_splits dest!: map_of_SomeD)

lemma selectSeriesKey_Some: "selectSeriesKey sc i z = Some key \<Longrightarrow> \<exists>points. map_of (sc_Series sc) key = Some points"
  by (auto simp: selectSeriesKey_def Let_def find_Some_iff split: if_splits)

lemma taken_snoc: "taken sc (history @ [call]) key = taken sc history key + (if takes_from sc key call then 1 else 0)"
  by (simp add: taken_def)

definition cursor_of :: "FakePriceProvider \<Rightarrow> string \<Rightarrow> nat" where
  "cursor_of f key = (case fk_cursors f key of None \<Rightarrow> 0 | Some i \<Rightarrow> i)"

definition advanced :: "FakePriceProvider \<Rightarrow> string \<Rightarrow> nat \<Rightarrow> nat \<Rightarrow> FakePriceProvider" where
  "advanced f key len n =
     (if n < len - 1 then f\<lparr>fk_cursors := (fk_cursors f)(key \<mapsto> n + 1)\<rparr>
      else if n = len - 1 \<and> \<not> fk_repeatLast f then f\<lparr>fk_cursors := (fk_cursors f)(key \<mapsto> len)\<rparr>
      else f)"

lemma nextStepLocked_series:
  assumes "selectSeriesKey (fk_scenario f) i z = Some key" "map_of (sc_Series (fk_scenario f)) key = Some points" "points \<noteq> []"
    and "fk_repeatLast f \<Longrightarrow> cursor_of f key < length points" "n = cursor_of f key"
  shows "nextStepLocked f i z advance =
     (if n < length points
      then (Inr (mergeFakePricePoints (sc_Default (fk_scenario f)) (points ! n)),
            if advance then advanced f key (length points) n else f)
      else (Inl (SeriesExhausted key), f))"
proof (cases "n < length points")
  case True
  then have "\<not> n \<ge> length points" by simp
  then show ?thesis
    using assms True unfolding nextStepLocked_def advanced_def cursor_of_def [symmetric]
    by (cases advance) (simp_all add: Let_def)
next
  case False
  then show ?thesis using assms by (auto simp: nextStepLocked_def Let_def cursor_of_def [symmetric])
qed

lemma cursor_ok_keep: "cursor_ok sc h f \<Longrightarrow> (\<And>key. \<not> takes_from sc key call) \<Longrightarrow> cursor_ok sc (h @ [call]) f"
  by (simp add: cursor_ok_def taken_snoc)

lemma cursor_arith:
  "n = min t (if r then len - 1 else len) \<Longrightarrow> n < len \<Longrightarrow>
   (if n < len - 1 then n + 1 else if r then n else len) = min (t + 1) (if r then len - 1 else len)" for n :: nat
  by (cases r) (auto simp: min_def)

lemma exhausted_arith:
  "n = min t (if r then len - 1 else len) \<Longrightarrow> \<not> n < len \<Longrightarrow> 0 < len \<Longrightarrow> \<not> r \<and> len \<le> t" for n :: nat
  by (cases r) (auto simp: min_def split: if_splits)

lemma cursor_ok_advanced:
  assumes "cursor_ok sc h f" "selectSeriesKey sc i z = Some key" "map_of (sc_Series sc) key = Some points" "points \<noteq> []"
    and "cursor_of f key < length points"
  shows "cursor_ok sc (h @ [SpotCall i z]) (advanced f key (length points) (cursor_of f key))"
proof -
  let ?n = "cursor_of f key"
  have L: "0 < length points" using assms(4) by simp
  have cur: "?n = min (taken sc h key) (if fk_repeatLast f then length points - 1 else length points)"
    using assms(1,3) by (simp add: cursor_ok_def cursor_of_def)
  let ?f = "advanced f key (length points) ?n"
  have same: "fk_scenario ?f = fk_scenario f" "fk_repeatLast ?f = fk_repeatLast f" "key' \<noteq> key \<Longrightarrow> cursor_of ?f key' = cursor_of f key'" for key'
    by (simp_all add: advanced_def cursor_of_def)
  have new: "cursor_of ?f key = (if ?n < length points - 1 then ?n + 1 else if fk_repeatLast f then ?n else length points)"
    using assms(5) L by (auto simp: advanced_def cursor_of_def)
  have "cursor_of ?f key = min (taken sc h key + 1) (if fk_repeatLast f then length points - 1 else length points)"
    unfolding new by (rule cursor_arith [OF cur assms(5)])
  then show ?thesis
    using assms(1,2,3) same unfolding cursor_ok_def cursor_of_def [symmetric] taken_snoc takes_from_def by auto
qed

lemma cursor_ok_exhausted:
  assumes "cursor_ok sc h f" "selectSeriesKey sc i z = Some key" "map_of (sc_Series sc) key = Some points" "points \<noteq> []"
    and "\<not> cursor_of f key < length points"
  shows "cursor_ok sc (h @ [SpotCall i z]) f \<and> \<not> fk_repeatLast f \<and> length points \<le> taken sc h key"
proof -
  have L: "0 < length points" using assms(4) by simp
  have "cursor_of f key = min (taken sc h key) (if fk_repeatLast f then length points - 1 else length points)"
    using assms(1,3) by (simp add: cursor_ok_def cursor_of_def)
  from exhausted_arith [OF this assms(5) L] have "\<not> fk_repeatLast f \<and> length points \<le> taken sc h key" .
  then show ?thesis using assms(1,2,3) by (auto simp: cursor_ok_def taken_snoc takes_from_def)
qed

lemma nextStep_script:
  assumes "scripts_ok sc" "cursor_ok sc h f"
  shows "fst (nextStepLocked f i z advance) = script_point sc h i z \<and>
    cursor_ok sc (h @ [if advance then SpotCall i z else OnDemandCall i z]) (snd (nextStepLocked f i z advance))"
proof (cases "selectSeriesKey sc i z")
  case None
  have sc: "fk_scenario f = sc" using assms(2) by (simp add: cursor_ok_def)
  have "cursor_ok sc (h @ [if advance then SpotCall i z else OnDemandCall i z]) f"
    by (rule cursor_ok_keep [OF assms(2)]) (simp add: takes_from_def None)
  then show ?thesis using None sc by (simp add: nextStepLocked_def script_point_def)
next
  case (Some key)
  obtain points where points: "map_of (sc_Series sc) key = Some points" using selectSeriesKey_Some [OF Some] by blast
  then have ne: "points \<noteq> []" using assms(1) by (simp add: scripts_ok_def)
  have sc: "fk_scenario f = sc" and rep: "fk_repeatLast f = (sc_RepeatLast sc \<noteq> Some False)"
    and cur: "cursor_of f key = min (taken sc h key) (if fk_repeatLast f then length points - 1 else length points)"
    using assms(2) points by (simp_all add: cursor_ok_def cursor_of_def)
  have "fk_repeatLast f \<Longrightarrow> cursor_of f key < length points" using cur ne by (simp add: min_less_iff_disj)
  note step = nextStepLocked_series [OF Some [folded sc] points [folded sc] ne this refl, of advance]
  have keep: "cursor_ok sc (h @ [OnDemandCall i z]) f"
    by (rule cursor_ok_keep [OF assms(2)]) (simp add: takes_from_def)
  show ?thesis
  proof (cases "cursor_of f key < length points")
    case True
    have "script_point sc h i z = Inr (mergeFakePricePoints (sc_Default sc) (points ! cursor_of f key))"
    proof (cases "taken sc h key < length points")
      case inside: True
      then have "cursor_of f key = taken sc h key" using cur by (cases "fk_repeatLast f") auto
      then show ?thesis using inside Some points by (simp add: script_point_def)
    next
      case beyond: False
      then have "fk_repeatLast f" using True cur by (auto split: if_splits)
      moreover from this have "cursor_of f key = length points - 1" using beyond cur by simp
      ultimately show ?thesis using beyond rep Some points ne by (simp add: script_point_def last_conv_nth)
    qed
    then show ?thesis
      using step True cursor_ok_advanced [OF assms(2) Some points ne True] keep sc by (cases advance) simp_all
  next
    case False
    then show ?thesis
      using step cursor_ok_exhausted [OF assms(2) Some points ne False] keep rep Some points
      by (simp add: script_point_def)
  qed
qed

lemma resolve_script:
  assumes "scripts_ok sc" "cursor_ok sc h f"
  shows "fst (resolveSpotPrice f i z advance) = (case script_point sc h i z of Inl e \<Rightarrow> Inl e | Inr p \<Rightarrow> point_data i z p) \<and>
    cursor_ok sc (h @ [if advance then SpotCall i z else OnDemandCall i z]) (snd (resolveSpotPrice f i z advance))"
proof -
  obtain f' where "nextStepLocked f i z advance = (script_point sc h i z, f')"
    "cursor_ok sc (h @ [if advance then SpotCall i z else OnDemandCall i z]) f'"
    using nextStep_script [OF assms, of i z advance] by (metis prod.collapse)
  then show ?thesis by (cases "script_point sc h i z") (simp_all add: resolveSpotPrice_def)
qed

lemma fake_step_script:
  assumes "scripts_ok sc" "cursor_ok sc h f"
  shows "fst (fake_step f call) = script_answer sc h call \<and> cursor_ok sc (h @ [call]) (snd (fake_step f call))"
proof (cases call)
  case (SpotCall i z)
  then show ?thesis using resolve_script [OF assms, of i z True]
    by (auto simp: fake_step_def fake_GetSpotPrice_def script_answer_def split: prod.splits)
next
  case (OnDemandCall i z)
  let ?r = "case script_point sc h i z of Inl e \<Rightarrow> Inl e | Inr p \<Rightarrow> point_data i z p"
  obtain f' where f': "resolveSpotPrice f i z False = (?r, f')" "cursor_ok sc (h @ [OnDemandCall i z]) f'"
    using resolve_script [OF assms, of i z False] by (metis prod.collapse)
  have "script_answer sc h call = OnDemandAnswer (map_sum id pd_OnDemandPrice ?r)"
    using OnDemandCall by (simp add: script_answer_def split: sum.splits)
  moreover have "fake_step f call = (OnDemandAnswer (map_sum id pd_OnDemandPrice r), f')" if "?r = r" for r
    using OnDemandCall f'(1) unfolding that fake_step_def fake_GetOnDemandPrice_def by (cases r) simp_all
  ultimately show ?thesis using f'(2) OnDemandCall by simp
qed

lemma run_fake_script:
  "scripts_ok sc \<Longrightarrow> cursor_ok sc h f \<Longrightarrow>
   run_fake f calls = map (\<lambda>n. script_answer sc (h @ take n calls) (calls ! n)) [0..<length calls]"
proof (induction calls arbitrary: h f)
  case (Cons call calls)
  obtain a f' where step: "fake_step f call = (a, f')" by fastforce
  have "a = script_answer sc h call" "cursor_ok sc (h @ [call]) f'"
    using fake_step_script [OF Cons.prems, of call] step by simp_all
  then show ?case
    using step Cons.IH [OF Cons.prems(1), of "h @ [call]" f']
    by (simp add: upt_conv_Cons map_Suc_upt [symmetric] del: upt_Suc)
qed simp

text \<open>
  C25 (refinement). The scripted provider keeps cursors; the specification has none. For every
  sequence of lookups on a provider built from an accepted scenario, the answer to each lookup is
  what the script prescribes given the lookups before it: the series is the most specific of
  instance type and zone, instance type, zone, or the wild card; a Spot lookup takes the step
  whose number is how many Spot lookups took from that series before, whatever the other series
  and the on-demand lookups did in between; past the end it repeats the last step or reports the
  series exhausted, as the scenario says; an on-demand lookup sees the step the next Spot lookup
  would take.
\<close>

theorem fake_provider_follows_script:
  assumes "NewFakePriceProvider sc = Inr f"
  shows "run_fake f calls = map (\<lambda>n. script_answer sc (take n calls) (calls ! n)) [0..<length calls]"
  using run_fake_script [of sc "[]" f calls] NewFakePriceProvider_ok [OF assms] by simp

section \<open>Keys that are never found\<close>

text \<open>
  The check of a scenario trims the keys, the lookup does not: a key with white space before it is
  accepted and its series never used.
\<close>

lemma TrimSpace_first: "TrimSpace s \<noteq> [] \<Longrightarrow> \<not> is_space (hd (TrimSpace s))"
proof -
  let ?t = "dropWhile is_space s"
  assume ne: "TrimSpace s \<noteq> []"
  have t: "?t = TrimSpace s @ rev (takeWhile is_space (rev ?t))"
    unfolding TrimSpace_def by (metis rev_append rev_rev_ident takeWhile_dropWhile_id)
  then have "hd ?t = hd (TrimSpace s)" "?t \<noteq> []" using ne by (metis hd_append2, metis append_is_Nil_conv)
  then show ?thesis using hd_dropWhile [of is_space s] by simp
qed

lemma find_mem: "find P xs = Some x \<Longrightarrow> x \<in> set xs"
  by (induction xs) (auto split: if_splits)

lemma padded_key_unused:
  assumes "key = c # k" "is_space c"
  shows "selectSeriesKey sc i z \<noteq> Some key"
proof
  assume "selectSeriesKey sc i z = Some key"
  then have "key \<in> set [(if TrimSpace i = [] then ''*'' else TrimSpace i) @ '':'' @ (if TrimSpace z = [] then ''*'' else TrimSpace z),
      (if TrimSpace i = [] then ''*'' else TrimSpace i) @ '':*'', ''*:'' @ (if TrimSpace z = [] then ''*'' else TrimSpace z), ''*:*'']"
    unfolding selectSeriesKey_def Let_def by (rule find_mem)
  then obtain p rest where "key = p @ rest" "p \<noteq> []" "p = ''*'' \<or> p = TrimSpace i"
    by (cases "TrimSpace i = []") (auto intro: that [of "''*''"])
  then have "\<not> is_space (hd key)" using TrimSpace_first [of i] by (auto simp: is_space_def)
  then show False using assms by simp
qed

section \<open>A scenario\<close>

definition at_price :: "rat \<Rightarrow> FakePricePoint" where
  "at_price x = \<lparr>fp_CurrentPrice = Some (Fin x), fp_OnDemandPrice = None, fp_PriceHistory = None, fp_Volatility = None, fp_Error = []\<rparr>"

definition demo_scenario :: FakePriceScenario where
  "demo_scenario = \<lparr>sc_Default = \<lparr>fp_CurrentPrice = None, fp_OnDemandPrice = Some (Fin 3), fp_PriceHistory = Some [Fin 1],
     fp_Volatility = None, fp_Error = []\<rparr>,
     sc_Series = [(''m5.large:*'', [at_price 1, at_price 2])], sc_RepeatLast = Some False\<rparr>"

definition demo_calls :: "fake_call list" where
  "demo_calls = [SpotCall ''m5.large'' ''a'', OnDemandCall ''m5.large'' ''b'', SpotCall ''m5.large'' ''b'', SpotCall ''m5.large'' ''a'']"

definition demo_fake :: FakePriceProvider where
  "demo_fake = \<lparr>fk_scenario = demo_scenario, fk_repeatLast = False, fk_cursors = Map.empty\<rparr>"

lemma demo_accepted: "validateFakePriceScenario demo_scenario = None"
  by code_simp

definition demo_answer :: "nat \<Rightarrow> fake_answer" where
  "demo_answer n = script_answer demo_scenario (take n demo_calls) (demo_calls ! n)"

lemma demo_exhausted: "demo_answer 3 = SpotAnswer (Inl (SeriesExhausted ''m5.large:*''))"
  by code_simp

theorem fake_provider_follows_script_witness:
  "last (run_fake demo_fake demo_calls) = SpotAnswer (Inl (SeriesExhausted ''m5.large:*''))"
proof -
  have "NewFakePriceProvider demo_scenario = Inr demo_fake"
    by (simp add: NewFakePriceProvider_def demo_accepted demo_fake_def) (simp add: demo_scenario_def)
  from fake_provider_follows_script [OF this, of demo_calls]
  have "run_fake demo_fake demo_calls = map demo_answer [0..<length demo_calls]" by (simp add: demo_answer_def)
  moreover have "[0..<length demo_calls] = [0, 1, 2, 3]" by (simp add: demo_calls_def upt_rec)
  ultimately show ?thesis by (simp add: demo_exhausted)
qed

end
