(* ===== verification/Cloud_Detect.thy ===== *)
theory Cloud_Detect
  imports Cluster Float64
begin

text \<open>
  internal/cloudapi: which cloud the agent runs on (detect.go), and the dry-run wrapper around a
  cloud provider (wrapper.go, with the types of provider.go and the errors of errors.go). The
  environment variables and the metadata endpoints are parameters.
\<close>

section \<open>Detection\<close>

datatype CloudType = CloudTypeAWS | CloudTypeGCP | CloudTypeAzure | CloudTypeUnknown

definition awsIMDSEndpoint :: string where "awsIMDSEndpoint = ''http://169.254.169.254/latest/meta-data/''"
definition gcpIMDSEndpoint :: string where "gcpIMDSEndpoint = ''http://metadata.google.internal/computeMetadata/v1/''"
definition azureIMDSEndpoint :: string where "azureIMDSEndpoint = ''http://169.254.169.254/metadata/instance''"

text \<open>A probe is a GET of a URL with headers; \<open>None\<close> when no response arrives in time, else the status.\<close>

type_synonym probe = "string \<Rightarrow> (string \<times> string) list \<Rightarrow> int option"

definition detectFromEnv :: "(string \<Rightarrow> string) \<Rightarrow> CloudType" where
  "detectFromEnv env =
     (if env ''AWS_REGION'' \<noteq> [] \<or> env ''AWS_DEFAULT_REGION'' \<noteq> [] then CloudTypeAWS
      else if env ''AWS_EXECUTION_ENV'' \<noteq> [] then CloudTypeAWS
      else if env ''GOOGLE_CLOUD_PROJECT'' \<noteq> [] \<or> env ''GCP_PROJECT'' \<noteq> [] then CloudTypeGCP
      else if env ''GOOGLE_APPLICATION_CREDENTIALS'' \<noteq> [] then CloudTypeGCP
      else if env ''AZURE_SUBSCRIPTION_ID'' \<noteq> [] then CloudTypeAzure
      else if env ''AZURE_TENANT_ID'' \<noteq> [] then CloudTypeAzure
      else CloudTypeUnknown)"

definition checkAWSIMDS :: "probe \<Rightarrow> bool" where
  "checkAWSIMDS get \<longleftrightarrow> get awsIMDSEndpoint [] = Some 200"

definition checkGCPIMDS :: "probe \<Rightarrow> bool" where
  "checkGCPIMDS get \<longleftrightarrow> get (gcpIMDSEndpoint @ ''project/project-id'') [(''Metadata-Flavor'', ''Google'')] = Some 200"

definition checkAzureIMDS :: "probe \<Rightarrow> bool" where
  "checkAzureIMDS get \<longleftrightarrow> get (azureIMDSEndpoint @ ''?api-version=2021-02-01'') [(''Metadata'', ''true'')] = Some 200"

definition detectFromIMDS :: "probe \<Rightarrow> CloudType" where
  "detectFromIMDS get =
     (if checkGCPIMDS get then CloudTypeGCP
      else if checkAWSIMDS get then CloudTypeAWS
      else if checkAzureIMDS get then CloudTypeAzure
      else CloudTypeUnknown)"

definition DetectCloud :: "(string \<Rightarrow> string) \<Rightarrow> probe \<Rightarrow> CloudType" where
  "DetectCloud env get =
     (let cloud = detectFromEnv env in
      if cloud \<noteq> CloudTypeUnknown then cloud
      else let cloud = detectFromIMDS get in
           if cloud \<noteq> CloudTypeUnknown then cloud else CloudTypeUnknown)"

definition ends_1_to_3 :: "string \<Rightarrow> bool" where
  "ends_1_to_3 s \<longleftrightarrow> HasSuffix s ''1'' \<or> HasSuffix s ''2'' \<or> HasSuffix s ''3''"

definition DetectCloudFromNodeLabels :: "labels \<Rightarrow> CloudType" where
  "DetectCloudFromNodeLabels m =
     (let region = label_get m ''topology.kubernetes.io/region'';
          zone = label_get m ''topology.kubernetes.io/zone'' in
      if str_Contains zone ''-'' \<and> length (Split CHR ''-'' zone) = 3 \<and>
         (str_Contains region ''central'' \<or> str_Contains region ''west'' \<or> str_Contains region ''east'') \<and>
         ends_1_to_3 region
      then CloudTypeGCP
      else if zone \<noteq> [] \<and> (of_char CHR ''a'' :: nat) \<le> of_char (last zone) \<and> (of_char (last zone) :: nat) \<le> of_char CHR ''z'' \<and>
              ends_1_to_3 (butlast zone)
      then CloudTypeAWS
      else if length zone = 1 \<and> (of_char CHR ''1'' :: nat) \<le> of_char (hd zone) \<and> (of_char (hd zone) :: nat) \<le> of_char CHR ''3''
      then CloudTypeAzure
      else if m ''eks.amazonaws.com/nodegroup'' \<noteq> None then CloudTypeAWS
      else if m ''cloud.google.com/gke-nodepool'' \<noteq> None then CloudTypeGCP
      else if m ''kubernetes.azure.com/agentpool'' \<noteq> None then CloudTypeAzure
      else CloudTypeUnknown)"

lemma DetectCloud_env_first: "detectFromEnv env \<noteq> CloudTypeUnknown \<Longrightarrow> DetectCloud env get = detectFromEnv env"
  by (simp add: DetectCloud_def)

lemma DetectCloud_unknown:
  "DetectCloud env get = CloudTypeUnknown \<longleftrightarrow>
     detectFromEnv env = CloudTypeUnknown \<and> \<not> checkAWSIMDS get \<and> \<not> checkGCPIMDS get \<and> \<not> checkAzureIMDS get"
  by (auto simp: DetectCloud_def detectFromIMDS_def Let_def)

text \<open>
  A node in an availability zone of an ordinary AWS region is taken for a GCP node: region
  \<open>us-east-1\<close> ends in a digit, names a compass direction, and zone \<open>us-east-1a\<close> has three parts,
  so the first test fires before the AWS test is reached, and before the EKS label is looked at.
\<close>

lemma Split_snoc:
  "c \<noteq> x \<Longrightarrow> length (Split c (s @ [x])) = length (Split c s)"
proof (induction s)
  case (Cons y s)
  then show ?case by (auto split: list.splits)
qed simp

lemma Split_two: "length (Split c s) \<noteq> 1 \<Longrightarrow> c \<in> set s"
proof (induction s)
  case (Cons y s)
  then show ?case by (cases "Split c s") (auto split: if_splits)
qed simp

lemma str_Contains_single: "str_Contains s [c] \<longleftrightarrow> c \<in> set s"
  by (induction s) auto

lemma aws_zone_taken_for_gcp:
  assumes "m ''topology.kubernetes.io/region'' = Some region" "m ''topology.kubernetes.io/zone'' = Some (region @ [x])"
    and "x \<noteq> CHR ''-''" "length (Split CHR ''-'' region) = 3" "ends_1_to_3 region"
    and "str_Contains region ''central'' \<or> str_Contains region ''west'' \<or> str_Contains region ''east''"
  shows "DetectCloudFromNodeLabels m = CloudTypeGCP"
proof -
  have "length (Split CHR ''-'' (region @ [x])) = 3" using Split_snoc [of "CHR ''-''" x region] assms(3,4) by simp
  moreover from this have "str_Contains (region @ [x]) ''-''"
    using Split_two [of "CHR ''-''" "region @ [x]"] by (simp only: str_Contains_single)
  ultimately show ?thesis using assms(1,2,5,6) by (simp add: DetectCloudFromNodeLabels_def label_get_def Let_def)
qed

lemma us_east_1a_taken_for_gcp:
  "DetectCloudFromNodeLabels [''topology.kubernetes.io/region'' \<mapsto> ''us-east-1'', ''topology.kubernetes.io/zone'' \<mapsto> ''us-east-1a'',
     ''eks.amazonaws.com/nodegroup'' \<mapsto> ''ng''] = CloudTypeGCP"
  by (rule aws_zone_taken_for_gcp [of _ "''us-east-1''" "CHR ''a''"]) code_simp+

section \<open>The wrapper\<close>

record DrainRequest =
  dq_NodeID :: string
  dq_Zone :: string
  dq_GracePeriod :: int
  dq_Force :: bool

datatype cloud_error = ErrNoProvider | ErrDrainFailed | ErrProvisionFailed | ErrSpotUnavailable | CloudFailure string

record CloudDrainResult =
  cdr_NodeID :: string
  cdr_Success :: bool
  cdr_DryRun :: bool
  cdr_Duration :: int
  cdr_PodsEvicted :: int
  cdr_Error :: "cloud_error option"

record ProvisionRequest =
  pq_InstanceType :: string
  pq_Zone :: string
  pq_SpotPrice :: f64
  pq_FallbackToOnDemand :: bool

record ProvisionResult =
  pr_InstanceID :: string
  pr_InstanceType :: string
  pr_Zone :: string
  pr_IsSpot :: bool
  pr_DryRun :: bool
  pr_Error :: "cloud_error option"

record 'w CloudProvider =
  cp_Drain :: "'w \<Rightarrow> DrainRequest \<Rightarrow> (cloud_error + CloudDrainResult) \<times> 'w"
  cp_Provision :: "'w \<Rightarrow> ProvisionRequest \<Rightarrow> (cloud_error + ProvisionResult) \<times> 'w"
  cp_IsDryRun :: bool

record 'w SpotWrapper =
  sw_dryRun :: bool
  sw_provider :: "'w CloudProvider option"

definition NewSpotWrapper :: "bool \<Rightarrow> 'w CloudProvider option \<Rightarrow> 'w SpotWrapper" where
  "NewSpotWrapper dryRun provider = \<lparr>sw_dryRun = dryRun, sw_provider = provider\<rparr>"

text \<open>\<open>elapsed\<close> is the time between the two readings of the clock in a simulated drain.\<close>

definition SpotWrapper_Drain ::
  "'w SpotWrapper \<Rightarrow> int \<Rightarrow> 'w \<Rightarrow> DrainRequest \<Rightarrow> (cloud_error + CloudDrainResult) \<times> 'w" where
  "SpotWrapper_Drain sw elapsed w req =
     (if sw_dryRun sw then
        (Inr \<lparr>cdr_NodeID = dq_NodeID req, cdr_Success = True, cdr_DryRun = True, cdr_Duration = elapsed,
              cdr_PodsEvicted = 0, cdr_Error = None\<rparr>, w)
      else case sw_provider sw of None \<Rightarrow> (Inl ErrNoProvider, w) | Some p \<Rightarrow> cp_Drain p w req)"

definition SpotWrapper_Provision ::
  "'w SpotWrapper \<Rightarrow> 'w \<Rightarrow> ProvisionRequest \<Rightarrow> (cloud_error + ProvisionResult) \<times> 'w" where
  "SpotWrapper_Provision sw w req =
     (if sw_dryRun sw then
        (Inr \<lparr>pr_InstanceID = ''dry-run-instance-id'', pr_InstanceType = pq_InstanceType req, pr_Zone = pq_Zone req,
              pr_IsSpot = True, pr_DryRun = True, pr_Error = None\<rparr>, w)
      else case sw_provider sw of None \<Rightarrow> (Inl ErrNoProvider, w) | Some p \<Rightarrow> cp_Provision p w req)"

definition SpotWrapper_IsDryRun :: "'w SpotWrapper \<Rightarrow> bool" where
  "SpotWrapper_IsDryRun sw = sw_dryRun sw"

text \<open>The wrapper is a provider itself; wrapping it once more in dry-run mode still touches nothing.\<close>

definition as_provider :: "'w SpotWrapper \<Rightarrow> int \<Rightarrow> 'w CloudProvider" where
  "as_provider sw elapsed = \<lparr>cp_Drain = SpotWrapper_Drain sw elapsed, cp_Provision = SpotWrapper_Provision sw,
     cp_IsDryRun = SpotWrapper_IsDryRun sw\<rparr>"

definition touches_nothing :: "'w CloudProvider \<Rightarrow> bool" where
  "touches_nothing p \<longleftrightarrow> (\<forall>w req. snd (cp_Drain p w req) = w) \<and> (\<forall>w req. snd (cp_Provision p w req) = w)"

lemma dry_run_touches_nothing: "sw_dryRun sw \<Longrightarrow> touches_nothing (as_provider sw elapsed)"
  by (simp add: touches_nothing_def as_provider_def SpotWrapper_Drain_def SpotWrapper_Provision_def)

lemma no_provider_touches_nothing: "sw_provider sw = None \<Longrightarrow> touches_nothing (as_provider sw elapsed)"
  by (simp add: touches_nothing_def as_provider_def SpotWrapper_Drain_def SpotWrapper_Provision_def)

lemma wrapper_transparent:
  "\<not> sw_dryRun sw \<Longrightarrow> sw_provider sw = Some p \<Longrightarrow>
   SpotWrapper_Drain sw elapsed = cp_Drain p \<and> SpotWrapper_Provision sw = cp_Provision p"
  by (simp add: fun_eq_iff SpotWrapper_Drain_def SpotWrapper_Provision_def)

end
