(* ===== verification/Startup.thy ===== *)
theory Startup
  imports Engine Prices Fake_Prices Cloud_Detect AWS_ASG Node_Marks
begin

text \<open>
  How the agent is put together: the price providers behind their common interface
  (internal/cloudapi/factory.go), the choice of one at run time (cmd/agent/cmd/price_provider.go),
  the policy on synthetic modes (runtime_policy.go) and \<open>runAgent\<close> up to the start of the
  controller (run.go). Environment variables, files, metadata endpoints and the construction of
  SDK clients are parameters; an SDK constructor is the error it returns.
\<close>

section \<open>Price providers\<close>

datatype price_provider = AwsProvider aws_PriceClient | GcpProvider gcp_PriceClient | FakeProvider FakePriceProvider

datatype provider_error = AwsPriceError price_error | AwsOnDemandError on_demand_error | GcpPriceError string | FakePriceError fake_error

definition aws_data :: "aws_SpotPriceData \<Rightarrow> PriceData" where
  "aws_data d = \<lparr>pd_CurrentPrice = ap_CurrentPrice d, pd_OnDemandPrice = ap_OnDemandPrice d, pd_PriceHistory = ap_PriceHistory d,
     pd_Volatility = ap_Volatility d, pd_InstanceType = ap_InstanceType d, pd_Zone = ap_Zone d\<rparr>"

definition gcp_data :: "gcp_SpotPriceData \<Rightarrow> PriceData" where
  "gcp_data d = \<lparr>pd_CurrentPrice = gp_CurrentPrice d, pd_OnDemandPrice = gp_OnDemandPrice d, pd_PriceHistory = gp_PriceHistory d,
     pd_Volatility = gp_Volatility d, pd_InstanceType = gp_MachineType d, pd_Zone = gp_Zone d\<rparr>"

record 'w price_apis =
  pa_aws :: "'w aws_api"
  pa_gcp :: "'w gcp_api"

definition provider_GetSpotPrice ::
  "'w price_apis \<Rightarrow> 'w \<Rightarrow> clock \<Rightarrow> price_provider \<Rightarrow> string \<Rightarrow> string \<Rightarrow> (provider_error + PriceData) \<times> price_provider" where
  "provider_GetSpotPrice P w t p instanceType zone =
     (case p of
        AwsProvider c \<Rightarrow>
          (case GetSpotPrice (pa_aws P) w t c instanceType zone of
             (Inl e, c) \<Rightarrow> (Inl (AwsPriceError e), AwsProvider c)
           | (Inr d, c) \<Rightarrow> (Inr (aws_data d), AwsProvider c))
      | GcpProvider c \<Rightarrow>
          (case gcp_GetSpotPrice (pa_gcp P) w t c instanceType zone of
             (Inl e, c) \<Rightarrow> (Inl (GcpPriceError e), GcpProvider c)
           | (Inr d, c) \<Rightarrow> (Inr (gcp_data d), GcpProvider c))
      | FakeProvider f \<Rightarrow>
          (case fake_GetSpotPrice f instanceType zone of
             (Inl e, f) \<Rightarrow> (Inl (FakePriceError e), FakeProvider f)
           | (Inr d, f) \<Rightarrow> (Inr d, FakeProvider f)))"

definition provider_GetOnDemandPrice ::
  "'w price_apis \<Rightarrow> 'w \<Rightarrow> price_provider \<Rightarrow> string \<Rightarrow> string \<Rightarrow> (provider_error + f64) \<times> price_provider" where
  "provider_GetOnDemandPrice P w p instanceType zone =
     (case p of
        AwsProvider c \<Rightarrow>
          (case GetOnDemandPrice (pa_aws P) w c instanceType of
             (Inl e, c) \<Rightarrow> (Inl (AwsOnDemandError e), AwsProvider c)
           | (Inr price, c) \<Rightarrow> (Inr price, AwsProvider c))
      | GcpProvider c \<Rightarrow>
          (case gcp_GetOnDemandPrice (pa_gcp P) w c instanceType zone of
             (Inl e, c) \<Rightarrow> (Inl (GcpPriceError e), GcpProvider c)
           | (Inr price, c) \<Rightarrow> (Inr price, GcpProvider c))
      | FakeProvider f \<Rightarrow>
          (case fake_GetOnDemandPrice f instanceType zone of
             (Inl e, f) \<Rightarrow> (Inl (FakePriceError e), FakeProvider f)
           | (Inr price, f) \<Rightarrow> (Inr price, FakeProvider f)))"

definition getAWSRegion :: "(string \<Rightarrow> string) \<Rightarrow> string" where
  "getAWSRegion env =
     (if env ''AWS_REGION'' \<noteq> [] then env ''AWS_REGION''
      else if env ''AWS_DEFAULT_REGION'' \<noteq> [] then env ''AWS_DEFAULT_REGION''
      else ''us-east-1'')"

definition getGCPProject :: "(string \<Rightarrow> string) \<Rightarrow> string" where
  "getGCPProject env =
     (if env ''GOOGLE_CLOUD_PROJECT'' \<noteq> [] then env ''GOOGLE_CLOUD_PROJECT''
      else if env ''GCP_PROJECT'' \<noteq> [] then env ''GCP_PROJECT''
      else [])"

text \<open>What the process finds around it when it starts.\<close>

record surroundings =
  su_Getenv :: "string \<Rightarrow> string"
  su_probe :: probe
  su_awsConfig :: "string \<Rightarrow> string option"
  su_gcpClient :: "string option"
  su_ReadFile :: "string \<Rightarrow> string + string"
  su_decodeScenario :: "string \<Rightarrow> string + FakePriceScenario"

datatype provider_setup_error = OneFakeSourceOnly | FakeNeedsDryRun | FakeNeedsSuite | FakeFileFailed fake_error
  | FakeInlineFailed fake_error | AwsClientFailed string | GcpClientFailed string | UnsupportedCloud CloudType

definition NewAWSPriceProvider :: "surroundings \<Rightarrow> string \<Rightarrow> provider_setup_error + price_provider" where
  "NewAWSPriceProvider S region =
     (case NewPriceClient (su_awsConfig S region) region of
        Inl e \<Rightarrow> Inl (AwsClientFailed e)
      | Inr c \<Rightarrow> Inr (AwsProvider c))"

definition NewGCPPriceProvider :: "surroundings \<Rightarrow> string \<Rightarrow> provider_setup_error + price_provider" where
  "NewGCPPriceProvider S project =
     (case gcp_NewPriceClient (su_gcpClient S) project of
        Inl e \<Rightarrow> Inl (GcpClientFailed e)
      | Inr c \<Rightarrow> Inr (GcpProvider c))"

definition NewAutoDetectedPriceProvider :: "surroundings \<Rightarrow> (provider_setup_error + price_provider) \<times> CloudType" where
  "NewAutoDetectedPriceProvider S =
     (let cloud = DetectCloud (su_Getenv S) (su_probe S) in
      (case cloud of
         CloudTypeAWS \<Rightarrow>
           let region = getAWSRegion (su_Getenv S) in
           (case NewPriceClient (su_awsConfig S region) region of
              Inl e \<Rightarrow> Inl (AwsClientFailed e)
            | Inr c \<Rightarrow> Inr (AwsProvider c))
       | CloudTypeGCP \<Rightarrow>
           let project = getGCPProject (su_Getenv S) in
           (case gcp_NewPriceClient (su_gcpClient S) project of
              Inl e \<Rightarrow> Inl (GcpClientFailed e)
            | Inr c \<Rightarrow> Inr (GcpProvider c))
       | _ \<Rightarrow> Inl (UnsupportedCloud cloud),
       cloud))"

section \<open>The provider of a run\<close>

definition fakePriceProviderFileEnv :: string where "fakePriceProviderFileEnv = ''SPOTVORTEX_TEST_PRICE_PROVIDER_FILE''"
definition fakePriceProviderJSONEnv :: string where "fakePriceProviderJSONEnv = ''SPOTVORTEX_TEST_PRICE_PROVIDER_JSON''"
definition e2eSuiteEnvVar :: string where "e2eSuiteEnvVar = ''SPOTVORTEX_E2E_SUITE''"

definition awsRegionFromConfig :: "Config option \<Rightarrow> string" where
  "awsRegionFromConfig cfg =
     (case cfg of None \<Rightarrow> ''us-east-1''
      | Some cfg \<Rightarrow> if TrimSpace (aws_Region (cfg_AWS cfg)) \<noteq> [] then aws_Region (cfg_AWS cfg) else ''us-east-1'')"

record runtimePriceProvider =
  rp_provider :: price_provider
  rp_isFake :: bool

definition resolveRuntimePriceProvider ::
  "surroundings \<Rightarrow> Config option \<Rightarrow> bool \<Rightarrow> provider_setup_error + runtimePriceProvider" where
  "resolveRuntimePriceProvider S cfg dryRun =
     (let fakeFile = TrimSpace (su_Getenv S fakePriceProviderFileEnv);
          fakeJSON = TrimSpace (su_Getenv S fakePriceProviderJSONEnv) in
      if fakeFile \<noteq> [] \<and> fakeJSON \<noteq> [] then Inl OneFakeSourceOnly
      else if fakeFile \<noteq> [] \<or> fakeJSON \<noteq> [] then
        if \<not> dryRun then Inl FakeNeedsDryRun
        else if TrimSpace (su_Getenv S e2eSuiteEnvVar) = [] then Inl FakeNeedsSuite
        else if fakeFile \<noteq> [] then
          (case NewFakePriceProviderFromFile (su_ReadFile S) (su_decodeScenario S) fakeFile of
             Inl e \<Rightarrow> Inl (FakeFileFailed e)
           | Inr f \<Rightarrow> Inr \<lparr>rp_provider = FakeProvider f, rp_isFake = True\<rparr>)
        else
          (case NewFakePriceProviderFromJSON (su_decodeScenario S) fakeJSON of
             Inl e \<Rightarrow> Inl (FakeInlineFailed e)
           | Inr f \<Rightarrow> Inr \<lparr>rp_provider = FakeProvider f, rp_isFake = True\<rparr>)
      else
        (case fst (NewAutoDetectedPriceProvider S) of
           Inr p \<Rightarrow> Inr \<lparr>rp_provider = p, rp_isFake = False\<rparr>
         | Inl _ \<Rightarrow>
             (case NewAWSPriceProvider S (awsRegionFromConfig cfg) of
                Inl e \<Rightarrow> Inl e
              | Inr p \<Rightarrow> Inr \<lparr>rp_provider = p, rp_isFake = False\<rparr>)))"

datatype synthetic_error = SyntheticPriceMode string | SyntheticMetricsMode string

definition validateSyntheticModePolicy :: "bool \<Rightarrow> bool \<Rightarrow> bool \<Rightarrow> string \<Rightarrow> string \<Rightarrow> synthetic_error option" where
  "validateSyntheticModePolicy isDryRun useSyntheticMetrics useSyntheticPrices metricsMode priceMode =
     (if useSyntheticPrices then Some (SyntheticPriceMode priceMode)
      else if useSyntheticMetrics \<and> \<not> isDryRun then Some (SyntheticMetricsMode metricsMode)
      else None)"

section \<open>Starting the agent\<close>

record 'w startup = surroundings +
  su_readConfig :: "string \<Rightarrow> string option"
  su_decodeConfig :: "string \<Rightarrow> Config option"
  su_InClusterConfig :: "string option"
  su_BuildConfigFromFlags :: "string \<Rightarrow> string option"
  su_k8s :: "string + 'w k8s"
  su_dynamic :: "string option \<times> 'w dyn option"
  su_marks :: "'w mark_api"
  su_promClient :: "string \<Rightarrow> string option"
  su_ort :: ort
  su_mathlib :: mathlib
  su_govaluate :: govaluate
  su_files :: "string model_files"
  su_LookupEnv :: "string \<rightharpoonup> string"
  su_prices :: "'w price_apis"
  su_autoscaling :: "'w autoscaling"

datatype startup_error = ConfigFailed config_error | PolicyRefused synthetic_error | KubeConfigFailed string | KubeClientFailed string
  | KarpenterVersionFailed version_error | PrometheusURLMissing | PrometheusFailed string | EngineFailed engine_error
  | PriceProviderFailed provider_setup_error | CanaryPanic | ASGClientFailed string | ControllerFailed new_error

record 'w started =
  st_cfg :: Config
  st_controller :: "'w Controller"
  st_engine :: InferenceEngine
  st_prices :: runtimePriceProvider

definition config_path :: "string \<Rightarrow> string" where
  "config_path cfgFile = (if cfgFile = [] then ''config/default.yaml'' else cfgFile)"

definition kube_config :: "'w startup \<Rightarrow> string option" where
  "kube_config E =
     (case su_InClusterConfig E of
        None \<Rightarrow> None
      | Some _ \<Rightarrow>
          let kubeconfig = su_Getenv E ''KUBECONFIG'';
              kubeconfig = (if kubeconfig = [] then su_Getenv E ''HOME'' @ ''/.kube/config'' else kubeconfig)
          in su_BuildConfigFromFlags E kubeconfig)"

text \<open>
  The dynamic client, only with Karpenter. \<open>su_dynamic\<close> is the error of \<open>dynamic.NewForConfig\<close> with
  the value it returns: the error is only logged and the value is kept whatever it is.
\<close>

definition karpenter_client :: "'w startup \<Rightarrow> 'w \<Rightarrow> Config \<Rightarrow> startup_error + 'w dyn option" where
  "karpenter_client E w cfg =
     (if kc_Enabled (cfg_Karpenter cfg) then
        let (err, dynamicClient) = su_dynamic E in
        (case ValidateKarpenterVersion (su_marks E) w of
           Some e \<Rightarrow> Inl (KarpenterVersionFailed e)
         | None \<Rightarrow> Inr dynamicClient)
      else Inr None)"

definition NewClient :: "(string \<Rightarrow> string option) \<Rightarrow> string \<Rightarrow> startup_error option" where
  "NewClient connect url =
     (if url = [] then Some PrometheusURLMissing
      else case connect url of Some e \<Rightarrow> Some (PrometheusFailed e) | None \<Rightarrow> None)"

definition engine_config :: "Config \<Rightarrow> EngineConfig" where
  "engine_config cfg = \<lparr>ec_TFTModelPath = TFTModelPath (cfg_Inference cfg), ec_RLModelPath = RLModelPath (cfg_Inference cfg),
     ec_PySRCalibrationPath = [], ec_PySRFusionPath = [], ec_ModelManifestPath = ModelManifestPath (cfg_Inference cfg),
     ec_ExpectedCloud = ExpectedCloud (cfg_Inference cfg), ec_RequireModelContract = True\<rparr>"

text \<open>The IAM canary: one lookup on a real provider, its error only logged, a panic fatal (\<open>None\<close>).\<close>

definition canary :: "'w startup \<Rightarrow> 'w \<Rightarrow> clock \<Rightarrow> Config \<Rightarrow> runtimePriceProvider \<Rightarrow> runtimePriceProvider option" where
  "canary E w t cfg sel =
     (if rp_isFake sel then Some sel
      else
        let canaryAZ = (case AvailabilityZones (cfg_AWS cfg) of [] \<Rightarrow> aws_Region (cfg_AWS cfg) @ ''a'' | az # _ \<Rightarrow> az) in
        (case provider_GetSpotPrice (su_prices E) w t (rp_provider sel) ''m5.large'' canaryAZ of
           (Inl (AwsPriceError HistoryPanic), _) \<Rightarrow> None
         | (_, p) \<Rightarrow> Some (sel\<lparr>rp_provider := p\<rparr>)))"

definition asg_client_of :: "'w startup \<Rightarrow> Config \<Rightarrow> startup_error + 'w asg_client option" where
  "asg_client_of E cfg =
     (if as_Enabled (cfg_Autoscaling cfg) then
        (case NewAWSASGClient (su_awsConfig E (aws_Region (cfg_AWS cfg))) (tag_Pool (DiscoveryTags (cfg_Autoscaling cfg)))
            (tag_CapacityType (DiscoveryTags (cfg_Autoscaling cfg))) of
           Inl e \<Rightarrow> Inl (ASGClientFailed e)
         | Inr c \<Rightarrow> Inr (Some (aws_asg_client (su_autoscaling E) c)))
      else Inr None)"

definition controller_config :: "Config \<Rightarrow> bool \<Rightarrow> 'w k8s \<Rightarrow> 'w dyn option \<Rightarrow> 'w asg_client option \<Rightarrow> 'w Config_in" where
  "controller_config cfg dryRun K dyn asg = \<lparr>in_Prometheus = True, in_Inference = True,
     in_Cloud = Some (SpotWrapper_IsDryRun (NewSpotWrapper dryRun (None :: 'w CloudProvider option))),
     in_PriceProvider = True, in_K8sClient = Some K, in_DynamicClient = dyn,
     in_RiskThreshold = cc_RiskThreshold (cfg_Controller cfg), in_MaxDrainRatio = cc_MaxDrainRatio (cfg_Controller cfg),
     in_ReconcileInterval = ReconcileInterval (cfg_Controller cfg),
     in_ConfidenceThreshold = cc_ConfidenceThreshold (cfg_Controller cfg),
     in_DrainGracePeriodSeconds = 0, in_Karpenter = cfg_Karpenter cfg, in_Autoscaling = cfg_Autoscaling cfg,
     in_ASGClient = asg\<rparr>"

definition runAgent :: "'w startup \<Rightarrow> 'w \<Rightarrow> clock \<Rightarrow> bool \<Rightarrow> string \<Rightarrow> startup_error + 'w started" where
  "runAgent E w t dryRun cfgFile =
     (case Load (su_readConfig E) (su_decodeConfig E) (config_path cfgFile) of
        Inl e \<Rightarrow> Inl (ConfigFailed e)
      | Inr cfg \<Rightarrow>
      let metricsMode = su_Getenv E ''SPOTVORTEX_METRICS_MODE''; priceMode = su_Getenv E ''SPOTVORTEX_PRICE_MODE'' in
      (case validateSyntheticModePolicy dryRun (EqualFold metricsMode ''synthetic'') (EqualFold priceMode ''synthetic'')
             metricsMode priceMode of
        Some e \<Rightarrow> Inl (PolicyRefused e)
      | None \<Rightarrow>
      (case kube_config E of
        Some e \<Rightarrow> Inl (KubeConfigFailed e)
      | None \<Rightarrow>
      (case su_k8s E of
        Inl e \<Rightarrow> Inl (KubeClientFailed e)
      | Inr K \<Rightarrow>
      (case karpenter_client E w cfg of
        Inl e \<Rightarrow> Inl e
      | Inr dyn \<Rightarrow>
      (case NewClient (su_promClient E) (prom_URL (cfg_Prometheus cfg)) of
        Some e \<Rightarrow> Inl e
      | None \<Rightarrow>
      (case NewInferenceEngine (su_ort E) (su_mathlib E) (su_govaluate E) (su_files E) (su_LookupEnv E) (engine_config cfg) of
        Inl e \<Rightarrow> Inl (EngineFailed e)
      | Inr engine \<Rightarrow>
      (case resolveRuntimePriceProvider (surroundings.truncate E) (Some cfg) dryRun of
        Inl e \<Rightarrow> Inl (PriceProviderFailed e)
      | Inr sel \<Rightarrow>
      (case canary E w t cfg sel of
        None \<Rightarrow> Inl CanaryPanic
      | Some sel \<Rightarrow>
      (case asg_client_of E cfg of
        Inl e \<Rightarrow> Inl e
      | Inr asg \<Rightarrow>
      (case New priceMode metricsMode (controller_config cfg dryRun K dyn asg) of
        Inl e \<Rightarrow> Inl (ControllerFailed e)
      | Inr c \<Rightarrow> Inr \<lparr>st_cfg = cfg, st_controller = c, st_engine = engine, st_prices = sel\<rparr>)))))))))))"

section \<open>Prices the agent can rely on\<close>

fun is_fake :: "price_provider \<Rightarrow> bool" where
  "is_fake (FakeProvider f) = True"
| "is_fake _ = False"

fun provider_ok :: "price_provider \<Rightarrow> bool" where
  "provider_ok (AwsProvider c) = aws_cache_ok c"
| "provider_ok (GcpProvider c) = gcp_cache_ok c"
| "provider_ok (FakeProvider f) = True"

definition history_ok :: "PriceData \<Rightarrow> bool" where
  "history_ok d \<longleftrightarrow> length (pd_PriceHistory d) = HistorySteps \<and> pd_CurrentPrice d = last (pd_PriceHistory d) \<and>
     pd_Volatility d = calculateStdDev (pd_PriceHistory d)"

lemma aws_answer_ok:
  assumes "aws_cache_ok c" "GetSpotPrice api w t c i z = (r, c')"
  shows "aws_cache_ok c' \<and> (\<forall>d. r = Inr d \<longrightarrow> history_ok (aws_data d))"
proof -
  have ok: "aws_cache_ok c'"
    using assms by (auto simp: GetSpotPrice_def dest: fetch_aws_ok split: option.splits if_splits)
  have "aws_entry_ok c' (cache_key i z) d" if "r = Inr d" for d
    using ok aws.stores [of api "(w, t)" c i z d c'] assms(2) that by (simp add: aws_cache_ok_def)
  then show ?thesis using ok by (auto simp: aws_entry_ok_def history_ok_def aws_data_def)
qed

lemma gcp_answer_ok:
  assumes "gcp_cache_ok c" "machines_ok api w" "gcp_GetSpotPrice api w t c i z = (r, c')"
  shows "gcp_cache_ok c' \<and> (\<forall>d. r = Inr d \<longrightarrow> history_ok (gcp_data d))"
proof -
  have ok: "gcp_cache_ok c'"
    using assms by (auto simp: gcp_GetSpotPrice_def dest: fetch_gcp_ok split: option.splits if_splits)
  have "gcp_entry_ok (cache_key i z) d" if "r = Inr d" for d
    using ok gcp.stores [of api "(w, t)" c i z d c'] assms(3) that by (simp add: gcp_cache_ok_def)
  then show ?thesis using ok by (auto simp: gcp_entry_ok_def history_ok_def gcp_data_def)
qed

lemma provider_answer_ok:
  assumes "provider_ok p" "machines_ok (pa_gcp P) w" "provider_GetSpotPrice P w t p i z = (r, p')"
  shows "provider_ok p' \<and> is_fake p' = is_fake p \<and> (\<forall>d. r = Inr d \<and> \<not> is_fake p \<longrightarrow> history_ok d)"
proof (cases p)
  case (AwsProvider c)
  obtain r1 c1 where "GetSpotPrice (pa_aws P) w t c i z = (r1, c1)" by fastforce
  then show ?thesis using aws_answer_ok [of c "pa_aws P" w t i z r1 c1] assms AwsProvider
    by (cases r1) (auto simp: provider_GetSpotPrice_def)
next
  case (GcpProvider c)
  obtain r1 c1 where "gcp_GetSpotPrice (pa_gcp P) w t c i z = (r1, c1)" by fastforce
  then show ?thesis using gcp_answer_ok [of c "pa_gcp P" w t i z r1 c1] assms GcpProvider
    by (cases r1) (auto simp: provider_GetSpotPrice_def)
next
  case (FakeProvider f)
  obtain r1 f1 where "fake_GetSpotPrice f i z = (r1, f1)" by fastforce
  then show ?thesis using assms FakeProvider by (cases r1) (auto simp: provider_GetSpotPrice_def)
qed

lemma NewAWSPriceProvider_ok: "NewAWSPriceProvider S region = Inr p \<Longrightarrow> provider_ok p \<and> \<not> is_fake p"
  by (auto simp: NewAWSPriceProvider_def NewPriceClient_def aws_cache_ok_def split: option.splits)

lemma NewAutoDetected_ok: "fst (NewAutoDetectedPriceProvider S) = Inr p \<Longrightarrow> provider_ok p \<and> \<not> is_fake p"
  by (auto simp: NewAutoDetectedPriceProvider_def NewPriceClient_def gcp_NewPriceClient_def aws_cache_ok_def gcp_cache_ok_def Let_def
      split: option.splits CloudType.splits)

lemma resolve_ok:
  assumes "resolveRuntimePriceProvider S cfg dry = Inr sel"
  shows "provider_ok (rp_provider sel) \<and> is_fake (rp_provider sel) = rp_isFake sel \<and>
    (rp_isFake sel \<longrightarrow> dry \<and> TrimSpace (su_Getenv S e2eSuiteEnvVar) \<noteq> [])"
  using assms unfolding resolveRuntimePriceProvider_def Let_def
  by (auto split: if_splits sum.splits dest!: NewAWSPriceProvider_ok NewAutoDetected_ok)

definition env_given :: "surroundings \<Rightarrow> string \<Rightarrow> bool" where
  "env_given S v \<longleftrightarrow> TrimSpace (su_Getenv S v) \<noteq> []"

definition script_given :: "surroundings \<Rightarrow> bool" where
  "script_given S \<longleftrightarrow> env_given S fakePriceProviderFileEnv \<or> env_given S fakePriceProviderJSONEnv"

text \<open>
  The scripted prices of the test harness never reach a live run: when the provider of
  a run is resolved it is the scripted one only in dry-run mode and with the test suite's variable
  set, and only when exactly one of the two script sources is given; with a script source given
  and dry-run off, resolving fails; without one the provider is a real one.
\<close>

theorem resolve_fake_guarded:
  "case resolveRuntimePriceProvider S cfg dry of
      Inr sel \<Rightarrow> is_fake (rp_provider sel) = rp_isFake sel \<and> rp_isFake sel = script_given S \<and>
        (rp_isFake sel \<longrightarrow> dry \<and> env_given S e2eSuiteEnvVar \<and>
           env_given S fakePriceProviderFileEnv \<noteq> env_given S fakePriceProviderJSONEnv)
    | Inl e \<Rightarrow> script_given S \<or>
        (\<exists>e. fst (NewAutoDetectedPriceProvider S) = Inl e) \<and> (\<exists>e. NewAWSPriceProvider S (awsRegionFromConfig cfg) = Inl e)"
  unfolding resolveRuntimePriceProvider_def Let_def script_given_def env_given_def
  by (auto split: if_splits sum.splits dest!: NewAWSPriceProvider_ok NewAutoDetected_ok)

section \<open>What a started agent is\<close>

lemma engine_contract:
  "NewInferenceEngine rt ml gov fs env cfg = Inr e \<Longrightarrow> ec_RequireModelContract cfg \<Longrightarrow>
   e_scope e \<noteq> None \<and> VerifyManifestArtifacts fs (engine_manifest_path cfg) [ec_TFTModelPath cfg, ec_RLModelPath cfg] = None"
  by (auto simp: NewInferenceEngine_def check_scope_def Let_def split: sum.splits option.splits if_splits)

lemma runAgent_stages:
  assumes "runAgent E w t dryRun cfgFile = Inr st"
  obtains K dyn sel asg where
    "Load (su_readConfig E) (su_decodeConfig E) (config_path cfgFile) = Inr (st_cfg st)"
    "validateSyntheticModePolicy dryRun (EqualFold (su_Getenv E ''SPOTVORTEX_METRICS_MODE'') ''synthetic'')
       (EqualFold (su_Getenv E ''SPOTVORTEX_PRICE_MODE'') ''synthetic'')
       (su_Getenv E ''SPOTVORTEX_METRICS_MODE'') (su_Getenv E ''SPOTVORTEX_PRICE_MODE'') = None"
    "karpenter_client E w (st_cfg st) = Inr dyn"
    "NewInferenceEngine (su_ort E) (su_mathlib E) (su_govaluate E) (su_files E) (su_LookupEnv E) (engine_config (st_cfg st)) = Inr (st_engine st)"
    "resolveRuntimePriceProvider (surroundings.truncate E) (Some (st_cfg st)) dryRun = Inr sel"
    "canary E w t (st_cfg st) sel = Some (st_prices st)"
    "New (su_Getenv E ''SPOTVORTEX_PRICE_MODE'') (su_Getenv E ''SPOTVORTEX_METRICS_MODE'')
       (controller_config (st_cfg st) dryRun K dyn asg) = Inr (st_controller st)"
  using assms unfolding runAgent_def Let_def
  by (auto split: sum.splits option.splits)

lemma New_clients:
  "New priceMode metricsMode cfg = Inr c \<Longrightarrow> c_k8s c = in_K8sClient cfg \<and>
   (in_K8sClient cfg \<noteq> None \<longrightarrow> c_drain c = Some \<lparr>GracePeriodSeconds = in_DrainGracePeriodSeconds cfg,
      dc_DryRun = c_dryRun c, IgnoreDaemonSets = True, Force = False\<rparr>)"
  by (auto simp: New_def Let_def split: if_splits option.splits)

lemma controller_config_fields:
  "in_K8sClient (controller_config cfg dryRun K dyn asg) = Some K"
  "in_Cloud (controller_config cfg dryRun K dyn asg) = Some dryRun"
  "in_DrainGracePeriodSeconds (controller_config cfg dryRun K dyn asg) = 0"
  by (simp_all add: controller_config_def SpotWrapper_IsDryRun_def NewSpotWrapper_def)

lemma canary_ok:
  assumes "canary E w t cfg sel = Some sel'"
  shows "rp_isFake sel' = rp_isFake sel \<and> is_fake (rp_provider sel') = is_fake (rp_provider sel)"
proof -
  have same: "is_fake (snd (provider_GetSpotPrice P w t p i z)) = is_fake p" for P p i z
    by (cases p) (auto simp: provider_GetSpotPrice_def split: sum.splits prod.splits)
  then show ?thesis
    using assms by (auto simp: canary_def Let_def split: if_splits list.splits prod.splits sum.splits provider_error.splits price_error.splits)
      (metis snd_conv same)+
qed

text \<open>
  C11 (safety). An agent that starts has passed every gate. Its configuration is well formed; its
  controller is in dry-run mode exactly when the flag says so, holds a client of the cluster, has
  valid (empty) pool state and is not running yet; scripted prices and synthetic metrics occur in
  dry-run mode only; with Karpenter enabled the cluster serves the v1 NodePool API; the model
  contract is present and both model files match the checksums of the manifest.
\<close>

theorem runAgent_gated:
  assumes "runAgent E w t dryRun cfgFile = Inr st"
  shows "wf_config (st_cfg st) \<and> c_dryRun (st_controller st) = dryRun \<and> c_k8s (st_controller st) \<noteq> None \<and>
    ratios_ok (st_controller st) \<and> wf_router (c_capacityRouter (st_controller st)) \<and> \<not> c_running (st_controller st) \<and>
    (c_useSyntheticMetrics (st_controller st) \<or> is_fake (rp_provider (st_prices st)) \<longrightarrow> dryRun) \<and>
    (kc_Enabled (cfg_Karpenter (st_cfg st)) \<longrightarrow> mk_probe (su_marks E) w v1_path) \<and>
    e_scope (st_engine st) \<noteq> None \<and>
    VerifyManifestArtifacts (su_files E) (engine_manifest_path (engine_config (st_cfg st)))
      [TFTModelPath (cfg_Inference (st_cfg st)), RLModelPath (cfg_Inference (st_cfg st))] = None"
  using assms
proof (rule runAgent_stages)
  fix K dyn sel asg
  assume load: "Load (su_readConfig E) (su_decodeConfig E) (config_path cfgFile) = Inr (st_cfg st)"
    and kc: "karpenter_client E w (st_cfg st) = Inr dyn"
    and eng: "NewInferenceEngine (su_ort E) (su_mathlib E) (su_govaluate E) (su_files E) (su_LookupEnv E)
      (engine_config (st_cfg st)) = Inr (st_engine st)"
    and res: "resolveRuntimePriceProvider (surroundings.truncate E) (Some (st_cfg st)) dryRun = Inr sel"
    and can: "canary E w t (st_cfg st) sel = Some (st_prices st)"
    and new: "New (su_Getenv E ''SPOTVORTEX_PRICE_MODE'') (su_Getenv E ''SPOTVORTEX_METRICS_MODE'')
       (controller_config (st_cfg st) dryRun K dyn asg) = Inr (st_controller st)"
  have "wf_config (st_cfg st)" using Load_wf [OF load] by simp
  moreover have "kc_Enabled (cfg_Karpenter (st_cfg st)) \<longrightarrow> mk_probe (su_marks E) w v1_path"
    using kc by (auto simp: karpenter_client_def ValidateKarpenterVersion_def validateVersionFromDetection_def
        DetectKarpenterVersion_def split: option.splits if_splits)
  moreover have "is_fake (rp_provider (st_prices st)) \<longrightarrow> dryRun"
    using resolve_ok [OF res] canary_ok [OF can] by simp
  moreover have "c_k8s (st_controller st) \<noteq> None"
    using New_clients [OF new] by (simp add: controller_config_fields)
  moreover have "e_scope (st_engine st) \<noteq> None \<and> VerifyManifestArtifacts (su_files E) (engine_manifest_path (engine_config (st_cfg st)))
      [TFTModelPath (cfg_Inference (st_cfg st)), RLModelPath (cfg_Inference (st_cfg st))] = None"
    using engine_contract [OF eng] by (simp add: engine_config_def)
  ultimately show ?thesis using New_safe [OF new] by (auto simp: controller_config_fields)
qed

text \<open>
  C34 (error). The configured grace period of drains never reaches the drainer: whatever
  \<open>drainGracePeriodSeconds\<close> the configuration sets, \<open>runAgent\<close> leaves the controller's field at its
  zero value, so every eviction of a started agent asks for a grace period of zero seconds.
\<close>

theorem drain_grace_period_unset:
  assumes "runAgent E w t dryRun cfgFile = Inr st"
  shows "c_drain (st_controller st) =
    Some \<lparr>GracePeriodSeconds = 0, dc_DryRun = dryRun, IgnoreDaemonSets = True, Force = False\<rparr>"
  using assms
proof (rule runAgent_stages)
  fix K dyn sel asg
  assume new: "New (su_Getenv E ''SPOTVORTEX_PRICE_MODE'') (su_Getenv E ''SPOTVORTEX_METRICS_MODE'')
       (controller_config (st_cfg st) dryRun K dyn asg) = Inr (st_controller st)"
  then show ?thesis using New_clients [OF new] New_safe [OF new] by (simp add: controller_config_fields)
qed

section \<open>A live start\<close>

definition demo_config :: "bool \<Rightarrow> Config" where
  "demo_config k = example_yaml\<lparr>cfg_Inference := \<lparr>TFTModelPath = ''models/tft.onnx'', RLModelPath = ''models/tft.onnx'',
     ModelManifestPath = ''models/M.json'', ExpectedCloud = ''Aws''\<rparr>,
     cfg_Karpenter := (cfg_Karpenter example_yaml)\<lparr>kc_Enabled := k\<rparr>\<rparr>"

definition demo_startup :: "bool \<Rightarrow> unit startup" where
  "demo_startup k = \<lparr>su_Getenv = (\<lambda>v. if v = ''AWS_REGION'' then ''us-east-1'' else []), su_probe = (\<lambda>_ _. None),
     su_awsConfig = (\<lambda>_. None), su_gcpClient = Some ''no credentials'', su_ReadFile = (\<lambda>_. Inl ''not found''),
     su_decodeScenario = (\<lambda>_. Inl ''bad json''), su_readConfig = (\<lambda>_. Some []), su_decodeConfig = (\<lambda>_. Some (demo_config k)),
     su_InClusterConfig = None, su_BuildConfigFromFlags = (\<lambda>_. Some ''no file''),
     su_k8s = Inr \<lparr>k_getNode = (\<lambda>_ _. Inl NotFound), k_listNodes = (\<lambda>_. Inr []), k_listPodsOnNode = (\<lambda>_ _. Inr []),
       k_listPDBs = (\<lambda>_ _. Inr []), k_updateNode = (\<lambda>w _. (None, w)), k_evict = (\<lambda>w _ _ _. (None, w))\<rparr>,
     su_dynamic = (Some ''unavailable'', None),
     su_marks = \<lparr>mk_get = (\<lambda>_ _. Inl NotFound), mk_update = (\<lambda>w _. (None, w)), mk_probe = (\<lambda>_ _. True)\<rparr>,
     su_promClient = (\<lambda>_. None), su_ort = example_loader, su_mathlib = example_math, su_govaluate = (\<lambda>_ _. None),
     su_files = example_bundle, su_LookupEnv = Map.empty,
     su_prices = \<lparr>pa_aws = demo_aws, pa_gcp = demo_gcp\<rparr>, su_autoscaling = demo_service\<rparr>"

lemma demo_starts:
  "\<exists>st. runAgent (demo_startup k) () demo_clock d [] = Inr st \<and> kc_Enabled (cfg_Karpenter (st_cfg st)) = k \<and> \<not> as_Enabled (cfg_Autoscaling (st_cfg st))"
proof -
  obtain cfg where load: "Load (su_readConfig (demo_startup k)) (su_decodeConfig (demo_startup k)) (config_path []) = Inr cfg"
    and cfg: "engine_config cfg = example_engine_cfg" "\<not> as_Enabled (cfg_Autoscaling cfg)"
      "AvailabilityZones (cfg_AWS cfg) = []" "aws_Region (cfg_AWS cfg) = ''us-east-1''" "prom_URL (cfg_Prometheus cfg) \<noteq> []"
      "cfg_Controller cfg = cfg_Controller example_yaml" "kc_Enabled (cfg_Karpenter cfg) = k"
    by (simp add: demo_startup_def demo_config_def Load_def Validate_def example_yaml_def Let_def engine_config_def
        example_engine_cfg_def autoscaling_defaults_def karpenter_defaults_def)
  have env: "su_Getenv (demo_startup k) v = (if v = ''AWS_REGION'' then ''us-east-1'' else [])" for v by (simp add: demo_startup_def)
  have policy: "\<not> EqualFold [] ''synthetic''" by code_simp
  have prices: "resolveRuntimePriceProvider (surroundings.truncate (demo_startup k)) (Some cfg) d =
      Inr \<lparr>rp_provider = AwsProvider demo_prices, rp_isFake = False\<rparr>"
    by (simp add: resolveRuntimePriceProvider_def surroundings.truncate_def demo_startup_def fakePriceProviderFileEnv_def
        fakePriceProviderJSONEnv_def TrimSpace_def NewAutoDetectedPriceProvider_def DetectCloud_def detectFromEnv_def getAWSRegion_def
        NewPriceClient_def demo_prices_def Let_def)
  have canary: "\<exists>sel. canary (demo_startup k) () demo_clock cfg \<lparr>rp_provider = AwsProvider demo_prices, rp_isFake = False\<rparr> = Some sel"
    using demo_fetch cfg(3,4) by (auto simp: canary_def provider_GetSpotPrice_def demo_startup_def)
  obtain dyn where dyn: "karpenter_client (demo_startup k) () cfg = Inr dyn"
    by (cases "kc_Enabled (cfg_Karpenter cfg)")
       (auto simp: karpenter_client_def demo_startup_def ValidateKarpenterVersion_def validateVersionFromDetection_def DetectKarpenterVersion_def)
  have new: "\<exists>c. New [] [] (controller_config cfg d K dyn None) = Inr c" for K :: "unit k8s" and dyn
    using policy by (simp add: New_def controller_config_def SpotWrapper_IsDryRun_def NewSpotWrapper_def cfg(6) example_yaml_def
        ReconcileInterval_def Second_def wrap_def Let_def)
  obtain sel where sel: "canary (demo_startup k) () demo_clock cfg \<lparr>rp_provider = AwsProvider demo_prices, rp_isFake = False\<rparr> = Some sel"
    using canary by blast
  obtain K where K: "su_k8s (demo_startup k) = Inr K" by (simp add: demo_startup_def)
  obtain c where c: "New [] [] (controller_config cfg d K dyn None) = Inr c" using new by blast
  obtain e where e: "NewInferenceEngine (su_ort (demo_startup k)) (su_mathlib (demo_startup k)) (su_govaluate (demo_startup k)) (su_files (demo_startup k))
      (su_LookupEnv (demo_startup k)) (engine_config cfg) = Inr e"
    using example_engine_starts cfg(1) by (auto simp: demo_startup_def)
  have "kube_config (demo_startup k) = None" "su_promClient (demo_startup k) = (\<lambda>_. None)"
    by (simp_all add: kube_config_def demo_startup_def)
  then show ?thesis
    using cfg(2,5,7) policy
    by (simp add: runAgent_def load Let_def env validateSyntheticModePolicy_def K dyn NewClient_def e prices sel asg_client_of_def c)
qed

theorem runAgent_gated_witness:
  "\<exists>st. runAgent (demo_startup True) () demo_clock False [] = Inr st \<and> \<not> is_fake (rp_provider (st_prices st)) \<and> e_scope (st_engine st) \<noteq> None"
proof -
  obtain st where st: "runAgent (demo_startup True) () demo_clock False [] = Inr st" using demo_starts by blast
  from runAgent_gated [OF st] st show ?thesis by blast
qed

theorem drain_grace_period_unset_witness:
  "\<exists>st d. runAgent (demo_startup True) () demo_clock False [] = Inr st \<and> c_drain (st_controller st) = Some d \<and> GracePeriodSeconds d = 0 \<and>
     DrainGracePeriodSeconds (cfg_Controller (demo_config True)) = 30"
proof -
  obtain st where st: "runAgent (demo_startup True) () demo_clock False [] = Inr st" using demo_starts by blast
  from drain_grace_period_unset [OF st] st show ?thesis by (simp add: demo_config_def example_yaml_def)
qed

definition demo_scripted :: surroundings where
  "demo_scripted = (surroundings.truncate (demo_startup True))\<lparr>su_Getenv :=
     (\<lambda>v. if v = fakePriceProviderJSONEnv then ''{}'' else if v = e2eSuiteEnvVar then ''suite'' else []),
     su_decodeScenario := (\<lambda>_. Inr demo_scenario)\<rparr>"

theorem resolve_fake_guarded_witness:
  "case resolveRuntimePriceProvider demo_scripted None True of Inr sel \<Rightarrow> rp_isFake sel | Inl e \<Rightarrow> False"
proof -
  have given: "env_given demo_scripted fakePriceProviderJSONEnv" "env_given demo_scripted e2eSuiteEnvVar"
    "\<not> env_given demo_scripted fakePriceProviderFileEnv"
    by (simp_all add: env_given_def demo_scripted_def fakePriceProviderJSONEnv_def fakePriceProviderFileEnv_def e2eSuiteEnvVar_def
        TrimSpace_def is_space_def)
  then have "\<exists>sel. resolveRuntimePriceProvider demo_scripted None True = Inr sel"
    by (simp add: resolveRuntimePriceProvider_def env_given_def Let_def NewFakePriceProviderFromJSON_def
        NewFakePriceProviderFromJSONBytes_def demo_scripted_def NewFakePriceProvider_def demo_accepted)
  moreover have "script_given demo_scripted" using given by (simp add: script_given_def)
  ultimately show ?thesis using resolve_fake_guarded [of demo_scripted None True] by (auto split: sum.splits)
qed

end
