(* ===== verification/Reliability.thy ===== *)
theory Reliability
  imports Collector
begin

text \<open>
  internal/controller/reliability_telemetry_collector.go and internal/metrics/reliability_telemetry.go:
  the reliability signals the agent derives from polling nodes and pods, and how they are added to
  the counters. The collector keeps the previous poll; it is proved that its memory is exactly
  that, and that the signals are the differences of two polls.

  A time that may be unset (\<open>IsZero\<close>) is an option. Sets that Go keeps as maps to empty structs and
  ranges over are lists without repetitions.
\<close>

section \<open>What is polled\<close>

record TNode =
  tn_UID :: string
  tn_Name :: string
  tn_Conditions :: "NodeCondition list"

record ContainerStatus =
  cs_Name :: string
  cs_RestartCount :: int

record TPod =
  tp_UID :: string
  tp_Namespace :: string
  tp_Name :: string
  tp_Phase :: string
  tp_CreationTimestamp :: "int option"
  tp_StartTime :: "int option"
  tp_InitContainerStatuses :: "ContainerStatus list"
  tp_ContainerStatuses :: "ContainerStatus list"

record 'w telemetry_api =
  tl_listNodes :: "'w \<Rightarrow> api_error + TNode list"
  tl_listPods :: "'w \<Rightarrow> api_error + TPod list"

record podLifecycleStatus =
  pl_phase :: string
  pl_pendingSince :: "int option"

record TelemetryCollector =
  tc_lastNodeReady :: "string \<rightharpoonup> bool"
  tc_lastSeenNodes :: "string list"
  tc_lastContainerRestarts :: "string \<rightharpoonup> int"
  tc_lastPodLifecycleStatus :: "string \<rightharpoonup> podLifecycleStatus"

definition NewKubernetesReliabilityTelemetryCollector :: TelemetryCollector where
  "NewKubernetesReliabilityTelemetryCollector = \<lparr>tc_lastNodeReady = Map.empty, tc_lastSeenNodes = [],
     tc_lastContainerRestarts = Map.empty, tc_lastPodLifecycleStatus = Map.empty\<rparr>"

record ReliabilityTelemetrySnapshot =
  AWSInterruptionNotices :: int
  AWSRebalanceRecommendations :: int
  NodeTerminations :: int
  NodeNotReadyTransitions :: int
  PodEvictions :: int
  PodRestarts :: int
  PodPendingDurationsSeconds :: "f64 list"
  RecoveryDurationsSeconds :: "f64 list"

definition zero_snapshot :: ReliabilityTelemetrySnapshot where
  "zero_snapshot = \<lparr>AWSInterruptionNotices = 0, AWSRebalanceRecommendations = 0, NodeTerminations = 0,
     NodeNotReadyTransitions = 0, PodEvictions = 0, PodRestarts = 0, PodPendingDurationsSeconds = [],
     RecoveryDurationsSeconds = []\<rparr>"

definition NoopReliabilityTelemetryCollector :: ReliabilityTelemetrySnapshot where
  "NoopReliabilityTelemetryCollector = zero_snapshot"

section \<open>Helpers\<close>

fun conditions_ready :: "NodeCondition list \<Rightarrow> bool" where
  "conditions_ready [] = False"
| "conditions_ready (cond # conds) =
     (if cond_Type cond = ''Ready'' then cond_Status cond = ''True'' else conditions_ready conds)"

definition nodeIdentity :: "TNode \<Rightarrow> string" where
  "nodeIdentity node = (if tn_UID node \<noteq> [] then tn_UID node else tn_Name node)"

definition podIdentity :: "TPod \<Rightarrow> string" where
  "podIdentity pod = (if tp_UID pod \<noteq> [] then tp_UID pod else tp_Namespace pod @ ''/'' @ tp_Name pod)"

definition pendingStartTime :: "TPod \<Rightarrow> int \<Rightarrow> int" where
  "pendingStartTime pod now =
     (case tp_CreationTimestamp pod of
        Some start \<Rightarrow> if start > now then now else start
      | None \<Rightarrow> now)"

definition pendingDurationSeconds :: "int option \<Rightarrow> TPod \<Rightarrow> int \<Rightarrow> f64" where
  "pendingDurationSeconds start pod now =
     (let end = (if tp_Phase pod = ''Running'' then (case tp_StartTime pod of Some t \<Rightarrow> t | None \<Rightarrow> now) else now);
          start = (case start of None \<Rightarrow> end | Some s \<Rightarrow> s)
      in if end < start then Fin 0 else Seconds (sat64 (end - start)))"

section \<open>Nodes\<close>

definition node_signal ::
  "(string \<rightharpoonup> bool) \<times> ReliabilityTelemetrySnapshot \<Rightarrow> TNode \<Rightarrow> (string \<rightharpoonup> bool) \<times> ReliabilityTelemetrySnapshot" where
  "node_signal s node =
     (case s of (lastReady, snap) \<Rightarrow>
        let nodeKey = nodeIdentity node;
            ready = conditions_ready (tn_Conditions node);
            snap = (if lastReady nodeKey = Some True \<and> \<not> ready
                    then snap\<lparr>NodeNotReadyTransitions := NodeNotReadyTransitions snap + 1\<rparr> else snap)
        in (lastReady(nodeKey \<mapsto> ready), snap))"

definition node_gone ::
  "string list \<Rightarrow> (string \<rightharpoonup> bool) \<times> ReliabilityTelemetrySnapshot \<Rightarrow> string \<Rightarrow> (string \<rightharpoonup> bool) \<times> ReliabilityTelemetrySnapshot" where
  "node_gone currentSeen s nodeKey =
     (case s of (lastReady, snap) \<Rightarrow>
        if nodeKey \<in> set currentSeen then (lastReady, snap)
        else (lastReady(nodeKey := None), snap\<lparr>NodeTerminations := NodeTerminations snap + 1\<rparr>))"

definition collectNodeSignals ::
  "'w telemetry_api \<Rightarrow> 'w \<Rightarrow> TelemetryCollector \<Rightarrow> ReliabilityTelemetrySnapshot \<Rightarrow> TelemetryCollector \<times> ReliabilityTelemetrySnapshot" where
  "collectNodeSignals A w c snap =
     (case tl_listNodes A w of
        Inl _ \<Rightarrow> (c, snap)
      | Inr nodes \<Rightarrow>
          let currentSeen = remdups (map nodeIdentity nodes);
              (lastReady, snap) = foldl node_signal (tc_lastNodeReady c, snap) nodes;
              (lastReady, snap) = foldl (node_gone currentSeen) (lastReady, snap) (tc_lastSeenNodes c)
          in (c\<lparr>tc_lastNodeReady := lastReady, tc_lastSeenNodes := currentSeen\<rparr>, snap))"

section \<open>Pods\<close>

type_synonym pod_state = "(string \<rightharpoonup> podLifecycleStatus) \<times> (string \<rightharpoonup> int) \<times> ReliabilityTelemetrySnapshot"

definition phase_signal :: "int \<Rightarrow> TPod \<Rightarrow> (string \<rightharpoonup> podLifecycleStatus) \<times> ReliabilityTelemetrySnapshot \<Rightarrow>
    (string \<rightharpoonup> podLifecycleStatus) \<times> ReliabilityTelemetrySnapshot" where
  "phase_signal now pod s =
     (case s of (lastStatus, snap) \<Rightarrow>
        let podKey = podIdentity pod;
            prev = (case lastStatus podKey of None \<Rightarrow> \<lparr>pl_phase = [], pl_pendingSince = None\<rparr> | Some p \<Rightarrow> p);
            waiting = pl_phase prev = ''Pending'' \<and> pl_pendingSince prev \<noteq> None;
            next = \<lparr>pl_phase = tp_Phase pod, pl_pendingSince =
              (if tp_Phase pod = ''Pending''
               then (if waiting then pl_pendingSince prev else Some (pendingStartTime pod now))
               else None)\<rparr>;
            snap = (if tp_Phase pod \<noteq> ''Pending'' \<and> waiting
                    then let d = pendingDurationSeconds (pl_pendingSince prev) pod now;
                             snap = snap\<lparr>PodPendingDurationsSeconds := PodPendingDurationsSeconds snap @ [d]\<rparr>
                         in if tp_Phase pod = ''Running''
                            then snap\<lparr>RecoveryDurationsSeconds := RecoveryDurationsSeconds snap @ [d]\<rparr> else snap
                    else snap)
        in (lastStatus(podKey \<mapsto> next), snap))"

definition container_key :: "string \<Rightarrow> ContainerStatus \<Rightarrow> string" where
  "container_key podKey cs = podKey @ ''/'' @ cs_Name cs"

definition container_signal :: "string \<Rightarrow> (string \<rightharpoonup> int) \<times> ReliabilityTelemetrySnapshot \<Rightarrow> ContainerStatus \<Rightarrow>
    (string \<rightharpoonup> int) \<times> ReliabilityTelemetrySnapshot" where
  "container_signal podKey s cs =
     (case s of (lastRestarts, snap) \<Rightarrow>
        let key = container_key podKey cs;
            snap = (case lastRestarts key of
                      None \<Rightarrow> snap
                    | Some prevRestarts \<Rightarrow>
                        if cs_RestartCount cs > prevRestarts
                        then snap\<lparr>PodRestarts := (PodRestarts snap + wrap 32 (cs_RestartCount cs - prevRestarts) mod 2 ^ 64) mod 2 ^ 64\<rparr>
                        else snap)
        in (lastRestarts(key \<mapsto> cs_RestartCount cs), snap))"

definition pod_containers :: "TPod \<Rightarrow> ContainerStatus list" where
  "pod_containers pod = tp_InitContainerStatuses pod @ tp_ContainerStatuses pod"

definition pod_signal :: "int \<Rightarrow> pod_state \<Rightarrow> TPod \<Rightarrow> pod_state" where
  "pod_signal now s pod =
     (case s of (lastStatus, lastRestarts, snap) \<Rightarrow>
        let (lastStatus, snap) = phase_signal now pod (lastStatus, snap);
            (lastRestarts, snap) = foldl (container_signal (podIdentity pod)) (lastRestarts, snap) (pod_containers pod)
        in (lastStatus, lastRestarts, snap))"

definition container_keys :: "TPod list \<Rightarrow> string list" where
  "container_keys pods = concat (map (\<lambda>pod. map (container_key (podIdentity pod)) (pod_containers pod)) pods)"

definition collectPodSignals ::
  "'w telemetry_api \<Rightarrow> 'w \<Rightarrow> int \<Rightarrow> TelemetryCollector \<Rightarrow> ReliabilityTelemetrySnapshot \<Rightarrow> TelemetryCollector \<times> ReliabilityTelemetrySnapshot" where
  "collectPodSignals A w now c snap =
     (case tl_listPods A w of
        Inl _ \<Rightarrow> (c, snap)
      | Inr pods \<Rightarrow>
          (case foldl (pod_signal now) (tc_lastPodLifecycleStatus c, tc_lastContainerRestarts c, snap) pods of
             (lastStatus, lastRestarts, snap) \<Rightarrow>
               (c\<lparr>tc_lastPodLifecycleStatus := lastStatus |` set (map podIdentity pods),
                  tc_lastContainerRestarts := lastRestarts |` set (container_keys pods)\<rparr>, snap)))"

definition CollectReliabilityTelemetry ::
  "'w telemetry_api \<Rightarrow> 'w \<Rightarrow> int \<Rightarrow> TelemetryCollector \<Rightarrow> TelemetryCollector \<times> ReliabilityTelemetrySnapshot" where
  "CollectReliabilityTelemetry A w now c =
     (case collectNodeSignals A w c zero_snapshot of (c, snap) \<Rightarrow> collectPodSignals A w now c snap)"

section \<open>Recording\<close>

text \<open>The counters and histograms the snapshot is added to; a histogram is the list of its observations.\<close>

record telemetry_counters =
  AWSInterruptionNoticeTotal :: f64
  AWSRebalanceRecommendationTotal :: f64
  NodeTerminationTotal :: f64
  NodeNotReadyTotal :: f64
  PodEvictionsTotal :: f64
  PodRestartsTotal :: f64
  PodPendingDurationSeconds :: "f64 list"
  RecoveryTimeSeconds :: "f64 list"

definition add_count :: "int \<Rightarrow> f64 \<Rightarrow> f64" where
  "add_count n v = (if n > 0 then v + f64_of_int n else v)"

definition RecordReliabilityTelemetry :: "ReliabilityTelemetrySnapshot \<Rightarrow> telemetry_counters \<Rightarrow> telemetry_counters" where
  "RecordReliabilityTelemetry s m =
     \<lparr>AWSInterruptionNoticeTotal = add_count (AWSInterruptionNotices s) (AWSInterruptionNoticeTotal m),
      AWSRebalanceRecommendationTotal = add_count (AWSRebalanceRecommendations s) (AWSRebalanceRecommendationTotal m),
      NodeTerminationTotal = add_count (NodeTerminations s) (NodeTerminationTotal m),
      NodeNotReadyTotal = add_count (NodeNotReadyTransitions s) (NodeNotReadyTotal m),
      PodEvictionsTotal = add_count (PodEvictions s) (PodEvictionsTotal m),
      PodRestartsTotal = add_count (PodRestarts s) (PodRestartsTotal m),
      PodPendingDurationSeconds = PodPendingDurationSeconds m @ filter (\<lambda>v. Fin 0 \<le> v) (PodPendingDurationsSeconds s),
      RecoveryTimeSeconds = RecoveryTimeSeconds m @ filter (\<lambda>v. Fin 0 \<le> v) (RecoveryDurationsSeconds s)\<rparr>"

section \<open>The memory is the previous poll\<close>

definition ready_map :: "TNode list \<Rightarrow> string \<rightharpoonup> bool" where
  "ready_map nodes = map_of (map (\<lambda>n. (nodeIdentity n, conditions_ready (tn_Conditions n))) nodes)"

definition readings :: "TPod list \<Rightarrow> (string \<times> int) list" where
  "readings pods = concat (map (\<lambda>pod. map (\<lambda>cs. (container_key (podIdentity pod) cs, cs_RestartCount cs)) (pod_containers pod)) pods)"

definition is_pending :: "TPod \<Rightarrow> bool" where
  "is_pending pod \<longleftrightarrow> tp_Phase pod = ''Pending''"

definition waiting_in :: "(string \<rightharpoonup> podLifecycleStatus) \<Rightarrow> string \<Rightarrow> bool" where
  "waiting_in m k \<longleftrightarrow> (\<exists>s. m k = Some s \<and> pl_phase s = ''Pending'' \<and> pl_pendingSince s \<noteq> None)"

definition remembers :: "TelemetryCollector \<Rightarrow> TNode list \<Rightarrow> TPod list \<Rightarrow> bool" where
  "remembers c nodes pods \<longleftrightarrow>
     tc_lastSeenNodes c = map nodeIdentity nodes \<and> tc_lastNodeReady c = ready_map nodes \<and>
     tc_lastContainerRestarts c = map_of (readings pods) \<and>
     dom (tc_lastPodLifecycleStatus c) = set (map podIdentity pods) \<and>
     (\<forall>pod \<in> set pods. waiting_in (tc_lastPodLifecycleStatus c) (podIdentity pod) = is_pending pod)"

definition poll_ok :: "TNode list \<Rightarrow> TPod list \<Rightarrow> bool" where
  "poll_ok nodes pods \<longleftrightarrow> distinct (map nodeIdentity nodes) \<and> distinct (map podIdentity pods) \<and> distinct (container_keys pods) \<and>
     (\<forall>(k, n) \<in> set (readings pods). 0 \<le> n \<and> n < 2 ^ 31)"

text \<open>The signals of two polls, without any memory.\<close>

definition not_ready_count :: "(string \<rightharpoonup> bool) \<Rightarrow> TNode list \<Rightarrow> int" where
  "not_ready_count m nodes = int (length (filter (\<lambda>n. m (nodeIdentity n) = Some True \<and> \<not> conditions_ready (tn_Conditions n)) nodes))"

definition restart_count :: "(string \<rightharpoonup> int) \<Rightarrow> (string \<times> int) list \<Rightarrow> int" where
  "restart_count m kvs = (\<Sum>(k, n) \<leftarrow> kvs. case m k of None \<Rightarrow> 0 | Some p \<Rightarrow> max 0 (n - p))"

lemma map_add_fresh:
  assumes "k \<notin> fst ` set kvs"
  shows "m(k \<mapsto> v) ++ map_of kvs = m ++ map_of ((k, v) # kvs)"
  using map_of_eq_None_iff [of kvs k] assms by (auto simp: map_add_def fun_eq_iff split: option.splits)

lemma fold_node_signal:
  "distinct (map nodeIdentity nodes) \<Longrightarrow>
   foldl node_signal (m, s) nodes =
     (m ++ ready_map nodes, s\<lparr>NodeNotReadyTransitions := NodeNotReadyTransitions s + not_ready_count m nodes\<rparr>)"
proof (induction nodes arbitrary: m s)
  case Nil
  then show ?case by (simp add: ready_map_def not_ready_count_def)
next
  case (Cons n nodes)
  let ?k = "nodeIdentity n" and ?r = "conditions_ready (tn_Conditions n)"
  have fresh: "?k \<notin> dom (ready_map nodes)" using Cons.prems by (simp add: ready_map_def dom_map_of_conv_image_fst image_image)
  have "\<forall>x \<in> set nodes. nodeIdentity x \<noteq> ?k"
    using Cons.prems unfolding list.map distinct.simps set_map by (metis image_eqI)
  then have "not_ready_count (m(?k \<mapsto> ?r)) nodes = not_ready_count m nodes"
    unfolding not_ready_count_def by (intro arg_cong [where f = "\<lambda>xs. int (length xs)"] filter_cong) auto
  moreover have "m(?k \<mapsto> ?r) ++ ready_map nodes = m ++ ready_map (n # nodes)"
    using fresh by (auto simp: ready_map_def map_add_def fun_eq_iff domIff split: option.splits)
  ultimately show ?case
    using Cons by (simp add: node_signal_def Let_def) (simp add: not_ready_count_def)
qed

lemma fold_node_gone:
  "foldl (node_gone cur) (m, s) ks =
     (m |` (- (set ks - set cur)), s\<lparr>NodeTerminations := NodeTerminations s + int (length (filter (\<lambda>k. k \<notin> set cur) ks))\<rparr>)"
proof (induction ks arbitrary: m s)
  case (Cons k ks)
  show ?case
  proof (cases "k \<in> set cur")
    case True
    then show ?thesis using Cons by (simp add: node_gone_def insert_Diff_if)
  next
    case False
    have eq: "(m(k := None)) |` (- (set ks - set cur)) = m |` (- (set (k # ks) - set cur))"
      using False by (auto simp: restrict_map_def fun_eq_iff)
    have step: "node_gone cur (m, s) k = (m(k := None), s\<lparr>NodeTerminations := NodeTerminations s + 1\<rparr>)"
      using False by (simp add: node_gone_def)
    show ?thesis unfolding foldl_Cons step Cons.IH eq using False by simp
  qed
qed (simp add: restrict_map_def)

lemma ready_map_dom [simp]: "dom (ready_map nodes) = nodeIdentity ` set nodes"
  by (simp add: ready_map_def dom_map_of_conv_image_fst image_image)

lemma ready_map_None: "ready_map nodes k = None \<longleftrightarrow> k \<notin> nodeIdentity ` set nodes"
  using ready_map_dom [of nodes] by (metis domIff)

lemma nodes_poll:
  assumes "tc_lastSeenNodes c = map nodeIdentity nodes0" "tc_lastNodeReady c = ready_map nodes0"
    and "tl_listNodes A w = Inr nodes" "distinct (map nodeIdentity nodes)"
  shows "collectNodeSignals A w c s =
     (c\<lparr>tc_lastNodeReady := ready_map nodes, tc_lastSeenNodes := map nodeIdentity nodes\<rparr>,
      s\<lparr>NodeNotReadyTransitions := NodeNotReadyTransitions s + not_ready_count (ready_map nodes0) nodes,
        NodeTerminations := NodeTerminations s + int (length (filter (\<lambda>k. k \<notin> nodeIdentity ` set nodes) (map nodeIdentity nodes0)))\<rparr>)"
proof -
  have "(ready_map nodes0 ++ ready_map nodes) |` (- (nodeIdentity ` set nodes0 - nodeIdentity ` set nodes)) = ready_map nodes"
  proof
    fix k
    show "((ready_map nodes0 ++ ready_map nodes) |` (- (nodeIdentity ` set nodes0 - nodeIdentity ` set nodes))) k = ready_map nodes k"
      using ready_map_None [of nodes k] ready_map_None [of nodes0 k]
      by (cases "ready_map nodes k"; cases "ready_map nodes0 k") (auto simp: restrict_map_def map_add_def simp del: ready_map_dom)
  qed
  then show ?thesis
    using assms by (simp add: collectNodeSignals_def fold_node_signal fold_node_gone distinct_remdups_id)
qed

section \<open>Restarts and waiting pods\<close>

text \<open>The restarts of one container as they are added to the counter.\<close>

definition add_restarts :: "int \<Rightarrow> ReliabilityTelemetrySnapshot \<Rightarrow> ReliabilityTelemetrySnapshot" where
  "add_restarts n s = s\<lparr>PodRestarts := (PodRestarts s + n) mod 2 ^ 64\<rparr>"

lemma container_step:
  assumes "0 \<le> cs_RestartCount cs" "cs_RestartCount cs < 2 ^ 31" "\<And>p. m (container_key pk cs) = Some p \<Longrightarrow> 0 \<le> p \<and> p < 2 ^ 31"
    and "0 \<le> PodRestarts s" "PodRestarts s < 2 ^ 64"
  shows "container_signal pk (m, s) cs = (m(container_key pk cs \<mapsto> cs_RestartCount cs),
     add_restarts (restart_count m [(container_key pk cs, cs_RestartCount cs)]) s)"
proof (cases "m (container_key pk cs)")
  case None
  then show ?thesis using assms(4,5) by (simp add: container_signal_def add_restarts_def restart_count_def Let_def)
next
  case (Some p)
  let ?d = "cs_RestartCount cs - p"
  have "wrap 32 ?d = ?d" if "0 < ?d" using that assms(1,2) assms(3) [OF Some] by (simp add: wrap_def)
  then show ?thesis
    using Some assms by (auto simp: container_signal_def add_restarts_def restart_count_def Let_def mod_add_right_eq)
qed

lemma add_restarts_simps [simp]:
  "add_restarts a (add_restarts b s) = add_restarts (b + a) s"
  "0 \<le> PodRestarts (add_restarts n s)" "PodRestarts (add_restarts n s) < 18446744073709551616"
  by (simp_all add: add_restarts_def mod_add_left_eq add.assoc)

lemma add_restarts_0: "0 \<le> PodRestarts s \<Longrightarrow> PodRestarts s < 2 ^ 64 \<Longrightarrow> add_restarts 0 s = s"
  by (simp add: add_restarts_def)

lemma restart_count_append: "restart_count m (xs @ ys) = restart_count m xs + restart_count m ys"
  by (simp add: restart_count_def)

lemma restart_count_cong: "(\<And>k. k \<in> fst ` set kvs \<Longrightarrow> m k = m' k) \<Longrightarrow> restart_count m kvs = restart_count m' kvs"
  unfolding restart_count_def by (intro arg_cong [where f = sum_list] map_cong) force+

definition counts_bounded :: "(string \<rightharpoonup> int) \<Rightarrow> bool" where
  "counts_bounded m \<longleftrightarrow> (\<forall>k p. m k = Some p \<longrightarrow> 0 \<le> p \<and> p < 2 ^ 31)"

lemma fold_containers:
  assumes "distinct (map (container_key pk) css)" "\<forall>cs \<in> set css. 0 \<le> cs_RestartCount cs \<and> cs_RestartCount cs < 2 ^ 31"
    and "counts_bounded m" "0 \<le> PodRestarts s" "PodRestarts s < 2 ^ 64"
  defines "kvs \<equiv> map (\<lambda>cs. (container_key pk cs, cs_RestartCount cs)) css"
  shows "foldl (container_signal pk) (m, s) css = (m ++ map_of kvs, add_restarts (restart_count m kvs) s) \<and> counts_bounded (m ++ map_of kvs)"
  using assms(1-5) unfolding kvs_def
proof (induction css arbitrary: m s)
  case Nil
  then show ?case by (simp add: restart_count_def add_restarts_0)
next
  case (Cons cs css)
  let ?k = "container_key pk cs" and ?n = "cs_RestartCount cs"
  let ?kvs = "map (\<lambda>cs. (container_key pk cs, cs_RestartCount cs)) css"
  let ?s = "add_restarts (restart_count m [(?k, ?n)]) s"
  have step: "container_signal pk (m, s) cs = (m(?k \<mapsto> ?n), ?s)"
    using Cons.prems by (intro container_step) (auto simp: counts_bounded_def)
  have fresh: "?k \<notin> fst ` set ?kvs" using Cons.prems(1) by (simp add: image_image)
  have b: "counts_bounded (m(?k \<mapsto> ?n))" using Cons.prems(2,3) by (simp add: counts_bounded_def)
  note m = map_add_fresh [OF fresh, of m ?n]
  have r: "restart_count (m(?k \<mapsto> ?n)) ?kvs = restart_count m ?kvs"
  proof (rule restart_count_cong)
    fix k
    assume "k \<in> fst ` set ?kvs"
    then have "k \<noteq> ?k" using fresh by blast
    then show "(m(?k \<mapsto> ?n)) k = m k" by simp
  qed
  have "foldl (container_signal pk) (m(?k \<mapsto> ?n), ?s) css =
      (m(?k \<mapsto> ?n) ++ map_of ?kvs, add_restarts (restart_count (m(?k \<mapsto> ?n)) ?kvs) ?s) \<and> counts_bounded (m(?k \<mapsto> ?n) ++ map_of ?kvs)"
    using Cons.prems by (intro Cons.IH b) simp_all
  moreover have "restart_count m ((?k, ?n) # ?kvs) = restart_count m [(?k, ?n)] + restart_count m ?kvs"
    using restart_count_append [of m "[(?k, ?n)]" ?kvs] by simp
  ultimately show ?case unfolding foldl_Cons step m r list.map by (simp only: add_restarts_simps)
qed

definition status_of :: "(string \<rightharpoonup> podLifecycleStatus) \<Rightarrow> int \<Rightarrow> TPod \<Rightarrow> podLifecycleStatus" where
  "status_of m now pod = \<lparr>pl_phase = tp_Phase pod, pl_pendingSince =
     (if is_pending pod
      then (if waiting_in m (podIdentity pod) then pl_pendingSince (the (m (podIdentity pod))) else Some (pendingStartTime pod now))
      else None)\<rparr>"

definition waited :: "(string \<rightharpoonup> podLifecycleStatus) \<Rightarrow> int \<Rightarrow> TPod \<Rightarrow> f64 list" where
  "waited m now pod =
     (if \<not> is_pending pod \<and> waiting_in m (podIdentity pod)
      then [pendingDurationSeconds (pl_pendingSince (the (m (podIdentity pod)))) pod now] else [])"

definition add_waits :: "f64 list \<Rightarrow> f64 list \<Rightarrow> ReliabilityTelemetrySnapshot \<Rightarrow> ReliabilityTelemetrySnapshot" where
  "add_waits ds rs s = s\<lparr>PodPendingDurationsSeconds := PodPendingDurationsSeconds s @ ds,
     RecoveryDurationsSeconds := RecoveryDurationsSeconds s @ rs\<rparr>"

definition is_running :: "TPod \<Rightarrow> bool" where
  "is_running pod \<longleftrightarrow> tp_Phase pod = ''Running''"

lemma phase_step:
  "phase_signal now pod (m, s) = (m(podIdentity pod \<mapsto> status_of m now pod),
     add_waits (waited m now pod) (if is_running pod then waited m now pod else []) s)"
proof (cases "m (podIdentity pod)")
  case None
  then show ?thesis
    by (simp add: phase_signal_def status_of_def waited_def waiting_in_def is_pending_def add_waits_def Let_def)
next
  case (Some st)
  then show ?thesis
    by (auto simp: phase_signal_def status_of_def waited_def waiting_in_def is_pending_def is_running_def add_waits_def Let_def)
qed

lemma status_of_cong: "m (podIdentity pod) = m' (podIdentity pod) \<Longrightarrow> status_of m now pod = status_of m' now pod \<and> waited m now pod = waited m' now pod"
  by (simp only: status_of_def waited_def waiting_in_def)

lemma add_waits_simps [simp]:
  "add_waits ds rs (add_restarts n s) = add_restarts n (add_waits ds rs s)"
  "add_waits ds rs (add_waits ds' rs' s) = add_waits (ds' @ ds) (rs' @ rs) s"
  "PodRestarts (add_waits ds rs s) = PodRestarts s"
  "add_waits [] [] s = s"
  by (simp_all add: add_waits_def add_restarts_def)

definition recovered :: "(string \<rightharpoonup> podLifecycleStatus) \<Rightarrow> int \<Rightarrow> TPod \<Rightarrow> f64 list" where
  "recovered m now pod = (if is_running pod then waited m now pod else [])"

lemma pod_step:
  assumes "distinct (map (container_key (podIdentity pod)) (pod_containers pod))" "\<forall>(k, n) \<in> set (readings [pod]). 0 \<le> n \<and> n < 2 ^ 31"
    and "counts_bounded m" "0 \<le> PodRestarts s" "PodRestarts s < 2 ^ 64"
  shows "pod_signal now (st, m, s) pod =
     (st(podIdentity pod \<mapsto> status_of st now pod), m ++ map_of (readings [pod]),
      add_restarts (restart_count m (readings [pod])) (add_waits (waited st now pod) (recovered st now pod) s)) \<and>
     counts_bounded (m ++ map_of (readings [pod]))"
proof -
  have "foldl (container_signal (podIdentity pod)) (m, add_waits (waited st now pod) (recovered st now pod) s) (pod_containers pod) =
      (m ++ map_of (readings [pod]), add_restarts (restart_count m (readings [pod])) (add_waits (waited st now pod) (recovered st now pod) s)) \<and>
      counts_bounded (m ++ map_of (readings [pod]))"
    using fold_containers [of "podIdentity pod" "pod_containers pod" m "add_waits (waited st now pod) (recovered st now pod) s"] assms
    by (simp add: readings_def)
  then show ?thesis by (simp add: pod_signal_def phase_step recovered_def)
qed

lemma readings_Cons: "readings (pod # pods) = readings [pod] @ readings pods"
  by (simp add: readings_def)

lemma container_keys_readings: "container_keys pods = map fst (readings pods)"
  by (simp add: container_keys_def readings_def map_concat o_def)

lemma fold_pods:
  assumes "distinct (map podIdentity pods)" "distinct (container_keys pods)" "\<forall>(k, n) \<in> set (readings pods). 0 \<le> n \<and> n < 2 ^ 31"
    and "counts_bounded m" "0 \<le> PodRestarts s" "PodRestarts s < 2 ^ 64"
  shows "foldl (pod_signal now) (st, m, s) pods =
     (st ++ map_of (map (\<lambda>pod. (podIdentity pod, status_of st now pod)) pods), m ++ map_of (readings pods),
      add_restarts (restart_count m (readings pods)) (add_waits (concat (map (waited st now) pods)) (concat (map (recovered st now) pods)) s))"
  using assms
proof (induction pods arbitrary: st m s)
  case Nil
  then show ?case by (simp add: readings_def restart_count_def add_restarts_0)
next
  case (Cons pod pods)
  let ?k = "podIdentity pod" and ?kvs = "readings [pod]"
  let ?st = "st(?k \<mapsto> status_of st now pod)" and ?m = "m ++ map_of ?kvs"
  let ?s = "add_restarts (restart_count m ?kvs) (add_waits (waited st now pod) (recovered st now pod) s)"
  have keys: "distinct (map fst (?kvs @ readings pods))"
    using Cons.prems(2) by (simp only: container_keys_readings readings_Cons [of pod pods])
  have step: "pod_signal now (st, m, s) pod = (?st, ?m, ?s)" "counts_bounded ?m"
    using pod_step [of pod m s now st] Cons.prems(3-6) keys
    by (simp_all add: readings_Cons [of pod pods]) (simp_all add: readings_def o_def)
  have ne: "podIdentity p \<noteq> ?k" if "p \<in> set pods" for p
    using Cons.prems(1) that unfolding list.map distinct.simps set_map by (metis image_eqI)
  have same: "status_of ?st now p = status_of st now p" "waited ?st now p = waited st now p" "recovered ?st now p = recovered st now p"
    if "p \<in> set pods" for p
    using status_of_cong [of ?st p st now] ne [OF that] by (simp_all add: recovered_def)
  have disj: "dom (map_of ?kvs) \<inter> dom (map_of (readings pods)) = {}" using keys by (simp add: dom_map_of_conv_image_fst)
  have r: "restart_count ?m (readings pods) = restart_count m (readings pods)"
  proof (rule restart_count_cong)
    fix k
    assume "k \<in> fst ` set (readings pods)"
    then have "map_of ?kvs k = None" using disj unfolding dom_map_of_conv_image_fst map_of_eq_None_iff by blast
    then show "?m k = m k" by (simp add: map_add_def)
  qed
  have m: "?m ++ map_of (readings pods) = m ++ map_of (readings (pod # pods))"
    unfolding readings_Cons [of pod pods] map_of_append map_add_comm [OF disj, symmetric] by (rule map_add_assoc [symmetric])
  have st: "?st ++ map_of (map (\<lambda>p. (podIdentity p, status_of st now p)) pods) =
      st ++ map_of (map (\<lambda>p. (podIdentity p, status_of st now p)) (pod # pods))"
    using map_add_fresh [of ?k "map (\<lambda>p. (podIdentity p, status_of st now p)) pods" st "status_of st now pod"] Cons.prems(1)
    by (simp add: image_image)
  have "foldl (pod_signal now) (?st, ?m, ?s) pods =
     (?st ++ map_of (map (\<lambda>p. (podIdentity p, status_of ?st now p)) pods), ?m ++ map_of (readings pods),
      add_restarts (restart_count ?m (readings pods)) (add_waits (concat (map (waited ?st now) pods)) (concat (map (recovered ?st now) pods)) ?s))"
    using Cons.prems keys step(2) by (intro Cons.IH) (simp_all add: readings_Cons [of pod pods] container_keys_readings)
  moreover have "restart_count m (readings (pod # pods)) = restart_count m ?kvs + restart_count m (readings pods)"
    unfolding readings_Cons [of pod pods] by (rule restart_count_append)
  moreover have "map (\<lambda>p. (podIdentity p, status_of ?st now p)) pods = map (\<lambda>p. (podIdentity p, status_of st now p)) pods"
    "map (waited ?st now) pods = map (waited st now) pods" "map (recovered ?st now) pods = map (recovered st now) pods"
    using same by simp_all
  ultimately show ?case
    unfolding foldl_Cons step(1) by (simp only: m st r add_restarts_simps add_waits_simps list.map concat.simps)
qed

section \<open>Two polls\<close>

lemma Seconds_nonneg: "0 \<le> d \<Longrightarrow> Fin 0 \<le> Seconds d"
proof -
  assume d: "0 \<le> d"
  have "go_rem d Second = d mod Second"
    using d by (simp add: go_rem_def go_div_nonneg Second_def minus_mult_div_eq_mod)
  then show ?thesis
    using d unfolding Seconds_def
    by (intro plus_nonneg f64_of_int_nonneg f_div_nonneg) (simp_all add: go_div_nonneg Second_def pos_imp_zdiv_nonneg_iff)
qed

lemma pendingDurationSeconds_nonneg: "Fin 0 \<le> pendingDurationSeconds start pod now"
  by (auto simp: pendingDurationSeconds_def Let_def sat64_def intro!: Seconds_nonneg split: option.splits)

lemma waited_count:
  "length (concat (map (waited m now) pods)) = length (filter (\<lambda>p. \<not> is_pending p \<and> waiting_in m (podIdentity p)) pods)"
  by (induction pods) (simp_all add: waited_def)

lemma status_waiting:
  assumes "pod \<in> set pods" "distinct (map podIdentity pods)"
  shows "waiting_in (map_of (map (\<lambda>p. (podIdentity p, status_of m now p)) pods)) (podIdentity pod) = is_pending pod"
proof -
  have "map_of (map (\<lambda>p. (podIdentity p, status_of m now p)) pods) (podIdentity pod) = Some (status_of m now pod)"
    using assms by (intro map_of_is_SomeI) (auto simp: o_def)
  then show ?thesis by (auto simp: waiting_in_def status_of_def is_pending_def)
qed

lemma restrict_add: "dom m' = K \<Longrightarrow> (m ++ m') |` K = m'"
  by (auto simp: restrict_map_def map_add_def fun_eq_iff domIff split: option.splits)

lemma remembered_waiting:
  assumes "remembers c nodes0 pods0"
  shows "waiting_in (tc_lastPodLifecycleStatus c) k \<longleftrightarrow> (\<exists>q \<in> set pods0. podIdentity q = k \<and> is_pending q)"
proof (cases "k \<in> set (map podIdentity pods0)")
  case True
  then show ?thesis using assms by (auto simp: remembers_def)
next
  case False
  then have "tc_lastPodLifecycleStatus c k = None" using assms by (metis domIff remembers_def)
  then show ?thesis using False by (auto simp: waiting_in_def)
qed

lemma pods_poll:
  assumes "remembers c nodes0 pods0" "poll_ok nodes0 pods0" "poll_ok nodes pods" "tl_listPods A w = Inr pods"
    and "0 \<le> PodRestarts s" "PodRestarts s < 2 ^ 64"
  defines "st \<equiv> tc_lastPodLifecycleStatus c"
  shows "collectPodSignals A w now c s =
     (c\<lparr>tc_lastPodLifecycleStatus := map_of (map (\<lambda>p. (podIdentity p, status_of st now p)) pods),
        tc_lastContainerRestarts := map_of (readings pods)\<rparr>,
      add_restarts (restart_count (map_of (readings pods0)) (readings pods))
        (add_waits (concat (map (waited st now) pods)) (concat (map (recovered st now) pods)) s))"
proof -
  let ?new = "map_of (map (\<lambda>p. (podIdentity p, status_of st now p)) pods)"
  have "counts_bounded (map_of (readings pods0))"
    using assms(2) by (fastforce simp: counts_bounded_def poll_ok_def dest: map_of_SomeD)
  then have "foldl (pod_signal now) (st, map_of (readings pods0), s) pods =
     (st ++ ?new, map_of (readings pods0) ++ map_of (readings pods),
      add_restarts (restart_count (map_of (readings pods0)) (readings pods))
        (add_waits (concat (map (waited st now) pods)) (concat (map (recovered st now) pods)) s))"
    using assms(3,5,6) unfolding poll_ok_def by (intro fold_pods) auto
  moreover have "(st ++ ?new) |` set (map podIdentity pods) = ?new"
    by (rule restrict_add) (simp add: dom_map_of_conv_image_fst image_image)
  moreover have "(map_of (readings pods0) ++ map_of (readings pods)) |` set (container_keys pods) = map_of (readings pods)"
    by (rule restrict_add) (simp add: dom_map_of_conv_image_fst container_keys_readings)
  ultimately show ?thesis using assms(1,4) by (simp add: collectPodSignals_def remembers_def st_def)
qed

lemma poll_result:
  assumes "remembers c nodes0 pods0" "poll_ok nodes0 pods0" "poll_ok nodes pods"
    and "tl_listNodes A w = Inr nodes" "tl_listPods A w = Inr pods"
    and "CollectReliabilityTelemetry A w now c = (c', s)"
  shows "remembers c' nodes pods \<and>
    s = add_restarts (restart_count (map_of (readings pods0)) (readings pods))
      (add_waits (concat (map (waited (tc_lastPodLifecycleStatus c) now) pods)) (concat (map (recovered (tc_lastPodLifecycleStatus c) now) pods))
        (zero_snapshot\<lparr>NodeNotReadyTransitions := not_ready_count (ready_map nodes0) nodes,
          NodeTerminations := int (length (filter (\<lambda>k. k \<notin> nodeIdentity ` set nodes) (map nodeIdentity nodes0)))\<rparr>))"
proof -
  let ?st = "tc_lastPodLifecycleStatus c"
  obtain c1 s1 where nodes: "collectNodeSignals A w c zero_snapshot = (c1, s1)" by fastforce
  have seen: "tc_lastSeenNodes c = map nodeIdentity nodes0" "tc_lastNodeReady c = ready_map nodes0"
    using assms(1) by (simp_all add: remembers_def)
  have dist: "distinct (map nodeIdentity nodes)" "distinct (map podIdentity pods)" using assms(3) by (simp_all add: poll_ok_def)
  note c1 = nodes_poll [OF seen assms(4) dist(1), of zero_snapshot, unfolded nodes prod.inject]
  have "remembers c1 nodes pods0" "tc_lastPodLifecycleStatus c1 = ?st" using assms(1) c1 by (simp_all add: remembers_def)
  moreover have "poll_ok nodes pods0" using assms(2) dist(1) by (simp add: poll_ok_def)
  ultimately have pods: "collectPodSignals A w now c1 s1 =
     (c1\<lparr>tc_lastPodLifecycleStatus := map_of (map (\<lambda>p. (podIdentity p, status_of ?st now p)) pods),
        tc_lastContainerRestarts := map_of (readings pods)\<rparr>,
      add_restarts (restart_count (map_of (readings pods0)) (readings pods))
        (add_waits (concat (map (waited ?st now) pods)) (concat (map (recovered ?st now) pods)) s1))"
    using pods_poll [of c1 nodes pods0 nodes pods A w s1 now] assms(3,5) c1 by (simp add: zero_snapshot_def)
  then have c': "c' = c1\<lparr>tc_lastPodLifecycleStatus := map_of (map (\<lambda>p. (podIdentity p, status_of ?st now p)) pods),
        tc_lastContainerRestarts := map_of (readings pods)\<rparr>"
    and s: "s = add_restarts (restart_count (map_of (readings pods0)) (readings pods))
        (add_waits (concat (map (waited ?st now) pods)) (concat (map (recovered ?st now) pods)) s1)"
    using assms(6) nodes by (simp_all add: CollectReliabilityTelemetry_def)
  have "remembers c' nodes pods"
    unfolding remembers_def c' using c1 status_waiting [OF _ dist(2), of _ ?st now]
    by (simp add: dom_map_of_conv_image_fst image_image)
  moreover have "s1 = zero_snapshot\<lparr>NodeNotReadyTransitions := not_ready_count (ready_map nodes0) nodes,
      NodeTerminations := int (length (filter (\<lambda>k. k \<notin> nodeIdentity ` set nodes) (map nodeIdentity nodes0)))\<rparr>"
    using c1 by (simp add: zero_snapshot_def)
  ultimately show ?thesis using s by blast
qed


lemma new_remembers: "remembers NewKubernetesReliabilityTelemetryCollector [] []"
  by (simp add: remembers_def NewKubernetesReliabilityTelemetryCollector_def ready_map_def readings_def)

definition demo_node :: TNode where
  "demo_node = \<lparr>tn_UID = ''n1'', tn_Name = ''a'', tn_Conditions = [\<lparr>cond_Type = ''Ready'', cond_Status = ''True''\<rparr>]\<rparr>"

definition demo_pod :: "string \<Rightarrow> int \<Rightarrow> TPod" where
  "demo_pod phase restarts = \<lparr>tp_UID = ''p1'', tp_Namespace = ''d'', tp_Name = ''web'', tp_Phase = phase, tp_CreationTimestamp = Some 5,
     tp_StartTime = None, tp_InitContainerStatuses = [], tp_ContainerStatuses = [\<lparr>cs_Name = ''c'', cs_RestartCount = restarts\<rparr>]\<rparr>"

definition demo_polls :: "bool telemetry_api" where
  "demo_polls = \<lparr>tl_listNodes = (\<lambda>later. Inr (if later then [] else [demo_node])),
     tl_listPods = (\<lambda>later. Inr (if later then [demo_pod ''Running'' 4] else [demo_pod ''Pending'' 1]))\<rparr>"

definition demo_first :: TelemetryCollector where
  "demo_first = fst (CollectReliabilityTelemetry demo_polls False 10 NewKubernetesReliabilityTelemetryCollector)"

lemma demo_poll_ok:
  "poll_ok [] []" "poll_ok [demo_node] [demo_pod ''Pending'' 1]" "poll_ok [] [demo_pod ''Running'' 4]"
  by code_simp+

lemma demo_first_remembers: "remembers demo_first [demo_node] [demo_pod ''Pending'' 1]"
  unfolding demo_first_def
  by (rule poll_result [OF new_remembers demo_poll_ok(1,2) _ _ prod.collapse [symmetric], THEN conjunct1])
     (simp_all add: demo_polls_def)


end
