(* ===== verification/Agent.thy ===== *)
theory Agent
  imports Startup Reconcile Reliability
begin

text \<open>
  The running agent: what cmd/agent/cmd/run.go hands over to \<open>Controller.Start\<close>, the main loop of
  internal/controller/controller.go with its real cycle, and the telemetry poll of a cycle. The
  agent has cycles of its own services each time: prices, metrics and models may change between
  ticks.
\<close>

section \<open>Running\<close>

definition started_agent :: "'w started \<Rightarrow> ('w, 'r) agent" where
  "started_agent st = \<lparr>ag_c = st_controller st, ag_features = Map.empty, ag_synth = None, ag_savings = Fin 0\<rparr>"

text \<open>
  The loop of \<open>Start\<close>: a tick comes with the services of its cycle; the first cycle runs before the
  loop. \<open>None\<close> stands for a cycle that is still waiting for a replacement node.
\<close>

fun serve :: "(loop_event \<times> ('w, 'r) services) list \<Rightarrow> ('w, 'r) agent \<Rightarrow> 'w \<Rightarrow>
    (loop_end option \<times> ('w, 'r) agent \<times> 'w) option" where
  "serve [] a w = Some (None, a, w)"
| "serve ((CtxDone, S) # es) a w = Some (Some EndedByContext, a, w)"
| "serve ((StopSignal, S) # es) a w = Some (Some EndedByStop, a, w)"
| "serve ((TickerFired, S) # es) a w = (case Reconcile S a w of None \<Rightarrow> None | Some (a, w) \<Rightarrow> serve es a w)"

definition Start_agent :: "('w, 'r) services \<Rightarrow> (loop_event \<times> ('w, 'r) services) list \<Rightarrow> ('w, 'r) agent \<Rightarrow> 'w \<Rightarrow>
    (loop_end option \<times> ('w, 'r) agent \<times> 'w) option" where
  "Start_agent S events a w =
     (if c_running (ag_c a) then Some (Some AlreadyRunning, a, w)
      else case Reconcile S (a\<lparr>ag_c := (ag_c a)\<lparr>c_running := True\<rparr>\<rparr>) w of
             None \<Rightarrow> None
           | Some (a, w) \<Rightarrow> serve events a w)"

text \<open>A cycle that gets past its metrics and features polls the reliability telemetry and records it.\<close>

definition poll_telemetry :: "('w, 'r) services \<Rightarrow> 'w telemetry_api \<Rightarrow> int \<Rightarrow> ('w, 'r) agent \<Rightarrow> 'w \<Rightarrow>
    TelemetryCollector option \<times> telemetry_counters \<Rightarrow> TelemetryCollector option \<times> telemetry_counters" where
  "poll_telemetry S A now a w s =
     (case s of (collector, counters) \<Rightarrow>
      (case snd (fetchNodeMetrics S a w) of
         None \<Rightarrow> s
       | Some nodeMetrics \<Rightarrow>
           if nodeMetrics = [] \<or> fst (Collect (s_collector S) w (ag_features a)) \<noteq> None then s
           else case collector of
             None \<Rightarrow> s
           | Some c \<Rightarrow>
               (case CollectReliabilityTelemetry A w now c of
                  (c, snapshot) \<Rightarrow> (Some c, RecordReliabilityTelemetry snapshot counters))))"

section \<open>An agent that only reads\<close>

definition read_only :: "'w Controller \<Rightarrow> bool" where
  "read_only c \<longleftrightarrow> (c_drain c = None \<or> (\<exists>d. c_drain c = Some d \<and> dc_DryRun d)) \<and> c_nodePoolMgr c = None \<and>
     managers (c_capacityRouter c) = Map.empty"

lemma read_only_setup: "read_only c \<Longrightarrow> same_setup c c' \<Longrightarrow> c_capacityRouter c' = c_capacityRouter c \<Longrightarrow> read_only c'"
  by (simp add: read_only_def same_setup_def)

lemma execute_all_read_only:
  "read_only c \<Longrightarrow> execute_all E c w nodes = (c', w') \<Longrightarrow> read_only c' \<and> w' = w"
proof (induction nodes arbitrary: c)
  case (Cons n ns)
  obtain e c1 w1 where x: "executeAction E c w n = (e, c1, w1)" by (metis prod_cases3)
  have "w1 = w" by (rule executeAction_dry [OF _ x]) (use Cons.prems(1) in \<open>simp add: read_only_def\<close>)
  moreover have "read_only c1" using executeAction_setup [OF x] read_only_setup [OF Cons.prems(1)] by blast
  ultimately show ?case using Cons.IH Cons.prems(2) x by simp
qed simp

lemma actuate_read_only:
  assumes "read_only c"
  shows "\<exists>c'. actuate E c w as n = Some (c', w) \<and> read_only c'"
proof -
  have p: "prepareCapacitySwaps E c w nodes = Some (c, w)" for nodes
    using assms by (auto simp: read_only_def prepareCapacitySwaps_def Let_def run_swaps_no_managers split: option.splits)
  have b: "batchSteerKarpenterWeights E c w nodes = (c, w)" for nodes
    using assms by (simp add: read_only_def batchSteerKarpenterWeights_def)
  have "\<exists>c'. execute_all E c w nodes = (c', w) \<and> read_only c'" for nodes
    using execute_all_read_only [OF assms, of E w nodes] by (cases "execute_all E c w nodes") auto
  then show ?thesis using assms by (simp add: actuate_def Let_def p b)
qed

lemma inference_read_only: "read_only c \<Longrightarrow> runInference E c w ms = (c', sh, as) \<Longrightarrow> read_only c'"
  using runInference_result [of E c w ms c' sh as] history_step_setup store_counts_setup
  by (metis read_only_setup same_setup_trans)

lemma Reconcile_read_only:
  assumes "read_only (ag_c a)"
  shows "\<exists>a'. Reconcile S a w = Some (a', w) \<and> read_only (ag_c a')"
proof -
  obtain a1 o1 where f: "fetchNodeMetrics S a w = (a1, o1)" by fastforce
  have a1: "ag_c a1 = ag_c a" using fetch_agent [of S a w] f by simp
  obtain e F where k: "Collect (s_collector S) w (ag_features a1) = (e, F)" by fastforce
  have "\<exists>c'. actuate E' c w as n = Some (c', w) \<and> read_only c'"
    if "runInference E (ag_c a1) w ms = (c, sh, as)" for E E' ms c sh as n
    using actuate_read_only inference_read_only [OF _ that] assms a1 by metis
  then show ?thesis
    using a1 assms k by (fastforce simp: Reconcile_def f Let_def split: option.splits prod.splits)
qed

lemma serve_read_only: "read_only (ag_c a) \<Longrightarrow> \<exists>r a'. serve es a w = Some (r, a', w)"
proof (induction es arbitrary: a)
  case (Cons x es)
  obtain ev S where x: "x = (ev, S)" by fastforce
  obtain a1 where r: "Reconcile S a w = Some (a1, w)" "read_only (ag_c a1)"
    using Reconcile_read_only [OF Cons.prems] by blast
  show ?case by (cases ev) (use x r Cons.IH in auto)
qed simp

lemma Start_agent_read_only:
  assumes "read_only (ag_c a)"
  shows "\<exists>r a'. Start_agent S events a w = Some (r, a', w)"
proof (cases "c_running (ag_c a)")
  case False
  let ?a = "a\<lparr>ag_c := (ag_c a)\<lparr>c_running := True\<rparr>\<rparr>"
  have "read_only (ag_c ?a)" using assms by (simp add: read_only_def)
  then obtain a1 where a1: "Reconcile S ?a w = Some (a1, w)" "read_only (ag_c a1)"
    using Reconcile_read_only [of ?a S w] by blast
  show ?thesis using False a1(1) serve_read_only [OF a1(2), of events w] by (simp add: Start_agent_def)
qed (simp add: Start_agent_def)

lemma New_read_only:
  assumes "New priceMode metricsMode cfg = Inr c" "in_Cloud cfg = Some True"
    and "\<not> kc_Enabled (in_Karpenter cfg)" "\<not> as_Enabled (in_Autoscaling cfg)"
  shows "read_only c"
  using assms by (auto simp: New_def Let_def read_only_def capacity_managers_def NewRouter_def split: if_splits option.splits)

section \<open>Start to stop\<close>

lemma New_histories: "New priceMode metricsMode cfg = Inr c \<Longrightarrow> c_priceHistory c = Map.empty"
  by (auto simp: New_def Let_def split: if_splits option.splits)

lemma serve_keeps:
  "\<forall>(ev, S) \<in> set es. services_ok S (ag_c a) \<Longrightarrow> agent_ok a \<Longrightarrow> serve es a w = Some (r, a', w') \<Longrightarrow>
   agent_ok a' \<and> same_setup (ag_c a) (ag_c a')"
proof (induction es arbitrary: a w)
  case (Cons x es)
  obtain ev S where x: "x = (ev, S)" by fastforce
  show ?case
  proof (cases ev)
    case TickerFired
    then obtain a1 w1 where k: "Reconcile S a w = Some (a1, w1)" "serve es a1 w1 = Some (r, a', w')"
      using Cons.prems(3) x by (auto split: option.splits)
    from Reconcile_keeps [OF _ Cons.prems(2) k(1)] Cons.prems(1) x
    have "agent_ok a1" "same_setup (ag_c a) (ag_c a1)" by auto
    with Cons.IH [OF _ _ k(2)] Cons.prems(1) show ?thesis by (fastforce intro: same_setup_trans services_ok_setup)
  qed (use Cons.prems x in auto)
qed simp

text \<open>
  Whatever cycles run between its start and its end, an agent keeps what \<open>runAgent\<close> has set up:
  valid pool state, the drain configuration and the dry-run flag.
\<close>

lemma started_agent_keeps:
  assumes "runAgent E w0 t dryRun cfgFile = Inr st"
    and "\<forall>S' \<in> insert S (snd ` set events). services_ok S' ((st_controller st)\<lparr>c_running := True\<rparr>)"
    and "Start_agent S events (started_agent st) w = Some (r, a', w')"
  shows "agent_ok a' \<and> c_dryRun (ag_c a') = dryRun \<and> c_running (ag_c a') \<and> c_drain (ag_c a') = c_drain (st_controller st)"
  using assms(1)
proof (rule runAgent_stages)
  fix K dyn sel asg
  assume new: "New (su_Getenv E ''SPOTVORTEX_PRICE_MODE'') (su_Getenv E ''SPOTVORTEX_METRICS_MODE'')
       (controller_config (st_cfg st) dryRun K dyn asg) = Inr (st_controller st)"
  let ?c = "(st_controller st)\<lparr>c_running := True\<rparr>"
  let ?a = "(started_agent st :: ('a, 'b) agent)\<lparr>ag_c := ?c\<rparr>"
  have safe: "\<not> c_running (st_controller st)" "c_dryRun (st_controller st) = dryRun" "ratios_ok (st_controller st)"
      "wf_router (c_capacityRouter (st_controller st))"
    using New_safe [OF new] by (auto simp: controller_config_fields)
  have ok: "agent_ok ?a" using safe New_histories [OF new] by (simp add: agent_ok_def ratios_ok_def histories_ok_def)
  obtain a1 w1 where k: "Reconcile S ?a w = Some (a1, w1)" "serve events a1 w1 = Some (r, a', w')"
    using assms(3) safe(1) by (auto simp: Start_agent_def started_agent_def split: option.splits)
  have c: "agent_ok a1" "same_setup ?c (ag_c a1)" using Reconcile_keeps [OF _ ok k(1)] assms(2) by auto
  have "agent_ok a' \<and> same_setup (ag_c a1) (ag_c a')"
    by (rule serve_keeps [OF _ c(1) k(2)]) (use assms(2) c(2) in \<open>force intro: services_ok_setup\<close>)
  then show ?thesis using same_setup_trans [OF c(2)] safe(2) by (auto simp: same_setup_def)
qed

lemma started_read_only:
  assumes "runAgent E w0 t True cfgFile = Inr st"
    and "\<not> kc_Enabled (cfg_Karpenter (st_cfg st))" "\<not> as_Enabled (cfg_Autoscaling (st_cfg st))"
  shows "read_only (st_controller st)"
  using assms(1)
proof (rule runAgent_stages)
  fix K dyn sel asg
  assume "New (su_Getenv E ''SPOTVORTEX_PRICE_MODE'') (su_Getenv E ''SPOTVORTEX_METRICS_MODE'')
       (controller_config (st_cfg st) True K dyn asg) = Inr (st_controller st)"
  then show ?thesis
    by (rule New_read_only) (use assms(2,3) in \<open>simp_all add: controller_config_def SpotWrapper_IsDryRun_def NewSpotWrapper_def\<close>)
qed

end
