(* ===== verification/Observability.thy ===== *)
theory Observability
  imports Reconcile
begin

text \<open>
  internal/metrics/metrics.go and shadow_metrics.go, and the calls a cycle makes to them from
  internal/controller/controller.go, shadow_observability.go and savings.go. The collectors are
  declared with their kind, name and label names; what a cycle tells Prometheus is the list of
  its calls, in the order of the code. The client library refuses, with a panic, a call with
  another number of label values than declared and a counter that is decreased; \<open>call_ok\<close> is what
  it asks for.
\<close>

section \<open>Declarations\<close>

datatype metric_kind = Gauge | Counter | Histogram

datatype metric = M_CapacityScore | M_ActionTaken | M_SpotPriceUSD | M_OnDemandPriceUSD | M_SavingsUSDHourly
  | M_OutagesAvoided | M_GuardrailBlocked | M_InferenceLatency | M_ReconcileLoopDuration | M_NodesManaged
  | M_NodesDraining | M_MarketVolatility | M_PotentialSavingsHourly | M_PotentialSavingsPoolTotal
  | M_RecommendedAction | M_NodesOptimizable | M_DryRunCumulativeSavings | M_RiskScore | M_RuntimeScore
  | M_SpotRatioCurrent | M_SpotRatioTarget | M_DecisionSource | M_UnsupportedInstanceFamily
  | M_DeterministicDecisionReason | M_WorkloadCap | M_WorkloadOOD | M_WorkloadOODReason
  | M_ShadowActionRecommended | M_ShadowActionAgreement | M_ShadowActionDelta
  | M_ShadowProjectedSavingsDeltaUSD | M_ShadowGuardrailBlocked

type_synonym metric_decl = "metric \<times> metric_kind \<times> string \<times> string list"

definition core_metrics :: "metric_decl list" where
  "core_metrics =
     [(M_CapacityScore, Gauge, ''capacity_score'', [''node'', ''zone'']),
      (M_ActionTaken, Counter, ''action_taken_total'', [''action'']),
      (M_SpotPriceUSD, Gauge, ''spot_price_usd'', [''instance'', ''zone'']),
      (M_OnDemandPriceUSD, Gauge, ''ondemand_price_usd'', [''instance'']),
      (M_SavingsUSDHourly, Gauge, ''savings_usd_hourly'', []),
      (M_OutagesAvoided, Counter, ''outages_avoided_total'', []),
      (M_GuardrailBlocked, Counter, ''guardrail_blocked_total'', [''guardrail'']),
      (M_InferenceLatency, Histogram, ''inference_latency_seconds'', [''model'']),
      (M_ReconcileLoopDuration, Histogram, ''reconcile_loop_duration_seconds'', []),
      (M_NodesManaged, Gauge, ''nodes_managed'', []),
      (M_NodesDraining, Gauge, ''nodes_draining'', []),
      (M_MarketVolatility, Gauge, ''market_volatility'', [''zone''])]"

definition preview_metrics :: "metric_decl list" where
  "preview_metrics =
     [(M_PotentialSavingsHourly, Gauge, ''potential_savings_hourly_usd'', [''node'', ''pool'', ''instance_type'']),
      (M_PotentialSavingsPoolTotal, Gauge, ''potential_savings_pool_total_usd'', [''pool'']),
      (M_RecommendedAction, Gauge, ''recommended_action'', [''node'', ''pool'']),
      (M_NodesOptimizable, Gauge, ''nodes_optimizable'', [''pool'']),
      (M_DryRunCumulativeSavings, Counter, ''dry_run_cumulative_savings_usd'', []),
      (M_RiskScore, Gauge, ''risk_score'', [''pool'', ''zone'']),
      (M_RuntimeScore, Gauge, ''runtime_score'', [''pool'', ''zone'']),
      (M_SpotRatioCurrent, Gauge, ''spot_ratio_current'', [''pool'']),
      (M_SpotRatioTarget, Gauge, ''spot_ratio_target'', [''pool'']),
      (M_DecisionSource, Counter, ''decision_source_total'', [''source'', ''action'']),
      (M_UnsupportedInstanceFamily, Counter, ''unsupported_instance_family_total'', [''family'']),
      (M_DeterministicDecisionReason, Counter, ''deterministic_decision_reason_total'', [''reason'']),
      (M_WorkloadCap, Gauge, ''workload_cap'', [''pool'']),
      (M_WorkloadOOD, Gauge, ''workload_ood'', [''pool'']),
      (M_WorkloadOODReason, Counter, ''workload_ood_reason_total'', [''reason''])]"

definition shadow_metrics :: "metric_decl list" where
  "shadow_metrics =
     [(M_ShadowActionRecommended, Counter, ''shadow_action_recommended_total'', [''source'', ''action'']),
      (M_ShadowActionAgreement, Counter, ''shadow_action_agreement_total'', [''agreement'']),
      (M_ShadowActionDelta, Counter, ''shadow_action_delta_total'', [''deterministic_action'', ''rl_action'']),
      (M_ShadowProjectedSavingsDeltaUSD, Gauge, ''shadow_projected_savings_delta_usd'', [''pool'']),
      (M_ShadowGuardrailBlocked, Counter, ''shadow_guardrail_blocked_total'', [''guardrail''])]"

text \<open>The collectors of reliability_telemetry.go are registered beside them.\<close>

definition reliability_names :: "string list" where
  "reliability_names =
     [''aws_interruption_notice_total'', ''aws_rebalance_recommendation_total'', ''node_termination_total'',
      ''node_notready_total'', ''pod_evictions_total'', ''pod_restarts_total'', ''pod_pending_duration_seconds'',
      ''recovery_time_seconds'']"

definition declarations :: "metric_decl list" where
  "declarations = core_metrics @ preview_metrics @ shadow_metrics"

definition declared :: "metric \<Rightarrow> metric_kind \<times> nat" where
  "declared m = (case map_of declarations m of None \<Rightarrow> (Gauge, 0) | Some (k, _, labels) \<Rightarrow> (k, length labels))"

lemma declared_simps [simp]:
  "declared M_CapacityScore = (Gauge, 2)" "declared M_ActionTaken = (Counter, 1)" "declared M_SpotPriceUSD = (Gauge, 2)"
  "declared M_OnDemandPriceUSD = (Gauge, 1)" "declared M_SavingsUSDHourly = (Gauge, 0)" "declared M_OutagesAvoided = (Counter, 0)"
  "declared M_GuardrailBlocked = (Counter, 1)" "declared M_InferenceLatency = (Histogram, 1)"
  "declared M_ReconcileLoopDuration = (Histogram, 0)" "declared M_PotentialSavingsHourly = (Gauge, 3)"
  "declared M_PotentialSavingsPoolTotal = (Gauge, 1)" "declared M_RecommendedAction = (Gauge, 2)"
  "declared M_NodesOptimizable = (Gauge, 1)" "declared M_DryRunCumulativeSavings = (Counter, 0)"
  "declared M_RiskScore = (Gauge, 2)" "declared M_RuntimeScore = (Gauge, 2)" "declared M_SpotRatioCurrent = (Gauge, 1)"
  "declared M_DecisionSource = (Counter, 2)" "declared M_UnsupportedInstanceFamily = (Counter, 1)"
  "declared M_DeterministicDecisionReason = (Counter, 1)" "declared M_WorkloadCap = (Gauge, 1)"
  "declared M_WorkloadOOD = (Gauge, 1)" "declared M_WorkloadOODReason = (Counter, 1)"
  "declared M_ShadowActionRecommended = (Counter, 2)" "declared M_ShadowActionAgreement = (Counter, 1)"
  "declared M_ShadowActionDelta = (Counter, 2)" "declared M_ShadowProjectedSavingsDeltaUSD = (Gauge, 1)"
  "declared M_ShadowGuardrailBlocked = (Counter, 1)"
  by (code_simp+)

text \<open>
  Registering a name twice panics when the program starts. No two collectors share a name, and
  every collector is declared once.
\<close>

lemma registration_distinct: "distinct (map (\<lambda>(m, k, name, ls). name) declarations @ reliability_names)"
  by code_simp

lemma all_declared: "map_of declarations m \<noteq> None"
  by (cases m; hypsubst; code_simp)

section \<open>Calls\<close>

datatype metric_call = Inc metric "string list" | Add metric "string list" f64 | SetTo metric "string list" f64
  | Observe metric "string list"

fun call_ok :: "metric_call \<Rightarrow> bool" where
  "call_ok (Inc m ls) = (declared m = (Counter, length ls))"
| "call_ok (Add m ls v) = (declared m = (Counter, length ls) \<and> \<not> v < Fin 0)"
| "call_ok (SetTo m ls v) = (declared m = (Gauge, length ls))"
| "call_ok (Observe m ls) = (declared m = (Histogram, length ls))"

fun ActionToString :: "Action \<Rightarrow> string" where
  "ActionToString ActionHold = ''HOLD''"
| "ActionToString ActionDecrease10 = ''DECREASE_10''"
| "ActionToString ActionDecrease30 = ''DECREASE_30''"
| "ActionToString ActionIncrease10 = ''INCREASE_10''"
| "ActionToString ActionIncrease30 = ''INCREASE_30''"
| "ActionToString ActionEmergencyExit = ''EMERGENCY_EXIT''"
| "ActionToString (ActionUnknown n) = ''UNKNOWN''"

text \<open>The series that exist from the start, with value zero.\<close>

definition init_calls :: "metric_call list" where
  "init_calls =
     map (\<lambda>action. Add M_ShadowActionRecommended [''rl'', action] (Fin 0))
       [''HOLD'', ''DECREASE_10'', ''DECREASE_30'', ''INCREASE_10'', ''INCREASE_30'', ''EMERGENCY_EXIT''] @
     map (\<lambda>agreement. Add M_ShadowActionAgreement [agreement] (Fin 0)) [''same'', ''different''] @
     [Add M_ShadowActionDelta [''HOLD'', ''HOLD''] (Fin 0)] @
     map (\<lambda>guardrail. Add M_ShadowGuardrailBlocked [guardrail] (Fin 0))
       [''cluster_fraction'', ''low_confidence'', ''pdb'', ''critical_workload'', ''high_utilization'']"

definition RecordSavings :: "f64 \<Rightarrow> f64 \<Rightarrow> int \<Rightarrow> metric_call list" where
  "RecordSavings spotPrice onDemandPrice nodeCount =
     (if Fin 0 < onDemandPrice \<and> Fin 0 < spotPrice
      then [SetTo M_SavingsUSDHourly [] ((onDemandPrice - spotPrice) * f64_of_int nodeCount)] else [])"

section \<open>One decision\<close>

definition unsupported_calls :: "string \<Rightarrow> metric_call list" where
  "unsupported_calls instanceType =
     [Inc M_UnsupportedInstanceFamily [InstanceFamilyLabel instanceType],
      Inc M_DecisionSource [''unsupported_family'', ActionToString ActionEmergencyExit]]"

definition recordShadowDecisionComparison ::
  "'w Controller \<Rightarrow> 'w \<Rightarrow> string \<Rightarrow> NodeState \<Rightarrow> Action \<Rightarrow> Action \<Rightarrow> f64 \<Rightarrow> f64 \<Rightarrow> f64 \<Rightarrow> metric_call list \<times> f64" where
  "recordShadowDecisionComparison c w scopeNodeID state deterministicAction rlAction capacityScore rlConfidence multiplier =
     ([Inc M_ShadowActionRecommended [''rl'', ActionToString rlAction],
       Inc M_ShadowActionAgreement [if deterministicAction = rlAction then ''same'' else ''different''],
       Inc M_ShadowActionDelta [ActionToString deterministicAction, ActionToString rlAction]] @
      (case shadowGuardrailBlock c w scopeNodeID rlAction state capacityScore rlConfidence of
         None \<Rightarrow> []
       | Some guardrail \<Rightarrow> [Inc M_ShadowGuardrailBlocked [guardrail]]),
      projectedHourlySavingsDeltaProxyUSD state deterministicAction rlAction multiplier)"

definition decision_calls :: "string \<Rightarrow> deterministicDecision \<Rightarrow> metric_call list" where
  "decision_calls pool d =
     [Inc M_DeterministicDecisionReason [Reason d], SetTo M_WorkloadCap [pool] (EffectiveCap d)] @
     (if IsOOD d then SetTo M_WorkloadOOD [pool] (Fin 1) # map (\<lambda>reason. Inc M_WorkloadOODReason [reason]) (OODReasons d)
      else [SetTo M_WorkloadOOD [pool] (Fin 0)])"

text \<open>
  The calls of \<open>assess\<close>: \<open>scopeID\<close> is what the prediction is for, \<open>guardNode\<close> the node whose
  guardrails the shadow is checked against.
\<close>

definition assess_calls :: "'w ienv \<Rightarrow> 'w Controller \<Rightarrow> 'w \<Rightarrow> RuntimeConfig \<Rightarrow> string \<Rightarrow> string \<Rightarrow> string \<Rightarrow> NodeState \<Rightarrow> f64 \<Rightarrow>
    metric_call list" where
  "assess_calls E c w cfg scopeID guardNode pool state multiplier =
     (let useDeterministic = UseDeterministicPolicy (Some cfg);
          p = i_predict E scopeID state (RiskMultiplier cfg)
      in Observe M_InferenceLatency [''pipeline''] #
        (case usable_scores useDeterministic p of
           None \<Rightarrow> []
         | Some (capacityScore, runtimeScore) \<Rightarrow>
             if useDeterministic
             then case evaluateDeterministicPolicy (e_files E) state capacityScore runtimeScore (Some cfg) of
               (action, d) \<Rightarrow>
                 decision_calls pool d @
                 (if UseRLShadow (Some cfg) \<and> p_err p = None
                  then fst (recordShadowDecisionComparison c w guardNode state action (p_action p) capacityScore (p_confidence p) multiplier)
                  else []) @
                 [Inc M_DecisionSource [''deterministic'', ActionToString action]]
             else [Inc M_DecisionSource [''rl'', ActionToString (p_action p)]]))"

definition market_calls :: "string \<Rightarrow> string \<Rightarrow> string \<Rightarrow> string \<Rightarrow> f64 \<Rightarrow> f64 \<Rightarrow> NodeAssessment \<Rightarrow> metric_call list" where
  "market_calls node pool zone instanceType spotPrice odPrice a =
     [SetTo M_CapacityScore [node, zone] (na_CapacityScore a), SetTo M_RuntimeScore [pool, zone] (na_RuntimeScore a)] @
     (if instanceType \<noteq> [] \<and> zone \<noteq> [] then [SetTo M_SpotPriceUSD [instanceType, zone] spotPrice] else []) @
     (if instanceType \<noteq> [] then [SetTo M_OnDemandPriceUSD [instanceType] odPrice] else [])"

definition shadow_gauge_calls :: "RuntimeConfig \<Rightarrow> (string list \<Rightarrow> string list) \<Rightarrow> string list \<Rightarrow> shadow_sums \<Rightarrow> metric_call list" where
  "shadow_gauge_calls cfg order pools shadow =
     (if UseDeterministicPolicy (Some cfg) \<and> UseRLShadow (Some cfg)
      then map (\<lambda>pool. SetTo M_ShadowProjectedSavingsDeltaUSD [pool] (get_or (Fin 0) shadow pool))
             (order (filter (\<lambda>pool. shadow pool \<noteq> None) (remdups pools)))
      else [])"

section \<open>The inference loops\<close>

definition infer_node_calls :: "'w ienv \<Rightarrow> 'w \<Rightarrow> RuntimeConfig \<Rightarrow> f64 \<Rightarrow> (string \<rightharpoonup> string) \<Rightarrow> 'w loop_state \<Rightarrow> NodeMetrics \<Rightarrow>
    metric_call list" where
  "infer_node_calls E w cfg clusterUtil workloadPool st m =
     (case st of (c, cache, shadow) \<Rightarrow>
      let poolID = pool_id_of c workloadPool m in
      if i_supports E (nm_InstanceType m) \<noteq> None then unsupported_calls (nm_InstanceType m)
      else case node_market E c cache poolID m of (c, cache, m, history) \<Rightarrow>
        if market_missing (nm_SpotPrice m) (nm_OnDemandPrice m) history then []
        else
          let state = node_state E c cfg clusterUtil poolID poolID (nm_SpotPrice m) (nm_OnDemandPrice m) history
                        (nm_CPUUsagePercent m) (nm_MemoryUsagePercent m) (nm_IsSpot m)
          in assess_calls E c w cfg (nm_NodeID m) (nm_NodeID m) poolID state (Fin 1) @
             (case assess E cfg (nm_NodeID m) (nm_NodeID m) state (Fin 1) of
                None \<Rightarrow> []
              | Some (a, d) \<Rightarrow>
                  market_calls (nm_NodeID m) poolID (nm_Zone m) (nm_InstanceType m) (nm_SpotPrice m) (nm_OnDemandPrice m) a))"

fun infer_nodes_calls :: "'w ienv \<Rightarrow> 'w \<Rightarrow> RuntimeConfig \<Rightarrow> f64 \<Rightarrow> (string \<rightharpoonup> string) \<Rightarrow> 'w loop_state \<Rightarrow> NodeMetrics list \<Rightarrow>
    metric_call list" where
  "infer_nodes_calls E w cfg clusterUtil workloadPool st [] = []"
| "infer_nodes_calls E w cfg clusterUtil workloadPool st (m # ms) =
     infer_node_calls E w cfg clusterUtil workloadPool st m @
     infer_nodes_calls E w cfg clusterUtil workloadPool (fst (infer_node E cfg clusterUtil workloadPool st m)) ms"

definition infer_pool_calls :: "'w ienv \<Rightarrow> 'w \<Rightarrow> RuntimeConfig \<Rightarrow> f64 \<Rightarrow> (string \<rightharpoonup> poolAggregation) \<Rightarrow>
    'w loop_state \<times> (string \<rightharpoonup> NodeAssessment) \<Rightarrow> string \<Rightarrow> metric_call list" where
  "infer_pool_calls E w cfg clusterUtil aggs s poolKey =
     (case s of ((c, cache, shadow), actions) \<Rightarrow>
      case aggs poolKey of None \<Rightarrow> []
      | Some agg \<Rightarrow>
        let instanceType = pa_dominantType agg; zone = pa_zone agg in
        if pa_nodes agg = [] then []
        else if instanceType = [] \<or> zone = [] then []
        else if i_supports E instanceType \<noteq> None then unsupported_calls instanceType
        else
          let poolID = getPoolIDWithExtendedFormat c instanceType zone (pa_workloadPool agg) in
          case pool_market E c cache poolID instanceType zone of (c, cache, spotPrice, odPrice, history) \<Rightarrow>
          if market_missing spotPrice odPrice history then []
          else
            let state = node_state E c cfg clusterUtil poolID poolKey spotPrice odPrice history
                          (pa_avgCPUUsage agg) (pa_avgMemUsage agg) (pa_spotNodes agg > pa_odNodes agg);
                multiplier = f64_of_int (int (length (pa_nodes agg)))
            in assess_calls E c w cfg poolKey (nm_NodeID (hd (pa_nodes agg))) poolKey state multiplier @
               (case assess E cfg poolKey poolKey state multiplier of
                  None \<Rightarrow> []
                | Some (a, d) \<Rightarrow> market_calls poolKey poolKey zone instanceType spotPrice odPrice a))"

fun infer_pools_calls :: "'w ienv \<Rightarrow> 'w \<Rightarrow> RuntimeConfig \<Rightarrow> f64 \<Rightarrow> (string \<rightharpoonup> poolAggregation) \<Rightarrow>
    'w loop_state \<times> (string \<rightharpoonup> NodeAssessment) \<Rightarrow> string list \<Rightarrow> metric_call list" where
  "infer_pools_calls E w cfg clusterUtil aggs s [] = []"
| "infer_pools_calls E w cfg clusterUtil aggs s (k # ks) =
     infer_pool_calls E w cfg clusterUtil aggs s k @
     infer_pools_calls E w cfg clusterUtil aggs (infer_pool E cfg clusterUtil aggs s k) ks"

fun spread_calls :: "'w ienv \<Rightarrow> (string \<rightharpoonup> nodeInfo) \<Rightarrow> (string \<rightharpoonup> string) \<Rightarrow> (string \<rightharpoonup> NodeAssessment) \<Rightarrow>
    NodeMetrics list \<Rightarrow> metric_call list" where
  "spread_calls E info nodeToPoolID actions [] = []"
| "spread_calls E info nodeToPoolID actions (m # ms) =
     (let nodeID = TrimSpace (nm_NodeID m);
          (nodeID, instanceType) = (case info nodeID of
             None \<Rightarrow> (nodeID, nm_InstanceType m)
           | Some i \<Rightarrow> (ni_name i, if nm_InstanceType m = [] then ni_instanceType i else nm_InstanceType m));
          poolKey = get_or [] nodeToPoolID nodeID
      in (if poolKey \<noteq> [] \<and> actions poolKey \<noteq> None \<and> i_supports E instanceType \<noteq> None
          then unsupported_calls instanceType else [])) @ spread_calls E info nodeToPoolID actions ms"

definition inference_calls :: "'w ienv \<Rightarrow> 'w Controller \<Rightarrow> 'w \<Rightarrow> NodeMetrics list \<Rightarrow> metric_call list" where
  "inference_calls E c w ms =
     (let cfg = runtimeConfigForTick (env.truncate E);
          clusterUtil = calculateClusterUtilization ms;
          info = nodeInfo_or_empty c w
      in if UsePoolLevelInference (c_karpenterCfg c)
         then
           let (aggs, nodeToPoolID) = foldl (group_node info) (Map.empty, Map.empty) ms;
               aggs = (\<lambda>k. map_option (finalize_aggregation (i_type_order E)) (aggs k));
               c = store_counts c (pool_counts aggs);
               keys = e_order E (group_keys info ms);
               s = ((c, Map.empty, Map.empty), Map.empty);
               ((_, _, shadow), actions) = foldl (infer_pool E cfg clusterUtil aggs) s keys
           in infer_pools_calls E w cfg clusterUtil aggs s keys @ shadow_gauge_calls cfg (e_order E) keys shadow @
              spread_calls E info nodeToPoolID actions ms
         else
           let scan = scan_nodes c info ms;
               c = store_counts c (sc_counts scan);
               s = (c, Map.empty, Map.empty);
               ((_, _, shadow), _) = infer_nodes E cfg clusterUtil (sc_workloadPool scan) s (sc_resolved scan)
           in infer_nodes_calls E w cfg clusterUtil (sc_workloadPool scan) s (sc_resolved scan) @
              shadow_gauge_calls cfg (e_order E) (map (pool_id_of c (sc_workloadPool scan)) (sc_resolved scan)) shadow)"

section \<open>The savings report\<close>

fun action_code :: "Action \<Rightarrow> int" where
  "action_code ActionHold = 0"
| "action_code ActionDecrease10 = 1"
| "action_code ActionDecrease30 = 2"
| "action_code ActionIncrease10 = 3"
| "action_code ActionIncrease30 = 4"
| "action_code ActionEmergencyExit = 5"
| "action_code (ActionUnknown n) = n"

definition node_savings_calls :: "string \<Rightarrow> NodeSavings \<Rightarrow> metric_call list" where
  "node_savings_calls poolID ns =
     [SetTo M_PotentialSavingsHourly [sv_NodeID ns, poolID, sv_InstanceType ns] (sv_SavingsHourly ns),
      SetTo M_RecommendedAction [sv_NodeID ns, poolID] (f64_of_int (action_code (sv_Action ns)))]"

definition pool_savings_calls :: "string \<Rightarrow> PoolSavings \<Rightarrow> metric_call list" where
  "pool_savings_calls poolID ps =
     [SetTo M_PotentialSavingsPoolTotal [poolID] (ps_PotentialSavingsMonth ps),
      SetTo M_NodesOptimizable [poolID] (f64_of_int (ps_OptimizableOD ps)),
      SetTo M_RiskScore [poolID, ps_Zone ps] (ps_PoolRiskScore ps)] @
     (if 0 < ps_TotalNodes ps
      then [SetTo M_SpotRatioCurrent [poolID] (f64_of_int (ps_SpotNodes ps) / f64_of_int (ps_TotalNodes ps))] else []) @
     concat (map (node_savings_calls poolID) (ps_NodeSavings ps))"

text \<open>\<open>order\<close> is the order in which the map of pools is visited.\<close>

definition dry_run_calls :: "(string list \<Rightarrow> string list) \<Rightarrow> SavingsReport \<Rightarrow> metric_call list" where
  "dry_run_calls order report =
     concat (map (\<lambda>p. case map_of (sr_Pools report) p of None \<Rightarrow> [] | Some ps \<Rightarrow> pool_savings_calls p ps)
       (order (map fst (sr_Pools report)))) @
     (if Fin 0 < sr_TotalSavingsHour report then [Add M_DryRunCumulativeSavings [] (sr_TotalSavingsHour report)] else [])"

section \<open>Guardrails and drains\<close>

definition guardrail_calls :: "'w Controller \<Rightarrow> 'w k8s \<Rightarrow> 'w \<Rightarrow> Node \<Rightarrow> NodeAssessment \<Rightarrow> metric_call list" where
  "guardrail_calls c K w nodeObj assessment =
     (case toExecutorAction (na_Action assessment) of
        (_, False) \<Rightarrow> []
      | (action, True) \<Rightarrow>
          (case Check K w (NewGuardrailChecker (c_maxDrainRatio c)) nodeObj action
             \<lparr>es_NodeName = node_Name nodeObj,
              es_InstanceType = label_get (node_Labels nodeObj) LabelInstanceType,
              es_Zone = label_get (node_Labels nodeObj) LabelZone,
              es_CapacityScore = na_CapacityScore assessment, es_SpotPrice = Fin 0, es_OnDemandPrice = Fin 0,
              es_PodStartupTime = Fin 0, es_OutagePenalty = Fin 0, es_Confidence = na_Confidence assessment,
              es_ClusterUtilization = na_ClusterUtilization assessment\<rparr> of
             Inl e \<Rightarrow> []
           | Inr result \<Rightarrow> if \<not> Approved result then [Inc M_GuardrailBlocked [GuardrailName result]] else []))"

definition precheck_calls :: "'w Controller \<Rightarrow> 'w \<Rightarrow> NodeAssessment list \<Rightarrow> metric_call list" where
  "precheck_calls c w nodes =
     (case c_k8s c of
        None \<Rightarrow> []
      | Some K \<Rightarrow> concat (map (\<lambda>n. case k_getNode K w (na_NodeID n) of Inl _ \<Rightarrow> [] | Inr nodeObj \<Rightarrow> guardrail_calls c K w nodeObj n) nodes))"

definition action_calls :: "'w env \<Rightarrow> 'w Controller \<Rightarrow> 'w \<Rightarrow> NodeAssessment \<Rightarrow> metric_call list" where
  "action_calls E c w node =
     (case c_k8s c of
        None \<Rightarrow> []
      | Some K \<Rightarrow>
        (case k_getNode K w (na_NodeID node) of
           Inl e \<Rightarrow> []
         | Inr nodeObj \<Rightarrow>
           if \<not> may_drain nodeObj (na_Action node) then []
           else guardrail_calls c K w nodeObj node @
             (case applyActiveGuardrails c K w nodeObj node of
                Inl e \<Rightarrow> []
              | Inr (guardedAction, blocked) \<Rightarrow>
                  let allowMonitoringDrain = (EqualFold (e_allowMonitoringDrain E) ''true'' \<or> e_allowMonitoringDrain E = ''1'') in
                  if blocked then []
                  else case c_drain c of
                    None \<Rightarrow> []
                  | Some d \<Rightarrow>
                      if \<not> allowMonitoringDrain \<and> nodeHasNamespace c w (na_NodeID node) ''monitoring'' then []
                      else case Drain K d w (na_NodeID node) of
                        (result, w') \<Rightarrow>
                          if dr_Error result \<noteq> None \<or> \<not> dr_Success result
                             \<or> fst (finish_drain E c K w' nodeObj (na_NodeID node) result) \<noteq> None then []
                          else [Inc M_ActionTaken [ActionToString guardedAction], Inc M_OutagesAvoided []])))"

fun execute_calls :: "'w env \<Rightarrow> 'w Controller \<Rightarrow> 'w \<Rightarrow> NodeAssessment list \<Rightarrow> metric_call list" where
  "execute_calls E c w [] = []"
| "execute_calls E c w (n # ns) =
     action_calls E c w n @ (case executeAction E c w n of (_, c', w') \<Rightarrow> execute_calls E c' w' ns)"

definition actuate_calls :: "'w env \<Rightarrow> 'w Controller \<Rightarrow> 'w \<Rightarrow> NodeAssessment list \<Rightarrow> int \<Rightarrow> metric_call list" where
  "actuate_calls E c w assessments totalNodes =
     (let actionable = filterExecutableNodes c w (filterActionableNodes c assessments) in
      if actionable = [] then []
      else
        let limited = applyDrainLimit c w actionable totalNodes;
            nodesToDrain = applyGuardrailsBeforePrep c w limited
        in precheck_calls c w limited @
          (if nodesToDrain = [] then []
           else case batchSteerKarpenterWeights E c w nodesToDrain of
             (c1, w1) \<Rightarrow>
               (case prepareCapacitySwaps E c1 w1 nodesToDrain of
                  None \<Rightarrow> []
                | Some (c2, w2) \<Rightarrow> execute_calls E c2 w2 nodesToDrain)))"

text \<open>Everything \<open>Reconcile\<close> tells Prometheus, apart from the reliability telemetry (Reliability).\<close>

definition cycle_calls :: "('w, 'r) services \<Rightarrow> ('w, 'r) agent \<Rightarrow> 'w \<Rightarrow> metric_call list" where
  "cycle_calls S a w =
     (case fetchNodeMetrics S a w of
        (a, None) \<Rightarrow> []
      | (a, Some nodeMetrics) \<Rightarrow>
          if nodeMetrics = [] then []
          else case Collect (s_collector S) w (ag_features a) of
            (Some _, features) \<Rightarrow> []
          | (None, features) \<Rightarrow>
              let E = (s_env S)\<lparr>i_features := features\<rparr> in
              case runInference E (ag_c a) w nodeMetrics of
                (c, _, assessments) \<Rightarrow>
                  inference_calls E (ag_c a) w nodeMetrics @
                  (if c_dryRun c then dry_run_calls (e_order E) (generateAndLogSavingsReport E c w nodeMetrics assessments) else []) @
                  actuate_calls (env.truncate E) c w assessments (int (length nodeMetrics))) @
     [Observe M_ReconcileLoopDuration []]"

section \<open>No call is refused\<close>

fun preset :: "metric_call \<Rightarrow> bool" where
  "preset (Inc m ls) = (m \<in> {M_ShadowActionRecommended, M_ShadowActionAgreement, M_ShadowGuardrailBlocked} \<longrightarrow>
     Add m ls (Fin 0) \<in> set init_calls \<or> ls = [''rl'', ''UNKNOWN''])"
| "preset _ = True"

definition sound :: "metric_call \<Rightarrow> bool" where
  "sound x \<longleftrightarrow> call_ok x \<and> preset x"

lemma ActionToString_preset:
  "Add M_ShadowActionRecommended [''rl'', ActionToString a] (Fin 0) \<in> set init_calls \<or> ActionToString a = ''UNKNOWN''"
  by (cases a) (simp_all add: init_calls_def)

lemma blocked_name:
  assumes "Check K w g node a s = Inr r" "\<not> Approved r"
  shows "GuardrailName r \<in> {''cluster_fraction'', ''low_confidence'', ''high_utilization''}"
proof -
  have "GuardrailName r1 = ''cluster_fraction''" if "checkClusterFraction K w g = Inr r1" "\<not> Approved r1" for r1
    using that by (auto simp: checkClusterFraction_def Let_def split: sum.splits if_splits)
  moreover have "\<not> Approved (checkHighUtilization g s a) \<Longrightarrow> GuardrailName (checkHighUtilization g s a) = ''high_utilization''"
    by (auto simp: checkHighUtilization_def split: if_splits)
  moreover have "GuardrailName (checkConfidence g s) = ''low_confidence''" by (simp add: checkConfidence_def)
  ultimately show ?thesis
    using assms unfolding Check_def Let_def by (auto split: if_splits sum.splits dest: checkPDB_cases checkCritical_cases)
qed

lemma shadowGuardrailBlock_preset:
  assumes "shadowGuardrailBlock c w n a st cs conf = Some g"
  shows "Add M_ShadowGuardrailBlocked [g] (Fin 0) \<in> set init_calls"
proof -
  obtain K x node s r where "Check K w (NewGuardrailChecker (Fin 0)) node x s = Inr r" "\<not> Approved r" "g = GuardrailName r"
    using assms by (auto simp: shadowGuardrailBlock_def split: option.splits if_splits prod.splits bool.splits sum.splits)
  from blocked_name [OF this(1,2)] this(3) show ?thesis by (auto simp: init_calls_def)
qed

lemma sound_simps [simp]:
  "sound (SetTo m ls v) = (declared m = (Gauge, length ls))"
  "sound (Observe m ls) = (declared m = (Histogram, length ls))"
  "sound (Add m ls v) = (declared m = (Counter, length ls) \<and> \<not> v < Fin 0)"
  by (simp_all add: sound_def)

lemma sound_comparison: "list_all sound (fst (recordShadowDecisionComparison c w n st d r cs conf mul))"
proof -
  have "Add M_ShadowActionAgreement [if d = r then ''same'' else ''different''] (Fin 0) \<in> set init_calls"
    by (simp add: init_calls_def)
  then show ?thesis
    using ActionToString_preset [of r] shadowGuardrailBlock_preset [of c w n r st cs conf]
    by (simp add: recordShadowDecisionComparison_def sound_def split: option.splits)
qed

lemma sound_decision: "list_all sound (decision_calls pool d)"
  by (auto simp: decision_calls_def sound_def list_all_iff)

lemma sound_unsupported_calls: "list_all sound (unsupported_calls t)"
  by (simp add: unsupported_calls_def sound_def)

lemma sound_assess: "list_all sound (assess_calls E c w cfg scope g pool st mul)"
  by (auto simp: assess_calls_def Let_def sound_decision sound_comparison sound_def [of "Inc _ _"] split: option.splits prod.splits)

lemma sound_market: "list_all sound (market_calls n pool zone t sp od a)"
  by (simp add: market_calls_def)

lemmas sound_parts = sound_assess sound_market sound_unsupported_calls

lemma sound_node: "list_all sound (infer_node_calls E w cfg util wp st m)"
  by (auto simp: infer_node_calls_def Let_def sound_parts split: prod.splits option.splits)

lemma sound_nodes: "list_all sound (infer_nodes_calls E w cfg util wp st ms)"
  by (induction ms arbitrary: st) (simp_all add: sound_node)

lemma sound_pool: "list_all sound (infer_pool_calls E w cfg util aggs s k)"
  by (auto simp: infer_pool_calls_def Let_def sound_parts split: prod.splits option.splits)

lemma sound_pools: "list_all sound (infer_pools_calls E w cfg util aggs s ks)"
  by (induction ks arbitrary: s) (simp_all add: sound_pool)

lemma sound_spread: "list_all sound (spread_calls E info np actions ms)"
  by (induction ms) (auto simp: Let_def sound_unsupported_calls split: prod.splits)

lemma sound_inference: "list_all sound (inference_calls E c w ms)"
proof -
  have "list_all sound (shadow_gauge_calls cfg order pools shadow)" for cfg order pools shadow
    by (auto simp: shadow_gauge_calls_def list_all_iff)
  then show ?thesis
    by (auto simp: inference_calls_def Let_def sound_nodes sound_pools sound_spread split: prod.splits)
qed

lemma sound_guardrail: "list_all sound (guardrail_calls c K w node n)"
  by (auto simp: guardrail_calls_def sound_def split: prod.splits bool.splits sum.splits)

lemma sound_action: "list_all sound (action_calls E c w n)"
  by (auto simp: action_calls_def sound_guardrail sound_def [of "Inc _ _"] Let_def split: option.splits sum.splits prod.splits)

lemma sound_execute: "list_all sound (execute_calls E c w ns)"
  by (induction ns arbitrary: c w) (auto simp: sound_action split: prod.splits)

lemma sound_actuate: "list_all sound (actuate_calls E c w as n)"
proof -
  have "list_all sound (precheck_calls c w nodes)" for nodes
    using sound_guardrail unfolding precheck_calls_def list_all_iff
    by (fastforce split: option.splits sum.splits)
  then show ?thesis
    by (auto simp: actuate_calls_def Let_def sound_execute split: prod.splits option.splits)
qed

lemma sound_dry_run: "list_all sound (dry_run_calls order report)"
proof -
  have pool: "list_all sound (pool_savings_calls p ps)" for p ps
    by (auto simp: pool_savings_calls_def node_savings_calls_def list_all_iff)
  have "\<not> sr_TotalSavingsHour report < Fin 0" if "Fin 0 < sr_TotalSavingsHour report"
    using that by (cases "sr_TotalSavingsHour report") auto
  then show ?thesis using pool by (auto simp: dry_run_calls_def list_all_iff split: option.splits)
qed


section \<open>What the counters say\<close>

text \<open>The label values a counter is increased for, in order.\<close>

fun incs :: "metric \<Rightarrow> metric_call list \<Rightarrow> string list list" where
  "incs m [] = []"
| "incs m (Inc m' ls # xs) = (if m' = m then ls # incs m xs else incs m xs)"
| "incs m (Add m' ls v # xs) = incs m xs"
| "incs m (SetTo m' ls v # xs) = incs m xs"
| "incs m (Observe m' ls # xs) = incs m xs"

lemma incs_append [simp]: "incs m (xs @ ys) = incs m xs @ incs m ys"
  by (induction m xs rule: incs.induct) simp_all

lemma incs_decision [simp]: "m \<notin> {M_DeterministicDecisionReason, M_WorkloadOODReason} \<Longrightarrow> incs m (decision_calls p d) = []"
proof -
  have "m \<noteq> M_WorkloadOODReason \<Longrightarrow> incs m (map (\<lambda>r. Inc M_WorkloadOODReason [r]) rs) = []" for rs by (induction rs) auto
  then show "m \<notin> {M_DeterministicDecisionReason, M_WorkloadOODReason} \<Longrightarrow> ?thesis" by (auto simp: decision_calls_def)
qed

lemma incs_market [simp]: "incs m (market_calls n p z t sp od a) = []"
  by (simp add: market_calls_def)

lemma incs_gauge [simp]: "incs m (shadow_gauge_calls cfg order pools shadow) = []"
proof -
  have "incs m (map (\<lambda>p. SetTo M_ShadowProjectedSavingsDeltaUSD [p] (f p)) ps) = []" for f ps by (induction ps) auto
  then show ?thesis by (simp add: shadow_gauge_calls_def)
qed

lemma incs_unsupported [simp]:
  "incs M_ShadowActionDelta (unsupported_calls t) = []" "incs M_ShadowActionRecommended (unsupported_calls t) = []"
  "incs M_ShadowActionAgreement (unsupported_calls t) = []"
  "incs M_DecisionSource (unsupported_calls t) = [[''unsupported_family'', ''EMERGENCY_EXIT'']]"
  by (simp_all add: unsupported_calls_def)

lemma incs_comparison [simp]:
  "incs M_ShadowActionDelta (fst (recordShadowDecisionComparison c w n st d r cs conf mul)) = [[ActionToString d, ActionToString r]]"
  "incs M_ShadowActionRecommended (fst (recordShadowDecisionComparison c w n st d r cs conf mul)) = [[''rl'', ActionToString r]]"
  "incs M_ShadowActionAgreement (fst (recordShadowDecisionComparison c w n st d r cs conf mul)) = [[if d = r then ''same'' else ''different'']]"
  "incs M_DecisionSource (fst (recordShadowDecisionComparison c w n st d r cs conf mul)) = []"
  by (simp_all add: recordShadowDecisionComparison_def split: option.splits)

text \<open>The three shadow counters count the same comparisons.\<close>

definition agree :: "metric_call list \<Rightarrow> bool" where
  "agree xs \<longleftrightarrow>
     incs M_ShadowActionRecommended xs = map (\<lambda>ls. [''rl'', ls ! 1]) (incs M_ShadowActionDelta xs) \<and>
     length (incs M_ShadowActionAgreement xs) = length (incs M_ShadowActionDelta xs)"

lemma agree_append: "agree xs \<Longrightarrow> agree ys \<Longrightarrow> agree (xs @ ys)"
  by (simp add: agree_def)

lemma agree_assess: "agree (assess_calls E c w cfg scope g pool st mul)"
  by (auto simp: agree_def assess_calls_def Let_def split: option.splits prod.splits)

lemma agree_plain: "agree []" "agree (unsupported_calls t)" "agree (market_calls n p z t sp od a)" "agree (shadow_gauge_calls cfg order ps sh)"
  by (simp_all add: agree_def)

lemmas agree_parts = agree_append agree_assess agree_plain

lemma agree_nodes: "agree (infer_nodes_calls E w cfg util wp st ms)"
proof (induction ms arbitrary: st)
  case (Cons m ms)
  have "agree (infer_node_calls E w cfg util wp st m)"
    by (auto simp: infer_node_calls_def Let_def agree_parts split: prod.splits option.splits)
  with Cons show ?case by (simp add: agree_append)
qed (simp add: agree_plain)

lemma agree_pools: "agree (infer_pools_calls E w cfg util aggs s ks)"
proof (induction ks arbitrary: s)
  case (Cons k ks)
  have "agree (infer_pool_calls E w cfg util aggs s k)"
    by (auto simp: infer_pool_calls_def Let_def agree_parts split: prod.splits option.splits)
  with Cons show ?case by (simp add: agree_append)
qed (simp add: agree_plain)

lemma agree_spread: "agree (spread_calls E info np actions ms)"
  by (induction ms) (auto simp: Let_def agree_parts split: prod.splits)

lemma agree_inference: "agree (inference_calls E c w ms)"
  by (auto simp: inference_calls_def Let_def agree_parts agree_nodes agree_pools agree_spread split: prod.splits)

text \<open>What the counters say of one assessment.\<close>

definition told :: "NodeAssessment list \<Rightarrow> metric_call list \<Rightarrow> bool" where
  "told as xs \<longleftrightarrow>
     map (\<lambda>ls. ls ! 1) (incs M_DecisionSource xs) = map (ActionToString \<circ> na_Action) as \<and>
     incs M_ShadowActionDelta xs =
       map (\<lambda>a. [ActionToString (na_Action a), ActionToString (na_ShadowAction a)]) (filter na_HasShadow as) \<and>
     incs M_ShadowActionRecommended xs = map (\<lambda>a. [''rl'', ActionToString (na_ShadowAction a)]) (filter na_HasShadow as) \<and>
     incs M_ShadowActionAgreement xs =
       map (\<lambda>a. [if na_Action a = na_ShadowAction a then ''same'' else ''different'']) (filter na_HasShadow as)"

lemma told_append: "told as xs \<Longrightarrow> told bs ys \<Longrightarrow> told (as @ bs) (xs @ ys)"
  by (simp add: told_def)

lemma assess_told:
  "told (case assess E cfg n i st mul of None \<Rightarrow> [] | Some (a, d) \<Rightarrow> [a]) (assess_calls E c w cfg n g pool st mul)"
  by (auto simp: told_def assess_def assess_calls_def Let_def split: option.splits prod.splits)

lemma infer_node_told:
  assumes "infer_node E cfg util wp st m = (st', r)"
  shows "told (case r of None \<Rightarrow> [] | Some a \<Rightarrow> [a]) (infer_node_calls E w cfg util wp st m)"
proof -
  obtain c cache shadow where st: "st = (c, cache, shadow)" using prod_cases3 by blast
  obtain c1 cache1 m1 h where k: "node_market E c cache (pool_id_of c wp m) m = (c1, cache1, m1, h)" using prod_cases4 by blast
  let ?state = "node_state E c1 cfg util (pool_id_of c wp m) (pool_id_of c wp m) (nm_SpotPrice m1) (nm_OnDemandPrice m1) h
    (nm_CPUUsagePercent m1) (nm_MemoryUsagePercent m1) (nm_IsSpot m1)"
  have t: "told (case assess E cfg (nm_NodeID m1) (nm_NodeID m1) ?state (Fin 1) of None \<Rightarrow> [] | Some (a, d) \<Rightarrow> [a])
      (assess_calls E c1 w cfg (nm_NodeID m1) (nm_NodeID m1) (pool_id_of c wp m) ?state (Fin 1))"
    by (rule assess_told)
  have u: "told [unsupportedFamilyAssessment n] (unsupported_calls t)" "told [] []" for n t
    by (simp_all add: told_def unsupportedFamilyAssessment_def)
  have "told as (xs @ market_calls n p z t sp od a)" if "told as xs" for as xs n p z t sp od a
    using that by (simp add: told_def)
  then show ?thesis
    using assms t u
    by (auto simp: infer_node_def infer_node_calls_def st k Let_def split: if_splits option.splits prod.splits)
qed

lemma infer_nodes_told:
  "infer_nodes E cfg util wp st ms = (st', as) \<Longrightarrow> told as (infer_nodes_calls E w cfg util wp st ms)"
proof (induction ms arbitrary: st as)
  case (Cons m ms)
  obtain s1 r where n: "infer_node E cfg util wp st m = (s1, r)" by fastforce
  obtain as1 where i: "infer_nodes E cfg util wp s1 ms = (st', as1)" "as = (case r of None \<Rightarrow> [] | Some a \<Rightarrow> [a]) @ as1"
    using Cons.prems n by (auto split: prod.splits option.splits)
  from told_append [OF infer_node_told [OF n, of w] Cons.IH [OF i(1)]] n i(2) show ?case by simp
qed (simp add: told_def)

text \<open>
  C24 (equivalence). The decision and shadow counters are the decisions. In a tick of per-node
  inference the actions counted by \<open>DecisionSource\<close> are the actions of the assessments, one each and
  in their order; the pairs counted by \<open>ShadowActionDelta\<close> are the action and the shadow action of
  the assessments that have a shadow; and \<open>ShadowActionRecommended\<close> and \<open>ShadowActionAgreement\<close> count
  exactly one recommendation and one verdict, same or different, for each of these pairs.
\<close>

theorem counters_tell_decisions:
  assumes "\<not> UsePoolLevelInference (c_karpenterCfg c)" and "runInference E c w ms = (c', shadow, as)"
  shows "map (\<lambda>ls. ls ! 1) (incs M_DecisionSource (inference_calls E c w ms)) = map (ActionToString \<circ> na_Action) as \<and>
    incs M_ShadowActionDelta (inference_calls E c w ms) =
      map (\<lambda>a. [ActionToString (na_Action a), ActionToString (na_ShadowAction a)]) (filter na_HasShadow as) \<and>
    incs M_ShadowActionRecommended (inference_calls E c w ms) =
      map (\<lambda>a. [''rl'', ActionToString (na_ShadowAction a)]) (filter na_HasShadow as) \<and>
    incs M_ShadowActionAgreement (inference_calls E c w ms) =
      map (\<lambda>a. [if na_Action a = na_ShadowAction a then ''same'' else ''different'']) (filter na_HasShadow as)"
proof -
  let ?scan = "scan_nodes c (nodeInfo_or_empty c w) ms"
  obtain r where n: "infer_nodes E (runtimeConfigForTick (env.truncate E)) (calculateClusterUtilization ms) (sc_workloadPool ?scan)
      (store_counts c (sc_counts ?scan), Map.empty, Map.empty) (sc_resolved ?scan) = ((c', r), as)"
    using assms by (auto simp: runInference_def Let_def split: prod.splits)
  obtain r1 sh where r: "r = (r1, sh)" by fastforce
  have "told as (inference_calls E c w ms)"
    using infer_nodes_told [OF n, of w] assms(1) by (simp add: inference_calls_def Let_def n r told_def)
  then show ?thesis by (simp add: told_def)
qed

theorem counters_tell_decisions_witness:
  "\<exists>c' sh a. runInference (loop_env ActionHold) (loop_controller False) () [loop_metric ''n'' ''t''] = (c', sh, [a]) \<and>
     map (\<lambda>ls. ls ! 1) (incs M_DecisionSource (inference_calls (loop_env ActionHold) (loop_controller False) () [loop_metric ''n'' ''t''])) =
       [''INCREASE_30'']"
proof -
  obtain c' sh a where r: "runInference (loop_env ActionHold) (loop_controller False) () [loop_metric ''n'' ''t''] = (c', sh, [a])"
      "na_Action a = ActionIncrease30"
    using loop_run by blast
  have "\<not> UsePoolLevelInference (c_karpenterCfg (loop_controller False))" by (simp add: loop_controller_def)
  from counters_tell_decisions [OF this r(1)] r show ?thesis by simp
qed

text \<open>
  With per-pool inference the shadow counters still agree with each other. A dry run counts
  actions taken and outages avoided although it evicts nothing.
\<close>

lemma shadow_counters_agree: "agree (inference_calls E c w ms)"
  by (rule agree_inference)

lemma dry_run_counts_outages:
  "c_dryRun (act_controller True) \<and> incs M_OutagesAvoided (action_calls act_env (act_controller True) act_server act_assessment) = [[]]"
  by code_simp

end
