(* ===== verification/Commands.thy ===== *)
theory Commands
  imports Agent Text_Format
begin

text \<open>
  cmd/agent/main.go, cmd/agent/cmd/root.go and cmd/agent/cmd/metrics.go: the flags and their
  defaults, the exit code, and the \<open>metrics\<close> command with its table. What a command prints is the
  list of its lines. Parsing the command line and encoding JSON are left to their libraries.
\<close>

section \<open>Flags\<close>

record flags =
  fl_dryRun :: bool
  fl_verbose :: bool
  fl_cfgFile :: string

definition default_flags :: flags where
  "default_flags = \<lparr>fl_dryRun = True, fl_verbose = False, fl_cfgFile = []\<rparr>"

definition IsDryRun :: "flags \<Rightarrow> bool" where
  "IsDryRun f = fl_dryRun f"

datatype log_level = LevelInfo | LevelDebug

definition setupLogging :: "flags \<Rightarrow> log_level" where
  "setupLogging f = (if fl_verbose f then LevelDebug else LevelInfo)"

definition main_exit :: "'e option \<Rightarrow> int" where
  "main_exit err = (case err of None \<Rightarrow> 0 | Some _ \<Rightarrow> 1)"

text \<open>The \<open>run\<close> command up to the running loop.\<close>

definition run_command :: "'w startup \<Rightarrow> 'w \<Rightarrow> clock \<Rightarrow> flags \<Rightarrow> startup_error + 'w started" where
  "run_command E w t f = runAgent E w t (IsDryRun f) (fl_cfgFile f)"

section \<open>The metrics command\<close>

text \<open>The verb s, or a number already printed, with a width and left-justified.\<close>

definition pad_right :: "nat \<Rightarrow> string \<Rightarrow> string" where
  "pad_right n s = s @ replicate (n - length s) CHR '' ''"

definition or_dash :: "string \<Rightarrow> string" where
  "or_dash s = (if s = [] then ''-'' else s)"

definition table_line :: "string \<Rightarrow> string \<Rightarrow> string \<Rightarrow> string \<Rightarrow> string \<Rightarrow> string" where
  "table_line node zone type cpu mem =
     pad_right 30 node @ '' '' @ pad_right 15 zone @ '' '' @ pad_right 15 type @ '' '' @ pad_right 10 cpu @ '' '' @ pad_right 10 mem"

definition table_row :: "NodeMetrics \<Rightarrow> string" where
  "table_row m = table_line (nm_NodeID m) (or_dash (nm_Zone m)) (or_dash (nm_InstanceType m))
     (Sprintf_f 1 (nm_CPUUsagePercent m)) (Sprintf_f 1 (nm_MemoryUsagePercent m))"

definition outputTable :: "NodeMetrics list \<Rightarrow> string list" where
  "outputTable nodeMetrics =
     [table_line ''NODE'' ''ZONE'' ''TYPE'' ''CPU%'' ''MEM%'', replicate 80 CHR ''-''] @ map table_row nodeMetrics"

datatype metrics_error = ClientFailed startup_error | MetricsFailed prom_error | EncodeFailed string

definition runMetrics :: "(string \<Rightarrow> string option) \<Rightarrow> (string set \<Rightarrow> string list) \<Rightarrow> 'w prom_api \<Rightarrow> (NodeMetrics list \<Rightarrow> string + string list) \<Rightarrow>
    'w \<Rightarrow> string \<Rightarrow> string \<Rightarrow> metrics_error + string list" where
  "runMetrics connect order query encode w prometheusURL outputFormat =
     (case NewClient connect prometheusURL of
        Some e \<Rightarrow> Inl (ClientFailed e)
      | None \<Rightarrow>
          (case GetNodeMetrics order query w of
             Inl e \<Rightarrow> Inl (MetricsFailed e)
           | Inr nodeMetrics \<Rightarrow>
               if outputFormat = ''json''
               then (case encode nodeMetrics of Inl e \<Rightarrow> Inl (EncodeFailed e) | Inr lines \<Rightarrow> Inr lines)
               else Inr (outputTable nodeMetrics)))"

section \<open>Reading a table back\<close>

text \<open>The words of a line, as any reader of the table splits it.\<close>

function words :: "string \<Rightarrow> string list" where
  "words s = (case dropWhile is_space s of
     [] \<Rightarrow> []
   | c # cs \<Rightarrow> takeWhile (\<lambda>x. \<not> is_space x) (c # cs) # words (dropWhile (\<lambda>x. \<not> is_space x) (c # cs)))"
  by pat_completeness auto

termination
proof (relation "measure length")
  fix s c cs
  assume h: "dropWhile is_space s = c # cs"
  then have "\<not> is_space c" using hd_dropWhile [of is_space s] by auto
  moreover have "length (c # cs) \<le> length s" using length_dropWhile_le [of is_space s] h by simp
  ultimately show "(dropWhile (\<lambda>x. \<not> is_space x) (c # cs), s) \<in> measure length"
    using length_dropWhile_le [of "\<lambda>x. \<not> is_space x" cs] by simp
qed simp

declare words.simps [simp del]

definition plain :: "string \<Rightarrow> bool" where
  "plain s \<longleftrightarrow> s \<noteq> [] \<and> (\<forall>c \<in> set s. \<not> is_space c)"

lemma space_is_space [simp]: "is_space CHR '' ''"
  by (simp add: is_space_def)

lemma words_spaces: "words (replicate n CHR '' '' @ s) = words s"
proof -
  have "dropWhile is_space (replicate n CHR '' '' @ s) = dropWhile is_space s" by (induction n) simp_all
  then show ?thesis by (simp add: words.simps [of "replicate n CHR '' '' @ s"] words.simps [of s])
qed

lemma words_plain: "plain a \<Longrightarrow> words (a @ CHR '' '' # s) = a # words (CHR '' '' # s)"
proof -
  assume p: "plain a"
  then obtain c cs where a: "a = c # cs" "\<not> is_space c" by (cases a) (auto simp: plain_def)
  have "takeWhile (\<lambda>x. \<not> is_space x) (a @ CHR '' '' # s) = a" "dropWhile (\<lambda>x. \<not> is_space x) (a @ CHR '' '' # s) = CHR '' '' # s"
    using p by (simp_all add: plain_def takeWhile_append dropWhile_append)
  then show ?thesis using a by (subst words.simps) simp
qed

lemma words_cell: "plain a \<Longrightarrow> words (pad_right n a @ '' '' @ s) = a # words s"
  using words_plain [of a "replicate (n - length a) CHR '' '' @ s"] words_spaces [of "Suc (n - length a)" s]
  by (simp add: pad_right_def replicate_app_Cons_same)

lemma words_last: "plain a \<Longrightarrow> words (pad_right n a) = [a]"
proof -
  assume p: "plain a"
  have w: "words (replicate k CHR '' '') = []" for k using words_spaces [of k "[]"] by (simp add: words.simps [of "[]"])
  have "words a = [a]"
  proof -
    obtain c cs where a: "a = c # cs" "\<not> is_space c" using p by (cases a) (auto simp: plain_def)
    have tail: "takeWhile (\<lambda>x. \<not> is_space x) cs = cs" "dropWhile (\<lambda>x. \<not> is_space x) cs = []"
      using p a(1) by (simp_all add: plain_def)
    show ?thesis using a w [of 0] by (subst words.simps) (simp add: tail)
  qed
  then show ?thesis using words_plain [OF p] w [of "Suc _"] by (cases "n - length a") (simp_all add: pad_right_def)
qed

lemma table_line_words:
  "plain a \<Longrightarrow> plain b \<Longrightarrow> plain c \<Longrightarrow> plain d \<Longrightarrow> plain e \<Longrightarrow> words (table_line a b c d e) = [a, b, c, d, e]"
  by (simp only: table_line_def words_cell words_last)

lemma plain_Sprintf: "plain (Sprintf_f prec x)"
proof -
  have digit: "\<not> is_space c" if "is_digit c" for c using that by (auto simp: is_digit_def is_space_def)
  have "\<forall>c \<in> set (fixed_point prec n). \<not> is_space c" for n
    using digit set_pad_left by (fastforce simp: fixed_point_def Let_def is_space_def dest: in_set_takeD in_set_dropD)
  moreover have "fixed_point prec n \<noteq> []" for n by (simp add: fixed_point_def Let_def)
  ultimately show ?thesis by (cases x) (auto simp: plain_def is_space_def)
qed

text \<open>
  The table can be read back whatever the widths of its values: splitting a row at its white space
  gives the node, the two percentages as printed, and a dash for zone and type, which the query
  never fills in.
\<close>

theorem metrics_table_fields:
  assumes "GetNodeMetrics order query w = Inr ms" and "NewClient connect url = None" and "format \<noteq> ''json''"
    and "\<forall>m \<in> set ms. plain (nm_NodeID m)"
  shows "\<exists>header rule rows. runMetrics connect order query encode w url format = Inr (header # rule # rows) \<and>
    map words rows = map (\<lambda>m. [nm_NodeID m, ''-'', ''-'', Sprintf_f 1 (nm_CPUUsagePercent m), Sprintf_f 1 (nm_MemoryUsagePercent m)]) ms"
proof -
  obtain cpu mem where ms: "ms = mergeMetrics order cpu mem"
    using assms(1) by (auto simp: GetNodeMetrics_def split: option.splits sum.splits)
  have blank: "nm_Zone m = [] \<and> nm_InstanceType m = []" if "m \<in> set ms" for m
    using that by (auto simp: ms mergeMetrics_def metric_of_def)
  have "plain ''-''" by (simp add: plain_def is_space_def)
  then have "words (table_row m) = [nm_NodeID m, ''-'', ''-'', Sprintf_f 1 (nm_CPUUsagePercent m), Sprintf_f 1 (nm_MemoryUsagePercent m)]"
    if "m \<in> set ms" for m
    using blank [OF that] assms(4) that plain_Sprintf by (simp add: table_row_def or_dash_def table_line_words)
  then show ?thesis using assms(1-3) by (simp add: runMetrics_def outputTable_def)
qed

text \<open>An agent started with the default flags drains nothing: its drainer is in dry-run mode.\<close>

lemma default_run_is_dry:
  assumes "run_command E w t default_flags = Inr st"
  shows "c_dryRun (st_controller st) \<and> (\<exists>d. c_drain (st_controller st) = Some d \<and> dc_DryRun d)"
proof -
  have "runAgent E w t True [] = Inr st" using assms by (simp add: run_command_def default_flags_def IsDryRun_def)
  then show ?thesis
  proof (rule runAgent_stages)
    fix K dyn sel asg
    assume new: "New (su_Getenv E ''SPOTVORTEX_PRICE_MODE'') (su_Getenv E ''SPOTVORTEX_METRICS_MODE'')
       (controller_config (st_cfg st) True K dyn asg) = Inr (st_controller st)"
    show ?thesis using New_clients [OF new] New_safe [OF new] by (simp add: controller_config_fields)
  qed
qed

end
