(* ===== verification/Spec2Isabelle.thy ===== *)
theory Spec2Isabelle
  imports Prelude Float64 Runtime_Config Policy Agent_Config Cluster Capacity_Types Guardrails
    Drain ASG NodePools Routing Controller_State Selection Actuation Collector Collector_Safety
    Features Model_Contract Engine Telemetry Inference_Loop Savings Reconcile Text_Format Executor
    Node_Marks Billing AWS_ASG Prices Fake_Prices Cloud_Detect Startup Reliability Agent Observability Commands
begin

text \<open>
  \<^bold>\<open>The SpotVortex agent.\<close> The agent is a Kubernetes controller that moves nodes between Spot and
  on-demand capacity. Every reconcile interval it reads node metrics, workload features and prices,
  asks its models (TFT risk scores and an RL action) and, by default, a deterministic policy for an
  assessment of every node or pool, selects the nodes to act on, passes them through guardrails,
  steers Karpenter weights or scales twin Auto Scaling Groups so that replacement capacity comes
  up first, and then cordons and drains the selected nodes. The development models the agent from
  its command line and configuration to the last eviction.

  \<^bold>\<open>How the parts interact.\<close>
  \<open>runAgent\<close> (Startup) loads the configuration (Agent_Config), checks the gates, builds the engine
  (Engine over Model_Contract and Features), the price provider (Prices, Fake_Prices,
  Cloud_Detect), the twin-group client (AWS_ASG) and the controller (Controller_State).
  \<open>Start_agent\<close> (Agent) runs cycles. \<open>Reconcile\<close> (Reconcile) fetches metrics (Telemetry), collects
  features (Collector), runs the inference loop (Inference_Loop, with Policy), reports savings in
  dry-run mode (Savings), and calls \<open>actuate\<close> (Actuation): \<open>filterActionableNodes\<close>,
  \<open>filterExecutableNodes\<close>, \<open>applyDrainLimit\<close> (Selection), \<open>applyGuardrailsBeforePrep\<close>,
  \<open>batchSteerKarpenterWeights\<close>, \<open>prepareCapacitySwaps\<close> and \<open>executeAction\<close>, in this order. These
  use the guardrail checker (Guardrails), the capacity router and its managers (Routing, ASG),
  the NodePool client (NodePools) and the drainer (Drain). Limits come from the runtime
  configuration (Runtime_Config), reloaded each tick. What a cycle tells Prometheus is in
  Observability and Reliability.

  \<^bold>\<open>Theories and sources\<close> (paths under src/internal unless they start with cmd):

  \<^item> Prelude: the parts of Go's packages strings and sort, 64- and 32-bit wrap-around
    (\<open>wrap\<close>), and the locale \<open>strict_weak\<close> of comparison functions, with insertion sort as
    what \<open>sort.Slice\<close> gives on short slices.
  \<^item> Float64: float64 and float32 arithmetic: NaN, infinities, and rationals rounded to nearest
    even after every operation. The locale \<open>rounding_mode\<close> holds what both formats share.
    Text_Format: numbers printed by package fmt.
  \<^item> Runtime_Config: config/runtime.go. Agent_Config: config/config.go. Records with the source's
    fields, defaults, clamps, validation, loading.
  \<^item> Policy: controller/policy_deterministic.go. \<open>Evaluate\<close> with the caps, the out-of-distribution
    test and the economics.
  \<^item> Cluster: the Kubernetes objects as the agent sees them, and the API server as a record of
    operations \<open>'w k8s\<close> over a server state \<open>'w\<close>.
  \<^item> Capacity_Types: capacity/capacity_type.go, detector.go, types.go. Routing:
    capacity/karpenter_manager.go and router.go. ASG: capacity/asg_client.go and asg_manager.go.
    AWS_ASG: capacity/aws_asg_client.go, with its paged discovery.
  \<^item> Guardrails: controller/guardrails.go. Drain: controller/drain.go. Executor:
    controller/executor.go, with the drains it starts in the background.
  \<^item> NodePools: karpenter/nodepool.go over a dynamic client \<open>'w dyn\<close>. Node_Marks:
    karpenter/labeler.go, karpenter/version.go and finalizer/finalizer.go.
  \<^item> Controller_State: controller/controller.go, the record \<open>Controller\<close>, \<open>New\<close>, \<open>Start\<close>, \<open>Stop\<close>,
    target ratios, drain counts, pool identifiers, price histories. Selection: the filters and the
    drain limit, and \<open>nodeInfoMap\<close> of controller/synthetic.go. Actuation: guardrail pre-check to
    \<open>executeAction\<close>. Reconcile: one cycle and runs of cycles.
  \<^item> Collector: collector/collector.go, every step from the listings to the features.
    Collector_Safety: what its safety vector is worth.
  \<^item> Features: inference/features.go. Model_Contract: inference/model_contract.go. Engine:
    inference/model.go, pysr.go, engine.go, shared_library.go.
  \<^item> Telemetry: metrics/client.go and the synthetic metrics of controller/synthetic.go.
    Inference_Loop: per-node and per-pool inference and the RL shadow of
    controller/shadow_observability.go. Savings: controller/savings.go.
  \<^item> Prices: cloudapi/aws/aws.go and cloudapi/gcp/gcp.go, two interpretations of the locale
    \<open>ttl_cache\<close>. Fake_Prices: cloudapi/fake_price_provider.go. Cloud_Detect: cloudapi/detect.go,
    wrapper.go, provider.go, errors.go.
  \<^item> Billing: billing/meter.go and audit/auditor.go. Reliability:
    controller/reliability_telemetry_collector.go and metrics/reliability_telemetry.go.
  \<^item> Startup: cloudapi/factory.go, cmd/agent/cmd/price_provider.go, runtime_policy.go and run.go.
    Agent: the started agent and its main loop. Commands: cmd/agent/main.go, cmd/agent/cmd/root.go
    and metrics.go.
  \<^item> Observability: metrics/metrics.go, metrics/shadow_metrics.go, and the calls to them.

  \<^bold>\<open>Conventions.\<close> A struct is a record and an enumeration a datatype; a Go error is \<open>Inl\<close> of an
  error datatype that keeps the arguments of its message, or an option where the code only logs it;
  a Go map is a partial function, or an association list in first-insertion order together with a
  visiting order given by the environment where the iteration order can be seen. Effects are state
  passing: every call to the cluster takes the state \<open>'w\<close> and returns the next one, in the order of
  the source. A panic is a value of its own (\<open>None\<close> or a constructor). A \<open>float64\<close> is \<open>f64\<close>; int and
  int32 are integers with \<open>wrap 64\<close> or \<open>wrap 32\<close> where a sum or product can overflow, unsigned sums
  are taken modulo \<open>2 ^ 64\<close>. Log lines and durations that are only reported are left out; mutexes
  too, since the operations they guard run one at a time.

  \<^bold>\<open>Parameters.\<close> Code outside the repository is an argument: the Kubernetes API (\<open>'w k8s\<close>,
  \<open>'w collector_api\<close>, \<open>'w mark_api\<close>, \<open>'w telemetry_api\<close>), the dynamic client and the \<open>unstructured\<close>
  accessors (\<open>'w dyn\<close>), Prometheus (\<open>'w prom_api\<close>), the AWS, GCP and billing services, ONNX sessions
  (\<open>ort\<close>), the expression evaluator (\<open>govaluate\<close>) and its mathematical functions (\<open>mathlib\<close>), hashing
  (HMAC, SHA-256), number scanning, reading and decoding files, the random source, the clock, the
  orders of maps and unstable sorts, the environment and the SDK constructors. What theorems need
  of them is a named hypothesis: \<open>eviction_contract\<close> and \<open>node_store_contract\<close> (Drain),
  \<open>node_frame\<close> (Executor), \<open>mark_store\<close> (Node_Marks), \<open>merge_contract\<close> (RFC 7386) and
  \<open>accessor_contract\<close> (NodePools), \<open>machines_ok\<close> (Prices), \<open>pages_from\<close> (AWS_ASG), and the locales
  \<open>twin_asgs\<close> and \<open>reliable_twin_asgs\<close> (ASG), interpreted on the repository's own \<open>FakeASGClient\<close>.
  Each is shown to hold of a concrete instance, and the witnesses use that.

  \<^bold>\<open>Locales.\<close> \<open>strict_weak\<close> (the cap rules, the floats, the drain order), \<open>rounding_mode\<close> (both
  float formats), \<open>bounded_history\<close> (the ring buffer), \<open>twin_asgs\<close> and its extension
  \<open>reliable_twin_asgs\<close> (the in-memory client), \<open>node_invariant\<close> and its extension \<open>acc_invariant\<close>
  (three invariants of the collector's passes), \<open>ttl_cache\<close> (both price caches).

  \<^bold>\<open>Loops and fuel.\<close> The recursions over lists are structural. The loops that wait are driven by
  the events they receive: \<open>wait_loop\<close> by ticks, the deadline and the cancellation of the
  context, \<open>start_loop\<close> and \<open>serve\<close> by ticks, the stop signal and the end of the context; \<open>None\<close> is
  a wait that has not ended with the events given. \<open>PrepareSwap_returns\<close>, \<open>cycle_returns\<close> and
  \<open>run_cycles_returns\<close> prove that the loops do end once a deadline or a cancellation is among the
  events, which the context with timeout that the code creates guarantees. The paging loop
  \<open>discover_loop\<close> may run for ever (\<open>discover_loop_endless\<close>) and returns when the pages end
  (\<open>aws_DiscoverTwinASGs_returns\<close>). There is no fuel.

  \<^bold>\<open>What is shown.\<close>

  \<^item> Start-up: an agent that runs has passed every gate (\<open>runAgent_gated\<close>), scripted prices are for
    tests (\<open>resolve_fake_guarded\<close>), a dry run without Karpenter and autoscaling is read-only from
    start to stop (\<open>dry_run_agent_reads_only\<close>), and the configured grace period is lost on the way
    (\<open>drain_grace_period_unset\<close>).
  \<^item> Configuration: what is loaded is well formed (\<open>LoadRuntimeConfig_wf\<close>, \<open>Load_wf\<close>), whatever
    the file holds, NaN included.
  \<^item> Policy: when Spot may grow (\<open>Evaluate_growth_safe\<close>), the risk bands, monotonicity in the risk
    scores (\<open>Evaluate_antimono\<close>), the caps (\<open>applyCapRules_spec\<close>), and where reduction gets gentler
    with risk (\<open>medium_risk_softens_reduction\<close>).
  \<^item> Collector: the slack computation equals its specification
    (\<open>computePDBSlackBounds_worst\<close>), exhausted budgets are reported (\<open>Collect_exhausted_budget\<close>),
    the safety vector is monotone, and pools without budgets never grow
    (\<open>unbudgeted_pool_never_grows\<close>).
  \<^item> Inference: models are verified before use (\<open>VerifyManifestArtifacts_sound\<close>,
    \<open>NewInferenceEngine_checked\<close>), scores stay probabilities (\<open>PredictDetailed_score_bounds\<close>), the
    RL model cannot change them, the ring buffer refines a bounded queue, and growth is justified
    by the state the loop built (\<open>runInference_growth_safe\<close>).
  \<^item> Guardrails: they never escalate, fail closed, and decide emergency exits exactly.
  \<^item> Selection and actuation: the selection is exact and the drain limit respects priority
    (\<open>applyDrainLimit_spec\<close>), an action touches only nodes the agent owns
    (\<open>executeAction_touches_only_owned\<close>), steering stays on its rails, and what a dry run and a
    failed swap still do (\<open>dry_run_still_steers\<close>, \<open>failed_swaps_still_drain\<close>).
  \<^item> Drain and executor: accounting, success means evicted, background drains are tainted first
    however steps interleave (\<open>drains_are_tainted\<close>).
  \<^item> Capacity: a reported replacement is one (\<open>waitForNewNode_sound\<close>), a swap returns, a failed
    one restores, a complete one conserves capacity; nodes go to managers of their kind; weights
    and capacity types are read back; the disruption limit is the least budget; the discovery of
    twins returns what the pages hold.
  \<^item> Cycles: any number of them keeps the invariant (\<open>run_cycles_invariant\<close>), returns
    (\<open>run_cycles_returns\<close>), and is skipped whole without metrics or features (\<open>Reconcile_skips\<close>).
  \<^item> Prices: both caches are consistent and fresh (\<open>aws_cache_invariant\<close>, \<open>aws_prices_stable\<close>,
    \<open>gcp_cache_invariant\<close>), the on-demand price is the least (\<open>parseOnDemandPrice_least\<close>), the
    scripted provider follows its script (\<open>fake_provider_follows_script\<close>).
  \<^item> Reporting: savings add up (\<open>savings_report_consistent\<close>), nothing is billed twice
    (\<open>meter_bills_once\<close>), manifests verify (\<open>GenerateManifest_verifies\<close>), telemetry is the
    difference of two polls (\<open>telemetry_poll\<close>), metric calls fit their declarations
    (\<open>cycle_calls_typed\<close>) and the counters are the decisions (\<open>counters_tell_decisions\<close>); the
    metrics table can be read back (\<open>metrics_table_fields\<close>).

  \<^bold>\<open>Not modelled.\<close> The text of log lines, \<open>logDryRunReport\<close> among them, and of error messages; the
  registration and exposition of metrics, the HTTP endpoint and the parsing of flags, which are
  libraries; JSON and YAML decoding, which are parameters; releasing tensors, sessions and HTTP
  bodies (\<open>Close\<close>, \<open>Destroy\<close>), which no result depends on; interface declarations and constructors
  that only store a logger; the counter increments of the executor, which no part of the agent
  runs.
\<close>

section \<open>From the collected features to the decision\<close>

lemma frozen_above_risk:
  assumes "to_f64 (7 / 10) \<le> RecoveryBudgetViolationRisk v" "RecoveryBudgetViolationRisk v \<le> Fin 1"
  shows "to_f64 (3 / 5) \<le> RecoveryBudgetViolationRisk (resolvePoolSafetyVector v)"
proof -
  have l: "to_f64 (3 / 5) \<le> to_f64 (7 / 10)" "Fin 0 < to_f64 (7 / 10)" by (code_simp, code_simp)
  then have pos: "Fin 0 < RecoveryBudgetViolationRisk v" using assms(1) f_less_le_trans by blast
  then have "\<not> feq (RecoveryBudgetViolationRisk v) (Fin 0)" by (cases "RecoveryBudgetViolationRisk v") auto
  then have "resolvePoolSafetyVector v = NormalizePoolSafetyVector v" by (simp add: resolvePoolSafetyVector_def IsZero_def)
  moreover have "clampFloat (RecoveryBudgetViolationRisk v) (Fin 0) (Fin 1) = RecoveryBudgetViolationRisk v"
    using pos assms(2) unfolding clampFloat_def by (cases "RecoveryBudgetViolationRisk v") auto
  ultimately have "RecoveryBudgetViolationRisk (resolvePoolSafetyVector v) = RecoveryBudgetViolationRisk v"
    by (simp add: NormalizePoolSafetyVector_def)
  then show ?thesis using f_le_trans [OF l(1) assms(1)] by simp
qed

text \<open>
  C30 (safety). When no disruption budget matches any pod, a pool that runs a workload pod is
  never given more Spot by the policy, whatever the prices, the scores and the configuration: its
  features report a slack of zero, which counts as a budget that is used up. Only pools with a
  budget can ever grow.
\<close>

theorem unbudgeted_pool_never_grows:
  assumes "q_listNodes Q w = Inr nodes" and "q_listPods Q w = Inr pods"
    and "distinct (map node_Name nodes)" and "int (length pods) \<le> 2 ^ 50"
    and "node \<in> set nodes" "node_Name node \<noteq> []" "p \<in> set (pool_keys node)"
    and "\<forall>pod \<in> set pods. matchPDBForPod pod (compiled_pdbs (listed (q_listPDBs Q w)) (wp_Namespace pod)) = None"
    and "pod \<in> set pods" "wp_NodeName pod = node_Name node" "isWorkloadPod pod"
  shows "\<exists>f. snd (Collect Q w F) p = Some f \<and>
    (\<forall>state files cs rs cfg. ns_PoolSafety state = wf_PoolSafety f \<longrightarrow>
       fst (evaluateDeterministicPolicy files state cs rs cfg) \<notin> {ActionIncrease10, ActionIncrease30})"
proof -
  obtain f where f: "snd (Collect Q w F) p = Some f" "to_f64 (7 / 10) \<le> RecoveryBudgetViolationRisk (wf_PoolSafety f)"
      "RecoveryBudgetViolationRisk (wf_PoolSafety f) \<le> Fin 1"
    using Collect_unbudgeted [OF assms] by blast
  have "calm_action P state r \<notin> {ActionIncrease10, ActionIncrease30}" if "ns_PoolSafety state = wf_PoolSafety f" for P r and state :: NodeState
    using calm_action_growth(5) frozen_above_risk [OF f(2,3)] that by metis
  then show ?thesis using f(1) by (auto simp: evaluateDeterministicPolicy_def Evaluate_action split: if_splits)
qed

theorem unbudgeted_pool_never_grows_witness:
  "\<exists>f. snd (Collect (shop\<lparr>q_listPDBs := \<lambda>_. Inr []\<rparr>) () Map.empty) ''web:unknown:unknown'' = Some f \<and>
    fst (evaluateDeterministicPolicy (\<lambda>_. None) ((example_state (Fin 0) (Fin 1))\<lparr>ns_PoolSafety := wf_PoolSafety f\<rparr>)
      (Fin (1 / 8)) (Fin (1 / 8)) (Some example_config)) \<notin> {ActionIncrease10, ActionIncrease30}"
proof -
  let ?Q = "shop\<lparr>q_listPDBs := \<lambda>_. Inr []\<rparr>"
  have "q_listNodes ?Q () = Inr [pool_node]" "q_listPods ?Q () = Inr [web_pod, web_pod]" "q_listPDBs ?Q () = Inr []"
    by (simp_all add: shop_def)
  moreover have "node_Name pool_node = ''n1''" "wp_NodeName web_pod = ''n1''" "isWorkloadPod web_pod"
    by (simp_all add: pool_node_def web_pod_def isWorkloadPod_def)
  ultimately have "\<exists>f. snd (Collect ?Q () Map.empty) ''web:unknown:unknown'' = Some f \<and>
    (\<forall>state files cs rs cfg. ns_PoolSafety state = wf_PoolSafety f \<longrightarrow>
       fst (evaluateDeterministicPolicy files state cs rs cfg) \<notin> {ActionIncrease10, ActionIncrease30})"
    by (intro unbudgeted_pool_never_grows [where nodes = "[pool_node]" and pods = "[web_pod, web_pod]" and node = pool_node and pod = web_pod])
      (simp_all add: web_keys listed_def compiled_pdbs_def)
  then obtain f where f: "snd (Collect ?Q () Map.empty) ''web:unknown:unknown'' = Some f"
    "\<And>state files cs rs cfg. ns_PoolSafety state = wf_PoolSafety f \<Longrightarrow>
       fst (evaluateDeterministicPolicy files state cs rs cfg) \<notin> {ActionIncrease10, ActionIncrease30}"
    by blast
  have "ns_PoolSafety ((example_state (Fin 0) (Fin 1))\<lparr>ns_PoolSafety := wf_PoolSafety f\<rparr>) = wf_PoolSafety f" by simp
  from f(2) [OF this] f(1) show ?thesis by blast
qed

section \<open>The agent in dry-run mode\<close>

text \<open>
  C4 (safety). Dry-run mode without Karpenter and without autoscaling is read-only, from the command
  line to the last cycle. An agent started with \<open>--dry-run\<close> and a configuration that enables
  neither runs any cycles, with any metrics, prices, models and runtime configuration of the
  moment, and always comes through them without waiting; the cluster is afterwards exactly as it
  was before. (With Karpenter the weights are still patched, see \<open>dry_run_still_steers\<close>.)
\<close>

theorem dry_run_agent_reads_only:
  fixes S :: "('w, 'r) services"
  assumes "runAgent E w0 t True cfgFile = Inr st"
    and "\<not> kc_Enabled (cfg_Karpenter (st_cfg st))" and "\<not> as_Enabled (cfg_Autoscaling (st_cfg st))"
  shows "\<exists>r a'. Start_agent S events (started_agent st) w = Some (r, a', w)"
  by (rule Start_agent_read_only) (use started_read_only [OF assms] in \<open>simp add: started_agent_def\<close>)

theorem dry_run_agent_reads_only_witness:
  "\<exists>st r a'. runAgent (demo_startup False) () demo_clock True [] = Inr st \<and>
     Start_agent (cycle_services None) [(TickerFired, cycle_services None), (StopSignal, cycle_services None)]
       (started_agent st) () = Some (r, a', ())"
proof -
  obtain st where st: "runAgent (demo_startup False) () demo_clock True [] = Inr st"
      "\<not> kc_Enabled (cfg_Karpenter (st_cfg st))" "\<not> as_Enabled (cfg_Autoscaling (st_cfg st))"
    using demo_starts [of False True] by blast
  with dry_run_agent_reads_only [OF st, of "cycle_services None"
      "[(TickerFired, cycle_services None), (StopSignal, cycle_services None)]" "()"]
  show ?thesis by blast
qed

end
